(* ===== verification/KDM_Prelude.thy ===== *)
theory KDM_Prelude
  imports Main "HOL-Library.AList" "HOL-Library.List_Lexorder" "HOL-Library.Char_ord"
begin

text \<open>
  What every component of the development shares: Go's values (byte strings, times, maps),
  the fact collections the component theories extend, and generic lemmas on lists and maps.

  \<^item> A Go \<^verbatim>\<open>string\<close> or \<^verbatim>\<open>[]byte\<close> is a HOL \<open>string\<close>: a list of 8-bit \<open>char\<close>s.
  \<^item> A \<^verbatim>\<open>time.Time\<close> is the number of nanoseconds since Go's zero time, so
    \<^verbatim>\<open>IsZero\<close> is \<open>t = 0\<close>; a \<^verbatim>\<open>time.Duration\<close> is a number of nanoseconds.
  \<^item> A Go map is an association list with distinct keys (\<open>map_ok\<close>): looked up by
    \<open>map_of\<close>, written by \<open>AList.update\<close>, deleted from by \<open>AList.delete\<close>. The list
    order stands for the order in which a \<^verbatim>\<open>range\<close> loop visits the entries, which Go
    leaves unspecified, so nothing is proved that depends on it.
  \<^item> A pair \<^verbatim>\<open>(value, error)\<close> is a sum \<open>error + value\<close>.
\<close>

type_synonym time = int
type_synonym duration = int

type_synonym ('k, 'v) gomap = "('k \<times> 'v) list"

abbreviation map_get :: "('k, 'v) gomap \<Rightarrow> 'k \<Rightarrow> 'v option" where
  "map_get \<equiv> map_of"

abbreviation map_put :: "'k \<Rightarrow> 'v \<Rightarrow> ('k, 'v) gomap \<Rightarrow> ('k, 'v) gomap" where
  "map_put \<equiv> AList.update"

abbreviation map_del :: "'k \<Rightarrow> ('k, 'v) gomap \<Rightarrow> ('k, 'v) gomap" where
  "map_del \<equiv> AList.delete"

abbreviation map_ok :: "('k, 'v) gomap \<Rightarrow> bool" where
  "map_ok m \<equiv> distinct (map fst m)"

abbreviation millisecond :: duration where "millisecond \<equiv> 1000000"
abbreviation second :: duration where "second \<equiv> 1000000000"

text \<open>Facts about Go maps, used by \<open>simp add: gomap\<close> throughout.\<close>

named_theorems gomap
named_theorems step_simps

lemmas [gomap] = AList.update_conv' AList.delete_conv' AList.distinct_update AList.distinct_delete

lemma map_ok_put [simp, intro]: "map_ok m \<Longrightarrow> map_ok (map_put k v m)"
  by (rule AList.distinct_update)

lemma map_ok_del [simp, intro]: "map_ok m \<Longrightarrow> map_ok (map_del k m)"
  by (rule AList.distinct_delete)

lemma set_keys_put: "fst ` set (map_put k v m) = insert k (fst ` set m)"
  by (simp add: dom_update)

lemma set_keys_del: "fst ` set (map_del k m) = fst ` set m - {k}"
  by (auto simp: AList.delete_eq image_iff)

lemma length_put:
  "length (map_put k v m) = (if map_of m k = None then Suc (length m) else length m)"
  by (induction m) auto

lemma length_del_le: "length (map_del k m) \<le> length m"
  by (simp add: AList.delete_eq)

lemma length_del:
  "map_ok m \<Longrightarrow> length (map_del k m) = (if map_of m k = None then length m else length m - 1)"
proof (induction m)
  case Nil
  then show ?case by simp
next
  case (Cons p m)
  then have "map_of m k \<noteq> None \<Longrightarrow> m \<noteq> []" by auto
  moreover have "fst p = k \<Longrightarrow> map_of m k = None"
    using Cons.prems by (auto simp: map_of_eq_None_iff)
  moreover have "map_of m k = None \<Longrightarrow> map_del k m = m"
    by (simp add: AList.delete_id map_of_eq_None_iff)
  ultimately show ?case
    using Cons by (cases p) (auto simp: Suc_diff_le Suc_le_eq split: if_splits)
qed

text \<open>Lists that keep only their newest entries.\<close>

definition last_n :: "nat \<Rightarrow> 'a list \<Rightarrow> 'a list" where
  "last_n n xs = drop (length xs - n) xs"

lemma length_last_n [simp]: "length (last_n n xs) = min n (length xs)"
  by (simp add: last_n_def)

lemma last_n_all [simp]: "length xs \<le> n \<Longrightarrow> last_n n xs = xs"
  by (simp add: last_n_def)

lemma last_n_append: "last_n n (last_n n xs @ ys) = last_n n (xs @ ys)"
proof (cases "length xs \<le> n")
  case False
  define k where "k = length xs - n"
  have k: "last_n n xs @ ys = drop k (xs @ ys)"
    by (simp add: last_n_def k_def)
  moreover have "length (drop k (xs @ ys)) - n = length ys"
    and "length (xs @ ys) - n = k + length ys"
    using False by (auto simp: k_def)
  ultimately show ?thesis
    by (simp only: last_n_def [of n "xs @ ys"] last_n_def [of n "drop k (xs @ ys)"] drop_drop
        add.commute)
qed simp

lemma last_n_snoc_full:
  "length xs = n \<Longrightarrow> 0 < n \<Longrightarrow> last_n n (xs @ [x]) = tl xs @ [x]"
  by (simp add: last_n_def drop_Suc)

lemma last_n_nil [simp]: "last_n n [] = []"
  by (simp add: last_n_def)

lemma set_last_n: "set (last_n n xs) \<subseteq> set xs"
  by (simp add: last_n_def set_drop_subset)

end
