(* ===== verification/KDM_BoundedLog.thy ===== *)
theory KDM_BoundedLog
  imports KDM_Prelude
begin

text \<open>
  The contract of a log that retains its newest entries only. Two components promise it with
  different data structures: the broker's audit trail (\<^verbatim>\<open>platform/broker.go\<close>, a slice
  shifted left when full) and the public event history (\<^verbatim>\<open>manager/events.go\<close>, a ring).
  \<open>view\<close> is the retained history, oldest entry first; \<open>push\<close> records an entry. The laws
  are what one operation does; what any sequence of operations does is proved here once.
\<close>

locale bounded_log =
  fixes cap :: nat
    and view :: "'s \<Rightarrow> 'e list"
    and push :: "'e \<Rightarrow> 's \<Rightarrow> 's"
    and inv :: "'s \<Rightarrow> bool"
  assumes cap_pos: "0 < cap"
    and inv_bound: "inv s \<Longrightarrow> length (view s) \<le> cap"
    and inv_push: "inv s \<Longrightarrow> inv (push e s)"
    and view_push_room: "inv s \<Longrightarrow> length (view s) < cap \<Longrightarrow> view (push e s) = view s @ [e]"
    and view_push_full: "inv s \<Longrightarrow> length (view s) = cap \<Longrightarrow> view (push e s) = tl (view s) @ [e]"
begin

definition push_all :: "'e list \<Rightarrow> 's \<Rightarrow> 's" where
  "push_all es s = foldl (\<lambda>s e. push e s) s es"

lemma push_all_simps [simp]:
  "push_all [] s = s"
  "push_all (e # es) s = push_all es (push e s)"
  by (simp_all add: push_all_def)

lemma view_push: "inv s \<Longrightarrow> view (push e s) = last_n cap (view s @ [e])"
  using inv_bound [of s] view_push_room [of s e] view_push_full [of s e] cap_pos
    last_n_snoc_full [of "view s" cap e]
  by (cases "length (view s) = cap") auto

lemma push_all_inv: "inv s \<Longrightarrow> inv (push_all es s)"
  by (induction es arbitrary: s) (auto intro: inv_push)

lemma view_bounded: "inv s \<Longrightarrow> length (view (push_all es s)) \<le> cap"
  by (rule inv_bound [OF push_all_inv])

lemma view_push_all: "inv s \<Longrightarrow> view (push_all es s) = last_n cap (view s @ es)"
proof (induction es arbitrary: s)
  case Nil
  then show ?case by (simp add: inv_bound)
next
  case (Cons e es)
  have "last_n cap (last_n cap (view s @ [e]) @ es) = last_n cap (view s @ e # es)"
    by (simp add: last_n_append)
  with Cons show ?case
    by (simp add: view_push inv_push)
qed

lemma view_push_last: "inv s \<Longrightarrow> last (view (push e s)) = e \<and> view (push e s) \<noteq> []"
  using cap_pos by (auto simp: view_push last_n_def Suc_diff_le)

end

end
