(* ===== verification/KDM_Broker.thy ===== *)
theory KDM_Broker
  imports KDM_BoundedLog
begin

text \<open>
  The privileged broker's authorization state (\<^verbatim>\<open>platform/broker.go\<close>): grants registered for
  one user, configuration and snapshot, consumed by at most one start; the configurations
  that are active; and a bounded audit trail. Errors that wrap a sentinel are the sentinel,
  which is all \<^verbatim>\<open>errors.Is\<close> sees. The injected clock is an argument of each operation, one
  per call of \<^verbatim>\<open>a.now()\<close>; a mutex makes each operation atomic.
\<close>

datatype broker_error =
    ErrBrokerMalformedRequest | ErrBrokerUnsupported | ErrBrokerUnauthorized
  | ErrBrokerExpired | ErrBrokerNotFound | ErrBrokerAlreadyActive

datatype broker_operation = BrokerStart | BrokerStop | BrokerCancel | BrokerOther string

datatype broker_audit_outcome = BrokerAuditAuthorized | BrokerAuditRejected | BrokerAuditAborted

definition PrivilegedBrokerProtocolVersion :: int where
  "PrivilegedBrokerProtocolVersion = 1"

definition maxBrokerAuditEntries :: nat where
  "maxBrokerAuditEntries = 256"

record broker_request =
  req_Version :: int
  req_Operation :: broker_operation
  req_RequestID :: string
  req_UserID :: string
  req_ConfigurationID :: string
  req_SnapshotID :: string

record snapshot_grant =
  grant_UserID :: string
  grant_ConfigurationID :: string
  grant_SnapshotID :: string
  grant_ExpiresAt :: time

record broker_authorization =
  auth_Operation :: broker_operation
  auth_UserID :: string
  auth_ConfigurationID :: string
  auth_SnapshotID :: string

record broker_audit_entry =
  audit_Time :: time
  audit_RequestID :: string
  audit_Operation :: broker_operation
  audit_UserID :: string
  audit_ConfigurationID :: string
  audit_SnapshotID :: string
  audit_Outcome :: broker_audit_outcome
  audit_Code :: string

record broker_authorizer =
  ba_grants :: "(string, snapshot_grant) gomap"
  ba_active :: "(string, string) gomap"
  ba_audit :: "broker_audit_entry list"

definition NewBrokerAuthorizer :: broker_authorizer where
  "NewBrokerAuthorizer = \<lparr>ba_grants = [], ba_active = [], ba_audit = []\<rparr>"

definition AuditTrail :: "broker_authorizer \<Rightarrow> broker_audit_entry list" where
  "AuditTrail a = ba_audit a"

section \<open>Identifiers and keys\<close>

text \<open>
  The loop ranges over runes; a byte of 128 or more is part of a rune that is not ASCII (or
  decodes to U+FFFD), which no test of the loop accepts, so the bytes can be tested one by one.
\<close>

definition broker_id_char :: "char \<Rightarrow> bool" where
  "broker_id_char c \<longleftrightarrow>
     (CHR ''a'' \<le> c \<and> c \<le> CHR ''z'') \<or> (CHR ''A'' \<le> c \<and> c \<le> CHR ''Z'') \<or>
     (CHR ''0'' \<le> c \<and> c \<le> CHR ''9'') \<or> c = CHR ''-'' \<or> c = CHR ''_'' \<or> c = CHR ''.''"

definition validBrokerID :: "string \<Rightarrow> bool" where
  "validBrokerID value \<longleftrightarrow>
     \<not> (length value = 0 \<or> length value > 128) \<and> list_all broker_id_char value"

definition grantKey :: "string \<Rightarrow> string \<Rightarrow> string" where
  "grantKey userID snapshotID = userID @ [CHR 0x00] @ snapshotID"

definition configurationKey :: "string \<Rightarrow> string \<Rightarrow> string" where
  "configurationKey userID configurationID = userID @ [CHR 0x00] @ configurationID"

section \<open>Validation\<close>

definition validateGrant :: "snapshot_grant \<Rightarrow> time \<Rightarrow> broker_error option" where
  "validateGrant grant now =
     (if \<not> validBrokerID (grant_UserID grant) \<or> \<not> validBrokerID (grant_ConfigurationID grant)
        \<or> \<not> validBrokerID (grant_SnapshotID grant)
      then Some ErrBrokerMalformedRequest
      else if \<not> grant_ExpiresAt grant > now then Some ErrBrokerExpired
      else None)"

definition validateRequest :: "broker_request \<Rightarrow> broker_error option" where
  "validateRequest request =
     (if req_Version request \<noteq> PrivilegedBrokerProtocolVersion then Some ErrBrokerUnsupported
      else if \<not> validBrokerID (req_RequestID request) \<or> \<not> validBrokerID (req_UserID request)
        \<or> \<not> validBrokerID (req_ConfigurationID request)
      then Some ErrBrokerMalformedRequest
      else case req_Operation request of
        BrokerStart \<Rightarrow>
          (if \<not> validBrokerID (req_SnapshotID request) then Some ErrBrokerMalformedRequest
           else None)
      | BrokerStop \<Rightarrow>
          (if req_SnapshotID request \<noteq> [] then Some ErrBrokerMalformedRequest else None)
      | BrokerCancel \<Rightarrow>
          (if req_SnapshotID request \<noteq> [] then Some ErrBrokerMalformedRequest else None)
      | BrokerOther _ \<Rightarrow> Some ErrBrokerUnsupported)"

section \<open>The audit trail\<close>

fun brokerAuditErrorCode :: "broker_error \<Rightarrow> string" where
  "brokerAuditErrorCode ErrBrokerMalformedRequest = ''malformed_request''"
| "brokerAuditErrorCode ErrBrokerUnsupported = ''unsupported_request''"
| "brokerAuditErrorCode ErrBrokerUnauthorized = ''unauthorized''"
| "brokerAuditErrorCode ErrBrokerExpired = ''expired''"
| "brokerAuditErrorCode ErrBrokerNotFound = ''not_found''"
| "brokerAuditErrorCode ErrBrokerAlreadyActive = ''already_active''"

text \<open>\<^verbatim>\<open>copy(a.audit, a.audit[1:])\<close> shifts left, then the last slot is overwritten.\<close>

definition append_audit :: "broker_audit_entry \<Rightarrow> broker_audit_entry list \<Rightarrow> broker_audit_entry list" where
  "append_audit entry audit =
     (if length audit = maxBrokerAuditEntries
      then (tl audit @ [last audit])[length audit - 1 := entry]
      else audit @ [entry])"

definition recordAudit ::
  "time \<Rightarrow> broker_request \<Rightarrow> broker_error option \<Rightarrow> broker_authorizer \<Rightarrow> broker_authorizer" where
  "recordAudit now request err a =
     (let entry = \<lparr>audit_Time = now, audit_RequestID = req_RequestID request,
            audit_Operation = req_Operation request, audit_UserID = req_UserID request,
            audit_ConfigurationID = req_ConfigurationID request,
            audit_SnapshotID = req_SnapshotID request,
            audit_Outcome = (case err of None \<Rightarrow> BrokerAuditAuthorized
                                       | Some _ \<Rightarrow> BrokerAuditRejected),
            audit_Code = (case err of None \<Rightarrow> ''authorized''
                                    | Some e \<Rightarrow> brokerAuditErrorCode e)\<rparr>
      in a\<lparr>ba_audit := append_audit entry (ba_audit a)\<rparr>)"

definition recordAbort ::
  "time \<Rightarrow> string \<Rightarrow> broker_authorization \<Rightarrow> broker_authorizer \<Rightarrow> broker_authorizer" where
  "recordAbort now requestID authorization a =
     (let entry = \<lparr>audit_Time = now, audit_RequestID = requestID,
            audit_Operation = BrokerStart, audit_UserID = auth_UserID authorization,
            audit_ConfigurationID = auth_ConfigurationID authorization,
            audit_SnapshotID = auth_SnapshotID authorization,
            audit_Outcome = BrokerAuditAborted, audit_Code = ''launch_aborted''\<rparr>
      in a\<lparr>ba_audit := append_audit entry (ba_audit a)\<rparr>)"

section \<open>Operations\<close>

definition RegisterGrant ::
  "time \<Rightarrow> snapshot_grant \<Rightarrow> broker_authorizer \<Rightarrow> broker_error option \<times> broker_authorizer" where
  "RegisterGrant now grant a =
     (case validateGrant grant now of
        Some e \<Rightarrow> (Some e, a)
      | None \<Rightarrow>
          (let key = grantKey (grant_UserID grant) (grant_SnapshotID grant)
           in if map_get (ba_grants a) key \<noteq> None then (Some ErrBrokerMalformedRequest, a)
              else (None, a\<lparr>ba_grants := map_put key grant (ba_grants a)\<rparr>)))"

text \<open>The body of \<^verbatim>\<open>Authorize\<close>, without the deferred audit record.\<close>

definition authorize_body ::
  "time \<Rightarrow> broker_request \<Rightarrow> broker_authorizer \<Rightarrow>
   (broker_error + broker_authorization) \<times> broker_authorizer" where
  "authorize_body now request a =
     (case validateRequest request of
        Some e \<Rightarrow> (Inl e, a)
      | None \<Rightarrow>
          (let activeKey = configurationKey (req_UserID request) (req_ConfigurationID request)
           in case req_Operation request of
                BrokerStart \<Rightarrow>
                  (let key = grantKey (req_UserID request) (req_SnapshotID request)
                   in if map_get (ba_active a) activeKey \<noteq> None
                      then (Inl ErrBrokerAlreadyActive, a)
                      else case map_get (ba_grants a) key of
                        None \<Rightarrow> (Inl ErrBrokerNotFound, a)
                      | Some grant \<Rightarrow>
                          if \<not> grant_ExpiresAt grant > now
                          then (Inl ErrBrokerExpired,
                                a\<lparr>ba_grants := map_del key (ba_grants a)\<rparr>)
                          else if grant_ConfigurationID grant \<noteq> req_ConfigurationID request
                          then (Inl ErrBrokerUnauthorized, a)
                          else (Inr \<lparr>auth_Operation = BrokerStart,
                                  auth_UserID = req_UserID request,
                                  auth_ConfigurationID = req_ConfigurationID request,
                                  auth_SnapshotID = req_SnapshotID request\<rparr>,
                                a\<lparr>ba_grants := map_del key (ba_grants a),
                                  ba_active := map_put activeKey (req_SnapshotID request)
                                                 (ba_active a)\<rparr>))
              | BrokerOther _ \<Rightarrow> (Inl ErrBrokerUnsupported, a)
              | _ \<Rightarrow>
                  (case map_get (ba_active a) activeKey of
                     None \<Rightarrow> (Inl ErrBrokerNotFound, a)
                   | Some snapshotID \<Rightarrow>
                       (Inr \<lparr>auth_Operation = req_Operation request,
                          auth_UserID = req_UserID request,
                          auth_ConfigurationID = req_ConfigurationID request,
                          auth_SnapshotID = snapshotID\<rparr>,
                        a\<lparr>ba_active := map_del activeKey (ba_active a)\<rparr>))))"

definition Authorize ::
  "time \<Rightarrow> time \<Rightarrow> broker_request \<Rightarrow> broker_authorizer \<Rightarrow>
   (broker_error + broker_authorization) \<times> broker_authorizer" where
  "Authorize now audit_now request a =
     (case authorize_body now request a of
        (Inl e, a') \<Rightarrow> (Inl e, recordAudit audit_now request (Some e) a')
      | (Inr auth, a') \<Rightarrow> (Inr auth, recordAudit audit_now request None a'))"

definition AbortStart ::
  "time \<Rightarrow> string \<Rightarrow> broker_authorization \<Rightarrow> broker_authorizer \<Rightarrow>
   broker_error option \<times> broker_authorizer" where
  "AbortStart now requestID authorization a =
     (if \<not> validBrokerID requestID \<or> auth_Operation authorization \<noteq> BrokerStart
        \<or> \<not> validBrokerID (auth_UserID authorization)
        \<or> \<not> validBrokerID (auth_ConfigurationID authorization)
        \<or> \<not> validBrokerID (auth_SnapshotID authorization)
      then (Some ErrBrokerMalformedRequest, a)
      else
        let key = configurationKey (auth_UserID authorization) (auth_ConfigurationID authorization)
        in case map_get (ba_active a) key of
             None \<Rightarrow> (Some ErrBrokerNotFound, a)
           | Some snapshotID \<Rightarrow>
               if snapshotID \<noteq> auth_SnapshotID authorization then (Some ErrBrokerNotFound, a)
               else (None, recordAbort now requestID authorization
                             (a\<lparr>ba_active := map_del key (ba_active a)\<rparr>)))"

section \<open>The audit trail is a bounded log\<close>

lemma append_audit_full:
  "length audit = maxBrokerAuditEntries \<Longrightarrow> append_audit e audit = tl audit @ [e]"
  by (simp add: append_audit_def list_update_append)

lemma append_audit_room:
  "length audit < maxBrokerAuditEntries \<Longrightarrow> append_audit e audit = audit @ [e]"
  by (simp add: append_audit_def)

lemma append_audit_bound:
  "length audit \<le> maxBrokerAuditEntries \<Longrightarrow> length (append_audit e audit) \<le> maxBrokerAuditEntries"
  by (cases audit) (auto simp: append_audit_def maxBrokerAuditEntries_def)

lemma maxBrokerAuditEntries_pos: "0 < maxBrokerAuditEntries"
  by (simp add: maxBrokerAuditEntries_def)

interpretation audit: bounded_log maxBrokerAuditEntries "\<lambda>l. l" append_audit
  "\<lambda>l. length l \<le> maxBrokerAuditEntries"
  by unfold_locales
    (auto simp: append_audit_full append_audit_room maxBrokerAuditEntries_pos
      intro: append_audit_bound)

section \<open>Keys separate users\<close>

lemma broker_id_char_not_nul: "broker_id_char c \<Longrightarrow> c \<noteq> CHR 0x00"
  by (auto simp: broker_id_char_def less_eq_char_def)

lemma valid_id_no_nul: "validBrokerID v \<Longrightarrow> CHR 0x00 \<notin> set v"
  by (auto simp: validBrokerID_def list_all_iff dest: broker_id_char_not_nul)

lemma nul_split:
  "CHR 0x00 \<notin> set u \<Longrightarrow> CHR 0x00 \<notin> set u' \<Longrightarrow>
   u @ CHR 0x00 # s = u' @ CHR 0x00 # s' \<longleftrightarrow> u = u' \<and> s = s'"
proof (induction u arbitrary: u')
  case Nil
  then show ?case by (cases u') auto
next
  case (Cons x u)
  then show ?case by (cases u') auto
qed

lemma grantKey_inj:
  "validBrokerID u \<Longrightarrow> validBrokerID u' \<Longrightarrow>
   grantKey u s = grantKey u' s' \<longleftrightarrow> u = u' \<and> s = s'"
  by (simp add: grantKey_def nul_split valid_id_no_nul)

lemma configurationKey_inj:
  "validBrokerID u \<Longrightarrow> validBrokerID u' \<Longrightarrow>
   configurationKey u c = configurationKey u' c' \<longleftrightarrow> u = u' \<and> c = c'"
  by (simp add: configurationKey_def nul_split valid_id_no_nul)

section \<open>What one call does\<close>

lemma validateRequest_None:
  "validateRequest r = None \<longleftrightarrow>
     req_Version r = 1 \<and> validBrokerID (req_RequestID r) \<and> validBrokerID (req_UserID r) \<and>
     validBrokerID (req_ConfigurationID r) \<and>
     (req_Operation r = BrokerStart \<and> validBrokerID (req_SnapshotID r) \<or>
      (req_Operation r = BrokerStop \<or> req_Operation r = BrokerCancel) \<and> req_SnapshotID r = [])"
  by (auto simp: validateRequest_def PrivilegedBrokerProtocolVersion_def
      split: broker_operation.splits)

lemma validateRequest_other: "req_Operation r = BrokerOther x \<Longrightarrow> validateRequest r \<noteq> None"
  by (simp add: validateRequest_None)

lemma recordAudit_state [simp]:
  "ba_grants (recordAudit t r e a) = ba_grants a" "ba_active (recordAudit t r e a) = ba_active a"
  by (simp_all add: recordAudit_def Let_def)

lemma recordAbort_state [simp]:
  "ba_grants (recordAbort t r e a) = ba_grants a" "ba_active (recordAbort t r e a) = ba_active a"
  by (simp_all add: recordAbort_def Let_def)

lemma Authorize_result: "fst (Authorize t t' r a) = fst (authorize_body t r a)"
  by (auto simp: Authorize_def split: prod.splits sum.splits)

lemma Authorize_state:
  "ba_grants (snd (Authorize t t' r a)) = ba_grants (snd (authorize_body t r a))"
  "ba_active (snd (Authorize t t' r a)) = ba_active (snd (authorize_body t r a))"
  by (auto simp: Authorize_def split: prod.splits sum.splits)

text \<open>When a start is granted, and what it changes.\<close>

definition start_ok :: "time \<Rightarrow> broker_request \<Rightarrow> broker_authorizer \<Rightarrow> bool" where
  "start_ok now r a \<longleftrightarrow>
     validateRequest r = None \<and> req_Operation r = BrokerStart \<and>
     map_get (ba_active a) (configurationKey (req_UserID r) (req_ConfigurationID r)) = None \<and>
     (\<exists>g. map_get (ba_grants a) (grantKey (req_UserID r) (req_SnapshotID r)) = Some g \<and>
          now < grant_ExpiresAt g \<and> grant_ConfigurationID g = req_ConfigurationID r)"

lemma authorize_start:
  assumes "req_Operation r = BrokerStart"
  shows "fst (authorize_body t r a) = Inr auth \<longleftrightarrow>
           start_ok t r a \<and> auth = \<lparr>auth_Operation = BrokerStart, auth_UserID = req_UserID r,
             auth_ConfigurationID = req_ConfigurationID r, auth_SnapshotID = req_SnapshotID r\<rparr>"
    and "start_ok t r a \<Longrightarrow> snd (authorize_body t r a) =
           a\<lparr>ba_grants := map_del (grantKey (req_UserID r) (req_SnapshotID r)) (ba_grants a),
             ba_active := map_put (configurationKey (req_UserID r) (req_ConfigurationID r))
                            (req_SnapshotID r) (ba_active a)\<rparr>"
    and "\<not> start_ok t r a \<Longrightarrow> ba_active (snd (authorize_body t r a)) = ba_active a"
  using assms by (auto simp: authorize_body_def start_ok_def Let_def split: option.splits)

definition stop_ok :: "broker_request \<Rightarrow> broker_authorizer \<Rightarrow> bool" where
  "stop_ok r a \<longleftrightarrow> validateRequest r = None \<and> req_Operation r \<noteq> BrokerStart \<and>
     map_get (ba_active a) (configurationKey (req_UserID r) (req_ConfigurationID r)) \<noteq> None"

lemma authorize_stop:
  assumes "req_Operation r \<noteq> BrokerStart"
  shows "(\<exists>auth. fst (authorize_body t r a) = Inr auth) \<longleftrightarrow> stop_ok r a"
    and "ba_grants (snd (authorize_body t r a)) = ba_grants a"
    and "stop_ok r a \<Longrightarrow> ba_active (snd (authorize_body t r a)) =
           map_del (configurationKey (req_UserID r) (req_ConfigurationID r)) (ba_active a)"
    and "\<not> stop_ok r a \<Longrightarrow> ba_active (snd (authorize_body t r a)) = ba_active a"
  using assms validateRequest_other [of r]
  by (cases "validateRequest r"; cases "req_Operation r";
      force simp: authorize_body_def stop_ok_def Let_def split: option.splits)+

lemma authorize_grants_shrink:
  "ba_grants (snd (authorize_body t r a)) = ba_grants a \<or>
   validateRequest r = None \<and> req_Operation r = BrokerStart \<and>
   ba_grants (snd (authorize_body t r a)) =
     map_del (grantKey (req_UserID r) (req_SnapshotID r)) (ba_grants a)"
  by (auto simp: authorize_body_def Let_def split: option.splits broker_operation.splits)

lemma RegisterGrant_ok:
  "fst (RegisterGrant t g a) = None \<longleftrightarrow>
     validateGrant g t = None \<and>
     map_get (ba_grants a) (grantKey (grant_UserID g) (grant_SnapshotID g)) = None"
  by (auto simp: RegisterGrant_def Let_def split: option.splits)

lemma RegisterGrant_state:
  "ba_active (snd (RegisterGrant t g a)) = ba_active a"
  "ba_audit (snd (RegisterGrant t g a)) = ba_audit a"
  "ba_grants (snd (RegisterGrant t g a)) =
     (if fst (RegisterGrant t g a) = None
      then map_put (grantKey (grant_UserID g) (grant_SnapshotID g)) g (ba_grants a)
      else ba_grants a)"
  by (auto simp: RegisterGrant_def Let_def split: option.splits)

definition abort_ok :: "string \<Rightarrow> broker_authorization \<Rightarrow> broker_authorizer \<Rightarrow> bool" where
  "abort_ok rid auth a \<longleftrightarrow> validBrokerID rid \<and> auth_Operation auth = BrokerStart \<and>
     validBrokerID (auth_UserID auth) \<and> validBrokerID (auth_ConfigurationID auth) \<and>
     validBrokerID (auth_SnapshotID auth) \<and>
     map_get (ba_active a) (configurationKey (auth_UserID auth) (auth_ConfigurationID auth)) =
       Some (auth_SnapshotID auth)"

lemma AbortStart_ok:
  "fst (AbortStart t rid auth a) = None \<longleftrightarrow> abort_ok rid auth a"
  "ba_grants (snd (AbortStart t rid auth a)) = ba_grants a"
  "ba_active (snd (AbortStart t rid auth a)) =
     (if abort_ok rid auth a
      then map_del (configurationKey (auth_UserID auth) (auth_ConfigurationID auth)) (ba_active a)
      else ba_active a)"
  by (auto simp: AbortStart_def abort_ok_def Let_def split: option.splits)

section \<open>Sequences of calls\<close>

text \<open>
  A run of the authorizer: any sequence of calls, each with the clock readings it makes. The
  mutex serialises the calls of concurrent transports, so every execution is such a sequence.
\<close>

datatype broker_call =
    CallRegister time snapshot_grant
  | CallAuthorize time time broker_request
  | CallAbort time string broker_authorization

fun broker_exec :: "broker_call \<Rightarrow> broker_authorizer \<Rightarrow> broker_authorizer" where
  "broker_exec (CallRegister t g) a = snd (RegisterGrant t g a)"
| "broker_exec (CallAuthorize t t' r) a = snd (Authorize t t' r a)"
| "broker_exec (CallAbort t rid auth) a = snd (AbortStart t rid auth a)"

definition broker_run :: "broker_call list \<Rightarrow> broker_authorizer \<Rightarrow> broker_authorizer" where
  "broker_run cs a = foldl (\<lambda>a c. broker_exec c a) a cs"

lemma broker_run_simps [simp]:
  "broker_run [] a = a" "broker_run (c # cs) a = broker_run cs (broker_exec c a)"
  by (simp_all add: broker_run_def)

text \<open>The calls of a run that start snapshot \<open>s\<close> of user \<open>u\<close>, and that register it.\<close>

fun starts_snapshot :: "string \<Rightarrow> string \<Rightarrow> broker_call \<Rightarrow> broker_authorizer \<Rightarrow> bool" where
  "starts_snapshot u s (CallAuthorize t t' r) a \<longleftrightarrow>
     req_Operation r = BrokerStart \<and> req_UserID r = u \<and> req_SnapshotID r = s \<and>
     (case fst (Authorize t t' r a) of Inl _ \<Rightarrow> False | Inr _ \<Rightarrow> True)"
| "starts_snapshot u s _ a \<longleftrightarrow> False"

fun registers_snapshot :: "string \<Rightarrow> string \<Rightarrow> broker_call \<Rightarrow> broker_authorizer \<Rightarrow> bool" where
  "registers_snapshot u s (CallRegister t g) a \<longleftrightarrow>
     grant_UserID g = u \<and> grant_SnapshotID g = s \<and> fst (RegisterGrant t g a) = None"
| "registers_snapshot u s _ a \<longleftrightarrow> False"

text \<open>The calls of a run that activate configuration \<open>c\<close> of user \<open>u\<close>, and that release it.\<close>

fun activates :: "string \<Rightarrow> string \<Rightarrow> broker_call \<Rightarrow> broker_authorizer \<Rightarrow> bool" where
  "activates u c (CallAuthorize t t' r) a \<longleftrightarrow>
     req_Operation r = BrokerStart \<and> req_UserID r = u \<and> req_ConfigurationID r = c \<and>
     (case fst (Authorize t t' r a) of Inl _ \<Rightarrow> False | Inr _ \<Rightarrow> True)"
| "activates u c _ a \<longleftrightarrow> False"

fun releases :: "string \<Rightarrow> string \<Rightarrow> broker_call \<Rightarrow> broker_authorizer \<Rightarrow> bool" where
  "releases u c (CallAuthorize t t' r) a \<longleftrightarrow>
     req_Operation r \<noteq> BrokerStart \<and> req_UserID r = u \<and> req_ConfigurationID r = c \<and>
     (case fst (Authorize t t' r a) of Inl _ \<Rightarrow> False | Inr _ \<Rightarrow> True)"
| "releases u c (CallAbort t rid auth) a \<longleftrightarrow>
     auth_UserID auth = u \<and> auth_ConfigurationID auth = c \<and>
     fst (AbortStart t rid auth a) = None"
| "releases u c _ a \<longleftrightarrow> False"

fun count_calls ::
  "(broker_call \<Rightarrow> broker_authorizer \<Rightarrow> bool) \<Rightarrow> broker_call list \<Rightarrow> broker_authorizer \<Rightarrow> nat" where
  "count_calls P [] a = 0"
| "count_calls P (c # cs) a = of_bool (P c a) + count_calls P cs (broker_exec c a)"

definition has_grant :: "string \<Rightarrow> string \<Rightarrow> broker_authorizer \<Rightarrow> bool" where
  "has_grant u s a \<longleftrightarrow> map_get (ba_grants a) (grantKey u s) \<noteq> None"

definition is_active :: "string \<Rightarrow> string \<Rightarrow> broker_authorizer \<Rightarrow> bool" where
  "is_active u c a \<longleftrightarrow> map_get (ba_active a) (configurationKey u c) \<noteq> None"

lemma granted_iff:
  "(case fst (Authorize t t' r a) of Inl _ \<Rightarrow> False | Inr _ \<Rightarrow> True) \<longleftrightarrow>
     (if req_Operation r = BrokerStart then start_ok t r a else stop_ok r a)"
proof -
  have ex: "(case x of Inl _ \<Rightarrow> False | Inr _ \<Rightarrow> True) \<longleftrightarrow> (\<exists>auth. x = Inr auth)"
    for x :: "broker_error + broker_authorization"
    by (cases x) simp_all
  show ?thesis
  proof (cases "req_Operation r = BrokerStart")
    case True
    then show ?thesis by (simp add: ex Authorize_result authorize_start(1))
  next
    case False
    then show ?thesis by (simp add: ex Authorize_result authorize_stop(1))
  qed
qed

lemma start_ok_valid:
  "start_ok t r a \<Longrightarrow> validBrokerID (req_UserID r) \<and> validBrokerID (req_SnapshotID r) \<and>
     validBrokerID (req_ConfigurationID r)"
  by (auto simp: start_ok_def validateRequest_None)

lemma stop_ok_valid:
  "stop_ok r a \<Longrightarrow> validBrokerID (req_UserID r) \<and> validBrokerID (req_ConfigurationID r)"
  by (auto simp: stop_ok_def validateRequest_None)

lemma validateGrant_None:
  "validateGrant g t = None \<Longrightarrow>
     validBrokerID (grant_UserID g) \<and> validBrokerID (grant_SnapshotID g) \<and> t < grant_ExpiresAt g"
  by (auto simp: validateGrant_def split: if_splits)

lemma grant_step:
  assumes "validBrokerID u"
  shows "of_bool (starts_snapshot u s c a) + of_bool (has_grant u s (broker_exec c a)) \<le>
           (of_bool (registers_snapshot u s c a) + of_bool (has_grant u s a) :: nat)"
proof (cases c)
  case (CallRegister t g)
  then show ?thesis
    using assms validateGrant_None [of g t] RegisterGrant_ok [of t g a]
      grantKey_inj [of u "grant_UserID g" s "grant_SnapshotID g"]
    by (auto simp: has_grant_def RegisterGrant_state gomap)
next
  case (CallAuthorize t t' r)
  show ?thesis
  proof (cases "starts_snapshot u s c a")
    case True
    then have "start_ok t r a" and r: "req_Operation r = BrokerStart" "req_UserID r = u"
      "req_SnapshotID r = s"
      using CallAuthorize by (auto simp: granted_iff)
    then show ?thesis
      using CallAuthorize authorize_start(2) [OF r(1), of t a]
      by (auto simp: has_grant_def Authorize_state start_ok_def gomap)
  next
    case False
    then show ?thesis
      using CallAuthorize authorize_grants_shrink [of t r a]
      by (auto simp: has_grant_def Authorize_state gomap split: if_splits)
  qed
next
  case (CallAbort t rid auth)
  then show ?thesis by (simp add: has_grant_def AbortStart_ok)
qed

lemma starts_bounded:
  assumes "validBrokerID u"
  shows "count_calls (starts_snapshot u s) cs a + of_bool (has_grant u s (broker_run cs a)) \<le>
           count_calls (registers_snapshot u s) cs a + of_bool (has_grant u s a)"
proof (induction cs arbitrary: a)
  case (Cons c cs)
  from Cons.IH [of "broker_exec c a"] grant_step [OF assms, of s c a] show ?case by simp
qed simp

lemma active_step:
  assumes "validBrokerID u"
  shows "of_bool (activates u c k a) + of_bool (is_active u c a) =
           (of_bool (releases u c k a) + of_bool (is_active u c (broker_exec k a)) :: nat)"
proof (cases k)
  case (CallRegister t g)
  then show ?thesis by (simp add: is_active_def RegisterGrant_state)
next
  case (CallAuthorize t t' r)
  have inj: "validBrokerID (req_UserID r) \<Longrightarrow>
      configurationKey u c = configurationKey (req_UserID r) (req_ConfigurationID r) \<longleftrightarrow>
      req_UserID r = u \<and> req_ConfigurationID r = c"
    using assms by (auto simp: configurationKey_inj)
  show ?thesis
  proof (cases "req_Operation r = BrokerStart")
    case True
    show ?thesis
      using authorize_start(2,3) [OF True, of t a] inj start_ok_valid [of t r a]
      by (cases "start_ok t r a")
        (auto simp: CallAuthorize True granted_iff is_active_def Authorize_state gomap start_ok_def)
  next
    case False
    show ?thesis
      using authorize_stop(3,4) [OF False, of a t] inj stop_ok_valid [of r a]
      by (cases "stop_ok r a")
        (auto simp: CallAuthorize False granted_iff is_active_def Authorize_state gomap stop_ok_def)
  qed
next
  case (CallAbort t rid auth)
  then show ?thesis
    using assms configurationKey_inj [of u "auth_UserID auth" c "auth_ConfigurationID auth"]
    by (auto simp: is_active_def AbortStart_ok abort_ok_def gomap)
qed

lemma active_balance:
  assumes "validBrokerID u"
  shows "count_calls (activates u c) cs a + of_bool (is_active u c a) =
           count_calls (releases u c) cs a + of_bool (is_active u c (broker_run cs a))"
proof (induction cs arbitrary: a)
  case (Cons k cs)
  from Cons.IH [of "broker_exec k a"] active_step [OF assms, of c k a] show ?case by simp
qed simp

section \<open>The audit trail of a run\<close>

fun audit_of_call :: "broker_call \<Rightarrow> broker_authorizer \<Rightarrow> broker_audit_entry list" where
  "audit_of_call (CallRegister t g) a = []"
| "audit_of_call (CallAuthorize t t' r) a =
     [\<lparr>audit_Time = t', audit_RequestID = req_RequestID r, audit_Operation = req_Operation r,
       audit_UserID = req_UserID r, audit_ConfigurationID = req_ConfigurationID r,
       audit_SnapshotID = req_SnapshotID r,
       audit_Outcome = (case fst (Authorize t t' r a) of Inl _ \<Rightarrow> BrokerAuditRejected
                                                      | Inr _ \<Rightarrow> BrokerAuditAuthorized),
       audit_Code = (case fst (Authorize t t' r a) of Inl e \<Rightarrow> brokerAuditErrorCode e
                                                   | Inr _ \<Rightarrow> ''authorized'')\<rparr>]"
| "audit_of_call (CallAbort t rid auth) a =
     (if fst (AbortStart t rid auth a) = None
      then [\<lparr>audit_Time = t, audit_RequestID = rid, audit_Operation = BrokerStart,
             audit_UserID = auth_UserID auth, audit_ConfigurationID = auth_ConfigurationID auth,
             audit_SnapshotID = auth_SnapshotID auth, audit_Outcome = BrokerAuditAborted,
             audit_Code = ''launch_aborted''\<rparr>]
      else [])"

fun audit_of_run :: "broker_call list \<Rightarrow> broker_authorizer \<Rightarrow> broker_audit_entry list" where
  "audit_of_run [] a = []"
| "audit_of_run (c # cs) a = audit_of_call c a @ audit_of_run cs (broker_exec c a)"

lemma authorize_body_audit: "ba_audit (snd (authorize_body t r a)) = ba_audit a"
  by (auto simp: authorize_body_def Let_def split: option.splits broker_operation.splits)

lemma Authorize_audit:
  "ba_audit (snd (Authorize t t' r a)) =
     audit.push_all (audit_of_call (CallAuthorize t t' r) a) (ba_audit a)"
  using authorize_body_audit [of t r a]
  by (auto simp: Authorize_def recordAudit_def Let_def split: prod.splits sum.splits)

lemma broker_exec_audit:
  "ba_audit (broker_exec c a) = audit.push_all (audit_of_call c a) (ba_audit a)"
proof (cases c)
  case (CallRegister t g)
  then show ?thesis by (simp add: RegisterGrant_state)
next
  case (CallAuthorize t t' r)
  then show ?thesis by (simp only: broker_exec.simps Authorize_audit)
next
  case (CallAbort t rid auth)
  then show ?thesis
    by (auto simp: AbortStart_def recordAbort_def Let_def split: option.splits)
qed

lemma broker_run_audit:
  "ba_audit (broker_run cs a) = audit.push_all (audit_of_run cs a) (ba_audit a)"
  by (induction cs arbitrary: a) (simp_all add: broker_exec_audit audit.push_all_def)

section \<open>Properties\<close>


text \<open>C16: a configuration is active for at most one start at a time. Over any sequence of calls
  on a new authorizer, the starts granted for a user's configuration are exactly its releases
  (stops, cancels and aborted launches), and one more while it is active.\<close>

theorem broker_active_balance:
  assumes "validBrokerID u"
  shows "count_calls (activates u c) cs NewBrokerAuthorizer =
           count_calls (releases u c) cs NewBrokerAuthorizer
           + of_bool (is_active u c (broker_run cs NewBrokerAuthorizer))"
  using active_balance [OF assms, of c cs NewBrokerAuthorizer]
  by (simp add: is_active_def NewBrokerAuthorizer_def)

lemma authorize_other_user:
  assumes "validBrokerID u" and "req_UserID r \<noteq> u"
  shows "map_get (ba_grants (snd (Authorize t t' r a))) (grantKey u s) =
           map_get (ba_grants a) (grantKey u s)
       \<and> map_get (ba_active (snd (Authorize t t' r a))) (configurationKey u c) =
           map_get (ba_active a) (configurationKey u c)"
proof
  show "map_get (ba_grants (snd (Authorize t t' r a))) (grantKey u s) =
          map_get (ba_grants a) (grantKey u s)"
    using authorize_grants_shrink [of t r a] assms
    by (auto simp: Authorize_state gomap grantKey_inj validateRequest_None)
  show "map_get (ba_active (snd (Authorize t t' r a))) (configurationKey u c) =
          map_get (ba_active a) (configurationKey u c)"
  proof (cases "req_Operation r = BrokerStart")
    case True
    then show ?thesis
      using authorize_start(2,3) [OF True, of t a] assms start_ok_valid [of t r a]
      by (cases "start_ok t r a") (auto simp: Authorize_state gomap configurationKey_inj)
  next
    case False
    then show ?thesis
      using authorize_stop(3,4) [OF False, of a t] assms stop_ok_valid [of r a]
      by (cases "stop_ok r a") (auto simp: Authorize_state gomap configurationKey_inj)
  qed
qed

text \<open>C14: users are isolated. No authorization request of one user changes the grants or the
  active configurations of another.\<close>

theorem broker_user_isolation:
  assumes "validBrokerID u" and "req_UserID r \<noteq> u"
  shows "map_get (ba_grants (snd (Authorize t t' r a))) (grantKey u s) =
           map_get (ba_grants a) (grantKey u s)
       \<and> map_get (ba_active (snd (Authorize t t' r a))) (configurationKey u c) =
           map_get (ba_active a) (configurationKey u c)"
  using authorize_other_user [OF assms] .

text \<open>C17: the audit trail is complete and bounded. After any sequence of calls it is the newest
  256 entries of the chronological record: one entry per authorization request, with the
  outcome it had, and one per aborted launch.\<close>

theorem broker_audit_complete:
  "AuditTrail (broker_run cs NewBrokerAuthorizer) =
     last_n 256 (audit_of_run cs NewBrokerAuthorizer)"
  using audit.view_push_all [of "[]" "audit_of_run cs NewBrokerAuthorizer"]
  by (simp add: AuditTrail_def broker_run_audit NewBrokerAuthorizer_def maxBrokerAuditEntries_def)

lemma abort_after_start:
  assumes "fst (Authorize t t' r a) = Inr auth" and "auth_Operation auth = BrokerStart"
    and "validBrokerID rid"
  shows "fst (AbortStart t2 rid auth (snd (Authorize t t' r a))) = None
       \<and> map_get (ba_active (snd (AbortStart t2 rid auth (snd (Authorize t t' r a))))) =
           map_get (ba_active a)
       \<and> map_get (ba_grants (snd (AbortStart t2 rid auth (snd (Authorize t t' r a)))))
           (grantKey (req_UserID r) (req_SnapshotID r)) = None"
proof -
  have start: "req_Operation r = BrokerStart"
  proof (rule ccontr)
    assume "req_Operation r \<noteq> BrokerStart"
    then show False
      using assms(1,2) by (auto simp: Authorize_result authorize_body_def Let_def
          split: option.splits broker_operation.splits)
  qed
  then have ok: "start_ok t r a" and auth: "auth = \<lparr>auth_Operation = BrokerStart,
      auth_UserID = req_UserID r, auth_ConfigurationID = req_ConfigurationID r,
      auth_SnapshotID = req_SnapshotID r\<rparr>"
    using assms(1) by (simp_all add: Authorize_result authorize_start(1))
  have free: "map_get (ba_active a)
      (configurationKey (req_UserID r) (req_ConfigurationID r)) = None"
    using ok by (simp add: start_ok_def)
  show ?thesis
    using assms(3) ok authorize_start(2) [OF start ok] start_ok_valid [OF ok] free
    by (auto simp: AbortStart_ok abort_ok_def auth Authorize_state gomap fun_eq_iff)
qed

text \<open>a failed launch does not block its configuration. Aborting the reservation of a
  granted start succeeds, frees exactly what the start reserved, and leaves the grant consumed.\<close>

theorem broker_abort_undoes_start:
  assumes "fst (Authorize t t' r a) = Inr auth" and "auth_Operation auth = BrokerStart"
    and "validBrokerID rid"
  shows "fst (AbortStart t2 rid auth (snd (Authorize t t' r a))) = None
       \<and> map_get (ba_active (snd (AbortStart t2 rid auth (snd (Authorize t t' r a))))) =
           map_get (ba_active a)
       \<and> map_get (ba_grants (snd (AbortStart t2 rid auth (snd (Authorize t t' r a)))))
           (grantKey (req_UserID r) (req_SnapshotID r)) = None"
  using abort_after_start [OF assms] .

section \<open>Witnesses\<close>

definition sample_grant :: snapshot_grant where
  "sample_grant = \<lparr>grant_UserID = ''501'', grant_ConfigurationID = ''cfg_1'',
     grant_SnapshotID = ''snap_1'', grant_ExpiresAt = 100\<rparr>"

definition sample_start :: broker_request where
  "sample_start = \<lparr>req_Version = 1, req_Operation = BrokerStart, req_RequestID = ''r1'',
     req_UserID = ''501'', req_ConfigurationID = ''cfg_1'', req_SnapshotID = ''snap_1''\<rparr>"

definition sample_authorizer :: broker_authorizer where
  "sample_authorizer = snd (RegisterGrant 10 sample_grant NewBrokerAuthorizer)"

lemma broker_grants_once:
  "count_calls (starts_snapshot ''501'' ''snap_1'')
     [CallRegister 10 sample_grant, CallAuthorize 20 21 sample_start,
      CallAuthorize 30 31 sample_start] NewBrokerAuthorizer = 1"
  by code_simp

theorem broker_active_balance_witness:
  "validBrokerID ''501'' \<and>
   count_calls (activates ''501'' ''cfg_1'')
     [CallRegister 10 sample_grant, CallAuthorize 20 21 sample_start] NewBrokerAuthorizer =
   count_calls (releases ''501'' ''cfg_1'')
     [CallRegister 10 sample_grant, CallAuthorize 20 21 sample_start] NewBrokerAuthorizer
   + of_bool (is_active ''501'' ''cfg_1''
       (broker_run [CallRegister 10 sample_grant, CallAuthorize 20 21 sample_start]
          NewBrokerAuthorizer))"
proof -
  have h: "validBrokerID ''501''" by code_simp
  show ?thesis
    using h broker_active_balance [OF h, of "''cfg_1''"
        "[CallRegister 10 sample_grant, CallAuthorize 20 21 sample_start]"]
    by (rule conjI)
qed

theorem broker_user_isolation_witness:
  "map_get (ba_grants (snd (Authorize 20 21 (sample_start\<lparr>req_UserID := ''502''\<rparr>)
     sample_authorizer))) (grantKey ''501'' ''snap_1'') = Some sample_grant"
proof -
  have v: "validBrokerID ''501''" by code_simp
  have ne: "req_UserID (sample_start\<lparr>req_UserID := ''502''\<rparr>) \<noteq> ''501''" by simp
  have "map_get (ba_grants sample_authorizer) (grantKey ''501'' ''snap_1'') = Some sample_grant"
    by code_simp
  with broker_user_isolation [OF v ne, of 20 21 sample_authorizer "''snap_1''"] show ?thesis
    by simp
qed

theorem broker_abort_undoes_start_witness:
  "\<exists>auth. fst (Authorize 20 21 sample_start sample_authorizer) = Inr auth \<and>
     fst (AbortStart 22 ''r2'' auth (snd (Authorize 20 21 sample_start sample_authorizer))) = None"
proof -
  let ?auth = "\<lparr>auth_Operation = BrokerStart, auth_UserID = ''501'',
     auth_ConfigurationID = ''cfg_1'', auth_SnapshotID = ''snap_1''\<rparr>"
  have a: "fst (Authorize 20 21 sample_start sample_authorizer) = Inr ?auth" by code_simp
  have b: "auth_Operation ?auth = BrokerStart" by simp
  have c: "validBrokerID ''r2''" by code_simp
  from a broker_abort_undoes_start [OF a b c, of 22] show ?thesis by blast
qed

end
