(* ===== verification/KDM_Phases.thy ===== *)
theory KDM_Phases
  imports KDM_Prelude
begin

text \<open>
  The supervision state of one configuration (\<^verbatim>\<open>configState\<close>, \<^verbatim>\<open>processState\<close> of
  \<^verbatim>\<open>manager/service.go\<close>), its phase machine (\<^verbatim>\<open>transitionPhase\<close>) and the retry
  schedule (\<^verbatim>\<open>scheduleRetry\<close>, \<^verbatim>\<open>retryDelay\<close> of \<^verbatim>\<open>manager/supervisor.go\<close>).

  The zero value of \<^verbatim>\<open>configPhase\<close> (the empty string) is \<open>phaseUnset\<close>. A process carries
  what the manager knows of its child; the channels \<^verbatim>\<open>done\<close> and \<^verbatim>\<open>exitResult\<close> are read
  through the operating system's interface and have no field. The random jitter is the
  argument \<open>jitter\<close>, a function of its bound as \<^verbatim>\<open>retryJitter\<close> is.
\<close>

datatype configPhase =
    phaseUnset | phaseDiscovered | phaseValidating | phaseWaiting | phaseRunning | phaseFailed
  | phaseDuplicate | phaseStopped

record processState =
  proc_pid :: int
  proc_pidfd :: "nat option"
  proc_startedAt :: time
  proc_startTick :: nat
  proc_processGroupID :: int
  proc_launchPath :: string
  proc_unhealthySince :: time
  proc_cgroupPath :: string

record configState =
  cs_phase :: configPhase
  cs_signature :: string
  cs_deviceID :: string
  cs_failures :: int
  cs_retryAfter :: time
  cs_process :: "processState option"
  cs_pendingSignature :: string
  cs_failureReason :: string
  cs_lastKnownGoodSignature :: string

definition discovered_state :: configState where
  "discovered_state = \<lparr>cs_phase = phaseDiscovered, cs_signature = '''', cs_deviceID = '''',
     cs_failures = 0, cs_retryAfter = 0, cs_process = None, cs_pendingSignature = '''',
     cs_failureReason = '''', cs_lastKnownGoodSignature = ''''\<rparr>"

section \<open>The phase machine\<close>

text \<open>A lookup in the map of maps; an absent entry is \<open>False\<close>.\<close>

fun validPhaseTransitions :: "configPhase \<Rightarrow> configPhase set" where
  "validPhaseTransitions phaseUnset = {}"
| "validPhaseTransitions phaseDiscovered = {phaseValidating, phaseDuplicate, phaseStopped}"
| "validPhaseTransitions phaseValidating = {phaseRunning, phaseFailed, phaseWaiting, phaseStopped}"
| "validPhaseTransitions phaseWaiting = {phaseValidating, phaseStopped}"
| "validPhaseTransitions phaseRunning = {phaseFailed, phaseStopped}"
| "validPhaseTransitions phaseFailed = {phaseWaiting, phaseValidating, phaseStopped}"
| "validPhaseTransitions phaseDuplicate = {phaseStopped, phaseValidating}"
| "validPhaseTransitions phaseStopped = {phaseValidating}"

text \<open>The result of the call and the state it leaves; the nil pointer is \<open>None\<close>.\<close>

definition transitionPhase_ok :: "configState option \<Rightarrow> configPhase \<Rightarrow> bool" where
  "transitionPhase_ok state next_phase =
     (case state of None \<Rightarrow> False
      | Some s \<Rightarrow> cs_phase s = next_phase \<or> next_phase \<in> validPhaseTransitions (cs_phase s))"

definition transitionPhase :: "configPhase \<Rightarrow> configState \<Rightarrow> configState" where
  "transitionPhase next_phase s =
     (if cs_phase s = next_phase then s
      else if next_phase \<notin> validPhaseTransitions (cs_phase s) then s
      else s\<lparr>cs_phase := next_phase\<rparr>)"

section \<open>The retry schedule\<close>

definition retryDelay :: "(duration \<Rightarrow> duration) \<Rightarrow> int \<Rightarrow> duration" where
  "retryDelay jitter failures =
     (let base = (if failures > 0 \<and> failures < 6 then 2 ^ nat failures * second else 60 * second);
          jitterRange = base div 4
      in if jitterRange = 0 then base
         else base - jitterRange div 2 + jitter jitterRange)"

definition scheduleRetry ::
  "(duration \<Rightarrow> duration) \<Rightarrow> time \<Rightarrow> string \<Rightarrow> configState \<Rightarrow> configState" where
  "scheduleRetry jitter now reason s =
     (let failures = cs_failures s + 1
      in transitionPhase phaseFailed
           (s\<lparr>cs_failures := failures, cs_failureReason := reason,
              cs_retryAfter := now + retryDelay jitter failures\<rparr>))"

text \<open>\<^verbatim>\<open>retryJitter\<close> draws from \<open>0\<close> to its bound inclusive.\<close>

definition jitter_ok :: "(duration \<Rightarrow> duration) \<Rightarrow> bool" where
  "jitter_ok jitter \<longleftrightarrow> (\<forall>d > 0. 0 \<le> jitter d \<and> jitter d \<le> d)"

section \<open>Facts the supervisor uses\<close>

lemma transitionPhase_frame [simp]:
  "cs_signature (transitionPhase p s) = cs_signature s"
  "cs_deviceID (transitionPhase p s) = cs_deviceID s"
  "cs_failures (transitionPhase p s) = cs_failures s"
  "cs_retryAfter (transitionPhase p s) = cs_retryAfter s"
  "cs_process (transitionPhase p s) = cs_process s"
  "cs_pendingSignature (transitionPhase p s) = cs_pendingSignature s"
  "cs_failureReason (transitionPhase p s) = cs_failureReason s"
  "cs_lastKnownGoodSignature (transitionPhase p s) = cs_lastKnownGoodSignature s"
  by (simp_all add: transitionPhase_def)

lemma scheduleRetry_frame [simp]:
  "cs_signature (scheduleRetry j now r s) = cs_signature s"
  "cs_deviceID (scheduleRetry j now r s) = cs_deviceID s"
  "cs_process (scheduleRetry j now r s) = cs_process s"
  "cs_pendingSignature (scheduleRetry j now r s) = cs_pendingSignature s"
  "cs_lastKnownGoodSignature (scheduleRetry j now r s) = cs_lastKnownGoodSignature s"
  "cs_failures (scheduleRetry j now r s) = cs_failures s + 1"
  "cs_retryAfter (scheduleRetry j now r s) = now + retryDelay j (cs_failures s + 1)"
  by (simp_all add: scheduleRetry_def Let_def)

lemma phase_after_transition:
  "cs_phase (transitionPhase p s) =
     (if transitionPhase_ok (Some s) p then p else cs_phase s)"
  by (simp add: transitionPhase_def transitionPhase_ok_def)

section \<open>Properties\<close>

fun phase_run :: "configPhase list \<Rightarrow> configState \<Rightarrow> configState" where
  "phase_run [] s = s"
| "phase_run (p # ps) s = phase_run ps (transitionPhase p s)"

text \<open>The phases the state goes through, oldest first.\<close>

fun phase_trace :: "configPhase list \<Rightarrow> configState \<Rightarrow> configPhase list" where
  "phase_trace [] s = [cs_phase s]"
| "phase_trace (p # ps) s = cs_phase s # phase_trace ps (transitionPhase p s)"

lemma length_phase_trace [simp]: "length (phase_trace ps s) = Suc (length ps)"
  by (induction ps arbitrary: s) simp_all

lemma phase_trace_steps:
  assumes "Suc i < length (phase_trace ps s)"
  shows "phase_trace ps s ! Suc i = phase_trace ps s ! i
    \<or> phase_trace ps s ! Suc i \<in> validPhaseTransitions (phase_trace ps s ! i)"
  using assms
proof (induction ps arbitrary: s i)
  case (Cons p ps)
  have first: "phase_trace ps (transitionPhase p s) ! 0 = cs_phase (transitionPhase p s)"
    by (cases ps) simp_all
  show ?case
  proof (cases i)
    case 0
    then show ?thesis using first by (simp add: transitionPhase_def)
  next
    case (Suc j)
    then show ?thesis using Cons by simp
  qed
qed simp

text \<open>
  Whatever phases are requested of a configuration that is not running, it runs only after
  it has been validated: the first time its phase is \<open>running\<close>, the phase before is
  \<open>validating\<close>. A duplicate or waiting configuration cannot start without validation.
\<close>

theorem running_only_after_validation:
  assumes "cs_phase s \<noteq> phaseRunning" and "cs_phase (phase_run ps s) = phaseRunning"
  shows "\<exists>i. Suc i < length (phase_trace ps s) \<and> phase_trace ps s ! i = phaseValidating
     \<and> phase_trace ps s ! Suc i = phaseRunning
     \<and> (\<forall>j \<le> i. phase_trace ps s ! j \<noteq> phaseRunning)"
  using assms
proof (induction ps arbitrary: s)
  case (Cons p ps)
  show ?case
  proof (cases "cs_phase (transitionPhase p s) = phaseRunning")
    case True
    then have "cs_phase s = phaseValidating"
      using Cons.prems(1) by (cases "cs_phase s") (auto simp: transitionPhase_def split: if_splits)
    moreover have "phase_trace ps (transitionPhase p s) ! 0 = phaseRunning"
      using True by (cases ps) simp_all
    ultimately show ?thesis by (intro exI [of _ 0]) simp
  next
    case False
    with Cons obtain i where i: "Suc i < length (phase_trace ps (transitionPhase p s))"
      "phase_trace ps (transitionPhase p s) ! i = phaseValidating"
      "phase_trace ps (transitionPhase p s) ! Suc i = phaseRunning"
      "\<forall>j \<le> i. phase_trace ps (transitionPhase p s) ! j \<noteq> phaseRunning"
      by fastforce
    have "\<forall>j \<le> Suc i. phase_trace (p # ps) s ! j \<noteq> phaseRunning"
    proof (intro allI impI)
      fix j assume "j \<le> Suc i"
      then show "phase_trace (p # ps) s ! j \<noteq> phaseRunning"
        using i(4) Cons.prems(1) by (cases j) auto
    qed
    then show ?thesis using i by (intro exI [of _ "Suc i"]) simp
  qed
qed simp

theorem running_only_after_validation_witness:
  "\<exists>i. Suc i < 4 \<and> phase_trace [phaseRunning, phaseValidating, phaseRunning] discovered_state ! i
     = phaseValidating"
  using running_only_after_validation
    [of discovered_state "[phaseRunning, phaseValidating, phaseRunning]"]
  by (auto simp: discovered_state_def transitionPhase_def numeral_eq_Suc)

lemma retryDelay_range:
  assumes "jitter_ok jitter"
  shows "retryDelay jitter n \<ge> (if 0 < n \<and> n < 6 then 2 ^ nat n else 60) * second * 7 div 8"
    and "retryDelay jitter n \<le> (if 0 < n \<and> n < 6 then 2 ^ nat n else 60) * second * 9 div 8"
proof -
  have "n = 1 \<or> n = 2 \<or> n = 3 \<or> n = 4 \<or> n = 5 \<or> \<not> (0 < n \<and> n < 6)"
    by arith
  moreover have j: "0 \<le> jitter d \<and> jitter d \<le> d" if "0 < d" for d
    using assms that by (simp add: jitter_ok_def)
  ultimately show "retryDelay jitter n \<ge> (if 0 < n \<and> n < 6 then 2 ^ nat n else 60) * second * 7 div 8"
    and "retryDelay jitter n \<le> (if 0 < n \<and> n < 6 then 2 ^ nat n else 60) * second * 9 div 8"
    using j [of 500000000] j [of 1000000000] j [of 2000000000] j [of 4000000000]
      j [of 8000000000] j [of 15000000000]
    by (auto simp: retryDelay_def Let_def)
qed

text \<open>
  The retry delay is bounded and grows. Whatever the jitter draws, attempt \<open>n\<close> (from 1 to 5)
  waits between 7/8 and 9/8 of \<open>2^n\<close> seconds, every later attempt between 52.5 and 67.5 seconds,
  and each of the first six attempts waits strictly longer than the one before it.
\<close>

theorem retry_delay_bounded_and_growing:
  assumes "jitter_ok jitter" and "jitter_ok jitter'"
  shows "(if 0 < n \<and> n < 6 then 2 ^ nat n else 60) * second * 7 div 8 \<le> retryDelay jitter n
     \<and> retryDelay jitter n \<le> (if 0 < n \<and> n < 6 then 2 ^ nat n else 60) * second * 9 div 8
     \<and> (0 < n \<and> n < 6 \<longrightarrow> retryDelay jitter n < retryDelay jitter' (n + 1))"
proof -
  have "retryDelay jitter n < retryDelay jitter' (n + 1)" if "0 < n" "n < 6"
  proof -
    have "n = 1 \<or> n = 2 \<or> n = 3 \<or> n = 4 \<or> n = 5" using that by arith
    then show ?thesis
      using retryDelay_range(2) [OF assms(1), of n] retryDelay_range(1) [OF assms(2), of "n + 1"]
      by auto
  qed
  then show ?thesis
    using retryDelay_range [OF assms(1), of n] by simp
qed

theorem retry_delay_bounded_and_growing_witness:
  "retryDelay (\<lambda>d. d) 1 < retryDelay (\<lambda>d. 0) 2 \<and> retryDelay (\<lambda>d. d) 1 \<le> 2250000000"
  using retry_delay_bounded_and_growing [of "\<lambda>d. d" "\<lambda>d. 0" 1]
  by (simp add: jitter_ok_def)

end
