(* ===== verification/KDM_Domain.thy ===== *)
theory KDM_Domain
  imports KDM_Prelude
begin

text \<open>
  The manager-domain vocabulary (\<^verbatim>\<open>internal/manager/domain.go\<close>): resource references,
  devices, configurations, operations, diagnostics, events and reason codes, with the API
  error and command result of \<^verbatim>\<open>api_transport.go\<close> and \<^verbatim>\<open>commands.go\<close>.

  A Go string type with a list of constants is a datatype with one constructor per constant;
  where the code relies on the type's zero value (the empty string) it has a constructor of
  its own (\<open>ResourceUnset\<close>, \<open>RoleUnset\<close>, \<open>ReasonUnset\<close>). A struct is a record, a pointer
  that may be nil an \<open>option\<close>.
\<close>

section \<open>Reason codes\<close>

datatype (plugins only: code size) reason_code =
    ReasonUnset
  | ReasonDeviceConnected | ReasonDeviceDisconnected | ReasonDeviceInaccessible
  | ReasonDeviceUnsupported | ReasonDeviceConflicting | ReasonDeviceIdentityAmbiguous
  | ReasonDeviceManagerOutput
  | ReasonConfigurationDiscovered | ReasonConfigurationDisabled
  | ReasonConfigurationExternalReadOnly | ReasonConfigurationAdoptionRequired
  | ReasonConfigurationRevisionStale | ReasonConfigurationLimitReached
  | ReasonConfigurationChanged | ReasonConfigurationTooLarge
  | ReasonValidationSucceeded | ReasonValidationFailed | ReasonValidationTimedOut
  | ReasonValidationBlocked | ReasonCandidateUnsupported
  | ReasonRuntimeStarting | ReasonRuntimeRunning | ReasonRuntimeWaitingForDevice
  | ReasonRuntimeBackoff | ReasonRuntimeProcessExited | ReasonRuntimeWatchdogTimeout
  | ReasonRuntimeProcessUnhealthy | ReasonRuntimeOwnershipLost | ReasonRuntimeDuplicateDevice
  | ReasonRuntimePendingUpdateRejected | ReasonRuntimeActivationFailed
  | ReasonRuntimeRollbackSucceeded | ReasonRuntimeRollbackFailed | ReasonRuntimeStopped
  | ReasonOperationQueued | ReasonOperationRunning | ReasonOperationSucceeded
  | ReasonOperationCancelled | ReasonOperationTimedOut | ReasonOperationUnsupported
  | ReasonCapabilityAvailable | ReasonManagerHealthy | ReasonManagerStarting
  | ReasonManagerResyncRequired | ReasonDiagnosticResolved | ReasonKMonadCompatible
  | ReasonKMonadVersionUnknown | ReasonKMonadVersionUnsupported | ReasonPlatformUnsupported
  | ReasonDependencyUnavailable | ReasonPermissionDenied | ReasonInternal

section \<open>Resources and devices\<close>

datatype resource_kind =
    ResourceUnset
  | ResourceManager | ResourceDevice | ResourceConfiguration | ResourceOperation
  | ResourceDiagnostic

record resource_ref =
  ref_Kind :: resource_kind
  ref_ID :: string

datatype device_availability =
    DeviceConnected | DeviceDisconnected | DeviceInaccessible | DeviceUnsupported
  | DeviceConflicting

datatype device_role = RoleUnset | DeviceRoleInput | DeviceRoleManagerOutput

datatype identity_stability =
    IdentitySerial | IdentityTopology | IdentityPlatform | IdentityUnknown

record device =
  dev_ID :: string
  dev_DisplayName :: string
  dev_Role :: device_role
  dev_Vendor :: string
  dev_Product :: string
  dev_Serial :: string
  dev_Availability :: device_availability
  dev_IdentityStability :: identity_stability
  dev_ConfiguredBy :: "string list"
  dev_RuntimeConflict :: bool
  dev_ReasonCode :: reason_code
  dev_Reason :: string

record input_scan =
  scan_DeviceID :: string
  scan_TokenNamespace :: string
  scan_Keys :: "string list"
  scan_UnmappedCount :: nat
  scan_Generation :: nat
  scan_Digest :: string
  scan_ObservedAt :: time

section \<open>Diagnostics and validation results\<close>

datatype diagnostic_severity =
    SeverityUnset | DiagnosticOK | DiagnosticWarning | DiagnosticTemporary | DiagnosticError

record diagnostic_location =
  loc_Scope :: string
  loc_StartLine :: nat
  loc_StartColumn :: nat
  loc_EndLine :: nat
  loc_EndColumn :: nat

record diagnostic =
  diag_ID :: string
  diag_Severity :: diagnostic_severity
  diag_ReasonCode :: reason_code
  diag_Summary :: string
  diag_Remediation :: string
  diag_Resource :: "resource_ref option"
  diag_Location :: "diagnostic_location option"

datatype validation_outcome = ValidationValid | ValidationRejected | ValidationBlocked

record validation_result =
  val_Outcome :: validation_outcome
  val_ReasonCode :: reason_code
  val_Reason :: string
  val_CandidateDigest :: string
  val_Diagnostics :: "diagnostic list"

section \<open>Operations\<close>

datatype operation_kind =
    OperationIdentify | OperationProbe | OperationValidate | OperationApply
  | OperationRollback | OperationAdopt | OperationLifecycle

datatype operation_state =
    OperationQueued | OperationRunning | OperationWaiting | OperationCancelling
  | OperationSucceeded | OperationRejected | OperationFailed | OperationRolledBack
  | OperationCancelled

record operation =
  op_ID :: string
  op_Kind :: operation_kind
  op_State :: operation_state
  op_Resource :: resource_ref
  op_StartedAt :: time
  op_UpdatedAt :: time
  op_ReasonCode :: reason_code
  op_Reason :: string
  op_Validation :: "validation_result option"
  op_ConfigurationRevision :: nat

section \<open>Configurations\<close>

datatype configuration_ownership = OwnershipUnset | ConfigurationManaged | ConfigurationExternal

datatype runtime_phase =
    RuntimeDiscovered | RuntimeValidating | RuntimeWaiting | RuntimeApplying | RuntimeRunning
  | RuntimeBackoff | RuntimeFailed | RuntimeDuplicate | RuntimeStopped | RuntimeDisabled
  | RuntimeRecovering

record runtime_state =
  rt_Phase :: runtime_phase
  rt_ReasonCode :: reason_code
  rt_Reason :: string
  rt_Connected :: bool
  rt_Healthy :: bool
  rt_RetryAt :: "time option"
  rt_FailureCount :: nat

record configuration =
  conf_ID :: string
  conf_Name :: string
  conf_Ownership :: configuration_ownership
  conf_Enabled :: bool
  conf_DeviceID :: string
  conf_DesiredRevision :: nat
  conf_ActiveRevision :: nat
  conf_ContentRevision :: nat
  conf_Runtime :: runtime_state
  conf_LastOperation :: "operation option"

record managed_configuration_model =
  model_DeviceID :: string
  model_Behavior :: string

section \<open>Events\<close>

datatype event_type =
    EventDeviceAdded | EventDeviceAvailabilityChanged | EventConfigurationChanged
  | EventConfigurationRuntimeChanged | EventConfigurationRejected
  | EventConfigurationRolledBack | EventOperationChanged | EventDiagnosticChanged
  | EventManagerResyncRequired

record event =
  ev_EventID :: nat
  ev_StateRevision :: nat
  ev_Time :: time
  ev_Type :: event_type
  ev_Resource :: resource_ref
  ev_ReasonCode :: reason_code
  ev_Data :: "(string \<times> string) list"

section \<open>API errors\<close>

record api_error =
  err_Code :: string
  err_Message :: string

abbreviation api_err :: "string \<Rightarrow> string \<Rightarrow> api_error" where
  "api_err c m \<equiv> \<lparr>err_Code = c, err_Message = m\<rparr>"

text \<open>A \<^verbatim>\<open>commandResult\<close> carries an error or a result.\<close>

type_synonym 'a command_result = "api_error + 'a"

text \<open>
  \<^verbatim>\<open>operationList\<close> and \<^verbatim>\<open>pruneOperations\<close> order operations by their update time; the
  former breaks ties by ID. The key of that order is a type of its own, so that the library's
  sorting applies to it.
\<close>

datatype op_key = OpKey (key_time: time) (key_id: string)

instantiation op_key :: linorder
begin

definition less_eq_op_key :: "op_key \<Rightarrow> op_key \<Rightarrow> bool" where
  "less_eq_op_key a b \<longleftrightarrow>
     key_time a < key_time b \<or> key_time a = key_time b \<and> key_id a \<le> key_id b"

definition less_op_key :: "op_key \<Rightarrow> op_key \<Rightarrow> bool" where
  "less_op_key a b \<longleftrightarrow>
     key_time a < key_time b \<or> key_time a = key_time b \<and> key_id a < key_id b"

instance
  by standard (auto simp: less_eq_op_key_def less_op_key_def op_key.expand)

end

definition operation_key :: "operation \<Rightarrow> op_key" where
  "operation_key o1 = OpKey (op_UpdatedAt o1) (op_ID o1)"

end
