(* ===== verification/KDM_Events.thy ===== *)
theory KDM_Events
  imports KDM_Domain KDM_BoundedLog
begin

text \<open>
  The public event history (\<^verbatim>\<open>manager/events.go\<close>, with \<^verbatim>\<open>advanceStateRevision\<close> of
  \<^verbatim>\<open>snapshot.go\<close>): a ring of the newest 1024 events, numbered without gaps, and the
  subscribers that follow it.

  A subscriber's two channels are shared between the manager and the goroutine that forwards
  them to a client, and outlive the subscriber's entry in \<^verbatim>\<open>eventSubscribers\<close>. They are
  therefore kept in a store of their own (\<open>el_channels\<close>), keyed by the subscriber's number;
  \<open>el_eventSubscribers\<close> holds the numbers the map of the code has. A channel is the list of
  the values it buffers. \<^verbatim>\<open>time.Now\<close> is the argument \<open>clk\<close>, read at the number of the call
  (\<open>el_ticks\<close>). Log output is not modelled, the metric counters are.
\<close>

definition maxRetainedEvents :: nat where "maxRetainedEvents = 1024"
definition eventSubscriberBuffer :: nat where "eventSubscriberBuffer = 1024"

record event_subscriber =
  sub_events :: "event list"
  sub_resync :: "event list"
  sub_closed :: bool

record event_log =
  el_events :: "event list"
  el_eventStart :: nat
  el_nextEventID :: nat
  el_nextSubscriberID :: nat
  el_eventSubscribers :: "nat list"
  el_channels :: "(nat, event_subscriber) gomap"
  el_stateRevision :: nat
  el_publicStateRevision :: nat
  el_publicEvents :: "nat list"
  el_ticks :: nat

definition publicEventMetricTypes :: "event_type list" where
  "publicEventMetricTypes =
     [EventDeviceAdded, EventDeviceAvailabilityChanged, EventConfigurationChanged,
      EventConfigurationRuntimeChanged, EventConfigurationRejected, EventConfigurationRolledBack,
      EventOperationChanged, EventDiagnosticChanged, EventManagerResyncRequired]"

definition new_event_log :: event_log where
  "new_event_log = \<lparr>el_events = [], el_eventStart = 0, el_nextEventID = 0,
     el_nextSubscriberID = 0, el_eventSubscribers = [], el_channels = [], el_stateRevision = 0,
     el_publicStateRevision = 0, el_publicEvents = replicate 9 0, el_ticks = 0\<rparr>"

section \<open>Publishing\<close>

definition advanceStateRevision :: "event_log \<Rightarrow> event_log" where
  "advanceStateRevision m =
     m\<lparr>el_stateRevision := el_stateRevision m + 1,
       el_publicStateRevision := el_stateRevision m + 1\<rparr>"

text \<open>The loop adds one to the counter of the first entry with the event's type.\<close>

fun bump_first :: "event_type \<Rightarrow> event_type list \<Rightarrow> nat list \<Rightarrow> nat list" where
  "bump_first t (u # us) (n # ns) = (if t = u then Suc n # ns else n # bump_first t us ns)"
| "bump_first t _ ns = ns"

definition recordPublicEvent :: "event \<Rightarrow> event_log \<Rightarrow> event_log" where
  "recordPublicEvent event m =
     m\<lparr>el_publicEvents := bump_first (ev_Type event) publicEventMetricTypes (el_publicEvents m)\<rparr>"

definition resyncRequiredEvent :: "(nat \<Rightarrow> time) \<Rightarrow> event_log \<Rightarrow> event \<times> event_log" where
  "resyncRequiredEvent clk m =
     (let event = \<lparr>ev_EventID = el_nextEventID m, ev_StateRevision = el_stateRevision m,
            ev_Time = clk (el_ticks m), ev_Type = EventManagerResyncRequired,
            ev_Resource = \<lparr>ref_Kind = ResourceManager, ref_ID = ''manager''\<rparr>,
            ev_ReasonCode = ReasonManagerResyncRequired,
            ev_Data = [(''remediation'', ''fetch snapshot.get and resubscribe'')]\<rparr>
      in (event, recordPublicEvent event (m\<lparr>el_ticks := Suc (el_ticks m)\<rparr>)))"

text \<open>The ring: append while there is room, then overwrite the oldest.\<close>

definition retain_event :: "event \<Rightarrow> event_log \<Rightarrow> event_log" where
  "retain_event event m =
     (if length (el_events m) < maxRetainedEvents
      then m\<lparr>el_events := el_events m @ [event]\<rparr>
      else m\<lparr>el_events := (el_events m)[el_eventStart m := event],
             el_eventStart := (el_eventStart m + 1) mod maxRetainedEvents\<rparr>)"

text \<open>
  One turn of the loop over the subscribers: a non-blocking send on the event channel; when
  its buffer is full the subscriber is dropped and a resync event sent (non-blocking too, and
  evaluated whether or not it is sent).
\<close>

definition deliver_event :: "(nat \<Rightarrow> time) \<Rightarrow> event \<Rightarrow> nat \<Rightarrow> event_log \<Rightarrow> event_log" where
  "deliver_event clk event sid m =
     (case map_get (el_channels m) sid of
        None \<Rightarrow> m
      | Some subscriber \<Rightarrow>
          if length (sub_events subscriber) < eventSubscriberBuffer
          then m\<lparr>el_channels := map_put sid
                   (subscriber\<lparr>sub_events := sub_events subscriber @ [event]\<rparr>) (el_channels m)\<rparr>
          else
            let m1 = m\<lparr>el_eventSubscribers := removeAll sid (el_eventSubscribers m)\<rparr>;
                (resync, m2) = resyncRequiredEvent clk m1
            in if sub_resync subscriber = []
               then m2\<lparr>el_channels := map_put sid (subscriber\<lparr>sub_resync := [resync]\<rparr>)
                         (el_channels m2)\<rparr>
               else m2)"

definition publishEvent ::
  "(nat \<Rightarrow> time) \<Rightarrow> event_type \<Rightarrow> resource_ref \<Rightarrow> reason_code \<Rightarrow> (string \<times> string) list
   \<Rightarrow> event_log \<Rightarrow> event_log" where
  "publishEvent clk eventType resource reasonCode data m =
     (let m1 = advanceStateRevision m;
          m2 = m1\<lparr>el_nextEventID := el_nextEventID m1 + 1\<rparr>;
          event = \<lparr>ev_EventID = el_nextEventID m2, ev_StateRevision = el_stateRevision m2,
            ev_Time = clk (el_ticks m2), ev_Type = eventType, ev_Resource = resource,
            ev_ReasonCode = reasonCode, ev_Data = data\<rparr>;
          m3 = recordPublicEvent event (m2\<lparr>el_ticks := Suc (el_ticks m2)\<rparr>);
          m4 = retain_event event m3
      in fold (deliver_event clk event) (el_eventSubscribers m4) m4)"

section \<open>Subscribing\<close>

record events_subscribe_params =
  esp_AfterEventID :: "nat option"
  esp_AfterServerID :: string
  esp_forceResync :: bool

record event_subscription =
  es_ID :: nat
  es_StateRevision :: nat
  es_LatestEventID :: nat
  es_Replay :: "event list"
  es_ResyncNeeded :: bool
  es_ResyncEvent :: "event option"

definition retainedEvents :: "event_log \<Rightarrow> event list" where
  "retainedEvents m =
     map (\<lambda>index. el_events m ! ((el_eventStart m + index) mod length (el_events m)))
       [0..<length (el_events m)]"

definition eventList :: "event_log \<Rightarrow> event list" where
  "eventList m = retainedEvents m"

definition subscribeEvents ::
  "(nat \<Rightarrow> time) \<Rightarrow> events_subscribe_params \<Rightarrow> event_log \<Rightarrow> event_subscription \<times> event_log" where
  "subscribeEvents clk params m =
     (let after = (case esp_AfterEventID params of None \<Rightarrow> el_nextEventID m | Some a \<Rightarrow> a);
          oldestEventID = (if el_events m \<noteq> []
                           then ev_EventID (el_events m ! el_eventStart m) else 0)
      in if esp_forceResync params
            \<or> (esp_AfterEventID params \<noteq> None \<and> after > el_nextEventID m)
            \<or> (oldestEventID > 0 \<and> after < oldestEventID - 1)
         then let (resync, m1) = resyncRequiredEvent clk m
              in (\<lparr>es_ID = 0, es_StateRevision = el_stateRevision m1,
                   es_LatestEventID = el_nextEventID m1, es_Replay = [], es_ResyncNeeded = True,
                   es_ResyncEvent = Some resync\<rparr>, m1)
         else
           let replay = filter (\<lambda>event. ev_EventID event > after) (retainedEvents m);
               sid = el_nextSubscriberID m + 1;
               m1 = m\<lparr>el_nextSubscriberID := sid,
                      el_eventSubscribers := el_eventSubscribers m @ [sid],
                      el_channels := map_put sid
                        \<lparr>sub_events = [], sub_resync = [], sub_closed = False\<rparr> (el_channels m)\<rparr>
           in (\<lparr>es_ID = sid, es_StateRevision = el_stateRevision m1,
                es_LatestEventID = el_nextEventID m1, es_Replay = replay,
                es_ResyncNeeded = False, es_ResyncEvent = None\<rparr>, m1))"

definition unsubscribeEvents :: "nat \<Rightarrow> event_log \<Rightarrow> event_log" where
  "unsubscribeEvents sid m =
     (if sid \<notin> set (el_eventSubscribers m) then m
      else m\<lparr>el_eventSubscribers := removeAll sid (el_eventSubscribers m),
             el_channels := (case map_get (el_channels m) sid of None \<Rightarrow> el_channels m
               | Some s \<Rightarrow> map_put sid (s\<lparr>sub_closed := True\<rparr>) (el_channels m))\<rparr>)"

text \<open>The forwarding goroutine takes the next event from its channel.\<close>

definition receive_event :: "nat \<Rightarrow> event_log \<Rightarrow> event option \<times> event_log" where
  "receive_event sid m =
     (case map_get (el_channels m) sid of
        None \<Rightarrow> (None, m)
      | Some s \<Rightarrow>
          (case sub_events s of
             [] \<Rightarrow> (None, m)
           | e # es \<Rightarrow> (Some e, m\<lparr>el_channels := map_put sid (s\<lparr>sub_events := es\<rparr>)
                                        (el_channels m)\<rparr>)))"

section \<open>Publishing state changes\<close>

record public_state =
  ps_devices :: "(string, device) gomap"
  ps_configurations :: "(string, configuration) gomap"
  ps_operations :: "(string, operation) gomap"
  ps_diagnostics :: "(string, diagnostic) gomap"

definition publishOperationChange :: "(nat \<Rightarrow> time) \<Rightarrow> operation \<Rightarrow> event_log \<Rightarrow> event_log" where
  "publishOperationChange clk operation m =
     (let m1 = publishEvent clk EventOperationChanged (op_Resource operation)
                 (op_ReasonCode operation) [] m
      in if ref_Kind (op_Resource operation) \<noteq> ResourceConfiguration then m1
         else case op_State operation of
           OperationRejected \<Rightarrow> publishEvent clk EventConfigurationRejected
             (op_Resource operation) (op_ReasonCode operation) [] m1
         | OperationRolledBack \<Rightarrow> publishEvent clk EventConfigurationRolledBack
             (op_Resource operation) (op_ReasonCode operation) [] m1
         | _ \<Rightarrow> m1)"

definition publish_device_change ::
  "(nat \<Rightarrow> time) \<Rightarrow> public_state \<Rightarrow> string \<times> device \<Rightarrow> event_log \<Rightarrow> event_log" where
  "publish_device_change clk before entry m =
     (let (key, device) = entry; resource = \<lparr>ref_Kind = ResourceDevice, ref_ID = key\<rparr>
      in case map_get (ps_devices before) key of
           None \<Rightarrow> publishEvent clk EventDeviceAdded resource (dev_ReasonCode device) [] m
         | Some previous \<Rightarrow>
             if previous \<noteq> device
             then publishEvent clk EventDeviceAvailabilityChanged resource
                    (dev_ReasonCode device) [] m
             else m)"

definition configuration_changed :: "configuration \<Rightarrow> configuration \<Rightarrow> bool" where
  "configuration_changed previous configuration \<longleftrightarrow>
     conf_Name previous \<noteq> conf_Name configuration
     \<or> conf_Ownership previous \<noteq> conf_Ownership configuration
     \<or> conf_Enabled previous \<noteq> conf_Enabled configuration
     \<or> conf_DeviceID previous \<noteq> conf_DeviceID configuration
     \<or> conf_DesiredRevision previous \<noteq> conf_DesiredRevision configuration
     \<or> conf_ActiveRevision previous \<noteq> conf_ActiveRevision configuration
     \<or> conf_ContentRevision previous \<noteq> conf_ContentRevision configuration"

definition publish_configuration_change ::
  "(nat \<Rightarrow> time) \<Rightarrow> public_state \<Rightarrow> string \<times> configuration \<Rightarrow> event_log \<Rightarrow> event_log" where
  "publish_configuration_change clk before entry m =
     (let (key, configuration) = entry;
          resource = \<lparr>ref_Kind = ResourceConfiguration, ref_ID = key\<rparr>;
          previous = map_get (ps_configurations before) key;
          m1 = (if (case previous of None \<Rightarrow> True
                                   | Some p \<Rightarrow> configuration_changed p configuration)
                then publishEvent clk EventConfigurationChanged resource
                       ReasonConfigurationDiscovered [] m
                else m)
      in if (case previous of None \<Rightarrow> True | Some p \<Rightarrow> conf_Runtime p \<noteq> conf_Runtime configuration)
         then publishEvent clk EventConfigurationRuntimeChanged resource
                (rt_ReasonCode (conf_Runtime configuration)) [] m1
         else m1)"

definition publish_configuration_removal ::
  "(nat \<Rightarrow> time) \<Rightarrow> public_state \<Rightarrow> string \<times> configuration \<Rightarrow> event_log \<Rightarrow> event_log" where
  "publish_configuration_removal clk after entry m =
     (if map_get (ps_configurations after) (fst entry) = None
      then publishEvent clk EventConfigurationChanged
             \<lparr>ref_Kind = ResourceConfiguration, ref_ID = fst entry\<rparr> ReasonRuntimeStopped [] m
      else m)"

definition publish_operation_entry ::
  "(nat \<Rightarrow> time) \<Rightarrow> public_state \<Rightarrow> string \<times> operation \<Rightarrow> event_log \<Rightarrow> event_log" where
  "publish_operation_entry clk before entry m =
     (if map_get (ps_operations before) (fst entry) = Some (snd entry) then m
      else publishOperationChange clk (snd entry) m)"

definition publish_diagnostic_change ::
  "(nat \<Rightarrow> time) \<Rightarrow> public_state \<Rightarrow> string \<times> diagnostic \<Rightarrow> event_log \<Rightarrow> event_log" where
  "publish_diagnostic_change clk before entry m =
     (if map_get (ps_diagnostics before) (fst entry) = Some (snd entry) then m
      else publishEvent clk EventDiagnosticChanged
             \<lparr>ref_Kind = ResourceDiagnostic, ref_ID = fst entry\<rparr>
             (diag_ReasonCode (snd entry)) [] m)"

definition publish_diagnostic_removal ::
  "(nat \<Rightarrow> time) \<Rightarrow> public_state \<Rightarrow> string \<times> diagnostic \<Rightarrow> event_log \<Rightarrow> event_log" where
  "publish_diagnostic_removal clk after entry m =
     (if map_get (ps_diagnostics after) (fst entry) = None
      then publishEvent clk EventDiagnosticChanged
             \<lparr>ref_Kind = ResourceDiagnostic, ref_ID = fst entry\<rparr> ReasonDiagnosticResolved [] m
      else m)"

definition publishStateChangesBetween ::
  "(nat \<Rightarrow> time) \<Rightarrow> public_state \<Rightarrow> public_state \<Rightarrow> event_log \<Rightarrow> event_log" where
  "publishStateChangesBetween clk before after m =
     (let m1 = fold (publish_device_change clk before) (ps_devices after) m;
          m2 = fold (publish_configuration_change clk before) (ps_configurations after) m1;
          m3 = fold (publish_configuration_removal clk after) (ps_configurations before) m2;
          m4 = fold (publish_operation_entry clk before) (ps_operations after) m3;
          m5 = fold (publish_diagnostic_change clk before) (ps_diagnostics after) m4
      in fold (publish_diagnostic_removal clk after) (ps_diagnostics before) m5)"

section \<open>The ring is a bounded log\<close>

definition ring_ok :: "event_log \<Rightarrow> bool" where
  "ring_ok m \<longleftrightarrow> length (el_events m) \<le> maxRetainedEvents
     \<and> (length (el_events m) < maxRetainedEvents \<longrightarrow> el_eventStart m = 0)
     \<and> (el_events m \<noteq> [] \<longrightarrow> el_eventStart m < length (el_events m))"

lemma retainedEvents_rotate: "retainedEvents m = rotate (el_eventStart m) (el_events m)"
  by (rule nth_equalityI) (simp_all add: retainedEvents_def nth_rotate)

lemma length_retainedEvents: "length (retainedEvents m) = length (el_events m)"
  by (simp add: retainedEvents_rotate)

lemma rotate_overwrite:
  assumes "s < length xs"
  shows "rotate (Suc s) (xs[s := e]) = tl (rotate s xs) @ [e]"
proof -
  have "rotate s (xs[s := e]) = e # drop (Suc s) xs @ take s xs"
    using assms by (simp add: rotate_drop_take upd_conv_take_nth_drop min_def drop_take)
  moreover have "rotate s xs = xs ! s # drop (Suc s) xs @ take s xs"
    using assms by (simp add: rotate_drop_take Cons_nth_drop_Suc)
  ultimately show ?thesis by (simp add: rotate_Suc)
qed

lemma retain_event_room:
  assumes "ring_ok m" and "length (el_events m) < maxRetainedEvents"
  shows "retainedEvents (retain_event e m) = retainedEvents m @ [e]"
  using assms by (simp add: retain_event_def ring_ok_def retainedEvents_rotate)

lemma retain_event_full:
  assumes "ring_ok m" and "length (el_events m) = maxRetainedEvents"
  shows "retainedEvents (retain_event e m) = tl (retainedEvents m) @ [e]"
proof -
  have "el_eventStart m < length (el_events m)"
    using assms by (auto simp: ring_ok_def maxRetainedEvents_def)
  then show ?thesis
    using assms rotate_overwrite [of "el_eventStart m" "el_events m" e]
      rotate_conv_mod [of "Suc (el_eventStart m)" "(el_events m)[el_eventStart m := e]"]
    by (simp add: retain_event_def retainedEvents_rotate)
qed

lemma retain_event_ring: "ring_ok m \<Longrightarrow> ring_ok (retain_event e m)"
  by (auto simp: ring_ok_def retain_event_def maxRetainedEvents_def)

lemma ring_ok_bound: "ring_ok m \<Longrightarrow> length (retainedEvents m) \<le> maxRetainedEvents"
  by (simp add: ring_ok_def length_retainedEvents)

lemma maxRetainedEvents_pos: "0 < maxRetainedEvents"
  by (simp add: maxRetainedEvents_def)

interpretation history: bounded_log maxRetainedEvents retainedEvents retain_event ring_ok
  by unfold_locales
    (simp_all add: retain_event_room retain_event_full retain_event_ring length_retainedEvents
      ring_ok_bound [unfolded length_retainedEvents] maxRetainedEvents_pos)

section \<open>The invariant of the history\<close>

text \<open>
  The retained events are numbered consecutively up to the last event published, the state
  revision is the number of events published, and every event carries its own revision.
\<close>

definition log_inv :: "event_log \<Rightarrow> bool" where
  "log_inv m \<longleftrightarrow> ring_ok m
     \<and> map ev_EventID (retainedEvents m) =
         last_n maxRetainedEvents [1..<Suc (el_nextEventID m)]
     \<and> (\<forall>e \<in> set (retainedEvents m). ev_StateRevision e = ev_EventID e)
     \<and> el_stateRevision m = el_nextEventID m
     \<and> el_publicStateRevision m = el_nextEventID m
     \<and> distinct (el_eventSubscribers m)
     \<and> (\<forall>i \<in> set (el_eventSubscribers m). i \<le> el_nextSubscriberID m \<and>
          map_get (el_channels m) i \<noteq> None)
     \<and> (\<forall>i s. map_get (el_channels m) i = Some s \<longrightarrow>
          length (sub_events s) \<le> eventSubscriberBuffer \<and> length (sub_resync s) \<le> 1)"

lemma log_inv_new: "log_inv new_event_log"
  by (simp add: log_inv_def new_event_log_def ring_ok_def retainedEvents_def)

text \<open>The fields the delivery of an event does not touch.\<close>

lemma resyncRequiredEvent_frame [simp]:
  "el_events (snd (resyncRequiredEvent clk m)) = el_events m"
  "el_eventStart (snd (resyncRequiredEvent clk m)) = el_eventStart m"
  "el_nextEventID (snd (resyncRequiredEvent clk m)) = el_nextEventID m"
  "el_nextSubscriberID (snd (resyncRequiredEvent clk m)) = el_nextSubscriberID m"
  "el_eventSubscribers (snd (resyncRequiredEvent clk m)) = el_eventSubscribers m"
  "el_channels (snd (resyncRequiredEvent clk m)) = el_channels m"
  "el_stateRevision (snd (resyncRequiredEvent clk m)) = el_stateRevision m"
  "el_publicStateRevision (snd (resyncRequiredEvent clk m)) = el_publicStateRevision m"
  by (simp_all add: resyncRequiredEvent_def recordPublicEvent_def Let_def)

lemma deliver_event_frame [simp]:
  "el_events (deliver_event clk e i m) = el_events m"
  "el_eventStart (deliver_event clk e i m) = el_eventStart m"
  "el_nextEventID (deliver_event clk e i m) = el_nextEventID m"
  "el_nextSubscriberID (deliver_event clk e i m) = el_nextSubscriberID m"
  "el_stateRevision (deliver_event clk e i m) = el_stateRevision m"
  "el_publicStateRevision (deliver_event clk e i m) = el_publicStateRevision m"
  by (simp_all add: deliver_event_def Let_def case_prod_beta split: option.split)

lemma deliver_all_frame [simp]:
  "el_events (fold (deliver_event clk e) js m) = el_events m"
  "el_eventStart (fold (deliver_event clk e) js m) = el_eventStart m"
  "el_nextEventID (fold (deliver_event clk e) js m) = el_nextEventID m"
  "el_nextSubscriberID (fold (deliver_event clk e) js m) = el_nextSubscriberID m"
  "el_stateRevision (fold (deliver_event clk e) js m) = el_stateRevision m"
  "el_publicStateRevision (fold (deliver_event clk e) js m) = el_publicStateRevision m"
  by (induction js arbitrary: m) simp_all

lemma retainedEvents_cong:
  "el_events m = el_events m' \<Longrightarrow> el_eventStart m = el_eventStart m' \<Longrightarrow>
   retainedEvents m = retainedEvents m'"
  by (simp add: retainedEvents_def)

lemma ring_ok_cong:
  "el_events m = el_events m' \<Longrightarrow> el_eventStart m = el_eventStart m' \<Longrightarrow>
   ring_ok m = ring_ok m'"
  by (simp add: ring_ok_def)

text \<open>What the subscribers see of one delivery.\<close>

definition queue_of :: "nat \<Rightarrow> event_log \<Rightarrow> event list" where
  "queue_of i m = (case map_get (el_channels m) i of None \<Rightarrow> [] | Some s \<Rightarrow> sub_events s)"

definition resync_of :: "nat \<Rightarrow> event_log \<Rightarrow> event list" where
  "resync_of i m = (case map_get (el_channels m) i of None \<Rightarrow> [] | Some s \<Rightarrow> sub_resync s)"

lemma deliver_other:
  assumes "i \<noteq> j"
  shows "map_get (el_channels (deliver_event clk e i m)) j = map_get (el_channels m) j"
    and "j \<in> set (el_eventSubscribers (deliver_event clk e i m)) \<longleftrightarrow> j \<in> set (el_eventSubscribers m)"
  using assms by (auto simp: deliver_event_def Let_def case_prod_beta gomap split: option.split)

lemma deliver_same:
  assumes "map_get (el_channels m) i = Some s" and "i \<in> set (el_eventSubscribers m)"
  shows "length (sub_events s) < eventSubscriberBuffer \<Longrightarrow>
           i \<in> set (el_eventSubscribers (deliver_event clk e i m)) \<and>
           queue_of i (deliver_event clk e i m) = sub_events s @ [e] \<and>
           resync_of i (deliver_event clk e i m) = sub_resync s"
    and "\<not> length (sub_events s) < eventSubscriberBuffer \<Longrightarrow>
           i \<notin> set (el_eventSubscribers (deliver_event clk e i m)) \<and>
           queue_of i (deliver_event clk e i m) = sub_events s \<and>
           resync_of i (deliver_event clk e i m) \<noteq> []"
  using assms
  by (auto simp: deliver_event_def Let_def case_prod_beta gomap queue_of_def resync_of_def)

lemma deliver_all_other:
  assumes "j \<notin> set js"
  shows "map_get (el_channels (fold (deliver_event clk e) js m)) j = map_get (el_channels m) j"
    and "j \<in> set (el_eventSubscribers (fold (deliver_event clk e) js m)) \<longleftrightarrow>
           j \<in> set (el_eventSubscribers m)"
  using assms by (induction js arbitrary: m) (auto simp: deliver_other)

lemma deliver_channels_inv:
  assumes "\<forall>i s. map_get (el_channels m) i = Some s \<longrightarrow>
             length (sub_events s) \<le> eventSubscriberBuffer \<and> length (sub_resync s) \<le> 1"
  shows "\<forall>i s. map_get (el_channels (deliver_event clk e j m)) i = Some s \<longrightarrow>
             length (sub_events s) \<le> eventSubscriberBuffer \<and> length (sub_resync s) \<le> 1"
  using assms
  by (auto simp: deliver_event_def Let_def case_prod_beta gomap split: option.split)

lemma deliver_all_channels_inv:
  assumes "\<forall>i s. map_get (el_channels m) i = Some s \<longrightarrow>
             length (sub_events s) \<le> eventSubscriberBuffer \<and> length (sub_resync s) \<le> 1"
  shows "\<forall>i s. map_get (el_channels (fold (deliver_event clk e) js m)) i = Some s \<longrightarrow>
             length (sub_events s) \<le> eventSubscriberBuffer \<and> length (sub_resync s) \<le> 1"
  using assms
proof (induction js arbitrary: m)
  case (Cons i js)
  show ?case
    using Cons.IH [OF deliver_channels_inv [OF Cons.prems]] by simp
qed simp

lemma deliver_dom:
  "map_get (el_channels m) j \<noteq> None \<Longrightarrow> map_get (el_channels (deliver_event clk e i m)) j \<noteq> None"
  by (auto simp: deliver_event_def Let_def case_prod_beta gomap split: option.split)

lemma deliver_subs:
  "set (el_eventSubscribers (deliver_event clk e i m)) \<subseteq> set (el_eventSubscribers m)"
  "distinct (el_eventSubscribers m) \<Longrightarrow> distinct (el_eventSubscribers (deliver_event clk e i m))"
  by (auto simp: deliver_event_def Let_def case_prod_beta distinct_removeAll split: option.split)

lemma deliver_all_subs:
  "map_get (el_channels m) j \<noteq> None \<Longrightarrow>
     map_get (el_channels (fold (deliver_event clk e) js m)) j \<noteq> None"
  "set (el_eventSubscribers (fold (deliver_event clk e) js m)) \<subseteq> set (el_eventSubscribers m)"
  "distinct (el_eventSubscribers m) \<Longrightarrow>
     distinct (el_eventSubscribers (fold (deliver_event clk e) js m))"
  using deliver_dom deliver_subs by (induction js arbitrary: m) (simp_all, blast+)

text \<open>What a published event is, and the log just before it is delivered.\<close>

definition published_event ::
  "(nat \<Rightarrow> time) \<Rightarrow> event_type \<Rightarrow> resource_ref \<Rightarrow> reason_code \<Rightarrow> (string \<times> string) list
   \<Rightarrow> event_log \<Rightarrow> event" where
  "published_event clk t r c d m =
     \<lparr>ev_EventID = Suc (el_nextEventID m), ev_StateRevision = Suc (el_stateRevision m),
      ev_Time = clk (el_ticks m), ev_Type = t, ev_Resource = r, ev_ReasonCode = c, ev_Data = d\<rparr>"

definition retained_log :: "event \<Rightarrow> event_log \<Rightarrow> event_log" where
  "retained_log e m = retain_event e (recordPublicEvent e
     (m\<lparr>el_stateRevision := Suc (el_stateRevision m),
        el_publicStateRevision := Suc (el_stateRevision m),
        el_nextEventID := Suc (el_nextEventID m), el_ticks := Suc (el_ticks m)\<rparr>))"

lemma publishEvent_split:
  "publishEvent clk t r c d m =
     (let e = published_event clk t r c d m
      in fold (deliver_event clk e) (el_eventSubscribers m) (retained_log e m))"
  by (simp add: publishEvent_def advanceStateRevision_def published_event_def retained_log_def
      Let_def retain_event_def recordPublicEvent_def)

lemma retained_log_frame [simp]:
  "el_nextEventID (retained_log e m) = Suc (el_nextEventID m)"
  "el_stateRevision (retained_log e m) = Suc (el_stateRevision m)"
  "el_publicStateRevision (retained_log e m) = Suc (el_stateRevision m)"
  "el_nextSubscriberID (retained_log e m) = el_nextSubscriberID m"
  "el_eventSubscribers (retained_log e m) = el_eventSubscribers m"
  "el_channels (retained_log e m) = el_channels m"
  by (simp_all add: retained_log_def retain_event_def recordPublicEvent_def)

lemma retained_log_view:
  assumes "ring_ok m"
  shows "ring_ok (retained_log e m)"
    and "retainedEvents (retained_log e m) = last_n maxRetainedEvents (retainedEvents m @ [e])"
proof -
  let ?m = "recordPublicEvent e (m\<lparr>el_stateRevision := Suc (el_stateRevision m),
        el_publicStateRevision := Suc (el_stateRevision m),
        el_nextEventID := Suc (el_nextEventID m), el_ticks := Suc (el_ticks m)\<rparr>)"
  have ok: "ring_ok ?m" and view: "retainedEvents ?m = retainedEvents m"
    using assms by (simp_all add: recordPublicEvent_def ring_ok_def retainedEvents_def)
  show "ring_ok (retained_log e m)"
    unfolding retained_log_def by (rule retain_event_ring [OF ok])
  show "retainedEvents (retained_log e m) = last_n maxRetainedEvents (retainedEvents m @ [e])"
    unfolding retained_log_def using history.view_push [OF ok] view by simp
qed

lemma publishEvent_frame:
  "el_nextEventID (publishEvent clk t r c d m) = Suc (el_nextEventID m)"
  "el_stateRevision (publishEvent clk t r c d m) = Suc (el_stateRevision m)"
  "el_publicStateRevision (publishEvent clk t r c d m) = Suc (el_stateRevision m)"
  "el_nextSubscriberID (publishEvent clk t r c d m) = el_nextSubscriberID m"
  by (simp_all add: publishEvent_split Let_def)

lemma publishEvent_history:
  assumes "ring_ok m"
  shows "ring_ok (publishEvent clk t r c d m)"
    and "retainedEvents (publishEvent clk t r c d m) =
           last_n maxRetainedEvents (retainedEvents m @ [published_event clk t r c d m])"
  using retained_log_view [OF assms, of "published_event clk t r c d m"]
  by (simp_all add: publishEvent_split Let_def
      ring_ok_cong [of "fold f xs x" x for f xs x] retainedEvents_cong [of "fold f xs x" x for f xs x])

lemma map_last_n: "map f (last_n n xs) = last_n n (map f xs)"
  by (simp add: last_n_def drop_map)

lemma log_inv_publish:
  assumes "log_inv m"
  shows "log_inv (publishEvent clk t r c d m)"
proof -
  let ?e = "published_event clk t r c d m"
  let ?m = "publishEvent clk t r c d m"
  have ring: "ring_ok m" and rev: "el_stateRevision m = el_nextEventID m"
    using assms by (simp_all add: log_inv_def)
  note hist = publishEvent_history [OF ring, of clk t r c d]
  have ids: "map ev_EventID (retainedEvents ?m) = last_n maxRetainedEvents [1..<Suc (Suc (el_nextEventID m))]"
    using assms last_n_append [of maxRetainedEvents "[1..<Suc (el_nextEventID m)]" "[Suc (el_nextEventID m)]"]
    by (simp add: hist map_last_n log_inv_def published_event_def)
  have own: "\<forall>e \<in> set (retainedEvents ?m). ev_StateRevision e = ev_EventID e"
    using assms set_last_n [of maxRetainedEvents "retainedEvents m @ [?e]"] rev
    by (auto simp: hist log_inv_def published_event_def)
  have subs: "distinct (el_eventSubscribers ?m)" "set (el_eventSubscribers ?m) \<subseteq> set (el_eventSubscribers m)"
    using assms deliver_all_subs(2) [of clk ?e "el_eventSubscribers m" "retained_log ?e m"]
      deliver_all_subs(3) [of "retained_log ?e m" clk ?e "el_eventSubscribers m"]
    by (simp_all add: publishEvent_split Let_def log_inv_def)
  have dom: "map_get (el_channels ?m) j \<noteq> None" if "map_get (el_channels m) j \<noteq> None" for j
    unfolding publishEvent_split Let_def by (rule deliver_all_subs(1)) (use that in simp)
  have chans: "\<forall>i s. map_get (el_channels ?m) i = Some s \<longrightarrow>
      length (sub_events s) \<le> eventSubscriberBuffer \<and> length (sub_resync s) \<le> 1"
    unfolding publishEvent_split Let_def
    by (rule deliver_all_channels_inv) (use assms in \<open>simp add: log_inv_def\<close>)
  show ?thesis
    unfolding log_inv_def publishEvent_frame
    using hist(1) ids own subs dom chans rev assms by (auto simp: log_inv_def)
qed

section \<open>Sequences of operations\<close>

datatype log_step =
    LogPublish event_type resource_ref reason_code "(string \<times> string) list"
  | LogSubscribe events_subscribe_params
  | LogUnsubscribe nat
  | LogReceive nat

fun log_exec :: "(nat \<Rightarrow> time) \<Rightarrow> log_step \<Rightarrow> event_log \<Rightarrow> event_log" where
  "log_exec clk (LogPublish t r c d) m = publishEvent clk t r c d m"
| "log_exec clk (LogSubscribe params) m = snd (subscribeEvents clk params m)"
| "log_exec clk (LogUnsubscribe i) m = unsubscribeEvents i m"
| "log_exec clk (LogReceive i) m = snd (receive_event i m)"

fun log_run :: "(nat \<Rightarrow> time) \<Rightarrow> log_step list \<Rightarrow> event_log \<Rightarrow> event_log" where
  "log_run clk [] m = m"
| "log_run clk (s # ss) m = log_run clk ss (log_exec clk s m)"

definition received :: "nat \<Rightarrow> log_step \<Rightarrow> event_log \<Rightarrow> event list" where
  "received i s m =
     (if s = LogReceive i then case fst (receive_event i m) of None \<Rightarrow> [] | Some e \<Rightarrow> [e] else [])"

fun received_run :: "(nat \<Rightarrow> time) \<Rightarrow> nat \<Rightarrow> log_step list \<Rightarrow> event_log \<Rightarrow> event list" where
  "received_run clk i [] m = []"
| "received_run clk i (s # ss) m = received i s m @ received_run clk i ss (log_exec clk s m)"

definition published :: "log_step list \<Rightarrow> nat" where
  "published ss = length (filter (\<lambda>s. case s of LogPublish _ _ _ _ \<Rightarrow> True | _ \<Rightarrow> False) ss)"

text \<open>Only the subscribers change.\<close>

definition same_history :: "event_log \<Rightarrow> event_log \<Rightarrow> bool" where
  "same_history m m' \<longleftrightarrow> el_events m' = el_events m \<and> el_eventStart m' = el_eventStart m
     \<and> el_nextEventID m' = el_nextEventID m \<and> el_stateRevision m' = el_stateRevision m
     \<and> el_publicStateRevision m' = el_publicStateRevision m"

definition channels_ok :: "(nat, event_subscriber) gomap \<Rightarrow> bool" where
  "channels_ok c \<longleftrightarrow> (\<forall>i s. map_get c i = Some s \<longrightarrow>
     length (sub_events s) \<le> eventSubscriberBuffer \<and> length (sub_resync s) \<le> 1)"

lemma channels_ok_put:
  "channels_ok c \<Longrightarrow> length (sub_events s) \<le> eventSubscriberBuffer \<Longrightarrow>
   length (sub_resync s) \<le> 1 \<Longrightarrow> channels_ok (map_put i s c)"
  by (simp add: channels_ok_def gomap)

lemma channels_ok_get:
  "channels_ok c \<Longrightarrow> map_get c i = Some s \<Longrightarrow>
     length (sub_events s) \<le> eventSubscriberBuffer \<and> length (sub_resync s) \<le> 1"
  by (simp add: channels_ok_def)

lemma log_inv_channels: "log_inv m \<Longrightarrow> channels_ok (el_channels m)"
  by (simp add: log_inv_def channels_ok_def)

lemma log_inv_registered:
  "log_inv m \<Longrightarrow> i \<in> set (el_eventSubscribers m) \<Longrightarrow>
   i \<le> el_nextSubscriberID m \<and> map_get (el_channels m) i \<noteq> None"
  by (simp add: log_inv_def)

lemma log_inv_cong:
  assumes "log_inv m" and "same_history m m'" and "channels_ok (el_channels m')"
    and "distinct (el_eventSubscribers m')"
    and "\<And>i. i \<in> set (el_eventSubscribers m') \<Longrightarrow>
           i \<le> el_nextSubscriberID m' \<and> map_get (el_channels m') i \<noteq> None"
  shows "log_inv m'"
  using assms retainedEvents_cong [of m' m] ring_ok_cong [of m' m]
  unfolding log_inv_def channels_ok_def same_history_def by simp

lemma log_inv_subscribe:
  assumes inv: "log_inv m"
  shows "log_inv (snd (subscribeEvents clk params m))"
proof -
  let ?i = "Suc (el_nextSubscriberID m)"
  note chans = log_inv_channels [OF inv]
  have dist: "distinct (el_eventSubscribers m)" and fresh: "?i \<notin> set (el_eventSubscribers m)"
    using inv log_inv_registered [OF inv, of ?i] by (auto simp: log_inv_def)
  have resync: "log_inv (snd (resyncRequiredEvent clk m))"
    by (rule log_inv_cong [OF inv])
      (use inv chans dist log_inv_registered [OF inv] in \<open>simp_all add: same_history_def\<close>)
  have sub: "log_inv (m\<lparr>el_nextSubscriberID := ?i, el_eventSubscribers := el_eventSubscribers m @ [?i],
      el_channels := map_put ?i \<lparr>sub_events = [], sub_resync = [], sub_closed = False\<rparr>
        (el_channels m)\<rparr>)"
    by (rule log_inv_cong [OF inv])
      (use dist fresh log_inv_registered [OF inv] chans in
        \<open>auto simp: same_history_def gomap intro!: channels_ok_put intro: le_SucI\<close>)
  show ?thesis
    using resync sub by (simp add: subscribeEvents_def Let_def case_prod_beta)
qed

lemma log_inv_unsubscribe:
  assumes inv: "log_inv m"
  shows "log_inv (unsubscribeEvents i m)"
  by (rule log_inv_cong [OF inv])
    (use log_inv_channels [OF inv] channels_ok_get [OF log_inv_channels [OF inv]] inv
        log_inv_registered [OF inv] in
      \<open>auto simp: unsubscribeEvents_def same_history_def gomap log_inv_def distinct_removeAll
        intro!: channels_ok_put split: option.splits\<close>)

lemma log_inv_receive:
  assumes inv: "log_inv m"
  shows "log_inv (snd (receive_event i m))"
proof (cases "map_get (el_channels m) i")
  case (Some s)
  note get = channels_ok_get [OF log_inv_channels [OF inv] Some]
  show ?thesis
  proof (cases "sub_events s")
    case (Cons e es)
    show ?thesis
      by (rule log_inv_cong [OF inv])
        (use Some Cons get inv log_inv_channels [OF inv] log_inv_registered [OF inv] in
          \<open>auto simp: receive_event_def same_history_def gomap log_inv_def
            intro!: channels_ok_put\<close>)
  qed (use inv Some in \<open>simp add: receive_event_def\<close>)
qed (use inv in \<open>simp add: receive_event_def\<close>)

lemma log_inv_exec: "log_inv m \<Longrightarrow> log_inv (log_exec clk s m)"
  by (cases s) (simp_all add: log_inv_publish log_inv_subscribe log_inv_unsubscribe log_inv_receive)

lemma log_inv_run: "log_inv m \<Longrightarrow> log_inv (log_run clk ss m)"
  by (induction ss arbitrary: m) (simp_all add: log_inv_exec)

lemma log_exec_published:
  "el_nextEventID (log_exec clk s m) = el_nextEventID m + published [s]"
  by (cases s)
    (auto simp: published_def publishEvent_frame subscribeEvents_def Let_def case_prod_beta
      unsubscribeEvents_def receive_event_def split: option.split list.split)

lemma log_run_published:
  "el_nextEventID (log_run clk ss m) = el_nextEventID m + published ss"
proof (induction ss arbitrary: m)
  case (Cons s ss)
  have "published (s # ss) = published [s] + published ss"
    by (simp add: published_def)
  then show ?case by (simp add: Cons log_exec_published)
qed (simp add: published_def)

section \<open>The history\<close>

text \<open>
  C29: Whatever sequence of publishing, subscribing, unsubscribing and receiving the manager
  runs from its start, the history it can replay holds the newest events published, at most
  1024 of them, numbered consecutively up to the last one, and the state revision (public and
  internal) is the number of events published.
\<close>

theorem event_history_contiguous:
  "let m = log_run clk steps new_event_log; n = published steps
   in map ev_EventID (eventList m) = last_n maxRetainedEvents [1..<Suc n]
      \<and> length (eventList m) = min maxRetainedEvents n
      \<and> el_stateRevision m = n \<and> el_publicStateRevision m = n"
proof -
  let ?m = "log_run clk steps new_event_log"
  have inv: "log_inv ?m" by (rule log_inv_run [OF log_inv_new])
  moreover have "el_nextEventID ?m = published steps"
    by (simp add: log_run_published) (simp add: new_event_log_def)
  ultimately have ids: "map ev_EventID (eventList ?m) = last_n maxRetainedEvents [1..<Suc (published steps)]"
    and rev: "el_stateRevision ?m = published steps" "el_publicStateRevision ?m = published steps"
    by (simp_all add: log_inv_def eventList_def)
  have "length (eventList ?m) = length (last_n maxRetainedEvents [1..<Suc (published steps)])"
    using ids by (metis length_map)
  then show ?thesis using ids rev by (simp add: Let_def)
qed

section \<open>The stream a subscriber sees\<close>

text \<open>Where the stream of subscriber \<open>i\<close> stands: \<open>got\<close> are the events it has received.\<close>

definition stream_ok :: "nat \<Rightarrow> nat \<Rightarrow> event list \<Rightarrow> event_log \<Rightarrow> bool" where
  "stream_ok i after got m \<longleftrightarrow>
     i \<le> el_nextSubscriberID m \<and> map_get (el_channels m) i \<noteq> None \<and>
     (\<exists>k. after \<le> k \<and> k \<le> el_nextEventID m \<and>
        map ev_EventID (got @ queue_of i m) = [Suc after..<Suc k] \<and>
        (i \<in> set (el_eventSubscribers m) \<longrightarrow> k = el_nextEventID m))"

definition alive_or_told :: "nat \<Rightarrow> event_log \<Rightarrow> bool" where
  "alive_or_told i m \<longleftrightarrow> i \<in> set (el_eventSubscribers m) \<or> resync_of i m \<noteq> []"

lemma publish_at:
  assumes inv: "log_inv m" and sub: "i \<in> set (el_eventSubscribers m)"
  shows "(i \<in> set (el_eventSubscribers (publishEvent clk t r c d m)) \<and>
           queue_of i (publishEvent clk t r c d m) = queue_of i m @ [published_event clk t r c d m] \<and>
           resync_of i (publishEvent clk t r c d m) = resync_of i m) \<or>
         (i \<notin> set (el_eventSubscribers (publishEvent clk t r c d m)) \<and>
           queue_of i (publishEvent clk t r c d m) = queue_of i m \<and>
           resync_of i (publishEvent clk t r c d m) \<noteq> [])"
proof -
  let ?e = "published_event clk t r c d m"
  obtain s where s: "map_get (el_channels m) i = Some s"
    using log_inv_registered [OF inv sub] by auto
  obtain xs ys where split: "el_eventSubscribers m = xs @ i # ys" and xy: "i \<notin> set xs" "i \<notin> set ys"
    using inv split_list [OF sub] by (auto simp: log_inv_def)
  let ?m1 = "fold (deliver_event clk ?e) xs (retained_log ?e m)"
  have at: "map_get (el_channels ?m1) i = Some s" "i \<in> set (el_eventSubscribers ?m1)"
    using deliver_all_other [OF xy(1), of clk ?e "retained_log ?e m"] s sub by simp_all
  have pub: "publishEvent clk t r c d m = fold (deliver_event clk ?e) ys (deliver_event clk ?e i ?m1)"
    by (simp add: publishEvent_split Let_def split)
  have rest: "queue_of i (publishEvent clk t r c d m) = queue_of i (deliver_event clk ?e i ?m1)"
    "resync_of i (publishEvent clk t r c d m) = resync_of i (deliver_event clk ?e i ?m1)"
    "i \<in> set (el_eventSubscribers (publishEvent clk t r c d m)) \<longleftrightarrow>
       i \<in> set (el_eventSubscribers (deliver_event clk ?e i ?m1))"
    using deliver_all_other [OF xy(2), of clk ?e "deliver_event clk ?e i ?m1"]
    by (simp_all add: pub queue_of_def resync_of_def)
  show ?thesis
    using deliver_same [OF at, of clk ?e] s
    unfolding rest by (auto simp: queue_of_def resync_of_def)
qed

lemma publish_away:
  assumes "i \<notin> set (el_eventSubscribers m)"
  shows "map_get (el_channels (publishEvent clk t r c d m)) i = map_get (el_channels m) i"
    and "i \<notin> set (el_eventSubscribers (publishEvent clk t r c d m))"
  using deliver_all_other [OF assms, of clk "published_event clk t r c d m"
      "retained_log (published_event clk t r c d m) m"] assms
  by (simp_all add: publishEvent_split Let_def)

lemma publish_dom:
  "map_get (el_channels m) i \<noteq> None \<Longrightarrow>
   map_get (el_channels (publishEvent clk t r c d m)) i \<noteq> None"
  unfolding publishEvent_split Let_def by (rule deliver_all_subs(1)) simp

lemma stream_publish:
  assumes inv: "log_inv m" and ok: "stream_ok i after got m"
  shows "stream_ok i after got (publishEvent clk t r c d m)"
proof (cases "i \<in> set (el_eventSubscribers m)")
  case True
  obtain k where "after \<le> k" "k \<le> el_nextEventID m"
    "map ev_EventID (got @ queue_of i m) = [Suc after..<Suc k]" "k = el_nextEventID m"
    using ok True by (auto simp: stream_ok_def)
  note k = this
  let ?m = "publishEvent clk t r c d m"
  have base: "i \<le> el_nextSubscriberID ?m" "map_get (el_channels ?m) i \<noteq> None"
    using ok publish_dom [of m i clk t r c d] by (simp_all add: stream_ok_def publishEvent_frame)
  show ?thesis
    using publish_at [OF inv True, of clk t r c d]
  proof
    assume "i \<in> set (el_eventSubscribers ?m) \<and>
      queue_of i ?m = queue_of i m @ [published_event clk t r c d m] \<and> resync_of i ?m = resync_of i m"
    with k base show ?thesis
      by (auto simp: stream_ok_def publishEvent_frame published_event_def intro!: exI [of _ "Suc k"])
  next
    assume "i \<notin> set (el_eventSubscribers ?m) \<and> queue_of i ?m = queue_of i m \<and> resync_of i ?m \<noteq> []"
    with k base show ?thesis
      by (auto simp: stream_ok_def publishEvent_frame simp del: upt_Suc intro!: exI [of _ k])
  qed
next
  case False
  have "queue_of i (publishEvent clk t r c d m) = queue_of i m"
    by (simp add: queue_of_def publish_away(1) [OF False])
  then show ?thesis
    using ok publish_away(2) [OF False, of clk t r c d] False
    unfolding stream_ok_def publishEvent_frame publish_away(1) [OF False]
    by (metis le_SucI)
qed

lemma unsubscribe_frame:
  "queue_of i (unsubscribeEvents j m) = queue_of i m"
  "resync_of i (unsubscribeEvents j m) = resync_of i m"
  "map_get (el_channels (unsubscribeEvents j m)) i = None \<longleftrightarrow> map_get (el_channels m) i = None"
  "i \<in> set (el_eventSubscribers (unsubscribeEvents j m)) \<longleftrightarrow> i \<in> set (el_eventSubscribers m) \<and> i \<noteq> j"
  "el_nextSubscriberID (unsubscribeEvents j m) = el_nextSubscriberID m"
  "el_nextEventID (unsubscribeEvents j m) = el_nextEventID m"
  by (auto simp: unsubscribeEvents_def queue_of_def resync_of_def gomap split: option.split)

lemma stream_exec:
  assumes inv: "log_inv m" and ok: "stream_ok i after got m"
  shows "stream_ok i after (got @ received i s m) (log_exec clk s m)"
proof (cases s)
  case (LogPublish t r c d)
  then show ?thesis using stream_publish [OF inv ok] by (simp add: received_def)
next
  case (LogSubscribe params)
  have "i \<noteq> Suc (el_nextSubscriberID m)" using ok by (auto simp: stream_ok_def)
  then have "map_get (el_channels (log_exec clk s m)) i = map_get (el_channels m) i"
    "i \<in> set (el_eventSubscribers (log_exec clk s m)) \<longleftrightarrow> i \<in> set (el_eventSubscribers m)"
    "el_nextSubscriberID m \<le> el_nextSubscriberID (log_exec clk s m)"
    "el_nextEventID (log_exec clk s m) = el_nextEventID m"
    using LogSubscribe
    by (simp_all add: subscribeEvents_def Let_def case_prod_beta gomap)
  then show ?thesis
    using ok LogSubscribe by (simp add: stream_ok_def received_def queue_of_def)
next
  case (LogUnsubscribe j)
  have "map_get (el_channels (log_exec clk s m)) i \<noteq> None"
    "queue_of i (log_exec clk s m) = queue_of i m"
    "i \<in> set (el_eventSubscribers (log_exec clk s m)) \<Longrightarrow> i \<in> set (el_eventSubscribers m)"
    "el_nextSubscriberID (log_exec clk s m) = el_nextSubscriberID m"
    "el_nextEventID (log_exec clk s m) = el_nextEventID m"
    using ok LogUnsubscribe by (simp_all add: stream_ok_def unsubscribe_frame)
  moreover have "received i s m = []" using LogUnsubscribe by (simp add: received_def)
  ultimately show ?thesis
    using ok unfolding stream_ok_def by (metis append_Nil2)
next
  case (LogReceive j)
  have "map_get (el_channels (log_exec clk s m)) i \<noteq> None"
    "received i s m @ queue_of i (log_exec clk s m) = queue_of i m"
    "el_eventSubscribers (log_exec clk s m) = el_eventSubscribers m"
    "el_nextSubscriberID (log_exec clk s m) = el_nextSubscriberID m"
    "el_nextEventID (log_exec clk s m) = el_nextEventID m"
    using ok LogReceive
    by (auto simp: receive_event_def stream_ok_def queue_of_def received_def gomap
        split: option.splits list.splits)
  then show ?thesis
    using ok by (simp add: stream_ok_def)
qed

lemma stream_run:
  assumes "log_inv m" and "stream_ok i after got m"
  shows "stream_ok i after (got @ received_run clk i ss m) (log_run clk ss m)"
  using assms
proof (induction ss arbitrary: m got)
  case (Cons s ss)
  show ?case
    using Cons.IH [OF log_inv_exec [OF Cons.prems(1)] stream_exec [OF Cons.prems]] by simp
qed simp

lemma told_exec:
  assumes inv: "log_inv m" and told: "alive_or_told i m" and "i \<le> el_nextSubscriberID m"
    and s: "s \<noteq> LogUnsubscribe i"
  shows "alive_or_told i (log_exec clk s m) \<and> i \<le> el_nextSubscriberID (log_exec clk s m)"
proof (cases s)
  case (LogPublish t r c d)
  then show ?thesis
    using told assms(3) publish_at [OF inv, of i clk t r c d] publish_away(1) [of i m clk t r c d]
    by (cases "i \<in> set (el_eventSubscribers m)")
      (auto simp: alive_or_told_def publishEvent_frame, simp add: resync_of_def)
next
  case (LogSubscribe params)
  then show ?thesis
    using told assms(3)
    by (auto simp: alive_or_told_def subscribeEvents_def Let_def case_prod_beta gomap resync_of_def)
next
  case (LogUnsubscribe j)
  then show ?thesis
    using told assms(3) s
    by (auto simp: alive_or_told_def unsubscribe_frame)
next
  case (LogReceive j)
  then show ?thesis
    using told assms(3)
    by (auto simp: alive_or_told_def receive_event_def gomap resync_of_def
        split: option.splits list.splits)
qed

lemma told_run:
  assumes "log_inv m" and "alive_or_told i m" and "i \<le> el_nextSubscriberID m"
    and "LogUnsubscribe i \<notin> set ss"
  shows "alive_or_told i (log_run clk ss m)"
  using assms
proof (induction ss arbitrary: m)
  case (Cons s ss)
  then show ?case
    using told_exec [OF Cons.prems(1-3), of s clk] by (auto simp: log_inv_exec)
qed simp

lemma last_n_upt: "last_n c [1..<Suc n] = [Suc (n - c)..<Suc n]"
  by (simp add: last_n_def drop_upt del: upt_Suc)

lemma filter_above_upt: "filter (\<lambda>i. a < i) [b..<c] = [max b (Suc a)..<c]"
  by (induction c) (auto simp: max_def not_less le_Suc_eq less_Suc_eq_le)

lemma replay_ids:
  assumes "log_inv m"
  shows "map ev_EventID (filter (\<lambda>e. ev_EventID e > a) (retainedEvents m)) =
     [max (Suc (el_nextEventID m - maxRetainedEvents)) (Suc a)..<Suc (el_nextEventID m)]"
proof -
  have "map ev_EventID (filter (\<lambda>e. ev_EventID e > a) (retainedEvents m)) =
      filter (\<lambda>i. a < i) (map ev_EventID (retainedEvents m))"
    by (simp add: filter_map o_def)
  also have "\<dots> = filter (\<lambda>i. a < i) [Suc (el_nextEventID m - maxRetainedEvents)..<Suc (el_nextEventID m)]"
    using assms by (simp only: log_inv_def last_n_upt)
  finally show ?thesis by (simp only: filter_above_upt)
qed

lemma oldest_retained:
  assumes "log_inv m" and "el_events m \<noteq> []"
  shows "ev_EventID (el_events m ! el_eventStart m) = Suc (el_nextEventID m - maxRetainedEvents)
     \<and> 0 < el_nextEventID m"
proof -
  have ids: "map ev_EventID (retainedEvents m) =
      [Suc (el_nextEventID m - maxRetainedEvents)..<Suc (el_nextEventID m)]"
    using assms(1) by (simp only: log_inv_def last_n_upt)
  have ne: "retainedEvents m \<noteq> []"
    using assms(2) length_retainedEvents [of m] by auto
  have "el_events m ! el_eventStart m = retainedEvents m ! 0"
    using assms by (simp add: retainedEvents_def log_inv_def ring_ok_def)
  then have "ev_EventID (el_events m ! el_eventStart m) = hd (map ev_EventID (retainedEvents m))"
    using ne by (simp add: hd_conv_nth)
  moreover have "Suc (el_nextEventID m - maxRetainedEvents) < Suc (el_nextEventID m)"
    using ne ids by (metis list.map_disc_iff upt_eq_Nil_conv not_le_imp_less)
  ultimately show ?thesis by (simp add: ids hd_upt del: upt_Suc)
qed

lemma empty_history:
  assumes "log_inv m" and "el_events m = []"
  shows "el_nextEventID m = 0"
proof -
  have "length (map ev_EventID (retainedEvents m)) = 0"
    using assms(2) by (simp add: retainedEvents_def)
  then show ?thesis
    using assms(1) maxRetainedEvents_pos
    by (simp only: log_inv_def last_n_upt) (simp del: upt_Suc)
qed

text \<open>The position a subscription starts from.\<close>

definition subscribe_after :: "events_subscribe_params \<Rightarrow> event_log \<Rightarrow> nat" where
  "subscribe_after params m =
     (case esp_AfterEventID params of None \<Rightarrow> el_nextEventID m | Some a \<Rightarrow> a)"

lemma subscribe_decision:
  assumes inv: "log_inv m"
  shows "es_ResyncNeeded (fst (subscribeEvents clk params m)) \<longleftrightarrow>
     esp_forceResync params \<or> el_nextEventID m < subscribe_after params m \<or>
     subscribe_after params m < el_nextEventID m - maxRetainedEvents"
  using oldest_retained [OF inv] empty_history [OF inv]
  by (auto simp: subscribeEvents_def Let_def case_prod_beta subscribe_after_def split: option.split)

lemma subscribe_stream:
  assumes inv: "log_inv m" and sub: "subscribeEvents clk params m = (sub, m')"
    and ok: "\<not> es_ResyncNeeded sub"
  shows "stream_ok (es_ID sub) (subscribe_after params m) (es_Replay sub) m'"
    and "es_ID sub \<in> set (el_eventSubscribers m')"
    and "subscribe_after params m \<le> el_nextEventID m"
proof -
  let ?a = "subscribe_after params m"
  have a: "?a \<le> el_nextEventID m" "el_nextEventID m - maxRetainedEvents \<le> ?a"
    using subscribe_decision [OF inv, of clk params] sub ok by auto
  have new: "es_ID sub = Suc (el_nextSubscriberID m)"
    "es_Replay sub = filter (\<lambda>e. ev_EventID e > ?a) (retainedEvents m)"
    "el_eventSubscribers m' = el_eventSubscribers m @ [es_ID sub]"
    "el_nextSubscriberID m' = es_ID sub" "el_nextEventID m' = el_nextEventID m"
    "map_get (el_channels m') (es_ID sub) = Some \<lparr>sub_events = [], sub_resync = [], sub_closed = False\<rparr>"
    using sub ok
    by (auto simp: subscribeEvents_def Let_def case_prod_beta gomap subscribe_after_def
        split: if_splits)
  then show "stream_ok (es_ID sub) ?a (es_Replay sub) m'" and "es_ID sub \<in> set (el_eventSubscribers m')"
    using replay_ids [OF inv, of ?a] a
    by (simp_all add: stream_ok_def queue_of_def max_def del: upt_Suc)
  show "?a \<le> el_nextEventID m" by (rule a)
qed

text \<open>
  C28: A subscriber sees every event exactly once and in order. Whatever the manager ran before
  the subscription and runs after it, the events replayed, received and still buffered are
  numbered consecutively from the position the client asked for; while the subscriber is
  registered they reach the last event published, and a subscriber that was dropped and not
  unsubscribed has a resync request waiting.
\<close>

theorem subscriber_stream_gapless:
  assumes "subscribeEvents clk params (log_run clk before new_event_log) = (sub, m)"
    and "\<not> es_ResyncNeeded sub"
  shows "let a = subscribe_after params (log_run clk before new_event_log); i = es_ID sub;
             m' = log_run clk steps m
         in \<exists>k \<le> el_nextEventID m'.
              map ev_EventID (es_Replay sub @ received_run clk i steps m @ queue_of i m') =
                [Suc a..<Suc k] \<and>
              (i \<in> set (el_eventSubscribers m') \<longrightarrow> k = el_nextEventID m') \<and>
              (i \<notin> set (el_eventSubscribers m') \<and> LogUnsubscribe i \<notin> set steps \<longrightarrow>
                 resync_of i m' \<noteq> [])"
proof -
  have inv: "log_inv (log_run clk before new_event_log)" by (rule log_inv_run [OF log_inv_new])
  have inv': "log_inv m"
    using log_inv_subscribe [OF inv, of clk params] assms(1) by simp
  note start = subscribe_stream [OF inv assms]
  have "stream_ok (es_ID sub) (subscribe_after params (log_run clk before new_event_log))
      (es_Replay sub @ received_run clk (es_ID sub) steps m) (log_run clk steps m)"
    by (rule stream_run [OF inv' start(1)])
  moreover have "LogUnsubscribe (es_ID sub) \<notin> set steps \<Longrightarrow>
      alive_or_told (es_ID sub) (log_run clk steps m)"
    by (rule told_run [OF inv']) (use start log_inv_registered [OF inv' start(2)] in
      \<open>simp_all add: alive_or_told_def\<close>)
  ultimately show ?thesis
    by (auto simp: stream_ok_def alive_or_told_def Let_def simp del: upt_Suc)
qed

definition sample_publish :: log_step where
  "sample_publish = LogPublish EventDeviceAdded \<lparr>ref_Kind = ResourceDevice, ref_ID = ''kbd''\<rparr>
     ReasonDeviceConnected []"

definition sample_params :: events_subscribe_params where
  "sample_params = \<lparr>esp_AfterEventID = Some 1, esp_AfterServerID = '''', esp_forceResync = False\<rparr>"

definition sample_log :: event_log where
  "sample_log = log_run int [sample_publish, sample_publish] new_event_log"

theorem subscriber_stream_gapless_witness:
  "let sub = fst (subscribeEvents int sample_params sample_log);
       m = snd (subscribeEvents int sample_params sample_log)
   in es_ID sub = 1 \<and>
     (\<exists>k. map ev_EventID (es_Replay sub @ received_run int 1 [sample_publish, LogReceive 1] m
            @ queue_of 1 (log_run int [sample_publish, LogReceive 1] m)) = [2..<Suc k])"
proof -
  let ?r = "subscribeEvents int sample_params sample_log"
  have id: "es_ID (fst ?r) = 1" and ok: "\<not> es_ResyncNeeded (fst ?r)"
    and after: "subscribe_after sample_params sample_log = 1"
    by code_simp+
  from subscriber_stream_gapless [of int sample_params "[sample_publish, sample_publish]" "fst ?r"
      "snd ?r" "[sample_publish, LogReceive 1]", folded sample_log_def]
  show ?thesis using id ok after
    by (auto simp: Let_def numeral_2_eq_2 simp del: upt_Suc)
qed

text \<open>
  C30: A subscription is refused with a resync request exactly when it asks for one, when the
  client claims to have seen an event that was never published, or when an event after its
  position is no longer retained.
\<close>

theorem subscribe_resync_exactly_when_lost:
  "let m = log_run clk steps new_event_log; a = subscribe_after params m; n = published steps
   in es_ResyncNeeded (fst (subscribeEvents clk params m)) \<longleftrightarrow>
        esp_forceResync params \<or> n < a \<or> a < n - maxRetainedEvents"
proof -
  have "el_nextEventID (log_run clk steps new_event_log) = published steps"
    by (simp add: log_run_published) (simp add: new_event_log_def)
  then show ?thesis
    using subscribe_decision [OF log_inv_run [OF log_inv_new], of clk params clk steps]
    by (simp add: Let_def)
qed

section \<open>State changes\<close>

lemma publish_revision:
  "el_stateRevision (publishEvent clk t r c d m) = el_stateRevision m + 1"
  by (simp add: publishEvent_frame)

lemma publishOperationChange_revision:
  "el_stateRevision m < el_stateRevision (publishOperationChange clk operation m)"
  by (cases "op_State operation") (simp_all add: publishOperationChange_def Let_def publish_revision)

lemma fold_counts:
  fixes rev :: "'m \<Rightarrow> nat"
  assumes keep: "\<And>x m. \<not> changed x \<Longrightarrow> f x m = m"
    and grow: "\<And>x m. changed x \<Longrightarrow> rev m < rev (f x m)"
  shows "rev m \<le> rev (fold f xs m) \<and>
    ((\<forall>x \<in> set xs. \<not> changed x) \<longrightarrow> fold f xs m = m) \<and>
    ((\<exists>x \<in> set xs. changed x) \<longrightarrow> rev m < rev (fold f xs m))"
proof (induction xs arbitrary: m)
  case (Cons x xs)
  show ?case
    using Cons [of "f x m"] keep [of x m] grow [of x m]
    by (cases "changed x") (auto intro: less_le_trans)
qed simp

text \<open>What a client can tell from the two states: nothing disappeared that is reported as
  removed, nothing changed that is reported as changed.\<close>

definition publicly_equal :: "public_state \<Rightarrow> public_state \<Rightarrow> bool" where
  "publicly_equal before after \<longleftrightarrow>
     (\<forall>(k, d) \<in> set (ps_devices after). map_get (ps_devices before) k = Some d) \<and>
     (\<forall>(k, c) \<in> set (ps_configurations after).
        case map_get (ps_configurations before) k of None \<Rightarrow> False
        | Some p \<Rightarrow> \<not> configuration_changed p c \<and> conf_Runtime p = conf_Runtime c) \<and>
     (\<forall>(k, c) \<in> set (ps_configurations before). map_get (ps_configurations after) k \<noteq> None) \<and>
     (\<forall>(k, o1) \<in> set (ps_operations after). map_get (ps_operations before) k = Some o1) \<and>
     (\<forall>(k, d) \<in> set (ps_diagnostics after). map_get (ps_diagnostics before) k = Some d) \<and>
     (\<forall>(k, d) \<in> set (ps_diagnostics before). map_get (ps_diagnostics after) k \<noteq> None)"

definition pass_ok :: "bool \<Rightarrow> event_log \<Rightarrow> event_log \<Rightarrow> bool" where
  "pass_ok same m m' \<longleftrightarrow> el_stateRevision m \<le> el_stateRevision m' \<and> (same \<longrightarrow> m' = m) \<and>
     (\<not> same \<longrightarrow> el_stateRevision m < el_stateRevision m')"

lemma pass_ok_fold:
  assumes "\<And>x m. same x \<Longrightarrow> f x m = m"
    and "\<And>x m. \<not> same x \<Longrightarrow> el_stateRevision m < el_stateRevision (f x m)"
  shows "pass_ok (\<forall>x \<in> set xs. same x) m (fold f xs m)"
  using fold_counts [of "\<lambda>x. \<not> same x" f el_stateRevision m xs] assms
  by (auto simp: pass_ok_def)

lemma pass_ok_trans:
  "pass_ok a m1 m2 \<Longrightarrow> pass_ok b m2 m3 \<Longrightarrow> pass_ok (a \<and> b) m1 m3"
  by (auto simp: pass_ok_def)

text \<open>
  A pass that compares the state before and after a change is silent exactly when nothing
  public changed: then the log is left as it was, and otherwise the state revision grows.
\<close>

theorem state_changes_published_exactly:
  "let m' = publishStateChangesBetween clk before after m
   in (if publicly_equal before after then m' = m
       else el_stateRevision m < el_stateRevision m')"
proof -
  let ?m1 = "fold (publish_device_change clk before) (ps_devices after) m"
  let ?m2 = "fold (publish_configuration_change clk before) (ps_configurations after) ?m1"
  let ?m3 = "fold (publish_configuration_removal clk after) (ps_configurations before) ?m2"
  let ?m4 = "fold (publish_operation_entry clk before) (ps_operations after) ?m3"
  let ?m5 = "fold (publish_diagnostic_change clk before) (ps_diagnostics after) ?m4"
  have p1: "pass_ok (\<forall>(k, d) \<in> set (ps_devices after). map_get (ps_devices before) k = Some d) m ?m1"
    by (rule pass_ok_fold)
      (auto simp: publish_device_change_def Let_def publish_revision split: option.splits)
  have p2: "pass_ok (\<forall>(k, c) \<in> set (ps_configurations after).
        case map_get (ps_configurations before) k of None \<Rightarrow> False
        | Some p \<Rightarrow> \<not> configuration_changed p c \<and> conf_Runtime p = conf_Runtime c) ?m1 ?m2"
    by (rule pass_ok_fold)
      (auto simp: publish_configuration_change_def Let_def publish_revision
        split: option.splits if_splits)
  have p3: "pass_ok (\<forall>(k, c) \<in> set (ps_configurations before).
      map_get (ps_configurations after) k \<noteq> None) ?m2 ?m3"
    by (rule pass_ok_fold) (auto simp: publish_configuration_removal_def publish_revision)
  have p4: "pass_ok (\<forall>(k, o1) \<in> set (ps_operations after). map_get (ps_operations before) k = Some o1) ?m3 ?m4"
    by (rule pass_ok_fold) (auto simp: publish_operation_entry_def publishOperationChange_revision)
  have p5: "pass_ok (\<forall>(k, d) \<in> set (ps_diagnostics after). map_get (ps_diagnostics before) k = Some d) ?m4 ?m5"
    by (rule pass_ok_fold) (auto simp: publish_diagnostic_change_def publish_revision)
  have p6: "pass_ok (\<forall>(k, d) \<in> set (ps_diagnostics before). map_get (ps_diagnostics after) k \<noteq> None)
      ?m5 (publishStateChangesBetween clk before after m)"
    unfolding publishStateChangesBetween_def Let_def
    by (rule pass_ok_fold) (auto simp: publish_diagnostic_removal_def publish_revision)
  have "pass_ok (publicly_equal before after) m (publishStateChangesBetween clk before after m)"
    using pass_ok_trans [OF pass_ok_trans [OF pass_ok_trans [OF pass_ok_trans
            [OF pass_ok_trans [OF p1 p2] p3] p4] p5] p6]
    by (simp add: publicly_equal_def conj_assoc)
  then show ?thesis by (simp add: pass_ok_def Let_def)
qed

end
