(* ===== verification/KDM_GoStrings.thy ===== *)
theory KDM_GoStrings
  imports KDM_Prelude "HOL-Library.Sublist"
begin

text \<open>
  What the program uses of Go's \<^verbatim>\<open>strings\<close>, \<^verbatim>\<open>bytes\<close>, \<^verbatim>\<open>unicode/utf8\<close> and
  \<^verbatim>\<open>strconv\<close> packages, on byte strings: UTF-8 decoding and encoding of one rune (invalid
  bytes decode to the replacement character, one byte at a time), \<^verbatim>\<open>TrimSpace\<close>,
  \<^verbatim>\<open>Index\<close>, \<^verbatim>\<open>Split\<close>, \<^verbatim>\<open>ReplaceAll\<close> and decimal numbers.
\<close>

abbreviation byte :: "char \<Rightarrow> nat" where "byte c \<equiv> of_char c"
abbreviation chr :: "nat \<Rightarrow> char" where "chr n \<equiv> char_of n"

section \<open>UTF-8\<close>

definition runeError :: nat where "runeError = 0xFFFD"

definition valid_rune :: "nat \<Rightarrow> bool" where
  "valid_rune r \<longleftrightarrow> r < 0xD800 \<or> (0xDFFF < r \<and> r \<le> 0x10FFFF)"

definition continuation :: "char \<Rightarrow> bool" where
  "continuation c \<longleftrightarrow> 0x80 \<le> byte c \<and> byte c \<le> 0xBF"

text \<open>\<^verbatim>\<open>utf8.DecodeRune\<close>: the rune and the number of bytes it takes.\<close>

definition decode2 :: "nat \<Rightarrow> string \<Rightarrow> nat \<times> nat" where
  "decode2 b rest =
     (case rest of c1 # _ \<Rightarrow> if continuation c1
        then ((b - 0xC0) * 64 + (byte c1 - 0x80), 2) else (runeError, 1)
      | [] \<Rightarrow> (runeError, 1))"

definition decode3 :: "nat \<Rightarrow> string \<Rightarrow> nat \<times> nat" where
  "decode3 b rest =
     (case rest of c1 # c2 # _ \<Rightarrow>
        if (if b = 0xE0 then 0xA0 else 0x80) \<le> byte c1
           \<and> byte c1 \<le> (if b = 0xED then 0x9F else 0xBF) \<and> continuation c2
        then ((b - 0xE0) * 4096 + (byte c1 - 0x80) * 64 + (byte c2 - 0x80), 3)
        else (runeError, 1)
      | _ \<Rightarrow> (runeError, 1))"

definition decode4 :: "nat \<Rightarrow> string \<Rightarrow> nat \<times> nat" where
  "decode4 b rest =
     (case rest of c1 # c2 # c3 # _ \<Rightarrow>
        if (if b = 0xF0 then 0x90 else 0x80) \<le> byte c1
           \<and> byte c1 \<le> (if b = 0xF4 then 0x8F else 0xBF) \<and> continuation c2 \<and> continuation c3
        then ((b - 0xF0) * 262144 + (byte c1 - 0x80) * 4096 + (byte c2 - 0x80) * 64
               + (byte c3 - 0x80), 4)
        else (runeError, 1)
      | _ \<Rightarrow> (runeError, 1))"

fun decodeRune :: "string \<Rightarrow> nat \<times> nat" where
  "decodeRune [] = (runeError, 0)"
| "decodeRune (c # rest) =
     (let b = byte c
      in if b < 0x80 then (b, 1)
         else if 0xC2 \<le> b \<and> b \<le> 0xDF then decode2 b rest
         else if 0xE0 \<le> b \<and> b \<le> 0xEF then decode3 b rest
         else if 0xF0 \<le> b \<and> b \<le> 0xF4 then decode4 b rest
         else (runeError, 1))"

definition encodeRune :: "nat \<Rightarrow> string" where
  "encodeRune r =
     (if r < 0x80 then [chr r]
      else if r < 0x800 then [chr (0xC0 + r div 64), chr (0x80 + r mod 64)]
      else if \<not> valid_rune r then [chr 0xEF, chr 0xBF, chr 0xBD]
      else if r < 0x10000
      then [chr (0xE0 + r div 4096), chr (0x80 + r div 64 mod 64), chr (0x80 + r mod 64)]
      else [chr (0xF0 + r div 262144), chr (0x80 + r div 4096 mod 64),
            chr (0x80 + r div 64 mod 64), chr (0x80 + r mod 64)])"

lemma decodeRune_size: "s \<noteq> [] \<Longrightarrow> 0 < snd (decodeRune s) \<and> snd (decodeRune s) \<le> length s"
  by (cases s)
    (auto simp: Let_def decode2_def decode3_def decode4_def split: list.split)

lemma byte_chr: "n < 256 \<Longrightarrow> byte (chr n) = n"
  by (simp add: of_char_of)

lemma base64_digits:
  fixes r :: nat
  obtains d0 d1 d2 d3 where "r mod 64 = d0" "r div 64 mod 64 = d1" "r div 4096 mod 64 = d2"
    "r div 262144 = d3" "r div 4096 = d3 * 64 + d2" "r div 64 = d3 * 4096 + d2 * 64 + d1"
    "r = d3 * 262144 + d2 * 4096 + d1 * 64 + d0" "d0 < 64" "d1 < 64" "d2 < 64"
proof
  have e: "r div 4096 = r div 64 div 64" "r div 262144 = r div 4096 div 64"
    using div_mult2_eq [of r 64 64] div_mult2_eq [of r 4096 64] by simp_all
  have "r div 4096 = r div 262144 * 64 + r div 4096 mod 64"
    unfolding e(2) by (metis div_mult_mod_eq)
  moreover have "r div 64 = r div 4096 * 64 + r div 64 mod 64"
    unfolding e(1) by (metis div_mult_mod_eq)
  moreover have "r = r div 64 * 64 + r mod 64" by (metis div_mult_mod_eq)
  ultimately show "r div 4096 = r div 262144 * 64 + r div 4096 mod 64"
    "r div 64 = r div 262144 * 4096 + r div 4096 mod 64 * 64 + r div 64 mod 64"
    "r = r div 262144 * 262144 + r div 4096 mod 64 * 4096 + r div 64 mod 64 * 64 + r mod 64"
    by linarith+
qed simp_all

lemma div_bounds:
  fixes r :: nat
  shows "r < 0x800 \<Longrightarrow> r div 64 < 0x20"
    and "r < 0x10000 \<Longrightarrow> r div 4096 < 0x10"
    and "r \<le> 0x10FFFF \<Longrightarrow> r div 262144 \<le> 4"
  by (auto simp: div_less_iff_less_mult less_Suc_eq_le [symmetric, of "r div 262144" 4])

lemma continuation_chr: "d < 64 \<Longrightarrow> continuation (chr (0x80 + d))"
  by (simp add: continuation_def byte_chr)

lemma decode2_encode:
  assumes "0x80 \<le> r" "r < 0x800"
  shows "decodeRune (encodeRune r @ rest) = (r, 2)"
proof -
  obtain d0 d1 d2 d3 where d: "r mod 64 = d0" "r div 64 = d3 * 4096 + d2 * 64 + d1"
    "r = d3 * 262144 + d2 * 4096 + d1 * 64 + d0" "d0 < 64" "d1 < 64" "d2 < 64"
    using base64_digits by metis
  have z0: "d3 = 0" "d2 = 0" using assms d by linarith+
  have z: "2 \<le> d1" "d1 < 32" using assms d(3,4) unfolding z0 by linarith+
  note z = z z0
  have b: "byte (chr (0xC0 + d1)) = 0xC0 + d1" "byte (chr (0x80 + d0)) = 0x80 + d0"
    using z d by (simp_all add: byte_chr)
  have e: "encodeRune r = [chr (0xC0 + d1), chr (0x80 + d0)]"
    using assms d z by (simp add: encodeRune_def)
  show ?thesis
    unfolding e using b z d continuation_chr [of d0] by (simp add: decode2_def Let_def)
qed

lemma decode3_encode:
  assumes "0x800 \<le> r" "r < 0x10000" "valid_rune r"
  shows "decodeRune (encodeRune r @ rest) = (r, 3)"
proof -
  obtain d0 d1 d2 d3 where d: "r mod 64 = d0" "r div 64 mod 64 = d1" "r div 4096 = d3 * 64 + d2"
    "r = d3 * 262144 + d2 * 4096 + d1 * 64 + d0" "d0 < 64" "d1 < 64" "d2 < 64"
    using base64_digits by metis
  have z: "d3 = 0" "d2 < 16" using assms d by linarith+
  have low: "d2 = 0 \<Longrightarrow> 0x20 \<le> d1" using assms(1) d z by linarith
  have sur: "d2 = 0xD \<Longrightarrow> d1 \<le> 0x1F"
    using assms(3) d z unfolding valid_rune_def by linarith
  have b: "byte (chr (0xE0 + d2)) = 0xE0 + d2" "byte (chr (0x80 + d1)) = 0x80 + d1"
    "byte (chr (0x80 + d0)) = 0x80 + d0"
    using z d by (simp_all add: byte_chr)
  have e: "encodeRune r = [chr (0xE0 + d2), chr (0x80 + d1), chr (0x80 + d0)]"
    using assms d(1-3) z by (simp add: encodeRune_def)
  show ?thesis
    unfolding e using b z d low sur continuation_chr [of d0] by (simp add: decode3_def Let_def)
qed

lemma decode4_encode:
  assumes "0x10000 \<le> r" "valid_rune r"
  shows "decodeRune (encodeRune r @ rest) = (r, 4)"
proof -
  obtain d0 d1 d2 d3 where d: "r mod 64 = d0" "r div 64 mod 64 = d1" "r div 4096 mod 64 = d2"
    "r div 262144 = d3" "r = d3 * 262144 + d2 * 4096 + d1 * 64 + d0" "d0 < 64" "d1 < 64" "d2 < 64"
    using base64_digits by metis
  have le: "r \<le> 0x10FFFF" using assms by (auto simp: valid_rune_def)
  have z: "d3 \<le> 4" using le d by linarith
  have low: "d3 = 0 \<Longrightarrow> 0x10 \<le> d2" using assms(1) d z by linarith
  have high: "d3 = 4 \<Longrightarrow> d2 \<le> 0xF" using le d z by linarith
  have b: "byte (chr (0xF0 + d3)) = 0xF0 + d3" "byte (chr (0x80 + d2)) = 0x80 + d2"
    "byte (chr (0x80 + d1)) = 0x80 + d1" "byte (chr (0x80 + d0)) = 0x80 + d0"
    using z d by (simp_all add: byte_chr)
  have e: "encodeRune r = [chr (0xF0 + d3), chr (0x80 + d2), chr (0x80 + d1), chr (0x80 + d0)]"
    using assms d(1-4) by (simp add: encodeRune_def)
  show ?thesis
    unfolding e using b z d low high continuation_chr [of d0] continuation_chr [of d1]
    by (simp add: decode4_def Let_def)
qed

lemma decode_encode:
  "valid_rune r \<Longrightarrow> decodeRune (encodeRune r @ rest) = (r, length (encodeRune r))"
proof -
  assume v: "valid_rune r"
  consider "r < 0x80" | "0x80 \<le> r" "r < 0x800" | "0x800 \<le> r" "r < 0x10000" | "0x10000 \<le> r"
    by linarith
  then show ?thesis
  proof cases
    case 1
    then show ?thesis by (simp add: encodeRune_def byte_chr Let_def)
  next
    case 2
    then show ?thesis using decode2_encode [of r rest] by (simp add: encodeRune_def)
  next
    case 3
    then show ?thesis using decode3_encode [OF 3 v, of rest] v by (simp add: encodeRune_def)
  next
    case 4
    then show ?thesis using decode4_encode [OF 4 v, of rest] v by (simp add: encodeRune_def)
  qed
qed

text \<open>The runes of a string, with the bytes of each.\<close>

function runes :: "string \<Rightarrow> (nat \<times> string) list" where
  "runes s = (if s = [] then []
     else (fst (decodeRune s), take (snd (decodeRune s)) s) # runes (drop (snd (decodeRune s)) s))"
  by auto
termination
  by (relation "measure length") (use decodeRune_size in \<open>auto\<close>)

declare runes.simps [simp del]

lemma runes_concat: "concat (map snd (runes s)) = s"
proof (induction s rule: runes.induct)
  case (1 s)
  then show ?case by (subst runes.simps) simp
qed

section \<open>Spaces\<close>

definition unicode_space :: "nat \<Rightarrow> bool" where
  "unicode_space r =
     (if r < 0x80 then r = 32 \<or> (9 \<le> r \<and> r \<le> 13)
      else r = 0x85 \<or> r = 0xA0 \<or> r = 0x1680 \<or> (0x2000 \<le> r \<and> r \<le> 0x200A) \<or> r = 0x2028
        \<or> r = 0x2029 \<or> r = 0x202F \<or> r = 0x205F \<or> r = 0x3000)"

text \<open>\<^verbatim>\<open>strings.TrimSpace\<close>.\<close>

definition trimSpace :: "string \<Rightarrow> string" where
  "trimSpace s =
     concat (map snd (rev (dropWhile (\<lambda>p. unicode_space (fst p))
       (rev (dropWhile (\<lambda>p. unicode_space (fst p)) (runes s))))))"

section \<open>Searching and splitting\<close>

definition hasPrefix :: "string \<Rightarrow> string \<Rightarrow> bool" where
  "hasPrefix s p \<longleftrightarrow> take (length p) s = p"

definition hasSuffix :: "string \<Rightarrow> string \<Rightarrow> bool" where
  "hasSuffix s p \<longleftrightarrow> length p \<le> length s \<and> drop (length s - length p) s = p"

text \<open>\<^verbatim>\<open>strings.Index\<close>; \<open>None\<close> is \<open>-1\<close>.\<close>

fun index_of :: "string \<Rightarrow> string \<Rightarrow> nat option" where
  "index_of s p = (if hasPrefix s p then Some 0
     else case s of [] \<Rightarrow> None | _ # t \<Rightarrow> map_option Suc (index_of t p))"

declare index_of.simps [simp del]

definition contains :: "string \<Rightarrow> string \<Rightarrow> bool" where
  "contains s p \<longleftrightarrow> index_of s p \<noteq> None"

text \<open>\<^verbatim>\<open>strings.Split\<close> on one byte.\<close>

fun split_on :: "char \<Rightarrow> string \<Rightarrow> string list" where
  "split_on c [] = [[]]"
| "split_on c (x # xs) =
     (if x = c then [] # split_on c xs
      else case split_on c xs of [] \<Rightarrow> [[x]] | w # ws \<Rightarrow> (x # w) # ws)"

fun join_with :: "string \<Rightarrow> string list \<Rightarrow> string" where
  "join_with sep [] = []"
| "join_with sep [w] = w"
| "join_with sep (w # v # ws) = w @ sep @ join_with sep (v # ws)"

lemma split_on_ne [simp]: "split_on c s \<noteq> []"
  by (induction s) (auto split: list.split)

lemma join_split: "join_with [c] (split_on c s) = s"
proof (induction s)
  case (Cons x xs)
  obtain w ws where w: "split_on c xs = w # ws" by (cases "split_on c xs") auto
  then show ?case using Cons by (cases ws) auto
qed simp

lemma split_no_sep: "c \<notin> set s \<Longrightarrow> split_on c s = [s]"
  by (induction s) auto

lemma split_on_append: "c \<notin> set s \<Longrightarrow> split_on c (s @ c # t) = s # split_on c t"
  by (induction s) auto

section \<open>Numbers\<close>

fun digits :: "nat \<Rightarrow> string" where
  "digits n = (if n < 10 then [chr (48 + n)] else digits (n div 10) @ [chr (48 + n mod 10)])"

declare digits.simps [simp del]

definition digit_value :: "char \<Rightarrow> nat option" where
  "digit_value c = (if 48 \<le> byte c \<and> byte c \<le> 57 then Some (byte c - 48) else None)"

fun parse_digits :: "nat \<Rightarrow> string \<Rightarrow> nat option" where
  "parse_digits acc [] = Some acc"
| "parse_digits acc (c # cs) =
     (case digit_value c of None \<Rightarrow> None | Some d \<Rightarrow> parse_digits (acc * 10 + d) cs)"

lemma digit_value_chr: "d < 10 \<Longrightarrow> digit_value (chr (48 + d)) = Some d"
  by (simp add: digit_value_def byte_chr)

lemma parse_digits_append:
  "parse_digits a (xs @ ys) =
     (case parse_digits a xs of None \<Rightarrow> None | Some b \<Rightarrow> parse_digits b ys)"
  by (induction xs arbitrary: a) (auto split: option.split)

lemma parse_digits_digits: "parse_digits 0 (digits n) = Some n"
proof (induction n rule: digits.induct)
  case (1 n)
  then show ?case
    by (subst digits.simps) (auto simp: digit_value_chr parse_digits_append)
qed

lemma digits_ne [simp]: "digits n \<noteq> []"
  by (subst digits.simps) simp

text \<open>\<^verbatim>\<open>strconv.Atoi\<close> and \<^verbatim>\<open>strconv.ParseInt(s, 10, 64)\<close> on a 64-bit platform.\<close>

definition atoi :: "string \<Rightarrow> int option" where
  "atoi s =
     (let negative = (s \<noteq> [] \<and> hd s = CHR ''-'');
          body = (if s \<noteq> [] \<and> (hd s = CHR ''-'' \<or> hd s = CHR ''+'') then tl s else s)
      in if body = [] then None
         else case parse_digits 0 body of
             None \<Rightarrow> None
           | Some n \<Rightarrow>
               let v = (if negative then - int n else int n)
               in if - (2 ^ 63) \<le> v \<and> v < 2 ^ 63 then Some v else None)"

text \<open>\<^verbatim>\<open>strings.Fields\<close>: the maximal runs of runes that are not spaces.\<close>

fun fields_of :: "string \<Rightarrow> (nat \<times> string) list \<Rightarrow> string list" where
  "fields_of current [] = (if current = [] then [] else [current])"
| "fields_of current (u # us) =
     (if unicode_space (fst u)
      then (if current = [] then fields_of [] us else current # fields_of [] us)
      else fields_of (current @ snd u) us)"

definition string_fields :: "string \<Rightarrow> string list" where
  "string_fields s = fields_of [] (runes s)"

lemma runes_ascii: "\<forall>c \<in> set s. byte c < 0x80 \<Longrightarrow> runes s = map (\<lambda>c. (byte c, [c])) s"
proof (induction s)
  case Nil
  show ?case by (subst runes.simps) simp
next
  case (Cons c s)
  then show ?case by (subst runes.simps) (simp add: Let_def)
qed

lemma fields_of_word:
  "\<forall>c \<in> set w. byte c < 0x80 \<and> \<not> unicode_space (byte c) \<Longrightarrow>
   fields_of current (map (\<lambda>c. (byte c, [c])) (w @ s)) =
     fields_of (current @ w) (map (\<lambda>c. (byte c, [c])) s)"
  by (induction w arbitrary: current) simp_all

lemma set_join: "set (join_with sep ws) \<subseteq> set sep \<union> (\<Union>w \<in> set ws. set w)"
  by (induction ws rule: induct_list012) auto

lemma fields_join:
  assumes "\<forall>w \<in> set ws. w \<noteq> [] \<and> (\<forall>c \<in> set w. byte c < 0x80 \<and> \<not> unicode_space (byte c))"
  shows "string_fields (join_with [CHR 0x20] ws) = ws"
proof -
  have asc: "\<forall>c \<in> set (join_with [CHR 0x20] ws). byte c < 0x80"
    using assms set_join [of "[CHR 0x20]" ws] by fastforce
  have "fields_of [] (map (\<lambda>c. (byte c, [c])) (join_with [CHR 0x20] ws)) = ws"
    using assms
  proof (induction ws rule: induct_list012)
    case (2 w)
    then show ?case using fields_of_word [of w "[]" "[]"] by simp
  next
    case (3 w v ws)
    have sp: "unicode_space 32" by (simp add: unicode_space_def)
    have rest: "fields_of [] (map (\<lambda>c. (byte c, [c])) (join_with [CHR 0x20] (v # ws))) = v # ws"
      using 3 by simp
    have "fields_of [] (map (\<lambda>c. (byte c, [c])) (w @ CHR 0x20 # join_with [CHR 0x20] (v # ws))) =
        fields_of w (map (\<lambda>c. (byte c, [c])) (CHR 0x20 # join_with [CHR 0x20] (v # ws)))"
      by (subst fields_of_word) (use 3(3) in auto)
    also have "\<dots> = w # v # ws"
      using sp rest 3(3) by simp
    finally show ?case by simp
  qed simp
  then show ?thesis using runes_ascii [OF asc] by (simp add: string_fields_def)
qed

end
