(* ===== verification/KDM_Journal.thy ===== *)
theory KDM_Journal
  imports KDM_Domain KDM_GoStrings
begin

text \<open>
  The durable journal of keyed mutations (\<^verbatim>\<open>manager/idempotency.go\<close>) and the bounded table of
  operations (\<^verbatim>\<open>pruneOperations\<close> of \<^verbatim>\<open>identify.go\<close>, \<^verbatim>\<open>operationList\<close> of
  \<^verbatim>\<open>snapshot.go\<close>).

  The file \<^verbatim>\<open>idempotency.json\<close> is \<open>j_disk\<close>: the records it decodes to, or \<open>None\<close> when
  there is no file. A write is atomic (\<^verbatim>\<open>writeAtomicFile\<close> renames a complete file into
  place), and its outcome is an argument: it succeeds, fails before the rename, or fails in
  the directory sync after it. Clock readings and random operation IDs are arguments, and so
  are the hash and the JSON decoder of the request's identity.
\<close>

definition maxIdempotencyKeyBytes :: nat where "maxIdempotencyKeyBytes = 128"
definition maxIdempotencyRecords :: nat where "maxIdempotencyRecords = 128"
definition maxRetainedOperations :: nat where "maxRetainedOperations = 128"
definition idempotencyStoreVersion :: int where "idempotencyStoreVersion = 1"

definition isIdempotentMutationMethod :: "string \<Rightarrow> bool" where
  "isIdempotentMutationMethod meth \<longleftrightarrow>
     meth \<in> {''configuration.apply'', ''configuration.create'', ''configuration.update'',
       ''configuration.adopt'', ''configuration.set_enabled'', ''configuration.delete''}"

record idempotency_record =
  ir_Fingerprint :: string
  ir_Operation :: operation
  ir_Error :: "api_error option"
  ir_Finished :: bool

type_synonym idempotency_records = "(string, idempotency_record) gomap"

record journal =
  j_path :: string
  j_records :: idempotency_records
  j_operations :: "(string, operation) gomap"
  j_disk :: "idempotency_records option"

datatype write_outcome = WriteOk | WriteFailed | WriteUnsynced

section \<open>Identity of a request\<close>

definition idempotencyIdentity ::
  "(string \<Rightarrow> string option) \<Rightarrow> (string \<Rightarrow> string) \<Rightarrow>
   string \<Rightarrow> string \<Rightarrow> string \<Rightarrow> api_error + (string \<times> string)" where
  "idempotencyIdentity canonical_json sha256hex meth idempotencyKey params =
     (if length idempotencyKey = 0 \<or> length idempotencyKey > maxIdempotencyKeyBytes
         \<or> trimSpace idempotencyKey = []
      then Inl (api_err ''invalid_request''
             ''a non-empty idempotency_key of at most 128 bytes is required'')
      else case canonical_json params of
          None \<Rightarrow> Inl (api_err ''invalid_request'' ''invalid mutation parameters'')
        | Some canonical \<Rightarrow>
            Inr (sha256hex idempotencyKey,
                 sha256hex (meth @ [CHR 0x00] @ canonical)))"

section \<open>The journal's operations\<close>

definition persistIdempotencyRecords ::
  "write_outcome \<Rightarrow> idempotency_records \<Rightarrow> journal \<Rightarrow> bool \<times> journal" where
  "persistIdempotencyRecords write records m =
     (if j_path m = [] then (False, m)
      else case write of
          WriteOk \<Rightarrow> (True, m\<lparr>j_disk := Some records\<rparr>)
        | WriteFailed \<Rightarrow> (False, m)
        | WriteUnsynced \<Rightarrow> (False, m\<lparr>j_disk := Some records\<rparr>))"

definition recovered_record :: "time \<Rightarrow> idempotency_record \<Rightarrow> idempotency_record" where
  "recovered_record now r =
     (if ir_Finished r then r
      else r\<lparr>ir_Operation := (ir_Operation r)\<lparr>op_State := OperationFailed,
               op_ReasonCode := ReasonInternal,
               op_Reason := ''manager restarted before mutation outcome was durably recorded; inspect the configuration snapshot'',
               op_UpdatedAt := now\<rparr>,
             ir_Finished := True\<rparr>)"

definition valid_journal_entry :: "string \<times> idempotency_record \<Rightarrow> bool" where
  "valid_journal_entry e \<longleftrightarrow>
     \<not> (length (fst e) \<noteq> 64 \<or> length (ir_Fingerprint (snd e)) \<noteq> 64
        \<or> op_ID (ir_Operation (snd e)) = [])"

text \<open>What reading and decoding the file gives.\<close>

datatype journal_read =
  JournalMissing | JournalUnreadable | JournalUndecodable | JournalRead int idempotency_records

definition loadIdempotencyRecords ::
  "(string \<Rightarrow> time) \<Rightarrow> write_outcome \<Rightarrow> journal_read \<Rightarrow> journal \<Rightarrow> bool \<times> journal" where
  "loadIdempotencyRecords now write file m =
     (let m0 = m\<lparr>j_records := []\<rparr>
      in case file of
          JournalMissing \<Rightarrow> (True, m0)
        | JournalUnreadable \<Rightarrow> (False, m0)
        | JournalUndecodable \<Rightarrow> (False, m0)
        | JournalRead version records \<Rightarrow>
            if version \<noteq> idempotencyStoreVersion \<or> length records > maxIdempotencyRecords
            then (False, m0)
            else if \<not> list_all valid_journal_entry records then (False, m0)
            else
              let validated = map (\<lambda>(key, r). (key, recovered_record (now key) r)) records;
                  (ok, m1) = persistIdempotencyRecords write validated m0
              in if \<not> ok then (False, m1)
                 else (True, m1\<lparr>j_records := validated,
                         j_operations := foldl (\<lambda>ops e.
                             map_put (op_ID (ir_Operation (snd e))) (ir_Operation (snd e)) ops)
                           (j_operations m1) validated\<rparr>))"

text \<open>The part of \<^verbatim>\<open>openManagedConfigurationStore\<close> that opens the journal.\<close>

definition open_journal ::
  "string \<Rightarrow> (string \<Rightarrow> time) \<Rightarrow> write_outcome \<Rightarrow> journal_read \<Rightarrow> journal \<Rightarrow> journal" where
  "open_journal path now write file m =
     (let (ok, m1) = loadIdempotencyRecords now write file (m\<lparr>j_path := path\<rparr>)
      in if ok then m1 else m1\<lparr>j_path := []\<rparr>)"

definition operationHasIdempotencyRecord :: "idempotency_records \<Rightarrow> string \<Rightarrow> bool" where
  "operationHasIdempotencyRecord records oid \<longleftrightarrow>
     list_ex (\<lambda>e. op_ID (ir_Operation (snd e)) = oid) records"

record mutation_admission =
  ma_key :: string
  ma_replay :: bool
  ma_record :: idempotency_record

text \<open>The finished record that has to give way: the one updated first, ties by key.\<close>

definition eviction_candidates :: "idempotency_records \<Rightarrow> string list" where
  "eviction_candidates records =
     map key_id (sort (map (\<lambda>e. OpKey (op_UpdatedAt (ir_Operation (snd e))) (fst e))
       (filter (\<lambda>e. ir_Finished (snd e)) records)))"

definition admission_kind :: "string option \<Rightarrow> operation_kind" where
  "admission_kind meth =
     (case meth of
        None \<Rightarrow> OperationApply
      | Some name \<Rightarrow>
          if name = ''configuration.adopt'' then OperationAdopt
          else if name = ''configuration.set_enabled'' \<or> name = ''configuration.delete''
          then OperationLifecycle else OperationApply)"

definition zero_operation :: operation where
  "zero_operation = \<lparr>op_ID = [], op_Kind = OperationApply, op_State = OperationQueued,
     op_Resource = \<lparr>ref_Kind = ResourceUnset, ref_ID = []\<rparr>, op_StartedAt = 0, op_UpdatedAt = 0,
     op_ReasonCode = ReasonUnset, op_Reason = [], op_Validation = None,
     op_ConfigurationRevision = 0\<rparr>"

definition zero_record :: idempotency_record where
  "zero_record = \<lparr>ir_Fingerprint = [], ir_Operation = zero_operation, ir_Error = None,
     ir_Finished = False\<rparr>"

definition admitted_record ::
  "string \<Rightarrow> string option \<Rightarrow> string \<Rightarrow> time \<Rightarrow> idempotency_record" where
  "admitted_record fingerprint meth oid now =
     zero_record\<lparr>ir_Fingerprint := fingerprint,
       ir_Operation := zero_operation\<lparr>op_ID := oid, op_Kind := admission_kind meth,
         op_State := OperationRunning, op_StartedAt := now, op_UpdatedAt := now,
         op_ReasonCode := ReasonOperationRunning,
         op_Reason := ''mutation accepted by manager''\<rparr>\<rparr>"

definition replay_record ::
  "(string, operation) gomap \<Rightarrow> idempotency_record \<Rightarrow> idempotency_record" where
  "replay_record ops r =
     (if ir_Finished r then r
      else case map_get ops (op_ID (ir_Operation r)) of
          None \<Rightarrow> r
        | Some current \<Rightarrow>
            if op_State current = OperationRunning then r\<lparr>ir_Operation := current\<rparr> else r)"

definition admitIdempotentMutation ::
  "string option \<Rightarrow> time \<Rightarrow> write_outcome \<Rightarrow> string \<Rightarrow> string \<Rightarrow> string option \<Rightarrow> journal
   \<Rightarrow> mutation_admission command_result \<times> journal" where
  "admitIdempotentMutation new_id now write key fingerprint meth m =
     (if j_path m = []
      then (Inl (api_err ''temporary_unavailable'' ''durable mutation journal is unavailable''), m)
      else case map_get (j_records m) key of
        Some r \<Rightarrow>
          if ir_Fingerprint r \<noteq> fingerprint
          then (Inl (api_err ''idempotency_conflict''
                  ''idempotency key was used for a different mutation''), m)
          else (Inr \<lparr>ma_key = key, ma_replay = True,
                     ma_record = replay_record (j_operations m) r\<rparr>, m)
      | None \<Rightarrow>
          let full = length (j_records m) \<ge> maxIdempotencyRecords;
              keys = eviction_candidates (j_records m)
          in if full \<and> keys = []
             then (Inl (api_err ''resource_exhausted'' ''too many pending durable mutations''), m)
             else
               let evicted = (if full then Some (hd keys) else None);
                   kept = (case evicted of None \<Rightarrow> j_records m
                             | Some k \<Rightarrow> map_del k (j_records m))
               in case new_id of
                    None \<Rightarrow> (Inl (api_err ''temporary_unavailable''
                                     ''cannot allocate operation ID''), m)
                  | Some oid \<Rightarrow>
                      let r = admitted_record fingerprint meth oid now;
                          updated = map_put key r kept;
                          (ok, m1) = persistIdempotencyRecords write updated m
                      in if \<not> ok
                         then (Inl (api_err ''temporary_unavailable''
                                 ''cannot persist mutation admission''), m1)
                         else
                           let ops = (case evicted of None \<Rightarrow> j_operations m1
                                 | Some k \<Rightarrow>
                                     map_del (op_ID (ir_Operation
                                       (case map_get (j_records m1) k of None \<Rightarrow> zero_record
                                        | Some old \<Rightarrow> old))) (j_operations m1))
                           in (Inr \<lparr>ma_key = key, ma_replay = False, ma_record = r\<rparr>,
                               m1\<lparr>j_records := updated,
                                  j_operations := map_put oid (ir_Operation r) ops\<rparr>))"

text \<open>What executing the mutation returned: an operation (or a result of another type) and
  an error.\<close>

record mutation_result =
  mr_operation :: "operation option"
  mr_err :: "api_error option"

definition completed_record ::
  "time \<Rightarrow> mutation_result \<Rightarrow> idempotency_record \<Rightarrow> idempotency_record \<times> mutation_result" where
  "completed_record now result r =
     (case mr_operation result of
        Some o1 \<Rightarrow>
          if op_ID o1 = op_ID (ir_Operation r)
          then (r\<lparr>ir_Operation := o1, ir_Error := mr_err result, ir_Finished := True\<rparr>, result)
          else
            let e = (case mr_err result of
                  None \<Rightarrow> api_err ''internal'' ''mutation returned an inconsistent operation''
                | Some e \<Rightarrow> e)
            in (r\<lparr>ir_Operation := (ir_Operation r)\<lparr>op_State := OperationFailed,
                    op_ReasonCode := (if err_Code e = ''stale_revision''
                       then ReasonConfigurationRevisionStale else ReasonInternal),
                    op_Reason := ''mutation failed before completion: '' @ err_Code e,
                    op_UpdatedAt := now\<rparr>,
                  ir_Error := Some e, ir_Finished := True\<rparr>, result\<lparr>mr_err := Some e\<rparr>)
      | None \<Rightarrow>
          let e = (case mr_err result of
                None \<Rightarrow> api_err ''internal'' ''mutation returned an inconsistent operation''
              | Some e \<Rightarrow> e)
          in (r\<lparr>ir_Operation := (ir_Operation r)\<lparr>op_State := OperationFailed,
                  op_ReasonCode := (if err_Code e = ''stale_revision''
                     then ReasonConfigurationRevisionStale else ReasonInternal),
                  op_Reason := ''mutation failed before completion: '' @ err_Code e,
                  op_UpdatedAt := now\<rparr>,
                ir_Error := Some e, ir_Finished := True\<rparr>, result\<lparr>mr_err := Some e\<rparr>))"

definition completeIdempotentMutation ::
  "time \<Rightarrow> write_outcome \<Rightarrow> string \<Rightarrow> mutation_result \<Rightarrow> journal
   \<Rightarrow> mutation_result \<times> journal" where
  "completeIdempotentMutation now write key result m =
     (let (r, result1) = completed_record now result
            (case map_get (j_records m) key of None \<Rightarrow> zero_record | Some r \<Rightarrow> r);
          updated = map_put key r (j_records m);
          (ok, m1) = persistIdempotencyRecords write updated m
      in if \<not> ok
         then (\<lparr>mr_operation = None, mr_err = Some (api_err ''temporary_unavailable''
                  ''mutation outcome could not be durably recorded; retry with the same key'')\<rparr>, m1)
         else (result1, m1\<lparr>j_records := updated,
                 j_operations := map_put (op_ID (ir_Operation r)) (ir_Operation r)
                   (j_operations m1)\<rparr>))"

section \<open>The table of operations\<close>

definition operationList :: "(string, operation) gomap \<Rightarrow> operation list" where
  "operationList ops = sort_key operation_key (map snd ops)"

text \<open>The IDs of the running identification and probe, when there are any, are kept.\<close>

definition pruneOperations ::
  "idempotency_records \<Rightarrow> string option \<Rightarrow> string option \<Rightarrow> (string, operation) gomap
   \<Rightarrow> (string, operation) gomap" where
  "pruneOperations records identification probe ops =
     (if length ops \<le> maxRetainedOperations then ops
      else
        let candidates = sort_key op_UpdatedAt (filter (\<lambda>o1.
              \<not> operationHasIdempotencyRecord records (op_ID o1)
              \<and> identification \<noteq> Some (op_ID o1) \<and> probe \<noteq> Some (op_ID o1)) (map snd ops))
        in fold (\<lambda>o1 ops. if length ops > maxRetainedOperations
                          then map_del (op_ID o1) ops else ops) candidates ops)"

section \<open>Runs of the journal\<close>

text \<open>
  The steps \<^verbatim>\<open>runIdempotentMutation\<close> submits to the manager, in any interleaving of any
  number of requests: an admission, the completion of an admitted mutation once its execution
  ended, and a crash with restart, which loses everything but the file. The second component
  of the state lists the keys whose mutation is executing.
\<close>

datatype journal_step =
    Admit string string "string option" "string option" time write_outcome
  | Complete string mutation_result time write_outcome
  | Restart string "string \<Rightarrow> time" write_outcome

definition read_back :: "journal \<Rightarrow> journal_read" where
  "read_back m = (case j_disk m of None \<Rightarrow> JournalMissing
     | Some records \<Rightarrow> JournalRead idempotencyStoreVersion records)"

definition restarted :: "string \<Rightarrow> (string \<Rightarrow> time) \<Rightarrow> write_outcome \<Rightarrow> journal \<Rightarrow> journal" where
  "restarted path now write m = open_journal path now write (read_back m)
     \<lparr>j_path = [], j_records = [], j_operations = [], j_disk = j_disk m\<rparr>"

text \<open>The step admits the key's mutation for execution (it is not a replay).\<close>

fun executes :: "string \<Rightarrow> journal_step \<Rightarrow> journal \<Rightarrow> bool" where
  "executes k (Admit key fp meth new_id now write) m \<longleftrightarrow> k = key \<and>
     (case fst (admitIdempotentMutation new_id now write key fp meth m) of
        Inl _ \<Rightarrow> False | Inr a \<Rightarrow> \<not> ma_replay a)"
| "executes k _ m \<longleftrightarrow> False"

fun journal_exec :: "journal_step \<Rightarrow> journal \<times> string list \<Rightarrow> journal \<times> string list" where
  "journal_exec (Admit key fp meth new_id now write) (m, flight) =
     (snd (admitIdempotentMutation new_id now write key fp meth m),
      if executes key (Admit key fp meth new_id now write) m then key # flight else flight)"
| "journal_exec (Complete key result now write) (m, flight) =
     (if key \<in> set flight
      then (snd (completeIdempotentMutation now write key result m), removeAll key flight)
      else (m, flight))"
| "journal_exec (Restart path now write) (m, flight) = (restarted path now write m, [])"

fun journal_run :: "journal_step list \<Rightarrow> journal \<times> string list \<Rightarrow> journal \<times> string list" where
  "journal_run [] st = st"
| "journal_run (s # ss) st = journal_run ss (journal_exec s st)"

text \<open>The record the step drops from the file to make room.\<close>

fun evicts :: "string \<Rightarrow> journal_step \<Rightarrow> journal \<Rightarrow> bool" where
  "evicts k (Admit key fp meth new_id now write) m \<longleftrightarrow>
     j_path m \<noteq> [] \<and> map_get (j_records m) key = None
     \<and> length (j_records m) \<ge> maxIdempotencyRecords
     \<and> eviction_candidates (j_records m) \<noteq> [] \<and> hd (eviction_candidates (j_records m)) = k
     \<and> new_id \<noteq> None \<and> write \<noteq> WriteFailed"
| "evicts k _ m \<longleftrightarrow> False"

fun count_steps ::
  "(journal_step \<Rightarrow> journal \<Rightarrow> bool) \<Rightarrow> journal_step list \<Rightarrow> journal \<times> string list \<Rightarrow> nat" where
  "count_steps P [] st = 0"
| "count_steps P (s # ss) st =
     (if P s (fst st) then 1 else 0) + count_steps P ss (journal_exec s st)"

definition new_journal :: "journal \<times> string list" where
  "new_journal = (\<lparr>j_path = ''idempotency.json'', j_records = [], j_operations = [],
     j_disk = None\<rparr>, [])"

lemma persist_cases:
  "(\<exists>m'. persistIdempotencyRecords w r m = (True, m') \<and> m' = m\<lparr>j_disk := Some r\<rparr> \<and> j_path m \<noteq> [] \<and> w = WriteOk)
   \<or> persistIdempotencyRecords w r m = (False, m) \<and> (j_path m = [] \<or> w = WriteFailed)
   \<or> persistIdempotencyRecords w r m = (False, m\<lparr>j_disk := Some r\<rparr>) \<and> j_path m \<noteq> [] \<and> w = WriteUnsynced"
  by (cases w) (auto simp: persistIdempotencyRecords_def)

text \<open>What an admission does to the records in memory and on disk.\<close>

definition admit_updated :: "string \<Rightarrow> idempotency_record \<Rightarrow> journal \<Rightarrow> idempotency_records" where
  "admit_updated key r m = map_put key r
     (if length (j_records m) \<ge> maxIdempotencyRecords
      then map_del (hd (eviction_candidates (j_records m))) (j_records m) else j_records m)"

lemma admit_effect:
  "let m' = snd (admitIdempotentMutation new_id now w key fp meth m)
   in (\<not> executes key (Admit key fp meth new_id now w) m \<and> j_records m' = j_records m
         \<and> j_disk m' = j_disk m \<and> j_path m' = j_path m)
    \<or> (\<exists>oid. new_id = Some oid \<and> map_get (j_records m) key = None \<and> j_path m \<noteq> []
         \<and> (length (j_records m) \<ge> maxIdempotencyRecords \<longrightarrow> eviction_candidates (j_records m) \<noteq> [])
         \<and> w \<noteq> WriteFailed \<and> j_path m' = j_path m
         \<and> j_disk m' = Some (admit_updated key (admitted_record fp meth oid now) m)
         \<and> (if w = WriteOk then j_records m' = admit_updated key (admitted_record fp meth oid now) m
            else j_records m' = j_records m
              \<and> \<not> executes key (Admit key fp meth new_id now w) m))"
proof (cases new_id)
  case None
  then show ?thesis
    by (auto simp: admitIdempotentMutation_def Let_def split: option.split)
next
  case (Some oid)
  show ?thesis
  proof (cases "j_path m = [] \<or> map_get (j_records m) key \<noteq> None
      \<or> (length (j_records m) \<ge> maxIdempotencyRecords \<and> eviction_candidates (j_records m) = [])")
    case True
    then show ?thesis
      by (auto simp: admitIdempotentMutation_def Let_def split: option.split)
  next
    case False
    let ?u = "admit_updated key (admitted_record fp meth oid now) m"
    have u: "map_put key (admitted_record fp meth oid now)
        (case if length (j_records m) \<ge> maxIdempotencyRecords
              then Some (hd (eviction_candidates (j_records m))) else None of
           None \<Rightarrow> j_records m | Some k \<Rightarrow> map_del k (j_records m)) = ?u"
      by (simp add: admit_updated_def)
    show ?thesis
      using persist_cases [of w ?u m] False Some u
      by (auto simp: admitIdempotentMutation_def Let_def)
  qed
qed

lemma complete_effect:
  "let m' = snd (completeIdempotentMutation now w key result m);
       r = fst (completed_record now result
             (case map_get (j_records m) key of None \<Rightarrow> zero_record | Some r \<Rightarrow> r))
   in j_path m' = j_path m
    \<and> (j_records m' = j_records m \<and> j_disk m' = j_disk m
       \<or> j_records m' = j_records m \<and> j_path m \<noteq> [] \<and> j_disk m' = Some (map_put key r (j_records m))
       \<or> j_records m' = map_put key r (j_records m) \<and> j_path m \<noteq> []
           \<and> j_disk m' = Some (map_put key r (j_records m)))"
  using persist_cases [of w "map_put key (fst (completed_record now result
      (case map_get (j_records m) key of None \<Rightarrow> zero_record | Some r \<Rightarrow> r))) (j_records m)" m]
  by (auto simp: completeIdempotentMutation_def Let_def case_prod_beta)

definition recovered_records ::
  "(string \<Rightarrow> time) \<Rightarrow> idempotency_records \<Rightarrow> idempotency_records" where
  "recovered_records now records = map (\<lambda>(key, r). (key, recovered_record (now key) r)) records"

lemma recovered_records_keys [simp]:
  "map fst (recovered_records now records) = map fst records"
  "length (recovered_records now records) = length records"
  by (simp_all add: recovered_records_def o_def case_prod_beta)

lemma recovered_records_get:
  "map_get (recovered_records now records) k =
     map_option (recovered_record (now k)) (map_get records k)"
  by (induction records) (auto simp: recovered_records_def)

lemma restart_effect:
  "let m' = restarted path now w m
   in (j_disk m = None \<and> j_disk m' = None \<and> j_records m' = [])
    \<or> (\<exists>d. j_disk m = Some d \<and> (j_disk m' = Some d \<or> j_disk m' = Some (recovered_records now d))
         \<and> (j_path m' = [] \<and> j_records m' = []
            \<or> j_path m' = path \<and> path \<noteq> [] \<and> j_records m' = recovered_records now d
              \<and> j_disk m' = Some (recovered_records now d) \<and> length d \<le> maxIdempotencyRecords))"
proof (cases "j_disk m")
  case None
  then show ?thesis
    by (simp add: restarted_def open_journal_def read_back_def loadIdempotencyRecords_def)
next
  case (Some d)
  show ?thesis
    using persist_cases [of w "recovered_records now d"
        "\<lparr>j_path = path, j_records = [], j_operations = [], j_disk = Some d\<rparr>"] Some
    by (auto simp: restarted_def open_journal_def read_back_def loadIdempotencyRecords_def
        recovered_records_def idempotencyStoreVersion_def Let_def)
qed

section \<open>At most once\<close>

definition knows :: "string \<Rightarrow> journal \<Rightarrow> nat" where
  "knows k m = (if (j_path m \<noteq> [] \<longrightarrow> map_get (j_records m) k \<noteq> None)
     \<and> (\<exists>d. j_disk m = Some d \<and> map_get d k \<noteq> None) then 1 else 0)"

lemma knows_admit:
  "(if executes k (Admit key fp meth new_id now w) m then 1 else 0) + knows k m
   \<le> (if evicts k (Admit key fp meth new_id now w) m then 1 else 0)
     + knows k (snd (admitIdempotentMutation new_id now w key fp meth m))"
proof -
  let ?m' = "snd (admitIdempotentMutation new_id now w key fp meth m)"
  let ?s = "Admit key fp meth new_id now w"
  consider (keep) "\<not> executes key ?s m" "j_records ?m' = j_records m" "j_disk ?m' = j_disk m"
      "j_path ?m' = j_path m"
    | (stored) oid where "new_id = Some oid" "map_get (j_records m) key = None" "j_path m \<noteq> []"
      "length (j_records m) \<ge> maxIdempotencyRecords \<longrightarrow> eviction_candidates (j_records m) \<noteq> []"
      "w \<noteq> WriteFailed" "j_path ?m' = j_path m"
      "j_disk ?m' = Some (admit_updated key (admitted_record fp meth oid now) m)"
      "if w = WriteOk then j_records ?m' = admit_updated key (admitted_record fp meth oid now) m
       else j_records ?m' = j_records m \<and> \<not> executes key ?s m"
    using admit_effect [of new_id now w key fp meth m] unfolding Let_def by blast
  then show ?thesis
  proof cases
    case keep
    then have "\<not> executes k ?s m" by auto
    with keep show ?thesis by (simp add: knows_def)
  next
    case stored
    show ?thesis
    proof (cases "evicts k ?s m")
      case True
      then show ?thesis using stored by (auto simp: knows_def)
    next
      case False
      have upd: "map_get (j_records m) k \<noteq> None \<or> k = key \<Longrightarrow>
          map_get (admit_updated key r m) k \<noteq> None" for r
        using False stored by (auto simp: admit_updated_def gomap)
      show ?thesis
      proof (cases "executes k ?s m")
        case True
        then have "k = key" by simp
        then have "w = WriteOk" using True stored(8) by (auto split: if_splits)
        with \<open>k = key\<close> stored upd show ?thesis by (auto simp: knows_def)
      next
        case False
        with stored upd show ?thesis by (auto simp: knows_def split: if_splits)
      qed
    qed
  qed
qed

lemma knows_complete:
  "knows k m \<le> knows k (snd (completeIdempotentMutation now w key result m))"
  using complete_effect [of now w key result m] unfolding Let_def
  by (auto simp: knows_def gomap split: if_splits)

lemma knows_restart: "knows k m \<le> knows k (restarted path now w m)"
  using restart_effect [of path now w m] unfolding Let_def
  by (auto simp: knows_def recovered_records_get)

lemma knows_exec:
  "(if executes k s (fst st) then 1 else 0) + knows k (fst st)
   \<le> (if evicts k s (fst st) then 1 else 0) + knows k (fst (journal_exec s st))"
  by (cases s; cases st) (use knows_admit knows_complete knows_restart in auto)

text \<open>
  C11: A keyed mutation is executed at most once. Over any interleaving of admissions,
  completions and crashes with restarts, whatever the writes of the journal do, the number of
  times a key's mutation is admitted for execution is at most one more than the number of
  times its record was evicted to make room: while its record is kept, the mutation is
  replayed, never executed again.
\<close>

theorem mutation_executed_at_most_once:
  "count_steps (executes k) steps new_journal \<le> 1 + count_steps (evicts k) steps new_journal"
proof -
  have "count_steps (executes k) ss st + knows k (fst st)
      \<le> count_steps (evicts k) ss st + knows k (fst (journal_run ss st))" for ss st
  proof (induction ss arbitrary: st)
    case (Cons s ss)
    show ?case using Cons [of "journal_exec s st"] knows_exec [of k s st] by simp
  qed simp
  from this [of steps new_journal] show ?thesis
    by (simp add: knows_def split: if_splits)
qed

section \<open>Bounds and pending mutations\<close>

definition pending :: "journal \<Rightarrow> string \<Rightarrow> bool" where
  "pending m k \<longleftrightarrow> (case map_get (j_records m) k of None \<Rightarrow> False | Some r \<Rightarrow> \<not> ir_Finished r)"

definition journal_inv :: "journal \<times> string list \<Rightarrow> bool" where
  "journal_inv st \<longleftrightarrow> map_ok (j_records (fst st))
     \<and> length (j_records (fst st)) \<le> maxIdempotencyRecords
     \<and> list_all (pending (fst st)) (snd st) \<and> (snd st \<noteq> [] \<longrightarrow> j_path (fst st) \<noteq> [])
     \<and> (\<forall>d. j_disk (fst st) = Some d \<longrightarrow> map_ok d)"

lemma eviction_candidates_finished:
  "k \<in> set (eviction_candidates records) \<longleftrightarrow> (\<exists>r. (k, r) \<in> set records \<and> ir_Finished r)"
  by (force simp: eviction_candidates_def)

lemma executes_fresh:
  assumes "executes k s m"
  shows "map_get (j_records m) k = None \<and> j_path m \<noteq> []"
proof (cases s)
  case (Admit key fp meth new_id now w)
  then show ?thesis
    using assms admit_effect [of new_id now w key fp meth m] unfolding Let_def by auto
qed (use assms in auto)

lemma admit_updated_ok:
  assumes "map_ok (j_records m)" and "length (j_records m) \<le> maxIdempotencyRecords"
    and "map_get (j_records m) key = None"
    and "length (j_records m) \<ge> maxIdempotencyRecords \<longrightarrow> eviction_candidates (j_records m) \<noteq> []"
  shows "map_ok (admit_updated key r m)"
    and "length (admit_updated key r m) \<le> maxIdempotencyRecords"
    and "pending m k \<Longrightarrow> map_get (admit_updated key r m) k = map_get (j_records m) k"
    and "map_get (admit_updated key r m) key = Some r"
proof -
  let ?e = "hd (eviction_candidates (j_records m))"
  show "map_ok (admit_updated key r m)"
    using assms(1) by (simp add: admit_updated_def)
  show "map_get (admit_updated key r m) key = Some r"
    by (simp add: admit_updated_def gomap)
  have ev: "\<exists>s. map_get (j_records m) ?e = Some s \<and> ir_Finished s"
    if "length (j_records m) \<ge> maxIdempotencyRecords"
    using assms that eviction_candidates_finished [of ?e "j_records m"] by (auto simp: map_of_eq_Some_iff)
  show "length (admit_updated key r m) \<le> maxIdempotencyRecords"
    using assms ev by (auto simp: admit_updated_def length_put length_del gomap maxIdempotencyRecords_def)
  show "map_get (admit_updated key r m) k = map_get (j_records m) k" if "pending m k"
    using that assms(3) ev by (auto simp: admit_updated_def gomap pending_def split: option.splits)
qed

lemma completed_record_finished [simp]: "ir_Finished (fst (completed_record now result r))"
  by (simp add: completed_record_def Let_def split: option.split)

lemma pending_cong: "j_records m' = j_records m \<Longrightarrow> pending m' = pending m"
  by (simp add: pending_def fun_eq_iff)

lemma journal_inv_exec:
  assumes inv: "journal_inv st"
  shows "journal_inv (journal_exec s st)"
proof (cases s)
  case (Admit key fp meth new_id now w)
  obtain m flight where st: "st = (m, flight)" by (cases st)
  note inv = inv [unfolded st journal_inv_def fst_conv snd_conv]
  let ?m' = "snd (admitIdempotentMutation new_id now w key fp meth m)"
  consider (keep) "\<not> executes key s m" "j_records ?m' = j_records m" "j_disk ?m' = j_disk m"
      "j_path ?m' = j_path m"
    | (stored) oid where "map_get (j_records m) key = None" "j_path m \<noteq> []"
      "length (j_records m) \<ge> maxIdempotencyRecords \<longrightarrow> eviction_candidates (j_records m) \<noteq> []"
      "j_path ?m' = j_path m"
      "j_disk ?m' = Some (admit_updated key (admitted_record fp meth oid now) m)"
      "if w = WriteOk then j_records ?m' = admit_updated key (admitted_record fp meth oid now) m
       else j_records ?m' = j_records m \<and> \<not> executes key s m"
    using admit_effect [of new_id now w key fp meth m] unfolding Let_def Admit by blast
  then show ?thesis
  proof cases
    case keep
    then show ?thesis
      using inv Admit st pending_cong [of ?m' m] by (auto simp: journal_inv_def)
  next
    case stored
    let ?r = "admitted_record fp meth oid now"
    note ok = admit_updated_ok [OF _ _ stored(1,3), where r = ?r]
    have new: "\<not> ir_Finished ?r" by (simp add: admitted_record_def zero_record_def)
    show ?thesis
    proof (cases "w = WriteOk")
      case True
      then have recs: "j_records ?m' = admit_updated key ?r m" using stored by simp
      have "list_all (pending ?m') flight"
        using inv ok(3) recs by (auto simp: list_all_iff pending_def)
      moreover have "pending ?m' key" using recs ok(4) inv new by (simp add: pending_def)
      ultimately show ?thesis
        using inv stored ok(1,2) recs Admit st by (auto simp: journal_inv_def)
    next
      case False
      then show ?thesis
        using inv stored ok(1) Admit st pending_cong [of ?m' m] by (auto simp: journal_inv_def)
    qed
  qed
next
  case (Complete key result now w)
  obtain m flight where st: "st = (m, flight)" by (cases st)
  note inv = inv [unfolded st journal_inv_def fst_conv snd_conv]
  show ?thesis
  proof (cases "key \<in> set flight")
    case True
    let ?m' = "snd (completeIdempotentMutation now w key result m)"
    have "pending m key" using inv True by (simp add: list_all_iff)
    then have len: "length (map_put key r (j_records m)) = length (j_records m)" for r
      by (auto simp: length_put pending_def split: option.splits)
    have "list_all (pending ?m') (removeAll key flight)"
      using inv complete_effect [of now w key result m] unfolding Let_def
      by (auto simp: list_all_iff pending_def gomap split: if_splits)
    then show ?thesis
      using inv len True complete_effect [of now w key result m] Complete st unfolding Let_def
      by (auto simp: journal_inv_def)
  next
    case False
    then show ?thesis using assms Complete st by simp
  qed
next
  case (Restart path now w)
  then show ?thesis
    using inv restart_effect [of path now w "fst st"] unfolding Let_def
    by (cases st) (auto simp: journal_inv_def)
qed

lemma journal_inv_run: "journal_inv st \<Longrightarrow> journal_inv (journal_run ss st)"
  by (induction ss arbitrary: st) (simp_all add: journal_inv_exec)

lemma journal_inv_new: "journal_inv new_journal"
  by (simp add: journal_inv_def new_journal_def)

text \<open>
  C13: The journal is bounded and never forgets a mutation in progress. After any run it holds
  at most 128 records, one for each key, and the record of every mutation that is executing is
  present and unfinished: making room evicts finished records only.
\<close>

theorem journal_bounded_keeps_pending:
  "let (m, flight) = journal_run steps new_journal
   in length (j_records m) \<le> maxIdempotencyRecords \<and> map_ok (j_records m)
      \<and> list_all (pending m) flight"
  using journal_inv_run [OF journal_inv_new, of steps]
  by (auto simp: journal_inv_def split: prod.split)

section \<open>Replays\<close>

definition remembers :: "string \<Rightarrow> idempotency_record \<Rightarrow> journal \<times> string list \<Rightarrow> bool" where
  "remembers k r st \<longleftrightarrow> k \<notin> set (snd st) \<and> ir_Finished r
     \<and> (j_path (fst st) \<noteq> [] \<longrightarrow> map_get (j_records (fst st)) k = Some r)
     \<and> (\<exists>d. j_disk (fst st) = Some d \<and> map_get d k = Some r)"

lemma remembers_exec:
  assumes rem: "remembers k r st" and no: "\<not> evicts k s (fst st)"
  shows "remembers k r (journal_exec s st)"
proof (cases s)
  case (Admit key fp meth new_id now w)
  obtain m flight where st: "st = (m, flight)" by (cases st)
  have nex: "\<not> executes k s m"
    using executes_fresh [of k s m] rem by (auto simp: remembers_def st)
  have upd: "map_get (admit_updated key r' m) k = map_get (j_records m) k"
    if "map_get (j_records m) key = None" "j_path m \<noteq> []" "w \<noteq> WriteFailed" "new_id = Some oid"
      "length (j_records m) \<ge> maxIdempotencyRecords \<longrightarrow> eviction_candidates (j_records m) \<noteq> []"
    for r' oid
    using that no rem Admit st by (auto simp: admit_updated_def gomap remembers_def)
  show ?thesis
    using admit_effect [of new_id now w key fp meth m] rem nex upd Admit st
    unfolding Let_def remembers_def
    by (auto split: if_splits)
next
  case (Complete key result now w)
  then show ?thesis
    using rem complete_effect [of now w key result "fst st"] unfolding Let_def
    by (cases st) (auto simp: remembers_def gomap)
next
  case (Restart path now w)
  then show ?thesis
    using rem restart_effect [of path now w "fst st"] unfolding Let_def
    by (cases st) (auto simp: remembers_def recovered_records_get recovered_record_def)
qed

lemma remembers_run:
  assumes "remembers k r st" and "count_steps (evicts k) ss st = 0"
  shows "remembers k r (journal_run ss st)"
  using assms
proof (induction ss arbitrary: st)
  case (Cons s ss)
  then show ?case using remembers_exec [of k r st s] by (auto split: if_splits)
qed simp


definition sample_result :: mutation_result where
  "sample_result = \<lparr>mr_operation = None, mr_err = Some (api_err ''stale_revision'' '''')\<rparr>"

definition sample_key :: string where "sample_key = replicate 64 (CHR ''a'')"

definition sample_before :: "journal_step list" where
  "sample_before = [Admit sample_key sample_key None (Some ''op_1'') 5 WriteOk]"

definition sample_after :: "journal_step list" where
  "sample_after = [Restart ''idempotency.json'' (\<lambda>_. 9) WriteOk]"


section \<open>Pruning\<close>

lemma prune_fold:
  assumes "map_ok ops" and "distinct (map op_ID cs)"
    and "op_ID ` set cs \<subseteq> fst ` set ops"
  shows "length (fold (\<lambda>o1 ops. if length ops > n then map_del (op_ID o1) ops else ops) cs ops) =
           (if length ops \<le> n then length ops else max n (length ops - length cs))"
  using assms
proof (induction cs arbitrary: ops)
  case (Cons c cs)
  have del: "length (map_del (op_ID c) ops) = length ops - 1" "ops \<noteq> []"
    using Cons.prems by (auto simp: length_del map_of_eq_None_iff)
  have "op_ID ` set cs \<subseteq> fst ` set (map_del (op_ID c) ops)"
    using Cons.prems by (auto simp: set_keys_del) (metis image_eqI)
  then show ?case
    using Cons.IH [of "map_del (op_ID c) ops"] Cons.IH [of ops] Cons.prems del by auto
qed simp

lemma prune_fold_get:
  assumes "k \<notin> op_ID ` set cs"
  shows "map_get (fold (\<lambda>o1 ops. if length ops > n then map_del (op_ID o1) ops else ops) cs ops) k
     = map_get ops k"
  using assms by (induction cs arbitrary: ops) (auto simp: gomap)

definition operations_ok :: "(string, operation) gomap \<Rightarrow> bool" where
  "operations_ok ops \<longleftrightarrow> map_ok ops \<and> list_all (\<lambda>e. op_ID (snd e) = fst e) ops"

definition protected_operation ::
  "idempotency_records \<Rightarrow> string option \<Rightarrow> string option \<Rightarrow> operation \<Rightarrow> bool" where
  "protected_operation records identification probe o1 \<longleftrightarrow>
     operationHasIdempotencyRecord records (op_ID o1)
     \<or> identification = Some (op_ID o1) \<or> probe = Some (op_ID o1)"

text \<open>
  Pruning keeps what is needed. No operation that the journal records, or that the running
  identification or probe owns, is removed; and what is left is at most 128 operations, or
  nothing but such operations when there are more of them.
\<close>

theorem prune_operations_bounded:
  assumes "operations_ok ops"
  shows "let kept = pruneOperations records identification probe ops;
             needed = filter (protected_operation records identification probe \<circ> snd) ops
         in length kept \<le> max maxRetainedOperations (length needed)
            \<and> list_all (\<lambda>e. map_get kept (fst e) = Some (snd e)) needed"
proof -
  let ?P = "protected_operation records identification probe"
  let ?cs = "sort_key op_UpdatedAt (filter (\<lambda>o1. \<not> ?P o1) (map snd ops))"
  have ids: "map op_ID (map snd ops) = map fst ops"
    using assms by (auto simp: operations_ok_def list_all_iff)
  have dist: "distinct (map op_ID (map snd ops))"
    using assms unfolding ids by (simp add: operations_ok_def)
  then have "distinct (map op_ID (filter (\<lambda>o1. \<not> ?P o1) (map snd ops)))"
    by (rule distinct_map_filter)
  then have dcs: "distinct (map op_ID ?cs)"
    by (simp add: distinct_map inj_on_def)
  have sub: "op_ID ` set ?cs \<subseteq> fst ` set ops"
    using ids by (auto simp: image_iff)
  let ?kept = "pruneOperations records identification probe ops"
  let ?needed = "filter (?P \<circ> snd) ops"
  have kept: "?kept = (if length ops \<le> maxRetainedOperations then ops
      else fold (\<lambda>o1 ops. if length ops > maxRetainedOperations
                         then map_del (op_ID o1) ops else ops) ?cs ops)"
    by (simp add: pruneOperations_def protected_operation_def Let_def)
  have "length ops = length ?needed + length ?cs"
    using sum_length_filter_compl [of "?P \<circ> snd" ops]
    by (simp add: filter_map o_def)
  then have len: "length ?kept \<le> max maxRetainedOperations (length ?needed)"
    using prune_fold [OF _ dcs sub, of maxRetainedOperations] assms
    by (auto simp: kept operations_ok_def)
  have "map_get ?kept (fst e) = Some (snd e)" if e: "e \<in> set ?needed" for e
  proof -
    have own: "op_ID (snd e) = fst e" and get: "map_get ops (fst e) = Some (snd e)"
      using e assms by (auto simp: operations_ok_def list_all_iff map_of_eq_Some_iff)
    have "fst e \<notin> op_ID ` set ?cs"
      using e own by (auto simp: protected_operation_def)
    from prune_fold_get [OF this, of maxRetainedOperations ops] show ?thesis
      unfolding kept by (cases "length ops \<le> maxRetainedOperations") (simp_all only: if_True if_False get)
  qed
  then have "list_all (\<lambda>e. map_get ?kept (fst e) = Some (snd e)) ?needed"
    unfolding list_all_iff by blast
  then show ?thesis using len by (simp only: Let_def)
qed

definition sample_operations :: "(string, operation) gomap" where
  "sample_operations = [(''op_1'', zero_operation\<lparr>op_ID := ''op_1''\<rparr>),
     (''op_2'', zero_operation\<lparr>op_ID := ''op_2''\<rparr>)]"

theorem prune_operations_bounded_witness:
  "length (pruneOperations [] (Some ''op_1'') None sample_operations) \<le> 128
   \<and> map_get (pruneOperations [] (Some ''op_1'') None sample_operations) ''op_1''
       = Some (zero_operation\<lparr>op_ID := ''op_1''\<rparr>)"
  using prune_operations_bounded [of sample_operations "[]" "Some ''op_1''" None]
  by (simp add: operations_ok_def sample_operations_def protected_operation_def
      operationHasIdempotencyRecord_def maxRetainedOperations_def Let_def)

end
