(* ===== verification/KDM_Quote.thy ===== *)
theory KDM_Quote
  imports KDM_GoStrings
begin

text \<open>
  Go's \<^verbatim>\<open>strconv.Quote\<close> and \<^verbatim>\<open>strconv.Unquote\<close> for double-quoted strings, which the
  program writes (\<^verbatim>\<open>RenderKMonadInput\<close>, \<^verbatim>\<open>RenderKMonadDefcfg\<close>) and reads
  (\<^verbatim>\<open>tokenizeConfig\<close>) device paths with. Unicode's table of printable characters above ASCII
  is the argument \<open>is_print\<close>.
\<close>

abbreviation dquote :: char where "dquote \<equiv> CHR 0x22"
abbreviation backslash :: char where "backslash \<equiv> CHR 0x5C"
abbreviation newline :: char where "newline \<equiv> CHR 0x0A"

section \<open>Hexadecimal\<close>

definition hex_digit :: "nat \<Rightarrow> char" where
  "hex_digit d = (if d < 10 then chr (48 + d) else chr (87 + d))"

fun hexes :: "nat \<Rightarrow> nat \<Rightarrow> string" where
  "hexes 0 v = []"
| "hexes (Suc k) v = hexes k (v div 16) @ [hex_digit (v mod 16)]"

definition unhex :: "char \<Rightarrow> nat option" where
  "unhex c =
     (if 48 \<le> byte c \<and> byte c \<le> 57 then Some (byte c - 48)
      else if 97 \<le> byte c \<and> byte c \<le> 102 then Some (byte c - 87)
      else if 65 \<le> byte c \<and> byte c \<le> 70 then Some (byte c - 55) else None)"

fun unhexes :: "nat \<Rightarrow> string \<Rightarrow> nat option" where
  "unhexes acc [] = Some acc"
| "unhexes acc (c # cs) = (case unhex c of None \<Rightarrow> None | Some d \<Rightarrow> unhexes (acc * 16 + d) cs)"

lemma unhex_digit [simp]: "d < 16 \<Longrightarrow> unhex (hex_digit d) = Some d"
  by (simp add: unhex_def hex_digit_def byte_chr)

lemma length_hexes [simp]: "length (hexes k v) = k"
  by (induction k arbitrary: v) simp_all

lemma unhexes_append:
  "unhexes a (xs @ ys) = (case unhexes a xs of None \<Rightarrow> None | Some b \<Rightarrow> unhexes b ys)"
  by (induction xs arbitrary: a) (auto split: option.split)

lemma unhexes_hexes: "v < 16 ^ k \<Longrightarrow> unhexes 0 (hexes k v) = Some v"
  by (induction k arbitrary: v)
    (auto simp: unhexes_append less_mult_imp_div_less mult.commute)

section \<open>Quote\<close>

definition printable :: "(nat \<Rightarrow> bool) \<Rightarrow> nat \<Rightarrow> bool" where
  "printable is_print r \<longleftrightarrow> (0x20 \<le> r \<and> r < 0x7F) \<or> (0xA1 \<le> r \<and> r \<noteq> 0xAD \<and> is_print r)"

definition escapedRune :: "(nat \<Rightarrow> bool) \<Rightarrow> nat \<Rightarrow> string" where
  "escapedRune is_print r =
     (if r = 0x22 \<or> r = 0x5C then [backslash, chr r]
      else if printable is_print r then encodeRune r
      else if r = 7 then backslash # ''a'' else if r = 8 then backslash # ''b''
      else if r = 12 then backslash # ''f'' else if r = 10 then backslash # ''n''
      else if r = 13 then backslash # ''r'' else if r = 9 then backslash # ''t''
      else if r = 11 then backslash # ''v''
      else if r < 0x20 \<or> r = 0x7F then backslash # CHR ''x'' # hexes 2 r
      else if r < 0x10000 then backslash # CHR ''u'' # hexes 4 r
      else backslash # CHR ''U'' # hexes 8 r)"

definition quoteUnit :: "(nat \<Rightarrow> bool) \<Rightarrow> nat \<times> string \<Rightarrow> string" where
  "quoteUnit is_print u =
     (if length (snd u) = 1 \<and> fst u = runeError
      then backslash # CHR ''x'' # hexes 2 (byte (hd (snd u)))
      else escapedRune is_print (fst u))"

definition quoteBody :: "(nat \<Rightarrow> bool) \<Rightarrow> string \<Rightarrow> string" where
  "quoteBody is_print s = concat (map (quoteUnit is_print) (runes s))"

definition quote :: "(nat \<Rightarrow> bool) \<Rightarrow> string \<Rightarrow> string" where
  "quote is_print s = dquote # quoteBody is_print s @ [dquote]"

section \<open>Unquote\<close>

text \<open>\<^verbatim>\<open>unquoteChar\<close>: the bytes of one character of the value and what follows it.\<close>

definition take_hex :: "nat \<Rightarrow> string \<Rightarrow> (nat \<times> string) option" where
  "take_hex n s = (if length s < n then None
     else map_option (\<lambda>v. (v, drop n s)) (unhexes 0 (take n s)))"

definition octal_value :: "char \<Rightarrow> nat option" where
  "octal_value c = (if 48 \<le> byte c \<and> byte c \<le> 55 then Some (byte c - 48) else None)"

definition unquoteEscape :: "char \<Rightarrow> string \<Rightarrow> (string \<times> string) option" where
  "unquoteEscape c s =
     (if c = CHR ''a'' then Some ([chr 7], s) else if c = CHR ''b'' then Some ([chr 8], s)
      else if c = CHR ''f'' then Some ([chr 12], s) else if c = CHR ''n'' then Some ([chr 10], s)
      else if c = CHR ''r'' then Some ([chr 13], s) else if c = CHR ''t'' then Some ([chr 9], s)
      else if c = CHR ''v'' then Some ([chr 11], s)
      else if c = CHR ''x'' then map_option (\<lambda>(v, r). ([chr v], r)) (take_hex 2 s)
      else if c = CHR ''u'' \<or> c = CHR ''U'' then
        (case take_hex (if c = CHR ''u'' then 4 else 8) s of
           None \<Rightarrow> None
         | Some (v, r) \<Rightarrow> if valid_rune v then Some (encodeRune v, r) else None)
      else if octal_value c \<noteq> None then
        (case s of
           d # e # r \<Rightarrow>
             (case (octal_value c, octal_value d, octal_value e) of
                (Some x, Some y, Some z) \<Rightarrow>
                  if x * 64 + y * 8 + z > 255 then None else Some ([chr (x * 64 + y * 8 + z)], r)
              | _ \<Rightarrow> None)
         | _ \<Rightarrow> None)
      else if c = backslash then Some ([backslash], s)
      else if c = dquote then Some ([dquote], s)
      else None)"

definition unquoteChar :: "string \<Rightarrow> (string \<times> string) option" where
  "unquoteChar s =
     (case s of
        [] \<Rightarrow> None
      | c # rest \<Rightarrow>
          if c = dquote then None
          else if byte c \<ge> 0x80
          then Some (encodeRune (fst (decodeRune s)), drop (snd (decodeRune s)) s)
          else if c \<noteq> backslash then Some ([c], rest)
          else case rest of [] \<Rightarrow> None | e # r \<Rightarrow> unquoteEscape e r)"

lemma take_hex_shorter: "take_hex n s = Some (v, r) \<Longrightarrow> length r \<le> length s"
  by (auto simp: take_hex_def split: if_splits)

lemma unquoteEscape_shorter: "unquoteEscape c s = Some (v, r) \<Longrightarrow> length r \<le> length s"
  by (auto simp: unquoteEscape_def split: if_splits option.splits list.splits dest: take_hex_shorter)

lemma unquoteChar_shorter:
  assumes "unquoteChar s = Some (v, r)"
  shows "length r < length s"
proof (cases s)
  case (Cons c rest)
  then show ?thesis
    using assms decodeRune_size [of s]
    by (auto simp: unquoteChar_def split: if_splits list.splits dest!: unquoteEscape_shorter)
qed (use assms in \<open>simp add: unquoteChar_def\<close>)

text \<open>The loop up to the closing quote: the value and what follows the quote.\<close>

function unquoteBody :: "string \<Rightarrow> (string \<times> string) option" where
  "unquoteBody s =
     (case s of
        [] \<Rightarrow> None
      | c # rest \<Rightarrow>
          if c = dquote then Some ([], rest)
          else if c = newline then None
          else case unquoteChar s of
              None \<Rightarrow> None
            | Some (v, r) \<Rightarrow> map_option (\<lambda>(vs, t). (v @ vs, t)) (unquoteBody r))"
  by auto
termination
  by (relation "measure length") (auto dest!: unquoteChar_shorter)

declare unquoteBody.simps [simp del]

text \<open>\<^verbatim>\<open>strconv.Unquote\<close> of a text that starts with a double quote.\<close>

definition unquote :: "string \<Rightarrow> string option" where
  "unquote s =
     (case s of
        c # rest \<Rightarrow> if c \<noteq> dquote then None
          else (case unquoteBody rest of Some (v, []) \<Rightarrow> Some v | _ \<Rightarrow> None)
      | [] \<Rightarrow> None)"

section \<open>A quoted string is read back\<close>

lemma digits64:
  fixes d0 :: nat
  assumes "d0 < 64"
  shows "(q * 64 + d0) div 64 = q" "(q * 64 + d0) mod 64 = d0"
  using assms by (simp_all add: div_mult_self3 mod_mult_self3)

lemma continuation_digit:
  assumes "continuation c"
  obtains d where "byte c = 0x80 + d" "d < 64" "c = chr (0x80 + d)"
proof
  show "byte c = 0x80 + (byte c - 0x80)" "byte c - 0x80 < 64" "c = chr (0x80 + (byte c - 0x80))"
    using assms by (auto simp: continuation_def)
qed

lemma encode_decode2:
  assumes "0xC2 \<le> byte c" "byte c \<le> 0xDF" "continuation c1"
  defines "r \<equiv> (byte c - 0xC0) * 64 + (byte c1 - 0x80)"
  shows "encodeRune r = [c, c1]" "valid_rune r" "0x80 \<le> r"
proof -
  obtain d0 where d0: "byte c1 = 0x80 + d0" "d0 < 64" "c1 = chr (0x80 + d0)"
    using continuation_digit assms(3) by blast
  define q where "q = byte c - 0xC0"
  have q: "c = chr (0xC0 + q)" "2 \<le> q" "q \<le> 31" using assms by (auto simp: q_def)
  have r: "r = q * 64 + d0" using d0 by (simp add: r_def q_def)
  have b: "0x80 \<le> r" "r < 0x800" using q d0 unfolding r by linarith+
  show "0x80 \<le> r" by (rule b)
  show "valid_rune r" using b by (simp add: valid_rune_def)
  show "encodeRune r = [c, c1]"
    using b d0 q digits64 [OF d0(2), of q] unfolding r by (simp add: encodeRune_def)
qed

lemma encode_decode3:
  assumes "0xE0 \<le> byte c" "byte c \<le> 0xEF" "continuation c2"
    and "(if byte c = 0xE0 then 0xA0 else 0x80) \<le> byte c1"
    and "byte c1 \<le> (if byte c = 0xED then 0x9F else 0xBF)"
  defines "r \<equiv> (byte c - 0xE0) * 4096 + (byte c1 - 0x80) * 64 + (byte c2 - 0x80)"
  shows "encodeRune r = [c, c1, c2]" "valid_rune r" "0x800 \<le> r"
proof -
  have "continuation c1" using assms(4,5) by (auto simp: continuation_def split: if_splits)
  then obtain d1 where d1: "byte c1 = 0x80 + d1" "d1 < 64" "c1 = chr (0x80 + d1)"
    using continuation_digit by blast
  obtain d0 where d0: "byte c2 = 0x80 + d0" "d0 < 64" "c2 = chr (0x80 + d0)"
    using continuation_digit assms(3) by blast
  define q where "q = byte c - 0xE0"
  have q: "c = chr (0xE0 + q)" "q \<le> 15" using assms by (auto simp: q_def)
  have low: "q = 0 \<Longrightarrow> 0x20 \<le> d1" and sur: "q = 13 \<Longrightarrow> d1 < 0x20"
    using assms(1,4,5) d1 by (auto simp: q_def split: if_splits)
  have r: "r = (q * 64 + d1) * 64 + d0" using d0 d1 by (simp add: r_def q_def)
  have h: "32 \<le> q * 64 + d1" "q * 64 + d1 < 1024"
    using q d1 low by (cases "q = 0", auto)
  have s: "q * 64 + d1 < 864 \<or> 895 < q * 64 + d1"
    using sur d1 by (cases q "13::nat" rule: linorder_cases) auto
  have b: "0x800 \<le> r" "r < 0x10000" using h d0(2) unfolding r by (simp_all add: algebra_simps)
  have "r < 0xD800 \<or> 0xDFFF < r" using s d0(2) unfolding r by (auto simp: algebra_simps)
  then show v: "valid_rune r" using b by (auto simp: valid_rune_def)
  show "0x800 \<le> r" by (rule b)
  have "r div 64 = q * 64 + d1" "r mod 64 = d0" unfolding r by (rule digits64 [OF d0(2)])+
  moreover have "r div 4096 = r div 64 div 64" using div_mult2_eq [of r 64 64] by simp
  ultimately show "encodeRune r = [c, c1, c2]"
    using b v d0 d1 q digits64 [OF d1(2), of q] by (simp add: encodeRune_def)
qed

lemma encode_decode4:
  assumes "0xF0 \<le> byte c" "byte c \<le> 0xF4" "continuation c2" "continuation c3"
    and "(if byte c = 0xF0 then 0x90 else 0x80) \<le> byte c1"
    and "byte c1 \<le> (if byte c = 0xF4 then 0x8F else 0xBF)"
  defines "r \<equiv> (byte c - 0xF0) * 262144 + (byte c1 - 0x80) * 4096 + (byte c2 - 0x80) * 64
    + (byte c3 - 0x80)"
  shows "encodeRune r = [c, c1, c2, c3]" "valid_rune r" "0x10000 \<le> r"
proof -
  have "continuation c1" using assms(5,6) by (auto simp: continuation_def split: if_splits)
  then obtain d2 where d2: "byte c1 = 0x80 + d2" "d2 < 64" "c1 = chr (0x80 + d2)"
    using continuation_digit by blast
  obtain d1 where d1: "byte c2 = 0x80 + d1" "d1 < 64" "c2 = chr (0x80 + d1)"
    using continuation_digit assms(3) by blast
  obtain d0 where d0: "byte c3 = 0x80 + d0" "d0 < 64" "c3 = chr (0x80 + d0)"
    using continuation_digit assms(4) by blast
  define q where "q = byte c - 0xF0"
  have q: "c = chr (0xF0 + q)" "q \<le> 4" using assms by (auto simp: q_def)
  have low: "q = 0 \<Longrightarrow> 0x10 \<le> d2" and high: "q = 4 \<Longrightarrow> d2 < 0x10"
    using assms(1,5,6) d2 by (auto simp: q_def split: if_splits)
  have r: "r = ((q * 64 + d2) * 64 + d1) * 64 + d0" using d0 d1 d2 by (simp add: r_def q_def)
  have h: "16 \<le> q * 64 + d2" using low by (cases "q = 0") auto
  have h4: "q * 64 + d2 < 272" using q d2 high by (cases "q = 4") auto
  have b: "0x10000 \<le> r" using h d0(2) d1(2) unfolding r by (simp add: algebra_simps)
  have "r \<le> 0x10FFFF" using h4 d0(2) d1(2) unfolding r by (simp add: algebra_simps)
  then show v: "valid_rune r" using b by (auto simp: valid_rune_def)
  show "0x10000 \<le> r" by (rule b)
  have "r div 64 = (q * 64 + d2) * 64 + d1" "r mod 64 = d0"
    unfolding r by (rule digits64 [OF d0(2)])+
  note e64 = this
  have e4096: "r div 4096 = q * 64 + d2"
    using div_mult2_eq [of r 64 64] e64(1) digits64(1) [OF d1(2)] by simp
  have e262144: "r div 262144 = q"
    using div_mult2_eq [of r 4096 64] e4096 digits64(1) [OF d2(2)] by simp
  have m: "r div 64 mod 64 = d1" "r div 4096 mod 64 = d2"
    unfolding e64(1) e4096 by (rule digits64(2) [OF d1(2)], rule digits64(2) [OF d2(2)])
  have "encodeRune r = [chr (0xF0 + r div 262144), chr (0x80 + r div 4096 mod 64),
      chr (0x80 + r div 64 mod 64), chr (0x80 + r mod 64)]"
    using b v by (simp add: encodeRune_def)
  then show "encodeRune r = [c, c1, c2, c3]"
    unfolding m e262144 e64(2) using d0(3) d1(3) d2(3) q(1) by simp
qed

lemma encode_decode:
  assumes "1 < snd (decodeRune s)"
  shows "encodeRune (fst (decodeRune s)) = take (snd (decodeRune s)) s
    \<and> valid_rune (fst (decodeRune s)) \<and> 0x80 \<le> fst (decodeRune s)"
proof (cases s)
  case (Cons c rest)
  consider "0xC2 \<le> byte c" "byte c \<le> 0xDF" | "0xE0 \<le> byte c" "byte c \<le> 0xEF"
    | "0xF0 \<le> byte c" "byte c \<le> 0xF4"
    using assms Cons by (auto simp: Let_def split: if_splits)
  then show ?thesis
  proof cases
    case 1
    then show ?thesis
      using assms Cons encode_decode2 [OF 1]
      by (auto simp: Let_def decode2_def split: list.splits if_splits)
  next
    case 2
    then show ?thesis
      using assms Cons encode_decode3 [OF 2]
      by (auto simp: Let_def decode3_def split: list.splits if_splits)
  next
    case 3
    then show ?thesis
      using assms Cons encode_decode4 [OF 3]
      by (auto simp: Let_def decode4_def split: list.splits if_splits)
  qed
qed (use assms in simp)

text \<open>A rune above ASCII is encoded in bytes above ASCII.\<close>

lemma encodeRune_high:
  assumes "0x80 \<le> r" "valid_rune r" "c \<in> set (encodeRune r)"
  shows "0x80 \<le> byte c"
proof -
  have c: "0x80 \<le> byte (chr (0x80 + d))" if "d < 64" for d
    using that by (simp add: byte_chr)
  have c2: "0x80 \<le> byte (chr (0xC0 + d))" if "d < 32" for d
    using that by (simp add: byte_chr)
  have c3: "0x80 \<le> byte (chr (0xE0 + d))" if "d < 16" for d
    using that by (simp add: byte_chr)
  have c4: "0x80 \<le> byte (chr (0xF0 + d))" if "d \<le> 4" for d
    using that by (simp add: byte_chr)
  have m: "n mod 64 < 64" for n :: nat by simp
  have "r \<le> 0x10FFFF" using assms(2) by (auto simp: valid_rune_def)
  then consider "r < 0x800" | "0x800 \<le> r" "r < 0x10000" | "0x10000 \<le> r" "r \<le> 0x10FFFF"
    by linarith
  then show ?thesis
  proof cases
    case 1
    then have "c = chr (0xC0 + r div 64) \<or> c = chr (0x80 + r mod 64)"
      using assms by (simp add: encodeRune_def)
    then show ?thesis using c [OF m] c2 [OF div_bounds(1) [OF 1]] by blast
  next
    case 2
    then have "c = chr (0xE0 + r div 4096) \<or> c = chr (0x80 + r div 64 mod 64)
        \<or> c = chr (0x80 + r mod 64)"
      using assms by (simp add: encodeRune_def)
    then show ?thesis using c [OF m] c3 [OF div_bounds(2) [OF 2(2)]] by blast
  next
    case 3
    then have "c = chr (0xF0 + r div 262144) \<or> c = chr (0x80 + r div 4096 mod 64)
        \<or> c = chr (0x80 + r div 64 mod 64) \<or> c = chr (0x80 + r mod 64)"
      using assms by (simp add: encodeRune_def)
    then show ?thesis using c [OF m] c4 [OF div_bounds(3) [OF 3(2)]] by blast
  qed
qed

text \<open>The units \<^verbatim>\<open>Quote\<close> works on: a valid rune with its encoding, or an invalid byte.\<close>

definition unit_ok :: "nat \<times> string \<Rightarrow> bool" where
  "unit_ok u \<longleftrightarrow>
     (\<exists>c. snd u = [c] \<and> (fst u = runeError \<or> fst u < 0x80 \<and> fst u = byte c))
     \<or> (valid_rune (fst u) \<and> 0x80 \<le> fst u \<and> snd u = encodeRune (fst u))"

lemma decodeRune_one:
  assumes "s = c # t" and "\<not> 1 < snd (decodeRune s)"
  shows "snd (decodeRune s) = 1
    \<and> (fst (decodeRune s) = runeError \<or> fst (decodeRune s) < 0x80 \<and> fst (decodeRune s) = byte c)"
proof -
  have "decode2 b t = (runeError, 1) \<or> snd (decode2 b t) = 2"
    "decode3 b t = (runeError, 1) \<or> snd (decode3 b t) = 3"
    "decode4 b t = (runeError, 1) \<or> snd (decode4 b t) = 4" for b
    by (simp_all add: decode2_def decode3_def decode4_def split: list.split)
  note multi = this [of "byte c"]
  show ?thesis
    using assms multi
    by (cases "byte c < 0x80"; cases "0xC2 \<le> byte c \<and> byte c \<le> 0xDF";
        cases "0xE0 \<le> byte c \<and> byte c \<le> 0xEF"; cases "0xF0 \<le> byte c \<and> byte c \<le> 0xF4")
      (simp_all add: Let_def, auto)
qed

lemma unit_ok_runes: "u \<in> set (runes s) \<Longrightarrow> unit_ok u"
proof (induction s rule: runes.induct)
  case (1 s)
  show ?case
  proof (cases s)
    case (Cons c t)
    have "unit_ok (fst (decodeRune s), take (snd (decodeRune s)) s)"
      using encode_decode [of s] decodeRune_one [OF Cons] Cons
      by (cases "1 < snd (decodeRune s)") (auto simp: unit_ok_def)
    then show ?thesis
      using 1 Cons by (subst (asm) (2) runes.simps) (auto split: if_splits)
  qed (use 1 in \<open>simp add: runes.simps\<close>)
qed

lemma unquoteBody_step:
  assumes "s = c # t" "c \<noteq> dquote" "c \<noteq> newline" "unquoteChar s = Some (v, r)"
  shows "unquoteBody s = map_option (\<lambda>(vs, t). (v @ vs, t)) (unquoteBody r)"
  using assms by (subst unquoteBody.simps) simp

lemma take_hex_hexes: "v < 16 ^ n \<Longrightarrow> take_hex n (hexes n v @ rest) = Some (v, rest)"
  by (simp add: take_hex_def unhexes_hexes)

lemma unquote_escape:
  assumes "unquoteEscape c (t @ rest) = Some (v, rest)"
  shows "unquoteBody (backslash # c # t @ rest) =
    map_option (\<lambda>(vs, u). (v @ vs, u)) (unquoteBody rest)"
  by (rule unquoteBody_step [OF refl]) (use assms in \<open>simp_all add: unquoteChar_def\<close>)

lemma chr_quotes: "chr 0x22 = dquote" "chr 0x5C = backslash"
  by code_simp+

lemma simple_escapes:
  "unquoteEscape (CHR ''a'') s = Some ([chr 7], s)"
  "unquoteEscape (CHR ''b'') s = Some ([chr 8], s)"
  "unquoteEscape (CHR ''t'') s = Some ([chr 9], s)"
  "unquoteEscape (CHR ''n'') s = Some ([chr 10], s)"
  "unquoteEscape (CHR ''v'') s = Some ([chr 11], s)"
  "unquoteEscape (CHR ''f'') s = Some ([chr 12], s)"
  "unquoteEscape (CHR ''r'') s = Some ([chr 13], s)"
  "unquoteEscape dquote s = Some ([dquote], s)"
  "unquoteEscape backslash s = Some ([backslash], s)"
  by (simp_all add: unquoteEscape_def octal_value_def)

lemmas unquote_simple = simple_escapes [THEN unquote_escape [where t = "[]", simplified]]

lemma escape_ascii:
  assumes "r < 0x80"
  shows "unquoteBody (escapedRune is_print r @ rest) =
    map_option (\<lambda>(vs, u). (chr r # vs, u)) (unquoteBody rest)"
proof -
  have b: "byte (chr r) = r" using assms by (simp add: byte_chr)
  have d: "r < 0x20 \<or> r = 0x7F \<or> 0x20 \<le> r \<and> r < 0x7F" using assms by linarith
  consider "r = 0x22" | "r = 0x5C" | "0x20 \<le> r" "r < 0x7F" "r \<noteq> 0x22" "r \<noteq> 0x5C"
    | "r = 7" | "r = 8" | "r = 12" | "r = 10" | "r = 13" | "r = 9" | "r = 11"
    | "r < 0x20 \<or> r = 0x7F" "r \<noteq> 7" "r \<noteq> 8" "r \<noteq> 9" "r \<noteq> 10" "r \<noteq> 11" "r \<noteq> 12" "r \<noteq> 13"
    using d by blast
  then show ?thesis
  proof cases
    case 3
    then have ge: "0x20 \<le> r" "printable is_print r" by (simp_all add: printable_def)
    have neq: "chr r = c \<Longrightarrow> r = byte c" for c using b by auto
    have ne: "chr r \<noteq> dquote" "chr r \<noteq> newline" "chr r \<noteq> backslash"
      using 3 neq [of dquote] neq [of newline] neq [of backslash] by auto
    have "escapedRune is_print r = [chr r]"
      using 3 ge assms by (simp add: escapedRune_def encodeRune_def)
    moreover have "unquoteChar (chr r # rest) = Some ([chr r], rest)"
      using ne assms b by (simp add: unquoteChar_def)
    ultimately show ?thesis using unquoteBody_step [OF refl ne(1,2)] by simp
  next
    case 11
    have np: "\<not> printable is_print r" using 11 assms by (auto simp: printable_def)
    have "escapedRune is_print r = backslash # CHR ''x'' # hexes 2 r"
      using 11 np assms by (auto simp: escapedRune_def)
    moreover have "unquoteEscape (CHR ''x'') (hexes 2 r @ rest) = Some ([chr r], rest)"
      using assms by (simp add: unquoteEscape_def take_hex_hexes)
    ultimately show ?thesis using unquote_escape by simp
  qed (simp_all add: escapedRune_def printable_def chr_quotes unquote_simple)
qed

lemma escape_high:
  assumes "0x80 \<le> r" "valid_rune r"
  shows "unquoteBody (escapedRune is_print r @ rest) =
    map_option (\<lambda>(vs, u). (encodeRune r @ vs, u)) (unquoteBody rest)"
proof (cases "printable is_print r")
  case True
  obtain c t where ct: "encodeRune r = c # t" by (cases "encodeRune r") (auto simp: encodeRune_def split: if_splits)
  then have c: "0x80 \<le> byte c" using encodeRune_high [OF assms] by auto
  then have ne: "c \<noteq> dquote" "c \<noteq> newline" by auto
  have "unquoteChar (encodeRune r @ rest) = Some (encodeRune r, rest)"
    using decode_encode [OF assms(2), of rest] ct c ne by (simp add: unquoteChar_def)
  moreover have "escapedRune is_print r = encodeRune r"
    using True assms by (simp add: escapedRune_def)
  ultimately show ?thesis using unquoteBody_step [OF _ ne] ct by simp
next
  case False
  show ?thesis
  proof (cases "r < 0x10000")
    case True
    have "escapedRune is_print r = backslash # CHR ''u'' # hexes 4 r"
      using True False assms by (auto simp: escapedRune_def)
    moreover have "unquoteEscape (CHR ''u'') (hexes 4 r @ rest) = Some (encodeRune r, rest)"
      using True assms by (simp add: unquoteEscape_def take_hex_hexes)
    ultimately show ?thesis using unquote_escape by simp
  next
    case big: False
    have lt: "r < 16 ^ 8" using assms by (auto simp: valid_rune_def)
    have "escapedRune is_print r = backslash # CHR ''U'' # hexes 8 r"
      using big False assms by (auto simp: escapedRune_def)
    moreover have "unquoteEscape (CHR ''U'') (hexes 8 r @ rest) = Some (encodeRune r, rest)"
      using assms take_hex_hexes [OF lt] by (simp add: unquoteEscape_def)
    ultimately show ?thesis using unquote_escape by simp
  qed
qed

lemma unquote_unit:
  assumes "unit_ok u"
  shows "unquoteBody (quoteUnit is_print u @ rest) =
    map_option (\<lambda>(vs, t). (snd u @ vs, t)) (unquoteBody rest)"
proof (cases "length (snd u) = 1 \<and> fst u = runeError")
  case True
  then obtain c where c: "snd u = [c]" by (cases "snd u") auto
  have "unquoteEscape (CHR ''x'') (hexes 2 (byte c) @ rest) = Some ([c], rest)"
    by (simp add: unquoteEscape_def take_hex_hexes)
  then show ?thesis using True c unquote_escape [of "CHR ''x''" "hexes 2 (byte c)"]
    by (simp add: quoteUnit_def)
next
  case False
  then consider c where "snd u = [c]" "fst u < 0x80" "fst u = byte c"
    | "valid_rune (fst u)" "0x80 \<le> fst u" "snd u = encodeRune (fst u)"
    using assms by (auto simp: unit_ok_def)
  then show ?thesis
  proof cases
    case 1
    then show ?thesis using False escape_ascii [OF 1(2)] by (simp add: quoteUnit_def)
  next
    case 2
    then have "quoteUnit is_print u = escapedRune is_print (fst u)"
      using False by (auto simp: quoteUnit_def)
    then show ?thesis using 2 escape_high [OF 2(2,1)] by simp
  qed
qed

lemma unquote_quoteBody:
  "unquoteBody (quoteBody is_print s @ dquote # rest) = Some (s, rest)"
proof -
  have "unquoteBody (concat (map (quoteUnit is_print) us) @ dquote # rest)
      = Some (concat (map snd us), rest)" if "\<forall>u \<in> set us. unit_ok u" for us
    using that
  proof (induction us)
    case Nil
    show ?case by (subst unquoteBody.simps) simp
  next
    case (Cons u us)
    then show ?case by (simp add: unquote_unit)
  qed
  from this [of "runes s"] show ?thesis
    using unit_ok_runes runes_concat by (simp add: quoteBody_def)
qed

lemma unquote_quote [simp]: "unquote (quote is_print s) = Some s"
  using unquote_quoteBody [of is_print s "[]"] by (simp add: unquote_def quote_def)

end
