(* ===== verification/KDM_Config.thy ===== *)
theory KDM_Config
  imports KDM_Quote KDM_Domain
begin

text \<open>
  What the manager reads and writes of a KMonad configuration: the tokenizer and the device it
  finds (\<^verbatim>\<open>tokenizeConfig\<close>, \<^verbatim>\<open>deviceFileFromData\<close> of \<^verbatim>\<open>manager/state.go\<close>), the forms
  a managed configuration must not contain (\<^verbatim>\<open>manager/render.go\<close>), the candidate that is
  rendered for a device (\<^verbatim>\<open>render.go\<close>, \<^verbatim>\<open>RenderKMonadDefcfg\<close> of
  \<^verbatim>\<open>platform/linux.go\<close>) and the model adopted from an external configuration
  (\<^verbatim>\<open>manager/adopt.go\<close>).

  A scanning index is modelled by the rest of the input from it.
\<close>

section \<open>The tokenizer\<close>

record config_token =
  tok_kind :: char
  tok_value :: string

abbreviation paren_open :: config_token where
  "paren_open \<equiv> \<lparr>tok_kind = CHR ''('', tok_value = []\<rparr>"

abbreviation paren_close :: config_token where
  "paren_close \<equiv> \<lparr>tok_kind = CHR '')'', tok_value = []\<rparr>"

abbreviation symbol :: "string \<Rightarrow> config_token" where
  "symbol s \<equiv> \<lparr>tok_kind = CHR ''s'', tok_value = s\<rparr>"

abbreviation quoted :: "string \<Rightarrow> config_token" where
  "quoted s \<equiv> \<lparr>tok_kind = CHR ''q'', tok_value = s\<rparr>"

definition blanks :: "char list" where
  "blanks = [CHR 0x20, CHR 0x09, CHR 0x0D, CHR 0x0A]"

definition delimiters :: "char list" where
  "delimiters = [CHR ''('', CHR '')'', CHR 0x3B, CHR 0x09, CHR 0x0D, CHR 0x0A, CHR 0x20]"

text \<open>The text of a quoted string from after its opening quote up to and with its closing
  quote, and what follows; a backslash skips the next byte.\<close>

fun quoted_span :: "string \<Rightarrow> (string \<times> string) option" where
  "quoted_span [] = None"
| "quoted_span (c # s) =
     (if c = backslash
      then (case s of [] \<Rightarrow> None
        | d # r \<Rightarrow> map_option (\<lambda>(a, b). (c # d # a, b)) (quoted_span r))
      else if c = dquote then Some ([dquote], s)
      else map_option (\<lambda>(a, b). (c # a, b)) (quoted_span s))"

lemma quoted_span_shorter: "quoted_span s = Some (a, b) \<Longrightarrow> length b < length s"
  by (induction s arbitrary: a b rule: quoted_span.induct)
    (fastforce split: if_splits list.splits)+

function tokenizeConfig :: "string \<Rightarrow> string + config_token list" where
  "tokenizeConfig data =
     (case data of
        [] \<Rightarrow> Inr []
      | c # rest \<Rightarrow>
          if c = CHR 0x3B then tokenizeConfig (dropWhile (\<lambda>x. x \<noteq> newline) rest)
          else if c \<in> set blanks then tokenizeConfig rest
          else if c = CHR ''('' \<or> c = CHR '')''
          then map_sum id (\<lambda>ts. \<lparr>tok_kind = c, tok_value = []\<rparr> # ts) (tokenizeConfig rest)
          else if c = dquote then
            (case quoted_span rest of
               None \<Rightarrow> Inl ''unterminated quoted string''
             | Some (body, after) \<Rightarrow>
                 (case unquote (dquote # body) of
                    None \<Rightarrow> Inl ''invalid quoted string: invalid syntax''
                  | Some v \<Rightarrow> map_sum id (\<lambda>ts. quoted v # ts) (tokenizeConfig after)))
          else map_sum id (\<lambda>ts. symbol (takeWhile (\<lambda>x. x \<notin> set delimiters) data) # ts)
                 (tokenizeConfig (dropWhile (\<lambda>x. x \<notin> set delimiters) data)))"
  by auto
termination
  by (relation "measure length")
    (auto simp: delimiters_def blanks_def le_imp_less_Suc length_dropWhile_le
      dest!: quoted_span_shorter)

declare tokenizeConfig.simps [simp del]

section \<open>The device of a configuration\<close>

text \<open>The loop over the tokens: the first \<open>input ( device-file "..."\<close>; no match is the empty
  string, not an error.\<close>

fun find_device :: "config_token list \<Rightarrow> string" where
  "find_device (a # b # c # d # ts) =
     (if tok_kind a = CHR ''s'' \<and> tok_value a = ''input'' \<and> tok_kind b = CHR ''(''
         \<and> tok_kind c = CHR ''s'' \<and> tok_value c = ''device-file'' \<and> tok_kind d = CHR ''q''
      then tok_value d else find_device (b # c # d # ts))"
| "find_device _ = []"

definition deviceFileFromData :: "string \<Rightarrow> string + string" where
  "deviceFileFromData data = map_sum id find_device (tokenizeConfig data)"

section \<open>Manager-owned forms\<close>

definition owned_symbols :: "string list" where
  "owned_symbols = [''defcfg'', ''device-file'', ''uinput-sink'']"

definition containsManagerOwnedConfiguration :: "string \<Rightarrow> bool" where
  "containsManagerOwnedConfiguration behavior =
     (case tokenizeConfig behavior of
        Inl _ \<Rightarrow> contains behavior ''(defcfg'' \<or> contains behavior ''device-file''
                 \<or> contains behavior ''uinput-sink''
      | Inr tokens \<Rightarrow> list_ex (\<lambda>t. tok_kind t = CHR ''s'' \<and> tok_value t \<in> set owned_symbols) tokens)"

section \<open>The rendered candidate\<close>

text \<open>\<^verbatim>\<open>RenderKMonadInput\<close> and \<^verbatim>\<open>RenderKMonadDefcfg\<close>, for a device whose availability
  is known.\<close>

definition renderKMonadInput ::
  "(nat \<Rightarrow> bool) \<Rightarrow> device_availability \<Rightarrow> string \<Rightarrow> string + string" where
  "renderKMonadInput is_print availability path =
     (if availability \<noteq> DeviceConnected then Inl ''input device is unavailable''
      else Inr (''input (device-file '' @ quote is_print path @ '')''))"

definition renderKMonadDefcfg ::
  "(nat \<Rightarrow> bool) \<Rightarrow> device_availability \<Rightarrow> string \<Rightarrow> string \<Rightarrow> string + string" where
  "renderKMonadDefcfg is_print availability inputPath outputName =
     (case renderKMonadInput is_print availability inputPath of
        Inl e \<Rightarrow> Inl e
      | Inr input \<Rightarrow>
          if trimSpace outputName = [] then Inl ''KMonad output name is empty''
          else Inr (''(defcfg'' @ newline # ''  '' @ input @ newline # ''  output (uinput-sink ''
                 @ quote is_print outputName @ '')'' @ newline # '')''))"

text \<open>The end of \<^verbatim>\<open>renderManagedConfigurationWithSourceMap\<close>: the content, and where the
  submitted behavior starts in it.\<close>

definition render_content :: "string \<Rightarrow> string \<Rightarrow> string" where
  "render_content defcfg behavior =
     defcfg @ [newline] @ (if behavior \<noteq> [] then behavior @ [newline] else [])"

definition behavior_start :: "string \<Rightarrow> nat" where
  "behavior_start defcfg = length defcfg + 1"

definition managedOutputName :: "(string \<Rightarrow> string) \<Rightarrow> string \<Rightarrow> string" where
  "managedOutputName sha256hex deviceID =
     ''kmonad-device-manager-'' @ take 16 (sha256hex deviceID)"

section \<open>Adoption of an external configuration\<close>

definition canonicalInputDefcfg :: "config_token list \<Rightarrow> bool" where
  "canonicalInputDefcfg tokens =
     (case tokens of
        [t0, t1, t2, t3, t4, t5, t6, t7] \<Rightarrow>
          tok_kind t0 = CHR ''('' \<and> tok_kind t1 = CHR ''s'' \<and> tok_value t1 = ''defcfg''
          \<and> tok_kind t2 = CHR ''s'' \<and> tok_value t2 = ''input'' \<and> tok_kind t3 = CHR ''(''
          \<and> tok_kind t4 = CHR ''s'' \<and> tok_value t4 = ''device-file'' \<and> tok_kind t5 = CHR ''q''
          \<and> tok_kind t6 = CHR '')'' \<and> tok_kind t7 = CHR '')''
      | _ \<Rightarrow> False)"

text \<open>
  \<^verbatim>\<open>sExpressionEnd\<close> from its start: the length of the expression. The depth is an
  \<open>int\<close>, as in the code it may fall below zero; a backslash in a string skips a byte.
\<close>

function sExpressionEnd :: "int \<Rightarrow> bool \<Rightarrow> string \<Rightarrow> nat option" where
  "sExpressionEnd depth inString [] = None"
| "sExpressionEnd depth inString (c # s) =
     (if c = backslash then
        (if inString then map_option (\<lambda>n. n + 1 + length (take 1 s)) (sExpressionEnd depth inString (drop 1 s))
         else map_option Suc (sExpressionEnd depth inString s))
      else if c = dquote then map_option Suc (sExpressionEnd depth (\<not> inString) s)
      else if c = CHR 0x3B \<and> \<not> inString then
        map_option (\<lambda>n. n + 1 + length (takeWhile (\<lambda>x. x \<noteq> newline) s)
            + length (take 1 (dropWhile (\<lambda>x. x \<noteq> newline) s)))
          (sExpressionEnd depth inString (drop 1 (dropWhile (\<lambda>x. x \<noteq> newline) s)))
      else if c = CHR ''('' \<and> \<not> inString then map_option Suc (sExpressionEnd (depth + 1) inString s)
      else if c = CHR '')'' \<and> \<not> inString then
        (if depth - 1 = 0 then Some 1 else map_option Suc (sExpressionEnd (depth - 1) inString s))
      else map_option Suc (sExpressionEnd depth inString s))"
  by pat_completeness auto
termination
  by (relation "measure (\<lambda>(d, i, s). length s)")
    (auto simp: le_imp_less_Suc length_dropWhile_le intro: le_less_trans [OF diff_le_self])

definition managedModelFromExternal ::
  "string \<Rightarrow> string \<Rightarrow> string + managed_configuration_model" where
  "managedModelFromExternal content deviceID =
     (if deviceID = []
      then Inl ''external configuration device is unavailable or not representable''
      else case index_of content ''(defcfg'' of
        None \<Rightarrow> Inl ''external configuration has no representable defcfg input form''
      | Some start \<Rightarrow>
          (case sExpressionEnd 0 False (drop start content) of
             None \<Rightarrow> Inl ''external configuration has an unterminated defcfg form''
           | Some n \<Rightarrow>
               (case tokenizeConfig (take n (drop start content)) of
                  Inl _ \<Rightarrow> Inl ''external configuration defcfg has options that cannot be adopted losslessly''
                | Inr tokens \<Rightarrow>
                    if \<not> canonicalInputDefcfg tokens
                    then Inl ''external configuration defcfg has options that cannot be adopted losslessly''
                    else
                      let behavior = trimSpace (take start content @ drop (start + n) content)
                      in if containsManagerOwnedConfiguration behavior
                         then Inl ''external configuration contains additional manager-owned configuration that cannot be adopted losslessly''
                         else Inr \<lparr>model_DeviceID = deviceID, model_Behavior = behavior\<rparr>)))"

section \<open>Tokenizing a text in parts\<close>

lemma quoted_span_append:
  "quoted_span s = Some (a, b) \<Longrightarrow> quoted_span (s @ t) = Some (a, b @ t)"
proof (induction s arbitrary: a b rule: quoted_span.induct)
  case (2 c s)
  then show ?case by (cases s) (auto split: if_splits)
qed simp

lemma newline_delimiter: "newline \<in> set delimiters" "newline \<in> set blanks"
  by (simp_all add: delimiters_def blanks_def)

lemma tokenize_newline [simp]: "tokenizeConfig (newline # s) = tokenizeConfig s"
  by (subst tokenizeConfig.simps) (simp add: blanks_def)

lemma tokenize_nil [simp]: "tokenizeConfig [] = Inr []"
  by (subst tokenizeConfig.simps) simp

lemma takeWhile_newline:
  "takeWhile (\<lambda>x. x \<notin> set delimiters) (s @ newline # t) = takeWhile (\<lambda>x. x \<notin> set delimiters) s"
  "dropWhile (\<lambda>x. x \<notin> set delimiters) (s @ newline # t) =
     dropWhile (\<lambda>x. x \<notin> set delimiters) s @ newline # t"
  by (induction s) (simp_all add: newline_delimiter)

lemma dropWhile_comment:
  "dropWhile (\<lambda>x. x \<noteq> newline) (s @ newline # t) =
     (dropWhile (\<lambda>x. x \<noteq> newline) s) @ newline # t"
  by (induction s) simp_all

text \<open>One turn of the loop.\<close>

lemma tokenize_comment:
  "tokenizeConfig (CHR 0x3B # s) = tokenizeConfig (dropWhile (\<lambda>x. x \<noteq> newline) s)"
  by (subst tokenizeConfig.simps) simp

lemma tokenize_blank: "c \<in> set blanks \<Longrightarrow> tokenizeConfig (c # s) = tokenizeConfig s"
  by (subst tokenizeConfig.simps) (auto simp: blanks_def)

lemma tokenize_paren:
  "tokenizeConfig (CHR ''('' # s) = map_sum id (\<lambda>ts. paren_open # ts) (tokenizeConfig s)"
  "tokenizeConfig (CHR '')'' # s) = map_sum id (\<lambda>ts. paren_close # ts) (tokenizeConfig s)"
  by (subst tokenizeConfig.simps, simp add: blanks_def)+

lemma tokenize_string:
  "tokenizeConfig (dquote # s) =
     (case quoted_span s of None \<Rightarrow> Inl ''unterminated quoted string''
      | Some (body, after) \<Rightarrow>
          (case unquote (dquote # body) of None \<Rightarrow> Inl ''invalid quoted string: invalid syntax''
           | Some v \<Rightarrow> map_sum id (\<lambda>ts. quoted v # ts) (tokenizeConfig after)))"
  by (subst tokenizeConfig.simps) (simp add: blanks_def)

lemma tokenize_word:
  assumes "c \<notin> set delimiters" "c \<noteq> dquote"
  shows "tokenizeConfig (c # s) =
     map_sum id (\<lambda>ts. symbol (c # takeWhile (\<lambda>x. x \<notin> set delimiters) s) # ts)
       (tokenizeConfig (dropWhile (\<lambda>x. x \<notin> set delimiters) s))"
  using assms by (subst tokenizeConfig.simps) (auto simp: delimiters_def blanks_def)

lemma first_byte_cases:
  obtains "c = CHR 0x3B" | "c \<in> set blanks" | "c = CHR ''(''" | "c = CHR '')''" | "c = dquote"
    | "c \<notin> set delimiters" "c \<noteq> dquote"
  by (auto simp: delimiters_def blanks_def)

lemma map_sum_comp: "map_sum id f (map_sum id g x) = map_sum id (\<lambda>u. f (g u)) x"
  by (cases x) simp_all

text \<open>After a complete text and a newline, tokenizing goes on as if it started there.\<close>

lemma tokenize_append:
  "tokenizeConfig a = Inr ts \<Longrightarrow>
   tokenizeConfig (a @ newline # b) = map_sum id (\<lambda>us. ts @ us) (tokenizeConfig b)"
proof (induction a arbitrary: ts rule: measure_induct_rule [where f = length])
  case (less data)
  show ?case
  proof (cases data)
    case Nil
    then show ?thesis using less by (cases "tokenizeConfig b") simp_all
  next
    case (Cons c s)
    have IH: "tokenizeConfig (a @ newline # b) = map_sum id (\<lambda>vs. us @ vs) (tokenizeConfig b)"
      if "tokenizeConfig a = Inr us" "length a \<le> length s" for a us
      by (rule less.IH [OF _ that(1)]) (use that(2) Cons in simp)
    note short = length_dropWhile_le [of _ s]
    show ?thesis
    proof (cases c rule: first_byte_cases)
      case 1
      then have "tokenizeConfig (dropWhile (\<lambda>x. x \<noteq> newline) s) = Inr ts"
        using less.prems Cons by (simp add: tokenize_comment)
      from IH [OF this short] show ?thesis
        unfolding Cons 1 by (simp only: append_Cons tokenize_comment dropWhile_comment)
    next
      case 2
      then show ?thesis
        using less.prems IH [of s] unfolding Cons by (cases "tokenizeConfig b") (simp_all add: tokenize_blank)
    next
      case 3
      then obtain us where "tokenizeConfig s = Inr us" "ts = paren_open # us"
        using less.prems Cons by (cases "tokenizeConfig s") (auto simp: tokenize_paren)
      then show ?thesis
        using 3 IH [of s us] unfolding Cons by (cases "tokenizeConfig b") (simp_all add: tokenize_paren)
    next
      case 4
      then obtain us where "tokenizeConfig s = Inr us" "ts = paren_close # us"
        using less.prems Cons by (cases "tokenizeConfig s") (auto simp: tokenize_paren)
      then show ?thesis
        using 4 IH [of s us] unfolding Cons by (cases "tokenizeConfig b") (simp_all add: tokenize_paren)
    next
      case 5
      then obtain body after where span: "quoted_span s = Some (body, after)"
        using less.prems Cons by (auto simp: tokenize_string split: option.splits)
      then obtain v us where "unquote (dquote # body) = Some v" "tokenizeConfig after = Inr us"
        "ts = quoted v # us"
        using less.prems Cons 5
        by (cases "tokenizeConfig after") (auto simp: tokenize_string split: option.splits)
      then show ?thesis
        using 5 span quoted_span_append [OF span] quoted_span_shorter [OF span] IH [of after us]
        unfolding Cons by (cases "tokenizeConfig b") (simp_all add: tokenize_string)
    next
      case 6
      let ?d = "dropWhile (\<lambda>x. x \<notin> set delimiters) s"
      obtain us where "tokenizeConfig ?d = Inr us"
        "ts = symbol (c # takeWhile (\<lambda>x. x \<notin> set delimiters) s) # us"
        using less.prems Cons 6 by (cases "tokenizeConfig ?d") (auto simp: tokenize_word)
      then show ?thesis
        using 6 IH [of ?d us] short unfolding Cons
        by (cases "tokenizeConfig b") (simp_all add: tokenize_word takeWhile_newline)
    qed
  qed
qed

section \<open>Quoted strings in a configuration\<close>

fun escaped :: "string \<Rightarrow> bool" where
  "escaped [] = True"
| "escaped (c # s) =
     (if c = backslash then (case s of [] \<Rightarrow> False | d # r \<Rightarrow> escaped r)
      else c \<noteq> dquote \<and> escaped s)"

lemma escaped_append: "escaped a \<Longrightarrow> escaped b \<Longrightarrow> escaped (a @ b)"
proof (induction a rule: escaped.induct)
  case (2 c s)
  then show ?case by (cases s) (auto split: if_splits)
qed simp

lemma escaped_plain: "(\<forall>c \<in> set s. c \<noteq> backslash \<and> c \<noteq> dquote) \<Longrightarrow> escaped s"
  by (induction s) auto

lemma hexes_plain: "c \<in> set (hexes k v) \<Longrightarrow> c \<noteq> backslash \<and> c \<noteq> dquote"
proof (induction k arbitrary: v)
  case (Suc k)
  have "hex_digit d \<noteq> backslash \<and> hex_digit d \<noteq> dquote" if "d < 16" for d
  proof -
    have "unhex (hex_digit d) = Some d" using that by simp
    then show ?thesis by (auto simp: unhex_def)
  qed
  then show ?case using Suc by auto
qed simp

lemma escaped_escapedRune: "valid_rune r \<Longrightarrow> escaped (escapedRune is_print r)"
proof -
  assume v: "valid_rune r"
  have h: "escaped (hexes k n)" for k n
    by (rule escaped_plain) (use hexes_plain in blast)
  have e: "escaped (encodeRune r)" if "r \<noteq> 0x22" "r \<noteq> 0x5C"
  proof (cases "r < 0x80")
    case True
    have neq: "chr r = c \<Longrightarrow> r = byte c" for c using True byte_chr [of r] by auto
    have "chr r \<noteq> backslash" "chr r \<noteq> dquote"
      using that neq [of backslash] neq [of dquote] by auto
    then show ?thesis using True by (simp add: encodeRune_def)
  next
    case False
    then have "\<forall>c \<in> set (encodeRune r). 0x80 \<le> byte c"
      using encodeRune_high [of r] v by auto
    then show ?thesis by (intro escaped_plain) auto
  qed
  show ?thesis using h e by (simp add: escapedRune_def)
qed

lemma escaped_quoteUnit: "unit_ok u \<Longrightarrow> escaped (quoteUnit is_print u)"
proof -
  assume u: "unit_ok u"
  have h: "escaped (hexes k n)" for k n
    by (rule escaped_plain) (use hexes_plain in blast)
  show ?thesis
  proof (cases "length (snd u) = 1 \<and> fst u = runeError")
    case True
    then show ?thesis using h by (simp add: quoteUnit_def)
  next
    case False
    then have "valid_rune (fst u)" using u by (auto simp: unit_ok_def valid_rune_def)
    then show ?thesis using False escaped_escapedRune by (auto simp: quoteUnit_def)
  qed
qed

lemma escaped_quoteBody: "escaped (quoteBody is_print s)"
proof -
  have "escaped (concat (map (quoteUnit is_print) us))" if "\<forall>u \<in> set us. unit_ok u" for us
    using that by (induction us) (auto intro: escaped_append escaped_quoteUnit)
  then show ?thesis using unit_ok_runes by (simp add: quoteBody_def)
qed

lemma quoted_span_escaped: "escaped a \<Longrightarrow> quoted_span (a @ dquote # s) = Some (a @ [dquote], s)"
proof (induction a rule: escaped.induct)
  case (2 c a)
  then show ?case by (cases a) (auto split: if_splits)
qed simp

lemma tokenize_quote:
  "tokenizeConfig (quote is_print p @ s) = map_sum id (\<lambda>ts. quoted p # ts) (tokenizeConfig s)"
proof -
  have "quoted_span (quoteBody is_print p @ dquote # s) = Some (quoteBody is_print p @ [dquote], s)"
    by (rule quoted_span_escaped [OF escaped_quoteBody])
  moreover have "unquote (dquote # quoteBody is_print p @ [dquote]) = Some p"
    using unquote_quote [of is_print p] by (simp add: quote_def)
  ultimately show ?thesis
    by (subst tokenizeConfig.simps) (simp add: quote_def blanks_def)
qed

lemma tokenize_symbol:
  assumes "\<forall>x \<in> set w. x \<notin> set delimiters" and "w = c # w'" and "c \<noteq> dquote" and "d \<in> set delimiters"
  shows "tokenizeConfig (w @ d # s) = map_sum id (\<lambda>ts. symbol w # ts) (tokenizeConfig (d # s))"
proof -
  have "takeWhile (\<lambda>x. x \<notin> set delimiters) (w @ d # s) = w"
    "dropWhile (\<lambda>x. x \<notin> set delimiters) (w @ d # s) = d # s"
    using assms(1,4) by (simp_all add: takeWhile_append dropWhile_append takeWhile_eq_all_conv)
  then show ?thesis
    using assms by (subst tokenizeConfig.simps) (auto simp: delimiters_def blanks_def)
qed

section \<open>What the rendered candidate contains\<close>

definition defcfg_tokens :: "string \<Rightarrow> string \<Rightarrow> config_token list" where
  "defcfg_tokens path name =
     [paren_open, symbol ''defcfg'', symbol ''input'', paren_open, symbol ''device-file'',
      quoted path, paren_close, symbol ''output'', paren_open, symbol ''uinput-sink'',
      quoted name, paren_close, paren_close]"

lemma tokenize_defcfg:
  assumes "renderKMonadDefcfg is_print DeviceConnected path name = Inr defcfg"
  shows "tokenizeConfig defcfg = Inr (defcfg_tokens path name)"
proof -
  have d: "defcfg = ''(defcfg'' @ newline # ''  input (device-file '' @ quote is_print path @ '')'' @
      newline # ''  output (uinput-sink '' @ quote is_print name @ '')'' @ newline # '')''"
    using assms by (simp add: renderKMonadDefcfg_def renderKMonadInput_def split: if_splits)
  have sp: "CHR 0x20 \<in> set delimiters" "CHR 0x20 \<in> set blanks"
    by (simp_all add: delimiters_def blanks_def)
  have "tokenizeConfig (''defcfg'' @ newline # s) = map_sum id (\<lambda>ts. symbol ''defcfg'' # ts) (tokenizeConfig (newline # s))"
    "tokenizeConfig (''input'' @ CHR 0x20 # s) = map_sum id (\<lambda>ts. symbol ''input'' # ts) (tokenizeConfig (CHR 0x20 # s))"
    "tokenizeConfig (''device-file'' @ CHR 0x20 # s) = map_sum id (\<lambda>ts. symbol ''device-file'' # ts) (tokenizeConfig (CHR 0x20 # s))"
    "tokenizeConfig (''output'' @ CHR 0x20 # s) = map_sum id (\<lambda>ts. symbol ''output'' # ts) (tokenizeConfig (CHR 0x20 # s))"
    "tokenizeConfig (''uinput-sink'' @ CHR 0x20 # s) = map_sum id (\<lambda>ts. symbol ''uinput-sink'' # ts) (tokenizeConfig (CHR 0x20 # s))"
    for s
    by (rule tokenize_symbol [OF _ refl], simp add: delimiters_def, simp, simp add: delimiters_def)+
  then show ?thesis
    unfolding d
    by (simp add: tokenize_paren tokenize_blank [OF sp(2)] tokenize_quote defcfg_tokens_def)
qed


definition sample_path :: string where "sample_path = ''/dev/input/event3''"
definition sample_defcfg :: string where
  "sample_defcfg = projr (renderKMonadDefcfg (\<lambda>_. False) DeviceConnected sample_path ''kmonad'')"


section \<open>A semicolon hides the rest of its line\<close>

text \<open>
  The tokenizer starts a comment at a single semicolon, which is also the name of a key in the
  manager's own KMonad vocabulary (\<^verbatim>\<open>KeySemicolon\<close>): the check for manager-owned forms does
  not see what follows it on the line.
\<close>

lemma semicolon_hides_forms:
  assumes "newline \<notin> set hidden"
  shows "\<not> containsManagerOwnedConfiguration (''(defsrc l ; '' @ hidden)"
proof -
  have sp: "CHR 0x20 \<in> set blanks" by (simp add: blanks_def)
  have c: "dropWhile (\<lambda>x. x \<noteq> newline) hidden = []"
    using assms by auto
  have "tokenizeConfig (''defsrc'' @ CHR 0x20 # s) = map_sum id (\<lambda>ts. symbol ''defsrc'' # ts) (tokenizeConfig (CHR 0x20 # s))"
    "tokenizeConfig (''l'' @ CHR 0x20 # s) = map_sum id (\<lambda>ts. symbol ''l'' # ts) (tokenizeConfig (CHR 0x20 # s))" for s
    by (rule tokenize_symbol [OF _ refl], simp add: delimiters_def, simp, simp add: delimiters_def)+
  then have "tokenizeConfig (''(defsrc l ; '' @ hidden) = Inr [paren_open, symbol ''defsrc'', symbol ''l'']"
    using c by (simp add: tokenize_paren tokenize_blank [OF sp] tokenize_comment
        del: dropWhile_eq_Nil_conv)
  then show ?thesis
    by (simp add: containsManagerOwnedConfiguration_def owned_symbols_def)
qed

section \<open>Adoption\<close>

lemma sExpressionEnd_string:
  "escaped a \<Longrightarrow> sExpressionEnd d True (a @ dquote # s) =
     map_option (\<lambda>n. n + length a + 1) (sExpressionEnd d False s)"
proof (induction a rule: escaped.induct)
  case 1
  show ?case by simp
next
  case (2 c a)
  show ?case
  proof (cases "c = backslash")
    case True
    then obtain e r where a: "a = e # r" using 2 by (cases a) auto
    then have "sExpressionEnd d True (r @ dquote # s) =
        map_option (\<lambda>n. n + length r + 1) (sExpressionEnd d False s)"
      using 2(1) [OF True a] 2(3) True by simp
    then show ?thesis using True a by (simp add: option.map_comp o_def)
  next
    case False
    then have "sExpressionEnd d True (a @ dquote # s) =
        map_option (\<lambda>n. n + length a + 1) (sExpressionEnd d False s)" "c \<noteq> dquote"
      using 2(2) [OF False] 2(3) by auto
    then show ?thesis using False by (simp add: option.map_comp o_def)
  qed
qed

lemma sExpressionEnd_plain:
  "\<forall>c \<in> set w. c \<notin> {backslash, dquote, CHR 0x3B, CHR ''('', CHR '')''} \<Longrightarrow>
   sExpressionEnd d False (w @ s) = map_option (\<lambda>n. n + length w) (sExpressionEnd d False s)"
proof (induction w)
  case Nil
  show ?case by (cases "sExpressionEnd d False s") simp_all
next
  case (Cons c w)
  then show ?case by (simp add: option.map_comp o_def)
qed

definition external_defcfg :: "(nat \<Rightarrow> bool) \<Rightarrow> string \<Rightarrow> string" where
  "external_defcfg is_print path =
     ''(defcfg'' @ newline # ''  input (device-file '' @ quote is_print path @ ''))''"

lemma external_defcfg_end:
  "sExpressionEnd 0 False (external_defcfg is_print path @ s) = Some (length (external_defcfg is_print path))"
proof -
  let ?q = "quoteBody is_print path"
  have e: "external_defcfg is_print path @ s = CHR ''('' # (''defcfg'' @ newline # ''  input '') @ CHR ''('' #
      ''device-file '' @ dquote # ?q @ dquote # '')'' @ '')'' @ s"
    by (simp add: external_defcfg_def quote_def)
  have "sExpressionEnd 2 False ('')'' @ '')'' @ s) = Some 2" by simp
  then have "sExpressionEnd 2 False (dquote # ?q @ dquote # '')'' @ '')'' @ s) = Some (length ?q + 4)"
    using sExpressionEnd_string [OF escaped_quoteBody, of 2 is_print path "'')'' @ '')'' @ s"] by simp
  then have "sExpressionEnd 2 False (''device-file '' @ dquote # ?q @ dquote # '')'' @ '')'' @ s) = Some (length ?q + 16)"
    by (subst sExpressionEnd_plain) simp_all
  then have "sExpressionEnd 1 False ((''defcfg'' @ newline # ''  input '') @ CHR ''('' # ''device-file '' @ dquote # ?q @ dquote # '')'' @ '')'' @ s)
      = Some (length ?q + 32)"
    by (subst sExpressionEnd_plain) simp_all
  then show ?thesis
    unfolding e by (simp add: external_defcfg_def quote_def)
qed

lemma tokenize_external_defcfg:
  "tokenizeConfig (external_defcfg is_print path) =
     Inr [paren_open, symbol ''defcfg'', symbol ''input'', paren_open, symbol ''device-file'',
          quoted path, paren_close, paren_close]"
proof -
  have sp: "CHR 0x20 \<in> set blanks" by (simp add: blanks_def)
  have "tokenizeConfig (''defcfg'' @ newline # s) = map_sum id (\<lambda>ts. symbol ''defcfg'' # ts) (tokenizeConfig (newline # s))"
    "tokenizeConfig (''input'' @ CHR 0x20 # s) = map_sum id (\<lambda>ts. symbol ''input'' # ts) (tokenizeConfig (CHR 0x20 # s))"
    "tokenizeConfig (''device-file'' @ CHR 0x20 # s) = map_sum id (\<lambda>ts. symbol ''device-file'' # ts) (tokenizeConfig (CHR 0x20 # s))"
    for s
    by (rule tokenize_symbol [OF _ refl], simp add: delimiters_def, simp, simp add: delimiters_def)+
  then show ?thesis
    by (simp add: external_defcfg_def tokenize_paren tokenize_blank [OF sp] tokenize_quote)
qed



end
