(* ===== verification/KDM_Keys.thy ===== *)
theory KDM_Keys
  imports KDM_Quote KDM_Domain "HOL-Library.Word"
begin

text \<open>
  Key codes and key tokens: the evdev codes of \<^verbatim>\<open>platform/keycodes.go\<close>, the versioned KMonad
  vocabulary and the input scan of \<^verbatim>\<open>manager/inputscan.go\<close>, and the evdev parts of
  \<^verbatim>\<open>platform/linux.go\<close>: the capability bit field, the capability text of sysfs and the
  matching of key events.

  A key code is a 16-bit word, a \<^verbatim>\<open>uintptr\<close> a 64-bit word; the native byte order is little
  endian. SHA-256 is the argument \<open>sha256hex\<close>.
\<close>

unbundle bit_operations_syntax

type_synonym KeyCode = "16 word"

section \<open>The vocabulary\<close>

text \<open>
  The constants of \<^verbatim>\<open>keycodes.go\<close> in the order they are declared, and the tokens of the
  table \<^verbatim>\<open>kmonadV1Tokens\<close>, which lists the same constants in the same order.
\<close>

definition keycodes :: "KeyCode list" where
  "keycodes = [
     1, 2, 3, 4, 5, 6, 7, 8, 9, 10, 11, 12, 13, 14, 15, 16, 17, 18, 19, 20, 21, 22, 23, 24, 25,
     26, 27, 28, 29, 30, 31, 32, 33, 34, 35, 36, 37, 38, 39, 40, 41, 42, 43, 44, 45, 46, 47, 48,
     49, 50, 51, 52, 53, 54, 55, 56, 57, 58, 59, 60, 61, 62, 63, 64, 65, 66, 67, 68, 69, 70, 71,
     72, 73, 74, 75, 76, 77, 78, 79, 80, 81, 82, 83, 86, 87, 88, 96, 97, 98, 99, 100, 102, 103,
     104, 105, 106, 107, 108, 109, 110, 111, 113, 114, 115, 119, 125, 126, 127, 139, 148, 149,
     150, 155, 163, 164, 165, 166, 168, 172, 173, 183, 184, 185, 186, 187, 188, 189, 190, 191,
     192, 193, 194, 202, 203, 208, 217, 224, 225, 248]"

definition kmonadV1Names :: "string list" where
  "kmonadV1Names = [
     ''esc'', ''1'', ''2'', ''3'', ''4'', ''5'', ''6'', ''7'', ''8'', ''9'', ''0'', ''-'', ''='',
     ''bspc'', ''tab'', ''q'', ''w'', ''e'', ''r'', ''t'', ''y'', ''u'', ''i'', ''o'', ''p'',
     ''['', '']'', ''ret'', ''lctl'', ''a'', ''s'', ''d'', ''f'', ''g'', ''h'', ''j'', ''k'',
     ''l'', '';'', [CHR 0x27], ''grv'', ''lsft'', [CHR 0x5C], ''z'', ''x'', ''c'', ''v'', ''b'',
     ''n'', ''m'', '','', ''.'', ''/'', ''rsft'', ''kpasterisk'', ''lalt'', ''spc'', ''caps'',
     ''f1'', ''f2'', ''f3'', ''f4'', ''f5'', ''f6'', ''f7'', ''f8'', ''f9'', ''f10'',
     ''numlock'', ''scrolllock'', ''kp7'', ''kp8'', ''kp9'', ''kpminus'', ''kp4'', ''kp5'',
     ''kp6'', ''kpplus'', ''kp1'', ''kp2'', ''kp3'', ''kp0'', ''kpdot'', ''102nd'', ''f11'',
     ''f12'', ''kpenter'', ''rctl'', ''kpslash'', ''sysrq'', ''ralt'', ''home'', ''up'',
     ''pgup'', ''left'', ''right'', ''end'', ''down'', ''pgdn'', ''ins'', ''del'', ''mute'',
     ''volumedown'', ''volumeup'', ''pause'', ''lmet'', ''rmet'', ''compose'', ''menu'',
     ''prog1'', ''prog2'', ''www'', ''mail'', ''nextsong'', ''playpause'', ''previoussong'',
     ''stopcd'', ''rewind'', ''homepage'', ''refresh'', ''f13'', ''f14'', ''f15'', ''f16'',
     ''f17'', ''f18'', ''f19'', ''f20'', ''f21'', ''f22'', ''f23'', ''f24'', ''prog3'',
     ''prog4'', ''fastforward'', ''search'', ''brightnessdown'', ''brightnessup'', ''micmute'']"

definition kmonadV1Tokens :: "(KeyCode \<times> string) list" where
  "kmonadV1Tokens = zip keycodes kmonadV1Names"

definition kmonadV1TokenCodes :: "(string \<times> KeyCode) list" where
  "kmonadV1TokenCodes =
     foldl (\<lambda>reverse (code, token). map_put token code reverse) [] kmonadV1Tokens"

definition kmonadV1TokenCode :: "string \<Rightarrow> KeyCode option" where
  "kmonadV1TokenCode token = map_of kmonadV1TokenCodes token"

text \<open>The loop with the set of tokens seen, then the sort.\<close>

fun collect_keys :: "string list \<Rightarrow> KeyCode list \<Rightarrow> string list" where
  "collect_keys seen [] = []"
| "collect_keys seen (code # codes) =
     (case map_of kmonadV1Tokens code of
        None \<Rightarrow> collect_keys seen codes
      | Some token \<Rightarrow>
          if token \<in> set seen then collect_keys seen codes
          else token # collect_keys (token # seen) codes)"

definition kmonadV1KeysFor :: "KeyCode list \<Rightarrow> string list" where
  "kmonadV1KeysFor codes = sort (collect_keys [] codes)"

definition inputScanDigest :: "(string \<Rightarrow> string) \<Rightarrow> string list \<Rightarrow> string" where
  "inputScanDigest sha256hex keys =
     ''sha256:'' @ sha256hex (''kmonad-v1'' @ [CHR 0x00] @ join_with [CHR 0x0A] keys)"

text \<open>The loop of \<^verbatim>\<open>inputScan\<close> that counts the distinct codes without a token.\<close>

fun count_unmapped :: "KeyCode list \<Rightarrow> KeyCode list \<Rightarrow> nat" where
  "count_unmapped seen [] = 0"
| "count_unmapped seen (code # codes) =
     (if code \<in> set seen then count_unmapped seen codes
      else (if map_of kmonadV1Tokens code = None then 1 else 0)
             + count_unmapped (code # seen) codes)"

section \<open>The generation of a scan\<close>

record scan_tracker =
  inputScanBasis :: "(string, string) gomap"
  inputScanGeneration :: "(string, nat) gomap"

definition trackInputScanGeneration ::
  "string \<Rightarrow> string \<Rightarrow> scan_tracker \<Rightarrow> nat \<times> scan_tracker" where
  "trackInputScanGeneration deviceID platformID m =
     (let generation = (case map_get (inputScanGeneration m) deviceID of None \<Rightarrow> 0 | Some g \<Rightarrow> g);
          generation = (if generation = 0 then 1
            else case map_get (inputScanBasis m) deviceID of
                None \<Rightarrow> generation
              | Some basis \<Rightarrow> if basis \<noteq> platformID then generation + 1 else generation)
      in (generation, m\<lparr>inputScanBasis := map_put deviceID platformID (inputScanBasis m),
            inputScanGeneration := map_put deviceID generation (inputScanGeneration m)\<rparr>))"

text \<open>The result of a scan, from the codes the device reports.\<close>

definition scan_result ::
  "(string \<Rightarrow> string) \<Rightarrow> time \<Rightarrow> string \<Rightarrow> string \<Rightarrow> KeyCode list \<Rightarrow> scan_tracker
   \<Rightarrow> input_scan \<times> scan_tracker" where
  "scan_result sha256hex now deviceID platformID codes m =
     (let keys = kmonadV1KeysFor codes;
          (generation, m1) = trackInputScanGeneration deviceID platformID m
      in (\<lparr>scan_DeviceID = deviceID, scan_TokenNamespace = ''kmonad-v1'', scan_Keys = keys,
           scan_UnmappedCount = count_unmapped [] codes, scan_Generation = generation,
           scan_Digest = inputScanDigest sha256hex keys, scan_ObservedAt = now\<rparr>, m1))"

section \<open>The capability bit field\<close>

definition keyEventCodeMax :: nat where "keyEventCodeMax = 767"

text \<open>One word's codes, bit by bit, and the loop over the words from index \<open>i\<close>.\<close>

definition word_codes :: "nat \<Rightarrow> 64 word \<Rightarrow> KeyCode list" where
  "word_codes i word =
     map (\<lambda>bit_index. of_nat (i * 64 + bit_index))
       (filter (\<lambda>bit_index. \<not> (i * 64 + bit_index = 0 \<or> i * 64 + bit_index > keyEventCodeMax
            \<or> word AND push_bit bit_index 1 = 0)) [0..<64])"

fun codes_from :: "nat \<Rightarrow> 64 word list \<Rightarrow> KeyCode list" where
  "codes_from i [] = []"
| "codes_from i (w # ws) = word_codes i w @ codes_from (Suc i) ws"

definition keyCodesFromBitfield :: "64 word list \<Rightarrow> KeyCode list" where
  "keyCodesFromBitfield words = codes_from 0 words"

section \<open>Key events\<close>

definition uint16_at :: "string \<Rightarrow> nat \<Rightarrow> nat" where
  "uint16_at s i = byte (s ! i) + 256 * byte (s ! (i + 1))"

definition uint32_at :: "string \<Rightarrow> nat \<Rightarrow> nat" where
  "uint32_at s i = uint16_at s i + 65536 * uint16_at s (i + 2)"

text \<open>The loop over whole events; \<open>EV_KEY\<close> is 1.\<close>

function containsKeypress :: "string \<Rightarrow> nat \<Rightarrow> bool" where
  "containsKeypress data timevalSize =
     (if timevalSize + 8 > length data then False
      else if uint16_at data timevalSize = 1 \<and> uint32_at data (timevalSize + 4) = 1 then True
      else containsKeypress (drop (timevalSize + 8) data) timevalSize)"
  by auto
termination
  by (relation "measure (\<lambda>(d, n). length d)") auto

function containsKeyCode :: "string \<Rightarrow> nat \<Rightarrow> KeyCode \<Rightarrow> bool" where
  "containsKeyCode data timevalSize code =
     (if timevalSize + 8 > length data then False
      else if uint16_at data timevalSize = 1 \<and> uint16_at data (timevalSize + 2) = unat code
        \<and> uint32_at data (timevalSize + 4) = 1 then True
      else containsKeyCode (drop (timevalSize + 8) data) timevalSize code)"
  by auto
termination
  by (relation "measure (\<lambda>(d, n, c). length d)") auto

declare containsKeypress.simps [simp del] containsKeyCode.simps [simp del]

section \<open>The capability text of sysfs\<close>

text \<open>\<^verbatim>\<open>strconv.ParseUint(s, 16, 64)\<close>.\<close>

definition parse_uint_hex :: "string \<Rightarrow> nat option" where
  "parse_uint_hex s =
     (if s = [] then None
      else case unhexes 0 s of
          None \<Rightarrow> None | Some v \<Rightarrow> if v < 2 ^ 64 then Some v else None)"

definition inputCapabilitySet :: "string \<Rightarrow> nat \<Rightarrow> bool" where
  "inputCapabilitySet value code =
     (let words = string_fields value; word = code div 32
      in if word \<ge> length words then False
         else case parse_uint_hex (words ! (length words - 1 - word)) of
             None \<Rightarrow> False
           | Some parsed \<Rightarrow> (word_of_nat parsed :: 64 word) AND push_bit (code mod 32) 1 \<noteq> 0)"

definition keyboardCapabilities :: "string \<Rightarrow> bool" where
  "keyboardCapabilities value \<longleftrightarrow> inputCapabilitySet value 30 \<and> inputCapabilitySet value 44"

section \<open>The vocabulary is a bijection\<close>

lemma distinct_keycodes: "distinct keycodes"
proof -
  have "successively (<) (map unat keycodes)"
    by (simp add: keycodes_def)
  then have "sorted_wrt (<) (map unat keycodes)"
    by (simp add: successively_conv_sorted_wrt transp_on_less)
  then have "distinct (map unat keycodes)"
    by (simp add: strict_sorted_iff)
  then show ?thesis by (simp add: distinct_map)
qed

lemma distinct_names: "distinct kmonadV1Names"
  by code_simp

lemma length_names: "length kmonadV1Names = length keycodes"
  by (simp add: kmonadV1Names_def keycodes_def)

lemma tokens_columns:
  "map fst kmonadV1Tokens = keycodes" "map snd kmonadV1Tokens = kmonadV1Names"
  by (simp_all add: kmonadV1Tokens_def length_names)

lemma token_code_unique:
  assumes "map_of kmonadV1Tokens c = Some t" and "map_of kmonadV1Tokens d = Some t"
  shows "c = d"
proof -
  have "distinct (map snd kmonadV1Tokens)" by (simp add: tokens_columns distinct_names)
  moreover have "(c, t) \<in> set kmonadV1Tokens" "(d, t) \<in> set kmonadV1Tokens"
    using assms by (auto dest: map_of_SomeD)
  ultimately show ?thesis by (metis distinct_map inj_onD fst_conv snd_conv)
qed

lemma reverse_map:
  assumes "distinct (map snd xs)" and "map fst rev0 = [] \<or> set (map fst rev0) \<inter> set (map snd xs) = {}"
  shows "map_of (foldl (\<lambda>reverse (code, token). map_put token code reverse) rev0 xs) t =
    (case find (\<lambda>p. snd p = t) xs of None \<Rightarrow> map_of rev0 t | Some p \<Rightarrow> Some (fst p))"
  using assms
proof (induction xs arbitrary: rev0)
  case (Cons p xs)
  obtain c u where p: "p = (c, u)" by (cases p)
  have none: "find (\<lambda>p. snd p = u) xs = None"
    using Cons.prems(1) p by (auto simp: find_None_iff image_iff)
  have keys: "fst ` set (map_put u c rev0) = insert u (fst ` set rev0)" by (rule set_keys_put)
  have "map fst (map_put u c rev0) = [] \<or> set (map fst (map_put u c rev0)) \<inter> set (map snd xs) = {}"
    using Cons.prems keys p by auto
  then show ?case
    using Cons.IH [of "map_put u c rev0"] Cons.prems none p
    by (auto simp: gomap split: option.split)
qed (simp split: option.split)

text \<open>
  The KMonad vocabulary is a bijection. A token resolves to a code exactly when the table
  has that code's token, so a probe for a scanned token waits for the scanned key.
\<close>

theorem token_code_round_trip:
  "kmonadV1TokenCode token = Some code \<longleftrightarrow> map_of kmonadV1Tokens code = Some token"
proof -
  have d: "distinct (map snd kmonadV1Tokens)" "distinct (map fst kmonadV1Tokens)"
    by (simp_all add: tokens_columns distinct_names distinct_keycodes)
  have "kmonadV1TokenCode token = (case find (\<lambda>p. snd p = token) kmonadV1Tokens of
      None \<Rightarrow> None | Some p \<Rightarrow> Some (fst p))"
    using reverse_map [OF d(1), of "[]" token]
    by (simp add: kmonadV1TokenCode_def kmonadV1TokenCodes_def split: option.split)
  also have "\<dots> = Some code \<longleftrightarrow> (code, token) \<in> set kmonadV1Tokens"
  proof (cases "find (\<lambda>p. snd p = token) kmonadV1Tokens")
    case None
    then have "\<not> (\<exists>p. p \<in> set kmonadV1Tokens \<and> snd p = token)" by (simp add: find_None_iff)
    then show ?thesis unfolding None by auto
  next
    case (Some p)
    then have p: "p \<in> set kmonadV1Tokens" "snd p = token" by (auto simp: find_Some_iff)
    have "q = p" if "q \<in> set kmonadV1Tokens" "snd q = token" for q
      using d(1) p that by (metis distinct_map inj_onD)
    then have "(code, token) \<in> set kmonadV1Tokens \<longleftrightarrow> (code, token) = p"
      using p by (metis prod.collapse snd_conv)
    then show ?thesis using p(2) unfolding Some by (simp add: prod_eq_iff) blast
  qed
  also have "\<dots> \<longleftrightarrow> map_of kmonadV1Tokens code = Some token"
    using d(2) by simp
  finally show ?thesis .
qed

section \<open>The scanned key set\<close>

lemma set_collect_keys:
  "set (collect_keys seen codes) = {t. \<exists>c \<in> set codes. map_of kmonadV1Tokens c = Some t} - set seen"
  by (induction seen codes rule: collect_keys.induct) (auto split: option.splits)

lemma distinct_collect_keys: "distinct (collect_keys seen codes)"
  by (induction seen codes rule: collect_keys.induct)
    (auto simp: set_collect_keys split: option.splits)

lemma count_unmapped_eq:
  "count_unmapped seen codes = card ({c \<in> set codes. map_of kmonadV1Tokens c = None} - set seen)"
proof (induction seen codes rule: count_unmapped.induct)
  case (2 seen code codes)
  let ?U = "{c \<in> set codes. map_of kmonadV1Tokens c = None} - set (code # seen)"
  show ?case
  proof (cases "code \<in> set seen \<or> map_of kmonadV1Tokens code \<noteq> None")
    case True
    then have "{c \<in> set (code # codes). map_of kmonadV1Tokens c = None} - set seen =
        {c \<in> set codes. map_of kmonadV1Tokens c = None} - set (if code \<in> set seen then seen else code # seen)"
      by auto
    then show ?thesis using 2 True by auto
  next
    case False
    then have "{c \<in> set (code # codes). map_of kmonadV1Tokens c = None} - set seen = insert code ?U"
      by auto
    then show ?thesis using 2 False by simp
  qed
qed simp

text \<open>
  An input scan is canonical. Its keys are the tokens of the reported codes, each once and
  in order, so the scan and its digest do not depend on the order or the repetition of the
  codes; and every distinct code is counted, once as a key or once as unmapped.
\<close>

theorem input_scan_canonical:
  "kmonadV1KeysFor codes =
     sorted_list_of_set {t. \<exists>c \<in> set codes. map_of kmonadV1Tokens c = Some t}
   \<and> length (kmonadV1KeysFor codes) + count_unmapped [] codes = card (set codes)"
proof
  let ?T = "{t. \<exists>c \<in> set codes. map_of kmonadV1Tokens c = Some t}"
  have set: "set (collect_keys [] codes) = ?T" by (simp add: set_collect_keys)
  have dist: "distinct (collect_keys [] codes)" by (rule distinct_collect_keys)
  show "kmonadV1KeysFor codes = sorted_list_of_set ?T"
    using sorted_list_of_set_sort_remdups [of "collect_keys [] codes"] set dist
    by (simp add: kmonadV1KeysFor_def distinct_remdups_id)
  let ?M = "{c \<in> set codes. map_of kmonadV1Tokens c \<noteq> None}"
  let ?N = "{c \<in> set codes. map_of kmonadV1Tokens c = None}"
  have "bij_betw (\<lambda>c. the (map_of kmonadV1Tokens c)) ?M ?T"
  proof (rule bij_betwI')
    show "(the (map_of kmonadV1Tokens c) = the (map_of kmonadV1Tokens d)) = (c = d)"
      if "c \<in> ?M" "d \<in> ?M" for c d
      using that token_code_unique [of c _ d] by auto
  qed auto
  then have "card ?T = card ?M" using bij_betw_same_card by force
  moreover have "card (set codes) = card ?M + card ?N"
    by (subst card_Un_disjoint [symmetric]) (auto intro: arg_cong [of _ _ card])
  moreover have "length (kmonadV1KeysFor codes) = card ?T"
    using set distinct_card [OF dist] by (simp add: kmonadV1KeysFor_def)
  ultimately show "length (kmonadV1KeysFor codes) + count_unmapped [] codes = card (set codes)"
    by (simp add: count_unmapped_eq)
qed

section \<open>Reading the bit field\<close>

lemma mask_bit: "(w AND push_bit n 1 = 0) \<longleftrightarrow> \<not> bit w n" for w :: "64 word"
  using bit_iff_and_push_bit_not_eq_0 [of w n] by blast

lemma mask_power: "(w AND 2 ^ n = 0) \<longleftrightarrow> \<not> bit w n" for w :: "64 word"
  using mask_bit [of w n] by simp

lemma unat_code: "n \<le> keyEventCodeMax \<Longrightarrow> unat (of_nat n :: KeyCode) = n"
  by (simp add: keyEventCodeMax_def unat_of_nat)

lemma word_codes_eq:
  "map unat (word_codes i w) =
     filter (\<lambda>c. 0 < c \<and> c \<le> keyEventCodeMax \<and> bit w (c mod 64)) [i * 64..<Suc i * 64]"
proof -
  have range: "[i * 64..<Suc i * 64] = map (\<lambda>b. i * 64 + b) [0..<64]"
    using map_add_upt [of "i * 64" 64] by (simp add: add.commute)
  have "map unat (word_codes i w) =
      map (\<lambda>b. i * 64 + b) (filter (\<lambda>b. 0 < i * 64 + b \<and> i * 64 + b \<le> keyEventCodeMax \<and> bit w b) [0..<64])"
    unfolding word_codes_def mask_bit map_map
    by (rule map_cong, rule filter_cong) (auto simp: unat_code simp del: of_nat_add of_nat_mult)
  also have "\<dots> = filter (\<lambda>c. 0 < c \<and> c \<le> keyEventCodeMax \<and> bit w (c mod 64)) (map (\<lambda>b. i * 64 + b) [0..<64])"
    by (auto simp: filter_map o_def intro!: arg_cong [of _ _ "map _"] filter_cong)
  finally show ?thesis by (simp only: range)
qed

lemma codes_from_eq:
  "map unat (codes_from i ws) =
     filter (\<lambda>c. 0 < c \<and> c \<le> keyEventCodeMax \<and> bit (ws ! (c div 64 - i)) (c mod 64))
       [i * 64..<(i + length ws) * 64]"
proof (induction ws arbitrary: i)
  case (Cons w ws)
  let ?P = "\<lambda>c. 0 < c \<and> c \<le> keyEventCodeMax \<and> bit ((w # ws) ! (c div 64 - i)) (c mod 64)"
  have "[i * 64..<(i + length (w # ws)) * 64] = [i * 64..<Suc i * 64] @ [Suc i * 64..<(Suc i + length ws) * 64]"
    using upt_add_eq_append [of "i * 64" "Suc i * 64" "length ws * 64"] by (simp add: algebra_simps)
  moreover have "filter ?P [i * 64..<Suc i * 64] =
      filter (\<lambda>c. 0 < c \<and> c \<le> keyEventCodeMax \<and> bit w (c mod 64)) [i * 64..<Suc i * 64]"
  proof (rule filter_cong [OF refl])
    fix c assume "c \<in> set [i * 64..<Suc i * 64]"
    then have "c div 64 = i" by auto
    then show "?P c = (0 < c \<and> c \<le> keyEventCodeMax \<and> bit w (c mod 64))" by simp
  qed
  moreover have "filter ?P [Suc i * 64..<(Suc i + length ws) * 64] =
      filter (\<lambda>c. 0 < c \<and> c \<le> keyEventCodeMax \<and> bit (ws ! (c div 64 - Suc i)) (c mod 64))
        [Suc i * 64..<(Suc i + length ws) * 64]"
  proof (rule filter_cong [OF refl])
    fix c assume "c \<in> set [Suc i * 64..<(Suc i + length ws) * 64]"
    then have "Suc i * 64 \<le> c" by simp
    then have "Suc i \<le> c div 64" by (simp add: less_eq_div_iff_mult_less_eq)
    then have "c div 64 - i = Suc (c div 64 - Suc i)" by simp
    then show "?P c = (0 < c \<and> c \<le> keyEventCodeMax \<and> bit (ws ! (c div 64 - Suc i)) (c mod 64))" by simp
  qed
  ultimately show ?case
    by (simp only: codes_from.simps map_append filter_append word_codes_eq Cons)
qed simp

lemma filter_upt_bound:
  assumes "\<And>c. P c \<Longrightarrow> c < a" "\<And>c. P c \<Longrightarrow> c < b"
  shows "filter P [0..<a] = filter P [0..<(b::nat)]"
proof -
  have "sorted (filter P [0..<a])" "distinct (filter P [0..<a])"
    "sorted (filter P [0..<b])" "distinct (filter P [0..<b])"
    by (simp_all add: sorted_wrt_filter)
  moreover have "set (filter P [0..<a]) = set (filter P [0..<b])" using assms by auto
  ultimately show ?thesis by (metis sorted_distinct_set_unique)
qed

text \<open>
  The bit field is read exactly. Whatever the words, the codes reported are, in ascending
  order and each once, those from 1 to 767 whose bit is set; no code overflows its 16 bits.
\<close>

theorem key_codes_of_bitfield:
  "map unat (keyCodesFromBitfield words) =
     filter (\<lambda>c. 0 < c \<and> c div 64 < length words \<and> bit (words ! (c div 64)) (c mod 64))
       [0..<Suc keyEventCodeMax]"
proof -
  have "map unat (keyCodesFromBitfield words) =
      filter (\<lambda>c. 0 < c \<and> c \<le> keyEventCodeMax \<and> bit (words ! (c div 64)) (c mod 64)) [0..<length words * 64]"
    using codes_from_eq [of 0 words] by (simp add: keyCodesFromBitfield_def)
  also have "\<dots> = filter (\<lambda>c. 0 < c \<and> c \<le> keyEventCodeMax \<and> c div 64 < length words
      \<and> bit (words ! (c div 64)) (c mod 64)) [0..<length words * 64]"
    by (rule filter_cong) (auto simp: div_less_iff_less_mult)
  also have "\<dots> = filter (\<lambda>c. 0 < c \<and> c \<le> keyEventCodeMax \<and> c div 64 < length words
      \<and> bit (words ! (c div 64)) (c mod 64)) [0..<Suc keyEventCodeMax]"
    by (rule filter_upt_bound) (auto simp: div_less_iff_less_mult)
  also have "\<dots> = filter (\<lambda>c. 0 < c \<and> c div 64 < length words \<and> bit (words ! (c div 64)) (c mod 64))
      [0..<Suc keyEventCodeMax]"
    by (rule filter_cong) auto
  finally show ?thesis .
qed

section \<open>The capability text\<close>

text \<open>How the kernel prints a bitmap: its words in hexadecimal, the highest first.\<close>

fun hex_text :: "nat \<Rightarrow> string" where
  "hex_text n = (if n < 16 then [hex_digit n] else hex_text (n div 16) @ [hex_digit (n mod 16)])"

declare hex_text.simps [simp del]

definition capability_text :: "nat list \<Rightarrow> string" where
  "capability_text words = join_with [CHR 0x20] (map hex_text (rev words))"

lemma unhexes_hex_text: "unhexes 0 (hex_text n) = Some n"
proof (induction n rule: hex_text.induct)
  case (1 n)
  then show ?case
    by (subst hex_text.simps) (auto simp: unhexes_append)
qed

lemma hex_text_chars:
  "hex_text n \<noteq> [] \<and> (\<forall>c \<in> set (hex_text n). byte c < 0x80 \<and> \<not> unicode_space (byte c))"
proof (induction n rule: hex_text.induct)
  case (1 n)
  have d: "byte (hex_digit d) < 0x80 \<and> \<not> unicode_space (byte (hex_digit d))" if "d < 16" for d
    using that by (auto simp: hex_digit_def byte_chr unicode_space_def)
  show ?case using 1 d by (subst hex_text.simps, subst hex_text.simps) auto
qed

lemma capability_words: "string_fields (capability_text words) = map hex_text (rev words)"
  unfolding capability_text_def by (rule fields_join) (use hex_text_chars in auto)

lemma inputCapabilitySet_text:
  assumes "\<forall>w \<in> set words. w < 2 ^ 64"
  shows "inputCapabilitySet (capability_text words) code \<longleftrightarrow>
    code div 32 < length words \<and> bit (words ! (code div 32)) (code mod 32)"
proof (cases "code div 32 < length words")
  case True
  let ?w = "words ! (code div 32)"
  have w: "?w < 2 ^ 64" using assms True nth_mem by blast
  have "map hex_text (rev words) ! (length words - 1 - code div 32) = hex_text ?w"
    using True by (simp add: rev_nth)
  moreover have "parse_uint_hex (hex_text ?w) = Some ?w"
    using w hex_text_chars [of ?w] by (simp add: parse_uint_hex_def unhexes_hex_text)
  moreover have "bit (word_of_nat ?w :: 64 word) (code mod 32) = bit ?w (code mod 32)"
    using w bit_unsigned_iff [where ?'a = nat, of "word_of_nat ?w :: 64 word" "code mod 32"]
    by (simp add: unat_of_nat)
  ultimately show ?thesis
    using True by (simp add: inputCapabilitySet_def capability_words Let_def mask_power)
qed (simp add: inputCapabilitySet_def capability_words)

text \<open>
  What the keyboard test reads. On the text of a bitmap in 32-bit words it asks for the A
  and Z keys, codes 30 and 44; the kernel prints words of its own size, and on the text of the
  same bitmap in 64-bit words the test asks for code 76, a keypad key, in place of Z.
\<close>

theorem keyboard_capability_word_size:
  "let longs = map (\<lambda>i. take_bit 64 (drop_bit (64 * i) bitmap)) [0..<Suc n];
       halves = map (\<lambda>i. take_bit 32 (drop_bit (32 * i) bitmap)) [0..<2 * Suc n]
   in (keyboardCapabilities (capability_text halves) \<longleftrightarrow> bit bitmap 30 \<and> bit bitmap 44)
      \<and> (keyboardCapabilities (capability_text longs) \<longleftrightarrow> bit bitmap 30 \<and> 0 < n \<and> bit bitmap 76)"
proof -
  let ?half = "map (\<lambda>i. take_bit 32 (drop_bit (32 * i) bitmap)) [0..<2 * Suc n]"
  let ?long = "map (\<lambda>i. take_bit 64 (drop_bit (64 * i) bitmap)) [0..<Suc n]"
  have lt: "take_bit m (k::nat) < 2 ^ 64" if "m \<le> 64" for m k
    using take_bit_nat_less_exp [of m k] power_increasing [OF that, of "2::nat"] by linarith
  have h: "\<forall>w \<in> set ?half. w < 2 ^ 64" and l: "\<forall>w \<in> set ?long. w < 2 ^ 64"
    using lt by (auto simp del: upt_Suc)
  have "keyboardCapabilities (capability_text ?half) \<longleftrightarrow> bit bitmap 30 \<and> bit bitmap 44"
    unfolding keyboardCapabilities_def inputCapabilitySet_text [OF h]
    by (simp add: bit_take_bit_iff bit_drop_bit_eq del: upt_Suc)
  moreover have "keyboardCapabilities (capability_text ?long) \<longleftrightarrow> bit bitmap 30 \<and> 0 < n \<and> bit bitmap 76"
    unfolding keyboardCapabilities_def inputCapabilitySet_text [OF l]
    by (auto simp: bit_take_bit_iff bit_drop_bit_eq simp del: upt_Suc)
  ultimately show ?thesis by (simp only: Let_def)
qed

section \<open>Key events\<close>

text \<open>An event as the kernel writes it: a time of \<open>n\<close> bytes, type, code and value.\<close>

record key_event =
  ke_time :: string
  ke_type :: nat
  ke_code :: nat
  ke_value :: nat

definition le16 :: "nat \<Rightarrow> string" where "le16 v = [chr (v mod 256), chr (v div 256 mod 256)]"

definition event_bytes :: "key_event \<Rightarrow> string" where
  "event_bytes e = ke_time e @ le16 (ke_type e) @ le16 (ke_code e)
     @ le16 (ke_value e mod 65536) @ le16 (ke_value e div 65536)"

definition key_event_ok :: "nat \<Rightarrow> key_event \<Rightarrow> bool" where
  "key_event_ok n e \<longleftrightarrow> length (ke_time e) = n \<and> ke_type e < 65536 \<and> ke_code e < 65536
     \<and> ke_value e < 4294967296"

lemma le16_value: "v < 65536 \<Longrightarrow> byte (le16 v ! 0) + 256 * byte (le16 v ! 1) = v"
proof -
  assume "v < 65536"
  then have "v div 256 < 256" by (simp add: div_less_iff_less_mult)
  moreover have "v mod 256 < 256" by simp
  ultimately show ?thesis by (simp add: le16_def byte_chr)
qed

lemma event_fields:
  assumes "key_event_ok n e"
  shows "length (event_bytes e) = n + 8"
    and "uint16_at (event_bytes e @ rest) n = ke_type e"
    and "uint16_at (event_bytes e @ rest) (n + 2) = ke_code e"
    and "uint32_at (event_bytes e @ rest) (n + 4) = ke_value e"
proof -
  have len: "length (ke_time e) = n" and v: "ke_type e < 65536" "ke_code e < 65536"
    "ke_value e mod 65536 < 65536" "ke_value e div 65536 < 65536"
    using assms by (auto simp: key_event_ok_def div_less_iff_less_mult)
  show "length (event_bytes e) = n + 8" using len by (simp add: event_bytes_def le16_def)
  have at: "(event_bytes e @ rest) ! (n + k) =
      (le16 (ke_type e) @ le16 (ke_code e) @ le16 (ke_value e mod 65536) @ le16 (ke_value e div 65536) @ rest) ! k" for k
    unfolding event_bytes_def append.assoc len [symmetric] by (rule nth_append_length_plus)
  define a where "a = le16 (ke_type e)"
  define b where "b = le16 (ke_code e)"
  define c where "c = le16 (ke_value e mod 65536)"
  define d where "d = le16 (ke_value e div 65536)"
  have two: "a = [a ! 0, a ! 1]" "b = [b ! 0, b ! 1]" "c = [c ! 0, c ! 1]" "d = [d ! 0, d ! 1]"
    by (simp_all add: a_def b_def c_def d_def le16_def)
  have all: "(event_bytes e @ rest) ! (n + k) =
      ([a ! 0, a ! 1, b ! 0, b ! 1, c ! 0, c ! 1, d ! 0, d ! 1] @ rest) ! k" for k
    using at [of k] unfolding a_def [symmetric] b_def [symmetric] c_def [symmetric] d_def [symmetric]
    by (subst (asm) two(1), subst (asm) two(2), subst (asm) two(3), subst (asm) two(4)) simp
  have val: "byte (a ! 0) + 256 * byte (a ! 1) = ke_type e" "byte (b ! 0) + 256 * byte (b ! 1) = ke_code e"
    "byte (c ! 0) + 256 * byte (c ! 1) = ke_value e mod 65536"
    "byte (d ! 0) + 256 * byte (d ! 1) = ke_value e div 65536"
    using v by (simp_all only: a_def b_def c_def d_def le16_value)
  have at16: "uint16_at (event_bytes e @ rest) (n + k) =
      byte (([a ! 0, a ! 1, b ! 0, b ! 1, c ! 0, c ! 1, d ! 0, d ! 1] @ rest) ! k)
      + 256 * byte (([a ! 0, a ! 1, b ! 0, b ! 1, c ! 0, c ! 1, d ! 0, d ! 1] @ rest) ! (k + 1))" for k
    unfolding uint16_at_def add.assoc [of n k 1] all ..
  show "uint16_at (event_bytes e @ rest) n = ke_type e"
    using at16 [of 0] val(1) by simp
  show "uint16_at (event_bytes e @ rest) (n + 2) = ke_code e"
    using at16 [of 2] val(2) by simp
  have "uint32_at (event_bytes e @ rest) (n + 4) = ke_value e mod 65536 + 65536 * (ke_value e div 65536)"
    using at16 [of 4] at16 [of 6] val(3,4)
    by (simp add: uint32_at_def add.assoc add.commute [of n])
  then show "uint32_at (event_bytes e @ rest) (n + 4) = ke_value e" by simp
qed

text \<open>
  A probe sees exactly the press of its key. In a buffer of whole key events, in any
  number and with a cut-off tail, the probe matches when one of them is a press of the wanted
  code, and identification when one of them is a press of any key; a release, a repeat, another
  key or another kind of event never matches.
\<close>

theorem key_press_matching:
  assumes "list_all (key_event_ok n) events" and "length tail < n + 8"
  shows "containsKeyCode (concat (map event_bytes events) @ tail) n code =
      list_ex (\<lambda>e. ke_type e = 1 \<and> ke_code e = unat code \<and> ke_value e = 1) events
    \<and> containsKeypress (concat (map event_bytes events) @ tail) n =
      list_ex (\<lambda>e. ke_type e = 1 \<and> ke_value e = 1) events"
  using assms
proof (induction events)
  case Nil
  then show ?case by (simp add: containsKeyCode.simps containsKeypress.simps)
next
  case (Cons e es)
  let ?rest = "concat (map event_bytes es) @ tail"
  have ok: "key_event_ok n e" using Cons.prems by simp
  note f = event_fields(1) [OF ok] event_fields(2-4) [OF ok, of ?rest]
  have "drop (n + 8) (event_bytes e @ ?rest) = ?rest" using f(1) by simp
  moreover have "\<not> n + 8 > length (event_bytes e @ ?rest)" using f(1) by simp
  ultimately show ?case
    using Cons f containsKeyCode.simps [of "event_bytes e @ ?rest" n code]
      containsKeypress.simps [of "event_bytes e @ ?rest" n]
    by auto
qed

definition sample_event :: key_event where
  "sample_event = \<lparr>ke_time = replicate 16 (CHR 0x00), ke_type = 1, ke_code = 30, ke_value = 1\<rparr>"

theorem key_press_matching_witness:
  "containsKeyCode (event_bytes sample_event @ [CHR 0x01]) 16 30
   \<and> \<not> containsKeyCode (event_bytes (sample_event\<lparr>ke_value := 0\<rparr>)) 16 30"
  using key_press_matching [of 16 "[sample_event]" "[CHR 0x01]" 30]
    key_press_matching [of 16 "[sample_event\<lparr>ke_value := 0\<rparr>]" "[]" 30]
  by (simp add: sample_event_def key_event_ok_def)

end
