(* ===== verification/KDM_Paths.thy ===== *)
theory KDM_Paths
  imports KDM_GoStrings
begin

text \<open>
  The file paths of Go's \<^verbatim>\<open>path/filepath\<close> on Linux, as far as the manager uses them:
  \<^verbatim>\<open>Clean\<close>, \<^verbatim>\<open>Join\<close> of two elements, \<^verbatim>\<open>Base\<close> and \<^verbatim>\<open>Dir\<close>. They are lexical:
  nothing here looks at the file system.
\<close>

type_synonym path = string

abbreviation slash :: char where "slash \<equiv> CHR 0x2F"

text \<open>\<^verbatim>\<open>Clean\<close> drops empty and \<^verbatim>\<open>.\<close> elements and resolves \<^verbatim>\<open>..\<close> where it can.\<close>

fun clean_elements :: "bool \<Rightarrow> string list \<Rightarrow> string list \<Rightarrow> string list" where
  "clean_elements rooted acc [] = rev acc"
| "clean_elements rooted acc (e # es) =
     (if e = '''' \<or> e = ''.'' then clean_elements rooted acc es
      else if e = ''..'' then
        (case acc of
           [] \<Rightarrow> clean_elements rooted (if rooted then [] else [e]) es
         | a # acc' \<Rightarrow> if a = ''..'' then clean_elements rooted (e # acc) es
                       else clean_elements rooted acc' es)
      else clean_elements rooted (e # acc) es)"

definition path_clean :: "path \<Rightarrow> path" where
  "path_clean p =
     (let rooted = (p \<noteq> [] \<and> hd p = slash);
          cleaned = join_with [slash] (clean_elements rooted [] (split_on slash p))
      in if rooted then slash # cleaned else if cleaned = '''' then ''.'' else cleaned)"

definition path_join :: "path \<Rightarrow> path \<Rightarrow> path" where
  "path_join a b =
     (if a = '''' then (if b = '''' then '''' else path_clean b)
      else if b = '''' then path_clean a
      else path_clean (a @ slash # b))"

definition trim_slashes :: "path \<Rightarrow> path" where
  "trim_slashes p = rev (dropWhile (\<lambda>c. c = slash) (rev p))"

definition last_element :: "path \<Rightarrow> string" where
  "last_element p = rev (takeWhile (\<lambda>c. c \<noteq> slash) (rev p))"

definition path_base :: "path \<Rightarrow> string" where
  "path_base p =
     (if p = '''' then ''.''
      else let e = last_element (trim_slashes p) in if e = '''' then [slash] else e)"

definition path_dir :: "path \<Rightarrow> path" where
  "path_dir p = path_clean (rev (dropWhile (\<lambda>c. c \<noteq> slash) (rev p)))"

lemma path_base_snoc:
  assumes "e \<noteq> ''''" "slash \<notin> set e"
  shows "path_base (d @ slash # e) = e"
proof -
  obtain c cs where r: "rev e = c # cs"
    using assms(1) by (cases "rev e") auto
  then have e: "e = rev cs @ [c]" by (metis rev_rev_ident rev.simps(2))
  then have "c \<noteq> slash"
    using assms(2) by auto
  then have "trim_slashes (d @ slash # e) = d @ slash # e"
    by (simp add: trim_slashes_def e)
  moreover have "takeWhile (\<lambda>c. c \<noteq> slash) (rev e @ slash # rev d) = rev e"
    using assms(2) by (subst takeWhile_append2) auto
  then have "last_element (d @ slash # e) = e"
    by (simp add: last_element_def)
  ultimately show ?thesis
    using assms(1) by (simp add: path_base_def Let_def)
qed

end
