(* ===== verification/KDM_Manager.thy ===== *)
theory KDM_Manager
  imports KDM_Phases KDM_Events KDM_Journal KDM_Config KDM_Keys KDM_Paths
    "HOL-Library.State_Monad"
begin

text \<open>
  The manager object (\<^verbatim>\<open>manager\<close> of \<^verbatim>\<open>manager/service.go\<close>) and the operating system
  it runs on (the interface \<^verbatim>\<open>System\<close> of \<^verbatim>\<open>platform/platform.go\<close> and the few calls
  the core makes on \<^verbatim>\<open>os\<close>, \<^verbatim>\<open>time\<close> and \<^verbatim>\<open>math/rand\<close> directly).

  The operating system is a record of functions, one per call. Each takes the history of all
  calls so far with their answers, newest first, so its answers may change from call to call
  in any way: files are edited, devices vanish and processes die between any two calls. An
  operation of the manager is a state transformer (\<open>op\<close>) on the manager, which carries its
  system and that history; the history is also what the safety properties speak about.
  Logging is not modelled: it goes to standard error and nothing reads it back.
\<close>

section \<open>Errors and the calls\<close>

text \<open>The errors the code tells apart (\<^verbatim>\<open>errors.Is\<close>, \<^verbatim>\<open>os.IsNotExist\<close>), and the text.\<close>

datatype error_kind =
    NotExist | ConfigChanged | ProcessGone | CommandNotFound | OutputUnavailable
  | DeadlineExceeded | Canceled | OtherError

record go_error =
  ge_kind :: error_kind
  ge_text :: string

abbreviation error_of :: "error_kind \<Rightarrow> string \<Rightarrow> go_error" where
  "error_of k s \<equiv> \<lparr>ge_kind = k, ge_text = s\<rparr>"

abbreviation errorf :: "string \<Rightarrow> go_error" where
  "errorf s \<equiv> error_of OtherError s"

definition errConfigChanged :: go_error where
  "errConfigChanged = error_of ConfigChanged ''configuration changed while it was being read''"

datatype signal = SignalInterrupt | SignalTerminate | SignalKill

datatype platform_availability =
    PlatformConnected | PlatformDisconnected | PlatformInaccessible | PlatformUnsupported

record keyboard_device =
  kb_Identity :: string
  kb_FallbackIdentity :: string
  kb_IdentityStability :: string
  kb_NodePath :: path
  kb_Virtual :: bool
  kb_Availability :: platform_availability
  kb_DisplayName :: string
  kb_Vendor :: string
  kb_Product :: string
  kb_Serial :: string

record process_info =
  pi_Handle :: "nat option"
  pi_StartTick :: nat
  pi_GroupID :: int

text \<open>
  What \<^verbatim>\<open>Stat\<close> or \<^verbatim>\<open>Lstat\<close> gives (the identity is what \<^verbatim>\<open>os.SameFile\<close> compares), and what
  reading an opened file to its end gives.
\<close>

record file_info =
  fi_Regular :: bool
  fi_Identity :: nat
  fi_ModTime :: time
  fi_Size :: int

record opened_file =
  of_info :: "go_error + file_info"
  of_content :: "go_error + string"

text \<open>Calls that change the system and answer with an error or nothing.\<close>

datatype syscall =
    MkdirAll path nat | ChmodPath path nat | RemoveFile path | RemoveAll path | RenameFile path path
  | OpenTruncate path nat | WriteFile path string | SyncFile path | CloseFile path | SyncDir path
  | SignalGroup int signal | SignalHandle nat signal | SignalPid int signal | CloseHandle nat
  | StatPath path | WatchAdd path | WatchRemove path
  | ReapChild int | ConfigureCgroup path string int string string | CleanupCgroup path

text \<open>How the wait for a dry run ends: the child exits, or the timer or the request's context.\<close>

datatype dry_run_end = DryRunExited "go_error option" | DryRunTimedOut | DryRunCancelled go_error

datatype os_event =
    EvNow time
  | EvReadDir path "go_error + (string \<times> bool) list"
  | EvOpen path "go_error + opened_file"
  | EvCreateTemp path string "go_error + nat"
  | EvCall syscall "go_error option"
  | EvWorldWritable path "go_error + bool"
  | EvAvailability path platform_availability
  | EvDeviceID path "go_error + string"
  | EvSignature path "go_error + string"
  | EvKeyboards "go_error + keyboard_device list"
  | EvStart string "string list" "go_error + int"
  | EvStartedProcess int process_info
  | EvStartTime int nat
  | EvMatches int string path bool
  | EvProcessState int string
  | EvPidExists int bool
  | EvPollExit int "go_error option option"
  | EvWaitExit int duration bool
  | EvWaitDryRun int duration dry_run_end
  | EvKMonadAvailable string bool
  | EvKMonadVersion string "go_error + string"
  | EvObserver path "go_error option"
  | EvCapabilities path "go_error + KeyCode list"
  | EvRandomID "string option"
  | EvJitter
  | EvSleep duration
  | EvLstat path "go_error + file_info"

type_synonym history = "os_event list"

section \<open>The data the manager persists\<close>

record managed_configuration =
  mc_Version :: int
  mc_Ownership :: configuration_ownership
  mc_ID :: string
  mc_Name :: string
  mc_Model :: managed_configuration_model
  mc_Revision :: nat
  mc_ContentRevision :: nat
  mc_ActiveRevision :: nat
  mc_Digest :: string
  mc_Enabled :: bool

record external_configuration =
  xc_ID :: string
  xc_Ownership :: configuration_ownership
  xc_Path :: path
  xc_Name :: string
  xc_DeviceID :: string
  xc_Signature :: string
  xc_ContentRevision :: nat
  xc_AdoptedBy :: string
  xc_AdoptedSignature :: string

record status_config =
  sc_Name :: string
  sc_State :: string
  sc_Device :: string
  sc_ProcessID :: int
  sc_ProcessStart :: nat
  sc_ProcessGroupID :: int
  sc_LaunchPath :: path
  sc_Connected :: bool
  sc_Availability :: "device_availability option"
  sc_AvailabilityReasonCode :: reason_code
  sc_ReasonCode :: reason_code
  sc_Healthy :: bool
  sc_Reason :: string
  sc_Failures :: int
  sc_RetryAfter :: time
  sc_FailureReason :: string
  sc_LastKnownGoodSignature :: string

record status_file =
  sf_PID :: int
  sf_ProcessStart :: nat
  sf_UpdatedAt :: time
  sf_ConfigDir :: path
  sf_Configurations :: "status_config list"

text \<open>The documents that are written as JSON and read back.\<close>

datatype document =
    DeviceRegistry "device list"
  | ExternalRegistry "external_configuration list"
  | ManagedMetadata managed_configuration
  | StatusDocument status_file
  | JournalDocument int idempotency_records

section \<open>The system\<close>

record host =
  h_now :: "history \<Rightarrow> time"
  h_ReadDir :: "history \<Rightarrow> path \<Rightarrow> go_error + (string \<times> bool) list"
  h_Open :: "history \<Rightarrow> path \<Rightarrow> go_error + opened_file"
  h_Lstat :: "history \<Rightarrow> path \<Rightarrow> go_error + file_info"
  h_CreateTemp :: "history \<Rightarrow> path \<Rightarrow> string \<Rightarrow> go_error + nat"
  h_call :: "history \<Rightarrow> syscall \<Rightarrow> go_error option"
  h_WorldWritable :: "history \<Rightarrow> path \<Rightarrow> go_error + bool"
  h_DeviceAvailability :: "history \<Rightarrow> path \<Rightarrow> platform_availability"
  h_DeviceID :: "history \<Rightarrow> path \<Rightarrow> go_error + string"
  h_FileSignature :: "history \<Rightarrow> path \<Rightarrow> go_error + string"
  h_ListKeyboards :: "history \<Rightarrow> go_error + keyboard_device list"
  h_StartKMonad :: "history \<Rightarrow> string \<Rightarrow> string list \<Rightarrow> go_error + int"
  h_StartedProcess :: "history \<Rightarrow> int \<Rightarrow> process_info"
  h_ProcessStartTime :: "history \<Rightarrow> int \<Rightarrow> nat"
  h_ProcessMatchesCommand :: "history \<Rightarrow> int \<Rightarrow> string \<Rightarrow> path \<Rightarrow> bool"
  h_ProcessState :: "history \<Rightarrow> int \<Rightarrow> string"
  h_PIDExists :: "history \<Rightarrow> int \<Rightarrow> bool"
  h_poll_exit :: "history \<Rightarrow> int \<Rightarrow> go_error option option"
  h_wait_exit :: "history \<Rightarrow> int \<Rightarrow> duration \<Rightarrow> bool"
  h_wait_dry_run :: "history \<Rightarrow> int \<Rightarrow> duration \<Rightarrow> dry_run_end"
  h_KMonadAvailable :: "history \<Rightarrow> string \<Rightarrow> bool"
  h_KMonadVersion :: "history \<Rightarrow> string \<Rightarrow> go_error + string"
  h_KeypressObserver :: "history \<Rightarrow> path \<Rightarrow> go_error option"
  h_KeyCapabilities :: "history \<Rightarrow> path \<Rightarrow> go_error + KeyCode list"
  h_random_id :: "history \<Rightarrow> string option"
  h_retryJitter :: "history \<Rightarrow> duration \<Rightarrow> duration"
  h_pid :: int
  h_event_clock :: "nat \<Rightarrow> time"
  h_printable :: "nat \<Rightarrow> bool"
  h_duration_text :: "duration \<Rightarrow> string"
  h_sha256hex :: "string \<Rightarrow> string"
  h_canonical_json :: "document \<Rightarrow> string"
  h_parse_json :: "string \<Rightarrow> document option"

section \<open>The manager\<close>

datatype kmonad_compatibility =
    KMonadCompatibilityUnset | KMonadCompatibilityCompatible | KMonadCompatibilityIncompatible
  | KMonadCompatibilityUnknown | KMonadCompatibilityUnavailable

record kmonad_info =
  ki_Available :: bool
  ki_Version :: string
  ki_Compatibility :: kmonad_compatibility
  ki_ReasonCode :: reason_code
  ki_Reason :: string

record validated_config =
  vc_device :: path
  vc_signature :: string
  vc_launchPath :: path

text \<open>
  A session object is known by its address \<open>ses_address\<close>: the code compares pointers.
  An identification has no token.
\<close>

record session =
  ses_address :: nat
  ses_operationID :: string
  ses_deviceID :: string
  ses_platformID :: string
  ses_nodePath :: path
  ses_key :: "(string \<times> KeyCode) option"

record manager_settings =
  ms_configDir :: path
  ms_managedConfigDir :: path
  ms_kmonadCommand :: string
  ms_stopTimeout :: duration
  ms_dryRunTimeout :: duration
  ms_watchdogTimeout :: duration
  ms_cgroupRoot :: path
  ms_processMemoryMax :: string
  ms_processCPUQuota :: string
  ms_statusPath :: path
  ms_maxConfigs :: int
  ms_maxConfigBytes :: int
  ms_deviceRegistryPath :: path
  ms_externalRegistryPath :: path
  ms_runtimeDir :: "go_error + path"

record manager_counters =
  ct_lastProgress :: time
  ct_metricsServerUp :: bool
  ct_statusFailures :: nat
  ct_reconciles :: nat
  ct_starts :: nat
  ct_failures :: nat
  ct_stops :: nat

record manager =
  m_host :: host
  m_history :: history
  m_settings :: manager_settings
  m_counters :: manager_counters
  m_kmonad :: kmonad_info
  m_nextKMonadCheck :: time
  m_watchPaths :: "path list"
  m_states :: "(path, configState) gomap"
  m_duplicates :: "(path, string) gomap"
  m_devices :: "(string, device) gomap"
  m_discoveredNodeDevices :: "(string, device) gomap"
  m_managedConfigs :: "(string, managed_configuration) gomap"
  m_managedTampered :: "(string, bool) gomap"
  m_externalConfigs :: "(string, external_configuration) gomap"
  m_prevalidated :: "(path, validated_config) gomap"
  m_log :: event_log
  m_journal :: journal
  m_identification :: "session option"
  m_probe :: "session option"
  m_nextSession :: nat
  m_inputScans :: scan_tracker
  m_lastPublicState :: public_state

end
