(* ===== verification/KDM_Ops.thy ===== *)
theory KDM_Ops
  imports KDM_Manager
begin

text \<open>
  Operations of the manager as state transformers, the system calls as operations, and the two
  ways the development reasons about them: what holds after an operation (\<open>wp\<close>, a
  weakest precondition computed by simplification), and relations between the managers before
  and after that every step keeps (\<open>step_relation\<close>).
\<close>

type_synonym 'a op = "(manager, 'a) state"

abbreviation return :: "'a \<Rightarrow> ('s, 'a) state" where
  "return \<equiv> State_Monad.return"

definition gets :: "('s \<Rightarrow> 'a) \<Rightarrow> ('s, 'a) state" where
  "gets f = State (\<lambda>m. (f m, m))"

definition modify :: "('s \<Rightarrow> 's) \<Rightarrow> ('s, unit) state" where
  "modify f = State (\<lambda>m. ((), f m))"

abbreviation setting :: "(manager_settings \<Rightarrow> 'a) \<Rightarrow> 'a op" where
  "setting f \<equiv> gets (\<lambda>m. f (m_settings m))"

abbreviation count :: "(manager_counters \<Rightarrow> manager_counters) \<Rightarrow> unit op" where
  "count f \<equiv> modify (\<lambda>m. m\<lparr>m_counters := f (m_counters m)\<rparr>)"

text \<open>One call: the answer, recorded.\<close>

definition ask :: "(host \<Rightarrow> history \<Rightarrow> 'a) \<Rightarrow> ('a \<Rightarrow> os_event) \<Rightarrow> 'a op" where
  "ask q ev = State (\<lambda>m. let a = q (m_host m) (m_history m)
                         in (a, m\<lparr>m_history := ev a # m_history m\<rparr>))"

text \<open>Loops: over a list, with a value carried along.\<close>

fun for_each :: "'x list \<Rightarrow> ('x \<Rightarrow> ('s, unit) state) \<Rightarrow> ('s, unit) state" where
  "for_each [] f = return ()"
| "for_each (x # xs) f = do { f x; for_each xs f }"

fun loop :: "'x list \<Rightarrow> 'acc \<Rightarrow> ('x \<Rightarrow> 'acc \<Rightarrow> ('s, 'acc) state) \<Rightarrow> ('s, 'acc) state" where
  "loop [] acc f = return acc"
| "loop (x # xs) acc f = do { acc' \<leftarrow> f x acc; loop xs acc' f }"

section \<open>The calls\<close>

definition time_Now :: "time op" where
  "time_Now = ask h_now EvNow"

definition os_ReadDir :: "path \<Rightarrow> (go_error + (string \<times> bool) list) op" where
  "os_ReadDir p = ask (\<lambda>h t. h_ReadDir h t p) (EvReadDir p)"

definition os_Open :: "path \<Rightarrow> (go_error + opened_file) op" where
  "os_Open p = ask (\<lambda>h t. h_Open h t p) (EvOpen p)"

definition os_Lstat :: "path \<Rightarrow> (go_error + file_info) op" where
  "os_Lstat p = ask (\<lambda>h t. h_Lstat h t p) (EvLstat p)"

definition os_CreateTemp :: "path \<Rightarrow> string \<Rightarrow> (go_error + nat) op" where
  "os_CreateTemp d pattern = ask (\<lambda>h t. h_CreateTemp h t d pattern) (EvCreateTemp d pattern)"

definition call :: "syscall \<Rightarrow> go_error option op" where
  "call c = ask (\<lambda>h t. h_call h t c) (EvCall c)"

definition worldWritable :: "path \<Rightarrow> (go_error + bool) op" where
  "worldWritable p = ask (\<lambda>h t. h_WorldWritable h t p) (EvWorldWritable p)"

definition deviceAvailability :: "path \<Rightarrow> platform_availability op" where
  "deviceAvailability p = ask (\<lambda>h t. h_DeviceAvailability h t p) (EvAvailability p)"

definition deviceID :: "path \<Rightarrow> (go_error + string) op" where
  "deviceID p = ask (\<lambda>h t. h_DeviceID h t p) (EvDeviceID p)"

definition fileSignature :: "path \<Rightarrow> (go_error + string) op" where
  "fileSignature p = ask (\<lambda>h t. h_FileSignature h t p) (EvSignature p)"

definition listKeyboards :: "(go_error + keyboard_device list) op" where
  "listKeyboards = ask h_ListKeyboards EvKeyboards"

definition StartKMonad :: "string \<Rightarrow> string list \<Rightarrow> (go_error + int) op" where
  "StartKMonad command arguments =
     ask (\<lambda>h t. h_StartKMonad h t command arguments) (EvStart command arguments)"

definition StartedProcess :: "int \<Rightarrow> process_info op" where
  "StartedProcess pid = ask (\<lambda>h t. h_StartedProcess h t pid) (EvStartedProcess pid)"

definition processStartTime :: "int \<Rightarrow> nat op" where
  "processStartTime pid = ask (\<lambda>h t. h_ProcessStartTime h t pid) (EvStartTime pid)"

definition processMatchesCommand :: "int \<Rightarrow> string \<Rightarrow> path \<Rightarrow> bool op" where
  "processMatchesCommand pid command config =
     ask (\<lambda>h t. h_ProcessMatchesCommand h t pid command config) (EvMatches pid command config)"

definition processStateCode :: "int \<Rightarrow> string op" where
  "processStateCode pid = ask (\<lambda>h t. h_ProcessState h t pid) (EvProcessState pid)"

definition pidExists :: "int \<Rightarrow> bool op" where
  "pidExists pid = ask (\<lambda>h t. h_PIDExists h t pid) (EvPidExists pid)"

text \<open>
  The channels of a child: \<open>poll_exit\<close> is a \<^verbatim>\<open>select\<close> with a default on \<^verbatim>\<open>done\<close>
  and gives \<open>None\<close> while the child runs and the result of \<^verbatim>\<open>Wait\<close> when it has ended;
  \<open>wait_exit\<close> waits at most so long.
\<close>

definition poll_exit :: "int \<Rightarrow> go_error option option op" where
  "poll_exit pid = ask (\<lambda>h t. h_poll_exit h t pid) (EvPollExit pid)"

definition wait_exit :: "int \<Rightarrow> duration \<Rightarrow> bool op" where
  "wait_exit pid d = ask (\<lambda>h t. h_wait_exit h t pid d) (EvWaitExit pid d)"

definition wait_dry_run :: "int \<Rightarrow> duration \<Rightarrow> dry_run_end op" where
  "wait_dry_run pid d = ask (\<lambda>h t. h_wait_dry_run h t pid d) (EvWaitDryRun pid d)"

definition KMonadAvailable :: "string \<Rightarrow> bool op" where
  "KMonadAvailable command = ask (\<lambda>h t. h_KMonadAvailable h t command) (EvKMonadAvailable command)"

definition KMonadVersion :: "string \<Rightarrow> (go_error + string) op" where
  "KMonadVersion command = ask (\<lambda>h t. h_KMonadVersion h t command) (EvKMonadVersion command)"

definition keypressObserver :: "path \<Rightarrow> go_error option op" where
  "keypressObserver p = ask (\<lambda>h t. h_KeypressObserver h t p) (EvObserver p)"

definition inputKeyCapabilities :: "path \<Rightarrow> (go_error + KeyCode list) op" where
  "inputKeyCapabilities p = ask (\<lambda>h t. h_KeyCapabilities h t p) (EvCapabilities p)"

definition random_id :: "string option op" where
  "random_id = ask h_random_id EvRandomID"

definition retryJitter :: "(duration \<Rightarrow> duration) op" where
  "retryJitter = ask h_retryJitter (\<lambda>_. EvJitter)"

text \<open>
  \<^verbatim>\<open>time.Sleep\<close>. The clock the code reads is monotonic and a sleep lasts at least as long as
  asked for (\<open>clock_advances\<close>); the loops that wait for a process rely on it to end.
\<close>

definition time_Sleep :: "duration \<Rightarrow> unit op" where
  "time_Sleep d = ask (\<lambda>_ _. ()) (\<lambda>_. EvSleep d)"

fun slept :: "history \<Rightarrow> duration" where
  "slept [] = 0"
| "slept (EvSleep d # h) = d + slept h"
| "slept (_ # h) = slept h"

definition clock_advances :: "host \<Rightarrow> bool" where
  "clock_advances h \<longleftrightarrow> (\<forall>newer older. h_now h (newer @ older) \<ge> h_now h older + slept newer)"

text \<open>Calls in a row until one of them fails.\<close>

fun calls :: "syscall list \<Rightarrow> go_error option op" where
  "calls [] = return None"
| "calls (c # cs) = do {
     r \<leftarrow> call c;
     case r of Some e \<Rightarrow> return (Some e) | None \<Rightarrow> calls cs }"

section \<open>What holds after an operation\<close>

definition wp :: "('s, 'a) state \<Rightarrow> ('a \<Rightarrow> 's \<Rightarrow> bool) \<Rightarrow> 's \<Rightarrow> bool" where
  "wp f Q m \<longleftrightarrow> (case run_state f m of (r, m') \<Rightarrow> Q r m')"

named_theorems wp_simps and wp_specs

lemma run_gets [simp]: "run_state (gets f) m = (f m, m)"
  by (simp add: gets_def)

lemma run_modify [simp]: "run_state (modify f) m = ((), f m)"
  by (simp add: modify_def)

lemma run_ask: "run_state (ask q ev) m =
    (q (m_host m) (m_history m),
     m\<lparr>m_history := ev (q (m_host m) (m_history m)) # m_history m\<rparr>)"
  by (simp add: ask_def Let_def)

lemma wp_return [wp_simps]: "wp (return x) Q = Q x"
  by (rule ext) (simp add: wp_def)

lemma wp_bind [wp_simps]: "wp (State_Monad.bind f g) Q = wp f (\<lambda>x. wp (g x) Q)"
  by (rule ext) (simp add: wp_def split: prod.splits)

lemma wp_gets [wp_simps]: "wp (gets f) Q = (\<lambda>m. Q (f m) m)"
  by (rule ext) (simp add: wp_def)

lemma wp_modify [wp_simps]: "wp (modify f) Q = (\<lambda>m. Q () (f m))"
  by (rule ext) (simp add: wp_def)

lemma wp_if [wp_simps]: "wp (if c then f else g) Q = (if c then wp f Q else wp g Q)"
  by simp

lemma wp_option [wp_simps]:
  "wp (case x of None \<Rightarrow> f | Some y \<Rightarrow> g y) Q
   = (case x of None \<Rightarrow> wp f Q | Some y \<Rightarrow> wp (g y) Q)"
  by (cases x) simp_all

lemma wp_sum [wp_simps]:
  "wp (case x of Inl a \<Rightarrow> f a | Inr b \<Rightarrow> g b) Q
   = (case x of Inl a \<Rightarrow> wp (f a) Q | Inr b \<Rightarrow> wp (g b) Q)"
  by (cases x) simp_all

lemma wp_prod [wp_simps]:
  "wp (case x of (a, b) \<Rightarrow> f a b) Q = (case x of (a, b) \<Rightarrow> wp (f a b) Q)"
  by (cases x) simp_all

lemma wp_let [wp_simps]: "wp (let x = a in f x) Q = (let x = a in wp (f x) Q)"
  by simp

lemma wp_ask:
  "(\<And>a. Q a (m\<lparr>m_history := ev a # m_history m\<rparr>)) \<Longrightarrow> wp (ask q ev) Q m"
  by (simp add: wp_def run_ask)

lemma wp_mono: "wp f Q m \<Longrightarrow> (\<And>r m'. Q r m' \<Longrightarrow> Q' r m') \<Longrightarrow> wp f Q' m"
  by (auto simp: wp_def split: prod.splits)

lemma wp_run: "wp f Q m \<Longrightarrow> run_state f m = (r, m') \<Longrightarrow> Q r m'"
  by (simp add: wp_def)

lemma wp_for_each:
  assumes "I m" and "\<And>x m. x \<in> set xs \<Longrightarrow> I m \<Longrightarrow> wp (f x) (\<lambda>_. I) m"
  shows "wp (for_each xs f) (\<lambda>_. I) m"
  using assms
proof (induction xs arbitrary: m)
  case (Cons x xs)
  have "wp (f x) (\<lambda>_. I) m"
    using Cons.prems by simp
  then have "wp (f x) (\<lambda>_. wp (for_each xs f) (\<lambda>_. I)) m"
    by (rule wp_mono) (rule Cons.IH, use Cons.prems(2) in auto)
  then show ?case by (simp add: wp_bind)
qed (simp add: wp_return)

lemma wp_loop:
  assumes "I xs acc m"
    and "\<And>x ys acc m. x \<in> set xs \<Longrightarrow> I (x # ys) acc m \<Longrightarrow> wp (f x acc) (I ys) m"
  shows "wp (loop xs acc f) (I []) m"
  using assms
proof (induction xs arbitrary: acc m)
  case (Cons x xs)
  have "wp (f x acc) (I xs) m"
    using Cons.prems by simp
  then have "wp (f x acc) (\<lambda>acc'. wp (loop xs acc' f) (I [])) m"
    by (rule wp_mono) (rule Cons.IH, use Cons.prems(2) in auto)
  then show ?case by (simp add: wp_bind)
qed (simp add: wp_return)

section \<open>Relations every step keeps\<close>

abbreviation steps :: "('s \<Rightarrow> 's \<Rightarrow> bool) \<Rightarrow> ('s, 'a) state \<Rightarrow> bool" where
  "steps \<equiv> state_io_rel"

locale step_relation =
  fixes R :: "'s \<Rightarrow> 's \<Rightarrow> bool"
  assumes refl: "R m m"
    and trans: "R m1 m2 \<Longrightarrow> R m2 m3 \<Longrightarrow> R m1 m3"
begin

lemma steps_return [intro!]: "steps R (return x)"
  by (simp add: state_io_rel_def refl)

lemma steps_bind [intro!]: "steps R f \<Longrightarrow> (\<And>x. steps R (g x)) \<Longrightarrow> steps R (State_Monad.bind f g)"
  unfolding state_io_rel_def by (auto split: prod.splits) (metis prod.sel(2) trans)

lemma steps_gets [intro!]: "steps R (gets f)"
  by (simp add: state_io_rel_def refl)

lemma steps_for_each [intro!]: "(\<And>x. steps R (f x)) \<Longrightarrow> steps R (for_each xs f)"
  by (induction xs) auto

lemma steps_loop [intro!]: "(\<And>x acc. steps R (f x acc)) \<Longrightarrow> steps R (loop xs acc f)"
  by (induction xs arbitrary: acc) auto

end

text \<open>An operation that only asks the system, by calls that satisfy \<open>P\<close>.\<close>

definition asks :: "(os_event \<Rightarrow> bool) \<Rightarrow> manager \<Rightarrow> manager \<Rightarrow> bool" where
  "asks P m m' \<longleftrightarrow>
     (\<exists>es. m' = m\<lparr>m_history := es @ m_history m\<rparr> \<and> list_all P es)"

text \<open>The history only grows, by calls that satisfy \<open>P\<close>; system and settings stay.\<close>

definition extends :: "(os_event \<Rightarrow> bool) \<Rightarrow> manager \<Rightarrow> manager \<Rightarrow> bool" where
  "extends P m m' \<longleftrightarrow> m_host m' = m_host m \<and> m_settings m' = m_settings m
     \<and> (\<exists>es. m_history m' = es @ m_history m \<and> list_all P es)"

definition keeps :: "(manager \<Rightarrow> 'b) \<Rightarrow> manager \<Rightarrow> manager \<Rightarrow> bool" where
  "keeps f m m' \<longleftrightarrow> f m' = f m"

lemma asks_refl: "asks P m m"
  by (auto simp: asks_def intro!: exI [where x = "[]"])

lemma asks_trans: "asks P m1 m2 \<Longrightarrow> asks P m2 m3 \<Longrightarrow> asks P m1 m3"
proof -
  assume "asks P m1 m2" "asks P m2 m3"
  then obtain es fs where "m2 = m1\<lparr>m_history := es @ m_history m1\<rparr>" "list_all P es"
    "m3 = m2\<lparr>m_history := fs @ m_history m2\<rparr>" "list_all P fs"
    unfolding asks_def by blast
  then have "m3 = m1\<lparr>m_history := (fs @ es) @ m_history m1\<rparr> \<and> list_all P (fs @ es)"
    by simp
  then show ?thesis unfolding asks_def by blast
qed

lemma extends_refl: "extends P m m"
  by (auto simp: extends_def)

lemma extends_trans: "extends P m1 m2 \<Longrightarrow> extends P m2 m3 \<Longrightarrow> extends P m1 m3"
  by (auto simp: extends_def)

interpretation asking: step_relation "asks P" for P
  by unfold_locales (auto intro: asks_refl asks_trans)

interpretation extending: step_relation "extends P" for P
  by unfold_locales (auto intro: extends_refl extends_trans)

interpretation keeping: step_relation "keeps f" for f
  by unfold_locales (auto simp: keeps_def)

end
