(* ===== verification/KDM_Files.thy ===== *)
theory KDM_Files
  imports KDM_Ops
begin

text \<open>
  The file operations of \<^verbatim>\<open>manager/state.go\<close> (bounded reads, the double-checked read of a
  configuration, private snapshots) and \<^verbatim>\<open>manager/managed_store.go\<close> (atomic writes), and
  the availability of a configured device.

  Permissions are written in decimal: \<^verbatim>\<open>0o400\<close> is 256, \<^verbatim>\<open>0o600\<close> is 384 and
  \<^verbatim>\<open>0o700\<close> is 448.
\<close>

section \<open>Bounded reads\<close>

definition defaultMaxConfigBytes :: int where "defaultMaxConfigBytes = 1048576"
definition maxInt64 :: int where "maxInt64 = 9223372036854775807"

definition size_error :: "int \<Rightarrow> go_error" where
  "size_error maxBytes = errorf (''configuration exceeds '' @ digits (nat maxBytes) @ ''-byte limit'')"

definition limited_content :: "int \<Rightarrow> opened_file \<Rightarrow> go_error + string" where
  "limited_content maxBytes file =
     (if (case of_info file of Inl _ \<Rightarrow> False | Inr i \<Rightarrow> fi_Size i > maxBytes) then Inl (size_error maxBytes)
      else
        let limit = (if maxBytes < maxInt64 then maxBytes + 1 else maxBytes)
        in case of_content file of
             Inl e \<Rightarrow> Inl e
           | Inr content \<Rightarrow>
               let data = take (nat limit) content
               in if int (length data) > maxBytes then Inl (size_error maxBytes) else Inr data)"

definition readFileLimited :: "path \<Rightarrow> int \<Rightarrow> (go_error + string) op" where
  "readFileLimited p maxBytes =
     (if maxBytes \<le> 0 then return (Inl (errorf ''configuration size limit must be positive''))
      else do {
        opened \<leftarrow> os_Open p;
        return (case opened of Inl e \<Rightarrow> Inl e | Inr file \<Rightarrow> limited_content maxBytes file) })"

definition os_ReadFile :: "path \<Rightarrow> (go_error + string) op" where
  "os_ReadFile p = do {
     opened \<leftarrow> os_Open p;
     return (case opened of Inl e \<Rightarrow> Inl e | Inr file \<Rightarrow> of_content file) }"

definition device_of :: "string \<Rightarrow> go_error + path" where
  "device_of data = (case deviceFileFromData data of Inl e \<Rightarrow> Inl (errorf e) | Inr d \<Rightarrow> Inr d)"

definition readDeviceFileWithLimit :: "path \<Rightarrow> int \<Rightarrow> (go_error + path) op" where
  "readDeviceFileWithLimit config maxBytes = do {
     data \<leftarrow> readFileLimited config maxBytes;
     return (case data of Inl e \<Rightarrow> Inl e | Inr d \<Rightarrow> device_of d) }"

text \<open>The device, the digest and the bytes of a configuration that did not change meanwhile.\<close>

definition readConfigDataWithLimit :: "path \<Rightarrow> int \<Rightarrow> (go_error + path \<times> string \<times> string) op" where
  "readConfigDataWithLimit p maxBytes = do {
     before \<leftarrow> fileSignature p;
     case before of
       Inl e \<Rightarrow> return (Inl e)
     | Inr b \<Rightarrow> do {
         read \<leftarrow> readFileLimited p maxBytes;
         case read of
           Inl e \<Rightarrow> return (Inl e)
         | Inr data \<Rightarrow> do {
             after \<leftarrow> fileSignature p;
             case after of
               Inl e \<Rightarrow> return (Inl e)
             | Inr a \<Rightarrow>
                 if b \<noteq> a then return (Inl errConfigChanged)
                 else (case device_of data of
                     Inl e \<Rightarrow> return (Inl e)
                   | Inr device \<Rightarrow> do {
                       sha \<leftarrow> gets (\<lambda>m. h_sha256hex (m_host m));
                       return (Inr (device, sha data, data)) }) }}}"

definition readConfigWithLimit :: "path \<Rightarrow> int \<Rightarrow> (go_error + path \<times> string) op" where
  "readConfigWithLimit p maxBytes = do {
     r \<leftarrow> readConfigDataWithLimit p maxBytes;
     return (case r of Inl e \<Rightarrow> Inl e | Inr (device, signature, data) \<Rightarrow> Inr (device, signature)) }"

section \<open>Snapshots\<close>

definition configSnapshotPrefix :: string where
  "configSnapshotPrefix = ''.kmonad-device-manager-snapshot-''"

text \<open>\<^verbatim>\<open>os.CreateTemp\<close> appends a random number to the pattern.\<close>

definition temp_path :: "path \<Rightarrow> string \<Rightarrow> nat \<Rightarrow> path" where
  "temp_path directory pattern n =
     (if directory \<noteq> '''' \<and> last directory = slash then directory @ pattern @ digits n
      else directory @ slash # pattern @ digits n)"

definition createSnapshot :: "path \<Rightarrow> string \<Rightarrow> string \<Rightarrow> (go_error + path) op" where
  "createSnapshot directory pattern data = do {
     created \<leftarrow> os_CreateTemp directory pattern;
     case created of
       Inl e \<Rightarrow> return (Inl e)
     | Inr n \<Rightarrow> do {
         let p = temp_path directory pattern n;
         failed \<leftarrow> calls [WriteFile p data, SyncFile p, ChmodPath p 256, CloseFile p];
         call (CloseFile p);
         case failed of
           Some e \<Rightarrow> do { call (RemoveFile p); return (Inl e) }
         | None \<Rightarrow> return (Inr p) }}"

definition createConfigSnapshot :: "path \<Rightarrow> string \<Rightarrow> (go_error + path) op" where
  "createConfigSnapshot config data =
     createSnapshot (path_dir config) (configSnapshotPrefix @ path_base config @ ''-'') data"

definition createValidationSnapshot :: "string \<Rightarrow> (go_error + path) op" where
  "createValidationSnapshot data = do {
     base \<leftarrow> setting ms_runtimeDir;
     case base of
       Inl e \<Rightarrow> return (Inl e)
     | Inr dir \<Rightarrow> do {
         failed \<leftarrow> call (MkdirAll dir 448);
         case failed of
           Some e \<Rightarrow> return (Inl e)
         | None \<Rightarrow> createSnapshot dir (configSnapshotPrefix @ ''candidate-'') data }}"

definition removeConfigSnapshot :: "path \<Rightarrow> go_error option op" where
  "removeConfigSnapshot p =
     (if p = '''' \<or> \<not> hasPrefix (path_base p) configSnapshotPrefix then return None
      else do {
        failed \<leftarrow> call (RemoveFile p);
        return (case failed of
            None \<Rightarrow> None
          | Some e \<Rightarrow> if ge_kind e = NotExist then None else Some e) })"

section \<open>Atomic writes\<close>

definition syncDirectory :: "path \<Rightarrow> go_error option op" where
  "syncDirectory p = call (SyncDir p)"

definition writeAtomicFile :: "path \<Rightarrow> string \<Rightarrow> nat \<Rightarrow> go_error option op" where
  "writeAtomicFile p data mode = do {
     let temporary = p @ ''.tmp'';
     opened \<leftarrow> call (OpenTruncate temporary mode);
     case opened of
       Some e \<Rightarrow> return (Some e)
     | None \<Rightarrow> do {
         failed \<leftarrow> calls [WriteFile temporary data, SyncFile temporary, ChmodPath temporary mode,
                     CloseFile temporary, RenameFile temporary p];
         case failed of
           Some e \<Rightarrow> do { call (CloseFile temporary); call (RemoveFile temporary); return (Some e) }
         | None \<Rightarrow> do {
             synced \<leftarrow> syncDirectory (path_dir p);
             call (CloseFile temporary);
             return synced }}}"

abbreviation writeAtomicPrivateFile :: "path \<Rightarrow> string \<Rightarrow> nat \<Rightarrow> go_error option op" where
  "writeAtomicPrivateFile \<equiv> writeAtomicFile"

text \<open>A document as the file holds it: JSON and a newline.\<close>

definition encoded :: "document \<Rightarrow> string op" where
  "encoded d = gets (\<lambda>m. h_canonical_json (m_host m) d @ [newline])"

section \<open>The input device of a configuration\<close>

definition configuredDeviceAvailability ::
  "path \<Rightarrow> (device_availability \<times> reason_code \<times> string) op" where
  "configuredDeviceAvailability p = do {
     availability \<leftarrow> deviceAvailability p;
     return (case availability of
         PlatformInaccessible \<Rightarrow>
           (DeviceInaccessible, ReasonDeviceInaccessible, ''input device is inaccessible'')
       | PlatformUnsupported \<Rightarrow>
           (DeviceUnsupported, ReasonDeviceUnsupported,
            ''input path is not a supported character device'')
       | PlatformDisconnected \<Rightarrow>
           (DeviceDisconnected, ReasonDeviceDisconnected, ''input device is disconnected'')
       | PlatformConnected \<Rightarrow>
           (DeviceConnected, ReasonDeviceConnected,
            ''input device is connected and accessible'')) }"

definition deviceReady :: "path \<Rightarrow> bool op" where
  "deviceReady p = do {
     (availability, _, _) \<leftarrow> configuredDeviceAvailability p;
     return (availability = DeviceConnected) }"

section \<open>Which calls these operations make\<close>

text \<open>A call that neither starts nor signals a process.\<close>

definition plain :: "os_event \<Rightarrow> bool" where
  "plain e = (case e of
       EvStart _ _ _ \<Rightarrow> False
     | EvCall (SignalGroup _ _) _ \<Rightarrow> False
     | EvCall (SignalHandle _ _) _ \<Rightarrow> False
     | EvCall (SignalPid _ _) _ \<Rightarrow> False
     | _ \<Rightarrow> True)"

named_theorems plain_ops

lemma plain_simps [simp]:
  "\<not> plain (EvStart evstart0 evstart1 evstart2)"
  "\<not> plain (EvCall (SignalGroup signalgroup0 signalgroup1) r)"
  "\<not> plain (EvCall (SignalHandle signalhandle0 signalhandle1) r)"
  "\<not> plain (EvCall (SignalPid signalpid0 signalpid1) r)"
  "plain (EvNow evnow0)"
  "plain (EvReadDir evreaddir0 evreaddir1)"
  "plain (EvOpen evopen0 evopen1)"
  "plain (EvCreateTemp evcreatetemp0 evcreatetemp1 evcreatetemp2)"
  "plain (EvWorldWritable evworldwritable0 evworldwritable1)"
  "plain (EvAvailability evavailability0 evavailability1)"
  "plain (EvDeviceID evdeviceid0 evdeviceid1)"
  "plain (EvSignature evsignature0 evsignature1)"
  "plain (EvKeyboards evkeyboards0)"
  "plain (EvStartedProcess evstartedprocess0 evstartedprocess1)"
  "plain (EvStartTime evstarttime0 evstarttime1)"
  "plain (EvMatches evmatches0 evmatches1 evmatches2 evmatches3)"
  "plain (EvProcessState evprocessstate0 evprocessstate1)"
  "plain (EvPidExists evpidexists0 evpidexists1)"
  "plain (EvPollExit evpollexit0 evpollexit1)"
  "plain (EvWaitExit evwaitexit0 evwaitexit1 evwaitexit2)"
  "plain (EvWaitDryRun evwaitdryrun0 evwaitdryrun1 evwaitdryrun2)"
  "plain (EvKMonadAvailable evkmonadavailable0 evkmonadavailable1)"
  "plain (EvObserver evobserver0 evobserver1)"
  "plain (EvCapabilities evcapabilities0 evcapabilities1)"
  "plain (EvRandomID evrandomid0)"
  "plain EvJitter"
  "plain (EvSleep evsleep0)"
  "plain (EvKMonadVersion evkmonadversion0 evkmonadversion1)"
  "plain (EvLstat evlstat0 evlstat1)"
  by (simp_all add: plain_def)

lemma plain_calls [simp]:
  "plain (EvCall (MkdirAll mkdirall0 mkdirall1) r)"
  "plain (EvCall (ChmodPath chmodpath0 chmodpath1) r)"
  "plain (EvCall (RemoveFile removefile0) r)"
  "plain (EvCall (RemoveAll removeall0) r)"
  "plain (EvCall (RenameFile renamefile0 renamefile1) r)"
  "plain (EvCall (OpenTruncate opentruncate0 opentruncate1) r)"
  "plain (EvCall (WriteFile writefile0 writefile1) r)"
  "plain (EvCall (SyncFile syncfile0) r)"
  "plain (EvCall (CloseFile closefile0) r)"
  "plain (EvCall (SyncDir syncdir0) r)"
  "plain (EvCall (CloseHandle closehandle0) r)"
  "plain (EvCall (ReapChild reapchild0) r)"
  "plain (EvCall (ConfigureCgroup configurecgroup0 configurecgroup1 configurecgroup2 configurecgroup3 configurecgroup4) r)"
  "plain (EvCall (CleanupCgroup cleanupcgroup0) r)"
  "plain (EvCall (StatPath statpath0) r)"
  "plain (EvCall (WatchAdd watchadd0) r)"
  "plain (EvCall (WatchRemove watchremove0) r)"
  by (simp_all add: plain_def)

lemma asks_ask:
  assumes "\<And>a. P (ev a)"
  shows "steps (asks P) (ask q ev)"
proof (rule state_io_relI)
  fix a m m' assume "run_state (ask q ev) m = (a, m')"
  then have "m' = m\<lparr>m_history := [ev a] @ m_history m\<rparr> \<and> list_all P [ev a]"
    using assms by (auto simp: run_ask)
  then show "asks P m m'" unfolding asks_def by blast
qed

lemma asks_mono: "asks P m m' \<Longrightarrow> (\<And>e. P e \<Longrightarrow> Q e) \<Longrightarrow> asks Q m m'"
  unfolding asks_def list_all_iff by (elim exE conjE) (rule exI, rule conjI, assumption, blast)

lemma asks_calls: "(\<And>c r. c \<in> set cs \<Longrightarrow> P (EvCall c r)) \<Longrightarrow> steps (asks P) (calls cs)"
  by (induction cs) (auto simp: call_def intro!: asks_ask split: option.splits)

lemma plain_queries [plain_ops]:
  "steps (asks plain) time_Now" "steps (asks plain) (os_ReadDir p)" "steps (asks plain) (os_Open p)"
  "steps (asks plain) (os_CreateTemp p s)" "steps (asks plain) (worldWritable p)"
  "steps (asks plain) (deviceAvailability p)" "steps (asks plain) (deviceID p)"
  "steps (asks plain) (fileSignature p)" "steps (asks plain) listKeyboards"
  "steps (asks plain) (StartedProcess i)" "steps (asks plain) (processStartTime i)"
  "steps (asks plain) (processMatchesCommand i c p)" "steps (asks plain) (processStateCode i)"
  "steps (asks plain) (pidExists i)" "steps (asks plain) (poll_exit i)"
  "steps (asks plain) (wait_exit i d)" "steps (asks plain) (wait_dry_run i d)"
  "steps (asks plain) (KMonadAvailable c)" "steps (asks plain) (keypressObserver p)"
  "steps (asks plain) (inputKeyCapabilities p)" "steps (asks plain) random_id"
  "steps (asks plain) retryJitter" "steps (asks plain) (time_Sleep d)"
  "steps (asks plain) (os_Lstat p)" "steps (asks plain) (KMonadVersion c)"
  unfolding time_Now_def os_ReadDir_def os_Open_def os_CreateTemp_def worldWritable_def
    deviceAvailability_def deviceID_def fileSignature_def listKeyboards_def StartedProcess_def
    processStartTime_def processMatchesCommand_def processStateCode_def pidExists_def
    poll_exit_def wait_exit_def wait_dry_run_def KMonadAvailable_def keypressObserver_def
    inputKeyCapabilities_def random_id_def retryJitter_def time_Sleep_def os_Lstat_def KMonadVersion_def
  by (rule asks_ask, simp)+

lemma plain_call: "(\<And>r. plain (EvCall c r)) \<Longrightarrow> steps (asks plain) (call c)"
  unfolding call_def by (rule asks_ask)

lemmas plain_simple_calls [plain_ops] =
  plain_call [OF plain_calls(1)] plain_call [OF plain_calls(2)] plain_call [OF plain_calls(3)]
  plain_call [OF plain_calls(4)] plain_call [OF plain_calls(5)] plain_call [OF plain_calls(6)]
  plain_call [OF plain_calls(7)] plain_call [OF plain_calls(8)] plain_call [OF plain_calls(9)]
  plain_call [OF plain_calls(10)] plain_call [OF plain_calls(11)] plain_call [OF plain_calls(12)]
  plain_call [OF plain_calls(13)] plain_call [OF plain_calls(14)] plain_call [OF plain_calls(15)]
  plain_call [OF plain_calls(16)] plain_call [OF plain_calls(17)]

lemma plain_calls_list [plain_ops]:
  "(\<And>c r. c \<in> set cs \<Longrightarrow> plain (EvCall c r)) \<Longrightarrow> steps (asks plain) (calls cs)"
  by (rule asks_calls)

lemma plain_files [plain_ops]:
  "steps (asks plain) (readFileLimited p n)" "steps (asks plain) (os_ReadFile p)"
  by (auto simp: readFileLimited_def os_ReadFile_def intro!: plain_ops)

lemma plain_config_reads [plain_ops]:
  "steps (asks plain) (readDeviceFileWithLimit p n)"
  "steps (asks plain) (readConfigDataWithLimit p n)"
  "steps (asks plain) (readConfigWithLimit p n)"
  by (auto simp: readDeviceFileWithLimit_def readConfigDataWithLimit_def readConfigWithLimit_def
        intro!: plain_ops split: sum.splits)

lemma plain_snapshot [plain_ops]:
  "steps (asks plain) (createSnapshot d p data)" "steps (asks plain) (removeConfigSnapshot q)"
  by (auto simp: createSnapshot_def removeConfigSnapshot_def Let_def
        intro!: plain_ops split: sum.splits option.splits)

lemma plain_snapshots [plain_ops]:
  "steps (asks plain) (createConfigSnapshot config data)"
  "steps (asks plain) (createValidationSnapshot data)"
  by (auto simp: createConfigSnapshot_def createValidationSnapshot_def
        intro!: plain_ops split: sum.splits option.splits)

lemma plain_writes [plain_ops]:
  "steps (asks plain) (syncDirectory p)" "steps (asks plain) (writeAtomicFile p data mode)"
  "steps (asks plain) (encoded d)"
  by (auto simp: syncDirectory_def writeAtomicFile_def encoded_def Let_def
        intro!: plain_ops split: option.splits)

lemma plain_devices [plain_ops]:
  "steps (asks plain) (configuredDeviceAvailability p)" "steps (asks plain) (deviceReady p)"
  by (auto simp: configuredDeviceAvailability_def deviceReady_def intro!: plain_ops
        split: platform_availability.splits prod.splits)

text \<open>What an operation that only asks leaves to prove.\<close>

lemma wp_steps:
  assumes "steps R f" and "\<And>r m'. R m m' \<Longrightarrow> Q r m'"
  shows "wp f Q m"
  using assms unfolding wp_def state_io_rel_def by (metis case_prod_beta snd_conv)

lemma asks_frame:
  assumes "asks P m m'"
  shows "m_host m' = m_host m" "m_settings m' = m_settings m" "m_counters m' = m_counters m"
    "m_states m' = m_states m" "m_duplicates m' = m_duplicates m" "m_devices m' = m_devices m"
    "m_discoveredNodeDevices m' = m_discoveredNodeDevices m"
    "m_managedConfigs m' = m_managedConfigs m" "m_externalConfigs m' = m_externalConfigs m"
    "m_prevalidated m' = m_prevalidated m" "m_log m' = m_log m" "m_journal m' = m_journal m"
    "m_identification m' = m_identification m" "m_probe m' = m_probe m"
    "m_lastPublicState m' = m_lastPublicState m"
  using assms by (auto simp: asks_def)

lemma asks_extends: "asks P m m' \<Longrightarrow> extends P m m'"
  by (auto simp: asks_def extends_def)

text \<open>
  A quiet step: plain calls only, and nothing of the supervision changes - no state, no
  snapshot kept for a start, no session.
\<close>

definition supervision ::
  "manager \<Rightarrow> (path, configState) gomap \<times> (path, validated_config) gomap \<times> (path, string) gomap
     \<times> session option \<times> session option" where
  "supervision m = (m_states m, m_prevalidated m, m_duplicates m, m_identification m, m_probe m)"

definition quiet :: "manager \<Rightarrow> manager \<Rightarrow> bool" where
  "quiet m m' \<longleftrightarrow> extends plain m m' \<and> supervision m' = supervision m"

named_theorems quiet_ops

interpretation quieting: step_relation quiet
  by unfold_locales (auto simp: quiet_def intro: extends_refl extends_trans)

lemma asks_quiet: "asks plain m m' \<Longrightarrow> quiet m m'"
  by (auto simp: asks_def quiet_def supervision_def extends_def)

lemma quiet_of_asks: "steps (asks plain) f \<Longrightarrow> steps quiet f"
  by (simp add: state_io_rel_def asks_quiet)

lemma steps_modify: "(\<And>m. R m (f m)) \<Longrightarrow> steps R (modify f)"
  by (simp add: state_io_rel_def)

lemma quiet_modify [quiet_ops]:
  "(\<And>m. extends plain m (f m) \<and> supervision (f m) = supervision m) \<Longrightarrow> steps quiet (modify f)"
  by (rule steps_modify) (simp add: quiet_def)

lemma extends_same:
  "m_host m' = m_host m \<Longrightarrow> m_settings m' = m_settings m \<Longrightarrow> m_history m' = m_history m
   \<Longrightarrow> extends P m m'"
  by (simp add: extends_def)

lemma quiet_frame:
  assumes "quiet m m'"
  shows "m_host m' = m_host m" "m_settings m' = m_settings m" "m_states m' = m_states m"
    "m_prevalidated m' = m_prevalidated m" "m_duplicates m' = m_duplicates m"
    "m_identification m' = m_identification m" "m_probe m' = m_probe m"
  using assms by (auto simp: quiet_def extends_def supervision_def)

end
