(* ===== verification/KDM_Discovery.thy ===== *)
theory KDM_Discovery
  imports KDM_Files
begin

text \<open>
  The discovery of keyboards in \<^verbatim>\<open>manager/devices.go\<close>: what the platform lists becomes
  public device records under opaque IDs. Go sorts them by ID with an unstable sort; here the
  order of records with the same ID is the order of the list.
\<close>

record discovered_keyboard =
  dk_device :: device
  dk_nodePath :: path
  dk_virtual :: bool

fun keyboardAvailability ::
  "platform_availability \<Rightarrow> device_availability \<times> reason_code \<times> string" where
  "keyboardAvailability PlatformInaccessible =
     (DeviceInaccessible, ReasonDeviceInaccessible, ''keyboard is connected but inaccessible'')"
| "keyboardAvailability PlatformUnsupported =
     (DeviceUnsupported, ReasonDeviceUnsupported, ''keyboard input interface is unsupported'')"
| "keyboardAvailability PlatformDisconnected =
     (DeviceDisconnected, ReasonDeviceDisconnected, ''keyboard is disconnected'')"
| "keyboardAvailability PlatformConnected =
     (DeviceConnected, ReasonDeviceConnected, ''keyboard is connected and accessible'')"

definition opaqueDeviceID :: "(string \<Rightarrow> string) \<Rightarrow> string \<Rightarrow> string" where
  "opaqueDeviceID sha256hex identity = ''dev_'' @ take 32 (sha256hex identity)"

text \<open>An identity that several keyboards share gives way to the fallback of each.\<close>

definition keyboard_identity :: "keyboard_device list \<Rightarrow> keyboard_device \<Rightarrow> string \<times> identity_stability" where
  "keyboard_identity found k =
     (if length (filter (\<lambda>j. kb_Identity j = kb_Identity k) found) > 1 \<and> kb_FallbackIdentity k \<noteq> ''''
      then (kb_FallbackIdentity k, IdentityTopology)
      else (kb_Identity k,
        if kb_IdentityStability k = ''serial'' then IdentitySerial
        else if kb_IdentityStability k = ''topology'' then IdentityTopology
        else IdentityUnknown))"

definition discovered_device ::
  "(string \<Rightarrow> string) \<Rightarrow> keyboard_device list \<Rightarrow> keyboard_device \<Rightarrow> discovered_keyboard" where
  "discovered_device sha256hex found k =
     (case (keyboard_identity found k, keyboardAvailability (kb_Availability k)) of
        ((identity, stability), (availability, reasonCode, reason)) \<Rightarrow>
          \<lparr>dk_device = \<lparr>dev_ID = opaqueDeviceID sha256hex identity,
               dev_DisplayName = kb_DisplayName k, dev_Role = DeviceRoleInput,
               dev_Vendor = kb_Vendor k, dev_Product = kb_Product k, dev_Serial = kb_Serial k,
               dev_Availability = availability, dev_IdentityStability = stability,
               dev_ConfiguredBy = [], dev_RuntimeConflict = False,
               dev_ReasonCode = reasonCode, dev_Reason = reason\<rparr>,
             dk_nodePath = kb_NodePath k, dk_virtual = kb_Virtual k\<rparr>)"

definition discoverKeyboardDevices :: "(go_error + discovered_keyboard list) op" where
  "discoverKeyboardDevices = do {
     listed \<leftarrow> listKeyboards;
     sha \<leftarrow> gets (\<lambda>m. h_sha256hex (m_host m));
     return (case listed of
         Inl e \<Rightarrow> Inl e
       | Inr found \<Rightarrow>
           Inr (sort_key (\<lambda>d. dev_ID (dk_device d)) (map (discovered_device sha found) found))) }"

definition discoverDevices :: "(go_error + device list) op" where
  "discoverDevices = do {
     discovered \<leftarrow> discoverKeyboardDevices;
     return (case discovered of Inl e \<Rightarrow> Inl e | Inr ds \<Rightarrow> Inr (map dk_device ds)) }"

lemma plain_discovery [plain_ops]:
  "steps (asks plain) discoverKeyboardDevices" "steps (asks plain) discoverDevices"
  by (auto simp: discoverKeyboardDevices_def discoverDevices_def intro!: plain_ops)

end
