(* ===== verification/KDM_Store.thy ===== *)
theory KDM_Store
  imports KDM_Discovery
begin

text \<open>
  The store of managed configurations (\<^verbatim>\<open>manager/managed_store.go\<close>) and the registry of
  external ones (\<^verbatim>\<open>manager/configurations.go\<close>): what is kept in memory, what is written, and
  which configuration files the supervisor is to run.
\<close>

section \<open>Managed configurations\<close>

definition managedConfigurationStoreVersion :: int where "managedConfigurationStoreVersion = 1"

definition normalizedManagedConfiguration :: "managed_configuration \<Rightarrow> managed_configuration" where
  "normalizedManagedConfiguration c =
     (let c1 = (if mc_Ownership c = OwnershipUnset then c\<lparr>mc_Ownership := ConfigurationManaged\<rparr> else c)
      in if mc_ContentRevision c1 = 0 then c1\<lparr>mc_ContentRevision := mc_Revision c1\<rparr> else c1)"

definition validConfigurationID :: "string \<Rightarrow> bool" where
  "validConfigurationID s \<longleftrightarrow>
     length s = 36 \<and> hasPrefix s ''cfg_'' \<and> (\<forall>c \<in> set (drop 4 s). unhex c \<noteq> None)"

definition validManagedConfiguration :: "managed_configuration \<Rightarrow> bool" where
  "validManagedConfiguration c \<longleftrightarrow>
     mc_Version c = managedConfigurationStoreVersion \<and> mc_Ownership c = ConfigurationManaged
     \<and> validConfigurationID (mc_ID c) \<and> trimSpace (mc_Name c) \<noteq> '''' \<and> mc_Revision c > 0
     \<and> mc_ContentRevision c > 0 \<and> mc_Digest c \<noteq> '''' \<and> model_DeviceID (mc_Model c) \<noteq> ''''
     \<and> \<not> containsManagerOwnedConfiguration (model_Behavior (mc_Model c))"

definition newConfigurationID :: "string option op" where
  "newConfigurationID = do {
     r \<leftarrow> random_id;
     return (map_option (\<lambda>hex. ''cfg_'' @ hex) r) }"

definition revision_file :: "nat \<Rightarrow> string" where
  "revision_file n =
     replicate (20 - length (digits n)) (CHR ''0'') @ digits n @ ''.kbd''"

definition managedConfigurationPath :: "manager_settings \<Rightarrow> managed_configuration \<Rightarrow> path" where
  "managedConfigurationPath settings c =
     (let c1 = normalizedManagedConfiguration c
      in path_join (path_join (ms_managedConfigDir settings) (mc_ID c1))
           (revision_file (mc_ContentRevision c1)))"

definition managedConfigurationMetadataPath :: "manager_settings \<Rightarrow> string \<Rightarrow> path" where
  "managedConfigurationMetadataPath settings i = path_join (ms_managedConfigDir settings) (i @ ''.json'')"

definition storage_unavailable :: go_error where
  "storage_unavailable = errorf ''managed configuration storage is unavailable''"

definition storeManagedConfigurationMetadata :: "managed_configuration \<Rightarrow> go_error option op" where
  "storeManagedConfigurationMetadata c0 = do {
     let c = normalizedManagedConfiguration c0;
     settings \<leftarrow> gets m_settings;
     if \<not> validManagedConfiguration c \<or> ms_managedConfigDir settings = ''''
     then return (Some storage_unavailable)
     else do {
       data \<leftarrow> encoded (ManagedMetadata c);
       failed \<leftarrow> writeAtomicPrivateFile (managedConfigurationMetadataPath settings (mc_ID c)) data 384;
       case failed of
         Some e \<Rightarrow> return (Some e)
       | None \<Rightarrow> do {
           modify (\<lambda>m. m\<lparr>m_managedConfigs := map_put (mc_ID c) c (m_managedConfigs m)\<rparr>);
           return None }}}"

definition storeManagedConfiguration ::
  "managed_configuration \<Rightarrow> string \<Rightarrow> go_error option op" where
  "storeManagedConfiguration c0 content = do {
     let c = normalizedManagedConfiguration c0;
     settings \<leftarrow> gets m_settings;
     sha \<leftarrow> gets (\<lambda>m. h_sha256hex (m_host m));
     if \<not> validManagedConfiguration c \<or> ms_managedConfigDir settings = ''''
     then return (Some storage_unavailable)
     else if sha content \<noteq> mc_Digest c
     then return (Some (errorf ''managed configuration content does not match its digest''))
     else do {
       let target = managedConfigurationPath settings c;
       failed \<leftarrow> calls [MkdirAll (path_dir target) 448, ChmodPath (path_dir target) 448];
       case failed of
         Some e \<Rightarrow> return (Some e)
       | None \<Rightarrow> do {
           unwritten \<leftarrow> writeAtomicPrivateFile target content 256;
           case unwritten of
             Some e \<Rightarrow> return (Some e)
           | None \<Rightarrow> do {
               unstored \<leftarrow> storeManagedConfigurationMetadata c;
               case unstored of
                 Some e \<Rightarrow> return (Some e)
               | None \<Rightarrow> do {
                   modify (\<lambda>m. m\<lparr>m_managedConfigs := map_put (mc_ID c) c (m_managedConfigs m)\<rparr>);
                   return None }}}}}"

definition removeManagedConfigurationMetadata :: "string \<Rightarrow> go_error option op" where
  "removeManagedConfigurationMetadata i = do {
     settings \<leftarrow> gets m_settings;
     if \<not> validConfigurationID i \<or> ms_managedConfigDir settings = ''''
     then return (Some storage_unavailable)
     else do {
       failed \<leftarrow> call (RemoveFile (managedConfigurationMetadataPath settings i));
       if (case failed of Some e \<Rightarrow> ge_kind e \<noteq> NotExist | None \<Rightarrow> False) then return failed
       else do {
         modify (\<lambda>m. m\<lparr>m_managedConfigs := map_del i (m_managedConfigs m)\<rparr>);
         syncDirectory (ms_managedConfigDir settings) }}}"

text \<open>The loop of the code stops at the first configuration it updates.\<close>

definition confirmManagedConfigurationActive :: "path \<Rightarrow> go_error option op" where
  "confirmManagedConfigurationActive p = do {
     settings \<leftarrow> gets m_settings;
     configs \<leftarrow> gets m_managedConfigs;
     case find (\<lambda>(i, c). managedConfigurationPath settings c = p
                       \<and> mc_ActiveRevision c \<noteq> mc_ContentRevision c) configs of
       None \<Rightarrow> return None
     | Some (i, c0) \<Rightarrow> do {
         let c = c0\<lparr>mc_ActiveRevision := mc_ContentRevision c0\<rparr>;
         failed \<leftarrow> storeManagedConfigurationMetadata c;
         case failed of
           Some e \<Rightarrow> return (Some e)
         | None \<Rightarrow> do {
             modify (\<lambda>m. m\<lparr>m_managedConfigs := map_put i c (m_managedConfigs m)\<rparr>);
             return None }}}"

definition configurationByteLimit :: "manager_settings \<Rightarrow> int" where
  "configurationByteLimit settings =
     (if ms_maxConfigBytes settings > 0 then ms_maxConfigBytes settings else defaultMaxConfigBytes)"

definition managedConfigurationIntact :: "managed_configuration \<Rightarrow> bool op" where
  "managedConfigurationIntact c = do {
     settings \<leftarrow> gets m_settings;
     sha \<leftarrow> gets (\<lambda>m. h_sha256hex (m_host m));
     read \<leftarrow> readFileLimited (managedConfigurationPath settings c) (configurationByteLimit settings);
     let intact = (case read of Inl _ \<Rightarrow> False | Inr data \<Rightarrow> sha data = mc_Digest c);
     modify (\<lambda>m. m\<lparr>m_managedTampered := map_put (mc_ID c) (\<not> intact) (m_managedTampered m)\<rparr>);
     return intact }"

text \<open>
  Opening the store, after the journal (\<open>open_journal\<close>): the metadata files of the
  directory, each with its content checked against the digest.
\<close>

definition load_managed_entry :: "string \<times> bool \<Rightarrow> unit op" where
  "load_managed_entry entry = do {
     settings \<leftarrow> gets m_settings;
     host \<leftarrow> gets m_host;
     if snd entry \<or> \<not> hasSuffix (fst entry) ''.json'' then return ()
     else do {
       read \<leftarrow> readFileLimited (path_join (ms_managedConfigDir settings) (fst entry))
                 defaultMaxConfigBytes;
       case read of
         Inl _ \<Rightarrow> return ()
       | Inr data \<Rightarrow> (case h_parse_json host data of
             Some (ManagedMetadata c0) \<Rightarrow>
               (let c = normalizedManagedConfiguration c0
                in if \<not> validManagedConfiguration c then return ()
                   else do {
                     content \<leftarrow> readFileLimited (managedConfigurationPath settings c)
                                  defaultMaxConfigBytes;
                     let tampered = (case content of
                         Inl _ \<Rightarrow> True | Inr bytes \<Rightarrow> h_sha256hex host bytes \<noteq> mc_Digest c);
                     modify (\<lambda>m. m\<lparr>m_managedConfigs := map_put (mc_ID c) c (m_managedConfigs m)\<rparr>);
                     if tampered
                     then modify (\<lambda>m. m\<lparr>m_managedTampered :=
                                        map_put (mc_ID c) True (m_managedTampered m)\<rparr>)
                     else return () })
           | _ \<Rightarrow> return ()) }}"

text \<open>
  The journal is read, decoded and, with its unfinished entries closed, written back before it
  is used. A write that returns an error counts as failed; the entries closed in one pass get
  one time.
\<close>

definition journal_file :: "host \<Rightarrow> go_error + string \<Rightarrow> journal_read" where
  "journal_file host read =
     (case read of
        Inl e \<Rightarrow> if ge_kind e = NotExist then JournalMissing else JournalUnreadable
      | Inr data \<Rightarrow> (case h_parse_json host data of
            Some (JournalDocument version records) \<Rightarrow> JournalRead version records
          | _ \<Rightarrow> JournalUndecodable))"

definition write_journal :: "path \<Rightarrow> idempotency_records \<Rightarrow> write_outcome op" where
  "write_journal p records = do {
     data \<leftarrow> encoded (JournalDocument idempotencyStoreVersion records);
     failed \<leftarrow> writeAtomicPrivateFile p data 384;
     return (case failed of None \<Rightarrow> WriteOk | Some _ \<Rightarrow> WriteFailed) }"

definition openJournal :: "path \<Rightarrow> unit op" where
  "openJournal p = do {
     read \<leftarrow> readFileLimited p 4194304;
     file \<leftarrow> gets (\<lambda>m. journal_file (m_host m) read);
     now \<leftarrow> time_Now;
     outcome \<leftarrow> (case file of
         JournalRead version records \<Rightarrow>
           if version = idempotencyStoreVersion \<and> length records \<le> maxIdempotencyRecords
              \<and> list_all valid_journal_entry records
           then write_journal p (map (\<lambda>(key, r). (key, recovered_record now r)) records)
           else return WriteFailed
       | _ \<Rightarrow> return WriteFailed);
     modify (\<lambda>m. m\<lparr>m_journal := open_journal p (\<lambda>_. now) outcome file (m_journal m)\<rparr>) }"

definition openManagedConfigurationStore :: "path \<Rightarrow> go_error option op" where
  "openManagedConfigurationStore base =
     (if base = '''' then return (Some (errorf ''manager state directory is empty''))
      else do {
        failed \<leftarrow> calls [MkdirAll base 448, ChmodPath base 448];
        case failed of
          Some e \<Rightarrow> return (Some e)
        | None \<Rightarrow> do {
            let dir = path_join base ''configurations'';
            modify (\<lambda>m. m\<lparr>m_settings := (m_settings m)\<lparr>ms_managedConfigDir := dir\<rparr>\<rparr>);
            openJournal (path_join base ''idempotency.json'');
            modify (\<lambda>m. m\<lparr>m_settings := (m_settings m)\<lparr>ms_externalRegistryPath :=
                                            path_join base ''external-configurations.json''\<rparr>\<rparr>);
            unmade \<leftarrow> calls [MkdirAll dir 448, ChmodPath dir 448];
            case unmade of
              Some e \<Rightarrow> return (Some e)
            | None \<Rightarrow> do {
                entries \<leftarrow> os_ReadDir dir;
                case entries of
                  Inl e \<Rightarrow> return (Some e)
                | Inr es \<Rightarrow> do { for_each es load_managed_entry; return None }}}})"

section \<open>External configurations\<close>

definition opaqueExternalConfigurationID :: "(string \<Rightarrow> string) \<Rightarrow> path \<Rightarrow> string" where
  "opaqueExternalConfigurationID sha256hex p = ''cfg_'' @ take 32 (sha256hex p)"

text \<open>The first eight bytes of the digest as a number, without its low twelve bits, plus one.\<close>

definition externalContentRevision :: "(string \<Rightarrow> string) \<Rightarrow> string \<Rightarrow> nat" where
  "externalContentRevision sha256hex content =
     (case unhexes 0 (take 16 (sha256hex content)) of None \<Rightarrow> 1 | Some n \<Rightarrow> n div 2 ^ 12 + 1)"

definition writeExternalConfigurationRegistry :: "go_error option op" where
  "writeExternalConfigurationRegistry = do {
     p \<leftarrow> setting ms_externalRegistryPath;
     if p = '''' then return None
     else do {
       configs \<leftarrow> gets m_externalConfigs;
       data \<leftarrow> encoded (ExternalRegistry (sort_key xc_ID (map snd configs)));
       writeAtomicPrivateFile p data 384 }}"

definition loadExternalConfigurationRegistry :: "unit op" where
  "loadExternalConfigurationRegistry = do {
     p \<leftarrow> setting ms_externalRegistryPath;
     if p = '''' then return ()
     else do {
       read \<leftarrow> os_ReadFile p;
       host \<leftarrow> gets m_host;
       case read of
         Inl _ \<Rightarrow> return ()
       | Inr data \<Rightarrow> (case h_parse_json host data of
             Some (ExternalRegistry configs) \<Rightarrow>
               for_each configs (\<lambda>c.
                 if xc_ID c \<noteq> '''' \<and> xc_Ownership c = ConfigurationExternal
                 then modify (\<lambda>m. m\<lparr>m_externalConfigs := map_put (xc_ID c) c (m_externalConfigs m)\<rparr>)
                 else return ())
           | _ \<Rightarrow> return ()) }}"

definition externalConfigurationIsAdopted :: "path \<Rightarrow> manager \<Rightarrow> bool" where
  "externalConfigurationIsAdopted p m =
     (case map_get (m_externalConfigs m) (opaqueExternalConfigurationID (h_sha256hex (m_host m)) p) of
        None \<Rightarrow> False
      | Some c \<Rightarrow> xc_AdoptedBy c \<noteq> '''' \<and> xc_AdoptedSignature c = xc_Signature c)"

text \<open>The scan of the configuration directory; \<open>known\<close> is the registry before it.\<close>

definition deviceIDForExternalConfiguration :: "string \<Rightarrow> string op" where
  "deviceIDForExternalConfiguration content =
     (case device_of content of
        Inl _ \<Rightarrow> return ''''
      | Inr device \<Rightarrow>
          if device = '''' then return ''''
          else do {
            identity \<leftarrow> deviceID device;
            case identity of
              Inl _ \<Rightarrow> return ''''
            | Inr i \<Rightarrow> do {
                discovered \<leftarrow> discoverKeyboardDevices;
                case discovered of
                  Inl _ \<Rightarrow> return ''''
                | Inr ds \<Rightarrow> do {
                    found \<leftarrow> loop ds None (\<lambda>d acc.
                      case acc of
                        Some _ \<Rightarrow> return acc
                      | None \<Rightarrow> do {
                          candidate \<leftarrow> deviceID (dk_nodePath d);
                          return (if candidate = Inr i then Some (dev_ID (dk_device d)) else None) });
                    return (case found of None \<Rightarrow> '''' | Some r \<Rightarrow> r) }}})"

definition carried_over :: "external_configuration option \<Rightarrow> external_configuration \<Rightarrow> external_configuration" where
  "carried_over previous c =
     (case previous of
        None \<Rightarrow> c
      | Some old \<Rightarrow>
          if xc_Signature old \<noteq> xc_Signature c then c
          else
            let c1 = (if xc_DeviceID c = '''' then c\<lparr>xc_DeviceID := xc_DeviceID old\<rparr> else c)
            in if xc_AdoptedBy old \<noteq> '''' \<and> xc_AdoptedSignature old = xc_Signature c1
               then c1\<lparr>xc_AdoptedBy := xc_AdoptedBy old,
                       xc_AdoptedSignature := xc_AdoptedSignature old\<rparr>
               else c1)"

definition scan_external_entry ::
  "string \<times> bool \<Rightarrow> (string, external_configuration) gomap
   \<Rightarrow> (string, external_configuration) gomap op" where
  "scan_external_entry entry configurations = do {
     settings \<leftarrow> gets m_settings;
     sha \<leftarrow> gets (\<lambda>m. h_sha256hex (m_host m));
     known \<leftarrow> gets m_externalConfigs;
     if snd entry \<or> \<not> hasSuffix (fst entry) ''.kbd'' then return configurations
     else do {
       let p = path_join (ms_configDir settings) (fst entry);
       read \<leftarrow> readFileLimited p (configurationByteLimit settings);
       case read of
         Inl _ \<Rightarrow> return configurations
       | Inr data \<Rightarrow> do {
           device \<leftarrow> deviceIDForExternalConfiguration data;
           let i = opaqueExternalConfigurationID sha p;
           return (map_put i (carried_over (map_get known i)
             \<lparr>xc_ID = i, xc_Ownership = ConfigurationExternal, xc_Path = p, xc_Name = fst entry,
              xc_DeviceID = device, xc_Signature = sha data,
              xc_ContentRevision = externalContentRevision sha data,
              xc_AdoptedBy = '''', xc_AdoptedSignature = ''''\<rparr>) configurations) }}}"

definition refreshExternalConfigurationRegistry :: "unit op" where
  "refreshExternalConfigurationRegistry = do {
     dir \<leftarrow> setting ms_configDir;
     if dir = '''' then return ()
     else do {
       entries \<leftarrow> os_ReadDir dir;
       case entries of
         Inl _ \<Rightarrow> return ()
       | Inr es \<Rightarrow> do {
           configurations \<leftarrow> loop es [] scan_external_entry;
           modify (\<lambda>m. m\<lparr>m_externalConfigs := configurations\<rparr>);
           _ \<leftarrow> writeExternalConfigurationRegistry;
           return () }}}"

text \<open>Adoption marks, undone when the registry cannot be written.\<close>

abbreviation put_external :: "string \<Rightarrow> external_configuration \<Rightarrow> unit op" where
  "put_external i c \<equiv> modify (\<lambda>m. m\<lparr>m_externalConfigs := map_put i c (m_externalConfigs m)\<rparr>)"

abbreviation unadopted :: "external_configuration \<Rightarrow> external_configuration" where
  "unadopted c \<equiv> c\<lparr>xc_AdoptedBy := '''', xc_AdoptedSignature := ''''\<rparr>"

definition not_exist :: go_error where
  "not_exist = error_of NotExist ''file does not exist''"

definition markExternalConfigurationAdopted ::
  "string \<Rightarrow> string \<Rightarrow> string \<Rightarrow> go_error option op" where
  "markExternalConfigurationAdopted externalID managedID signature = do {
     known \<leftarrow> gets (\<lambda>m. map_get (m_externalConfigs m) externalID);
     settings \<leftarrow> gets m_settings;
     sha \<leftarrow> gets (\<lambda>m. h_sha256hex (m_host m));
     case known of
       None \<Rightarrow> return (Some not_exist)
     | Some c \<Rightarrow>
         if xc_Signature c \<noteq> signature then return (Some not_exist)
         else do {
           read \<leftarrow> readFileLimited (xc_Path c) (configurationByteLimit settings);
           if (case read of Inl _ \<Rightarrow> True | Inr data \<Rightarrow> sha data \<noteq> signature)
           then return (Some not_exist)
           else do {
             put_external externalID (c\<lparr>xc_AdoptedBy := managedID, xc_AdoptedSignature := signature\<rparr>);
             failed \<leftarrow> writeExternalConfigurationRegistry;
             case failed of
               None \<Rightarrow> return None
             | Some e \<Rightarrow> do { put_external externalID (unadopted c); return (Some e) }}}}"

definition clearExternalConfigurationAdoption :: "string \<Rightarrow> string \<Rightarrow> go_error option op" where
  "clearExternalConfigurationAdoption externalID managedID = do {
     known \<leftarrow> gets (\<lambda>m. map_get (m_externalConfigs m) externalID);
     case known of
       None \<Rightarrow> return None
     | Some c \<Rightarrow>
         if xc_AdoptedBy c \<noteq> managedID then return None
         else do {
           put_external externalID (unadopted c);
           failed \<leftarrow> writeExternalConfigurationRegistry;
           case failed of
             None \<Rightarrow> return None
           | Some e \<Rightarrow> do { put_external externalID c; return (Some e) }}}"

definition clearExternalConfigurationAdoptionsForManaged :: "string \<Rightarrow> go_error option op" where
  "clearExternalConfigurationAdoptionsForManaged managedID = do {
     configs \<leftarrow> gets m_externalConfigs;
     let previous = filter (\<lambda>e. xc_AdoptedBy (snd e) = managedID) configs;
     for_each previous (\<lambda>(i, c). put_external i (unadopted c));
     if previous = [] then return None
     else do {
       failed \<leftarrow> writeExternalConfigurationRegistry;
       case failed of
         None \<Rightarrow> return None
       | Some e \<Rightarrow> do { for_each previous (\<lambda>(i, c). put_external i c); return (Some e) }}}"

section \<open>The files to supervise\<close>

text \<open>The files of the configuration directory that are not adopted, and the current revision
  of every enabled managed configuration that is intact, sorted.\<close>

definition configurationPaths :: "(go_error + path list) op" where
  "configurationPaths = do {
     settings \<leftarrow> gets m_settings;
     listed \<leftarrow> (if ms_configDir settings = '''' then return (Inr [])
               else os_ReadDir (ms_configDir settings));
     if (case listed of Inl e \<Rightarrow> ge_kind e \<noteq> NotExist | Inr _ \<Rightarrow> False)
     then return (case listed of Inl e \<Rightarrow> Inl e | Inr _ \<Rightarrow> Inr [])
     else do {
       external \<leftarrow> gets (\<lambda>m.
         filter (\<lambda>p. \<not> externalConfigurationIsAdopted p m)
           (map (\<lambda>e. path_join (ms_configDir settings) (fst e))
             (filter (\<lambda>e. \<not> snd e \<and> hasSuffix (fst e) ''.kbd'')
               (case listed of Inl _ \<Rightarrow> [] | Inr es \<Rightarrow> es))));
       configs \<leftarrow> gets m_managedConfigs;
       managed \<leftarrow> loop configs [] (\<lambda>(i, c) acc.
         if mc_Enabled c
         then do {
           intact \<leftarrow> managedConfigurationIntact c;
           return (if intact then acc @ [managedConfigurationPath settings c] else acc) }
         else return acc);
       return (Inr (sort (external @ managed))) }}"

definition configurationClaimName :: "path \<Rightarrow> manager \<Rightarrow> string" where
  "configurationClaimName p m =
     (case find (\<lambda>(i, c). managedConfigurationPath (m_settings m) c = p) (m_managedConfigs m) of
        Some (i, c) \<Rightarrow> i
      | None \<Rightarrow> path_base p)"

section \<open>Nothing here touches the supervision\<close>

lemmas quiet_plain [quiet_ops] = plain_ops [THEN quiet_of_asks]

lemma quiet_managed_store [quiet_ops]:
  "steps quiet (storeManagedConfigurationMetadata c)"
  "steps quiet (removeManagedConfigurationMetadata i)"
  "steps quiet (managedConfigurationIntact c)"
  by (auto simp: storeManagedConfigurationMetadata_def removeManagedConfigurationMetadata_def
        managedConfigurationIntact_def Let_def supervision_def
        intro!: quiet_ops extends_same split: option.splits)

lemma quiet_managed_store2 [quiet_ops]:
  "steps quiet (storeManagedConfiguration c content)"
  "steps quiet (confirmManagedConfigurationActive p)"
  by (auto simp: storeManagedConfiguration_def confirmManagedConfigurationActive_def Let_def
        supervision_def
        intro!: quiet_ops extends_same split: option.splits prod.splits)

lemma quiet_external_registry [quiet_ops]:
  "steps quiet writeExternalConfigurationRegistry"
  "steps quiet (deviceIDForExternalConfiguration content)"
  by (auto simp: writeExternalConfigurationRegistry_def deviceIDForExternalConfiguration_def
        intro!: quiet_ops split: option.splits sum.splits)

lemma quiet_external_scan [quiet_ops]:
  "steps quiet (scan_external_entry entry configurations)"
  by (auto simp: scan_external_entry_def Let_def
        intro!: quiet_ops split: sum.splits)

lemma quiet_external_refresh [quiet_ops]: "steps quiet refreshExternalConfigurationRegistry"
  by (auto simp: refreshExternalConfigurationRegistry_def supervision_def
        intro!: quiet_ops extends_same split: sum.splits)

lemma quiet_adoption [quiet_ops]:
  "steps quiet (markExternalConfigurationAdopted x i s)"
  "steps quiet (clearExternalConfigurationAdoption x i)"
  "steps quiet (clearExternalConfigurationAdoptionsForManaged i)"
  by (auto simp: markExternalConfigurationAdopted_def clearExternalConfigurationAdoption_def
        clearExternalConfigurationAdoptionsForManaged_def Let_def supervision_def
        intro!: quiet_ops extends_same
        split: option.splits sum.splits)

lemma quiet_paths [quiet_ops]: "steps quiet configurationPaths"
  by (auto simp: configurationPaths_def Let_def
        intro!: quiet_ops split: sum.splits)

end
