(* ===== verification/KDM_Devices.thy ===== *)
theory KDM_Devices
  imports KDM_Store
begin

text \<open>
  The registry of devices (\<^verbatim>\<open>manager/devices.go\<close>): it remembers every keyboard ever seen,
  marks the ones discovery does not report as disconnected, tells physical keyboards from the
  manager's own virtual outputs, and records which configurations claim each keyboard.
\<close>

definition deviceList :: "manager \<Rightarrow> device list" where
  "deviceList m = sort_key dev_ID (map snd (m_devices m))"

definition loadDeviceRegistry :: "unit op" where
  "loadDeviceRegistry = do {
     p \<leftarrow> setting ms_deviceRegistryPath;
     if p = '''' then return ()
     else do {
       read \<leftarrow> os_ReadFile p;
       host \<leftarrow> gets m_host;
       case read of
         Inl _ \<Rightarrow> return ()
       | Inr data \<Rightarrow> (case h_parse_json host data of
             Some (DeviceRegistry devices) \<Rightarrow>
               for_each devices (\<lambda>d.
                 if dev_ID d = '''' then return ()
                 else
                   let d1 = (if dev_Role d = RoleUnset then d\<lparr>dev_Role := DeviceRoleInput\<rparr> else d)
                   in modify (\<lambda>m. m\<lparr>m_devices := map_put (dev_ID d1) d1 (m_devices m)\<rparr>))
           | _ \<Rightarrow> return ()) }}"

definition writeDeviceRegistry :: "unit op" where
  "writeDeviceRegistry = do {
     p \<leftarrow> setting ms_deviceRegistryPath;
     if p = '''' then return ()
     else do {
       devices \<leftarrow> gets deviceList;
       data \<leftarrow> encoded (DeviceRegistry devices);
       _ \<leftarrow> writeAtomicFile p data 384;
       return () }}"

definition isManagedOutputName :: "string \<Rightarrow> manager \<Rightarrow> bool" where
  "isManagedOutputName name m \<longleftrightarrow>
     list_ex (\<lambda>(i, c). managedOutputName (h_sha256hex (m_host m)) (model_DeviceID (mc_Model c)) = name)
       (m_managedConfigs m)"

definition classifyDeviceRole :: "device \<Rightarrow> bool \<Rightarrow> manager \<Rightarrow> device_role" where
  "classifyDeviceRole d virtual m =
     (if virtual \<and> (case map_get (m_devices m) (dev_ID d) of
                       None \<Rightarrow> False | Some old \<Rightarrow> dev_Role old = DeviceRoleManagerOutput)
      then DeviceRoleManagerOutput
      else if virtual \<and> isManagedOutputName (dev_DisplayName d) m then DeviceRoleManagerOutput
      else DeviceRoleInput)"

definition reclassifyRetainedManagerOutputs :: "discovered_keyboard list \<Rightarrow> manager \<Rightarrow> manager" where
  "reclassifyRetainedManagerOutputs current m =
     m\<lparr>m_devices := map (\<lambda>(i, d).
          (i, if i \<in> set (map (\<lambda>k. dev_ID (dk_device k)) current)
                 \<or> dev_Role d = DeviceRoleManagerOutput \<or> \<not> isManagedOutputName (dev_DisplayName d) m
              then d else d\<lparr>dev_Role := DeviceRoleManagerOutput\<rparr>)) (m_devices m)\<rparr>"

text \<open>Who claims which platform device: the claim names of every readable configuration.\<close>

definition claim_of_path ::
  "path \<Rightarrow> (string, string list) gomap \<Rightarrow> (string, string list) gomap op" where
  "claim_of_path p claims = do {
     limit \<leftarrow> setting ms_maxConfigBytes;
     read \<leftarrow> readDeviceFileWithLimit p limit;
     case read of
       Inl _ \<Rightarrow> return claims
     | Inr device \<Rightarrow>
         if device = '''' then return claims
         else do {
           identity \<leftarrow> deviceID device;
           name \<leftarrow> gets (configurationClaimName p);
           return (case identity of
               Inl _ \<Rightarrow> claims
             | Inr i \<Rightarrow>
                 map_put i ((case map_get claims i of None \<Rightarrow> [] | Some ns \<Rightarrow> ns) @ [name]) claims) }}"

definition deviceClaims :: "(string, string list) gomap op" where
  "deviceClaims = do {
     paths \<leftarrow> configurationPaths;
     case paths of
       Inl _ \<Rightarrow> return []
     | Inr ps \<Rightarrow> do {
         claims \<leftarrow> loop ps [] claim_of_path;
         return (map (\<lambda>(i, ns). (i, sort ns)) claims) }}"

definition disconnected :: "device \<Rightarrow> device" where
  "disconnected d = d\<lparr>dev_Availability := DeviceDisconnected,
     dev_ReasonCode := ReasonDeviceDisconnected, dev_Reason := ''keyboard is disconnected'',
     dev_RuntimeConflict := False\<rparr>"

definition claimed :: "(string, string list) gomap \<Rightarrow> go_error + string \<Rightarrow> device \<Rightarrow> device" where
  "claimed claims node d =
     (let d1 = (case node of
            Inl _ \<Rightarrow> d
          | Inr i \<Rightarrow> d\<lparr>dev_ConfiguredBy := (case map_get claims i of None \<Rightarrow> [] | Some ns \<Rightarrow> ns)\<rparr>)
      in if length (dev_ConfiguredBy d1) > 1
         then d1\<lparr>dev_Availability := DeviceConflicting, dev_RuntimeConflict := True,
                dev_ReasonCode := ReasonDeviceConflicting,
                dev_Reason := ''keyboard is claimed by multiple configurations''\<rparr>
         else d1)"

definition record_discovered ::
  "(string, string list) gomap \<Rightarrow> discovered_keyboard \<Rightarrow> (string, device) gomap
   \<Rightarrow> (string, device) gomap op" where
  "record_discovered claims k nodes = do {
     role \<leftarrow> gets (classifyDeviceRole (dk_device k) (dk_virtual k));
     node \<leftarrow> deviceID (dk_nodePath k);
     let d = claimed claims node ((dk_device k)\<lparr>dev_Role := role\<rparr>);
     modify (\<lambda>m. m\<lparr>m_devices := map_put (dev_ID d) d (m_devices m)\<rparr>);
     again \<leftarrow> deviceID (dk_nodePath k);
     return (case again of Inl _ \<Rightarrow> nodes | Inr i \<Rightarrow> map_put i d nodes) }"

definition refreshDevices :: "unit op" where
  "refreshDevices = do {
     discovered \<leftarrow> discoverKeyboardDevices;
     case discovered of
       Inl _ \<Rightarrow> return ()
     | Inr current \<Rightarrow> do {
         modify (\<lambda>m. m\<lparr>m_devices := map (\<lambda>(i, d). (i, disconnected d)) (m_devices m)\<rparr>);
         claims \<leftarrow> deviceClaims;
         nodes \<leftarrow> loop current [] (record_discovered claims);
         modify (\<lambda>m. m\<lparr>m_discoveredNodeDevices := nodes\<rparr>);
         modify (reclassifyRetainedManagerOutputs current);
         writeDeviceRegistry }}"

definition managerOutputForNodePath :: "path \<Rightarrow> device option op" where
  "managerOutputForNodePath p = do {
     target \<leftarrow> deviceID p;
     case target of
       Inl _ \<Rightarrow> return None
     | Inr t \<Rightarrow> do {
         discovered \<leftarrow> discoverKeyboardDevices;
         case discovered of
           Inl _ \<Rightarrow> return None
         | Inr ks \<Rightarrow> do {
             found \<leftarrow> loop ks None (\<lambda>k acc. case acc of
                 Some _ \<Rightarrow> return acc
               | None \<Rightarrow> do {
                   node \<leftarrow> deviceID (dk_nodePath k);
                   return (if node = Inr t then Some (dev_ID (dk_device k)) else None) });
             devices \<leftarrow> gets m_devices;
             return (case found of
                 None \<Rightarrow> None
               | Some i \<Rightarrow> (case map_get devices i of
                     None \<Rightarrow> None
                   | Some d \<Rightarrow> if dev_Role d = DeviceRoleManagerOutput then Some d else None)) }}}"

section \<open>Refreshing\<close>

lemma quiet_device_registry [quiet_ops]:
  "steps quiet writeDeviceRegistry" "steps quiet (claim_of_path p claims)"
  "steps quiet (record_discovered c k nodes)" "steps quiet (managerOutputForNodePath p)"
  by (auto simp: writeDeviceRegistry_def claim_of_path_def record_discovered_def
        managerOutputForNodePath_def Let_def supervision_def
        intro!: quiet_ops extends_same split: sum.splits option.splits)

lemma quiet_claims [quiet_ops]: "steps quiet deviceClaims"
  by (auto simp: deviceClaims_def intro!: quiet_ops split: sum.splits)

lemma quiet_refresh [quiet_ops]: "steps quiet refreshDevices"
  by (auto simp: refreshDevices_def supervision_def reclassifyRetainedManagerOutputs_def
        intro!: quiet_ops extends_same split: sum.splits)

end
