(* ===== verification/KDM_Process.thy ===== *)
theory KDM_Process
  imports KDM_Files
begin

text \<open>
  KMonad processes: how they are identified, signalled, dry-run and stopped
  (\<^verbatim>\<open>manager/process.go\<close> and the process part of \<^verbatim>\<open>manager/supervisor.go\<close>).

  The record of a running process is a value here; the code holds a pointer to it in exactly
  one \<^verbatim>\<open>configState\<close>, so an operation that changes it returns the new value.
\<close>

section \<open>Identity\<close>

definition newProcessState :: "int \<Rightarrow> processState op" where
  "newProcessState pid = do {
     info \<leftarrow> StartedProcess pid;
     return \<lparr>proc_pid = pid, proc_pidfd = pi_Handle info, proc_startedAt = 0,
       proc_startTick = pi_StartTick info, proc_processGroupID = pi_GroupID info,
       proc_launchPath = '''', proc_unhealthySince = 0, proc_cgroupPath = ''''\<rparr> }"

text \<open>The conjunction is evaluated from the left and stops at the first conjunct that fails.\<close>

definition ownsProcess :: "path \<Rightarrow> processState \<Rightarrow> bool op" where
  "ownsProcess config p =
     (if proc_pid p \<le> 0 then return False
      else do {
        let launchPath = (if proc_launchPath p = '''' then config else proc_launchPath p);
        if proc_startTick p = 0 then return False
        else do {
          tick \<leftarrow> processStartTime (proc_pid p);
          if tick \<noteq> proc_startTick p then return False
          else do {
            command \<leftarrow> setting ms_kmonadCommand;
            processMatchesCommand (proc_pid p) command launchPath }}})"

definition processHealthy :: "path \<Rightarrow> processState \<Rightarrow> bool op" where
  "processHealthy config p = do {
     owned \<leftarrow> ownsProcess config p;
     if \<not> owned then return False
     else do {
       code \<leftarrow> processStateCode (proc_pid p);
       return (code \<noteq> ''D'') }}"

definition processStillRunning :: "processState \<Rightarrow> bool op" where
  "processStillRunning p = do {
     exited \<leftarrow> poll_exit (proc_pid p);
     return (exited = None) }"

definition waitForProcess :: "int \<Rightarrow> time \<Rightarrow> bool op" where
  "waitForProcess pid deadline = do {
     now \<leftarrow> time_Now;
     let remaining = deadline - now;
     if remaining \<le> 0
     then do {
       exited \<leftarrow> poll_exit pid;
       return (exited \<noteq> None) }
     else wait_exit pid remaining }"

section \<open>Signals\<close>

definition process_gone :: go_error where
  "process_gone = error_of ProcessGone ''process no longer exists''"

definition signalProcessGroup :: "processState \<Rightarrow> signal \<Rightarrow> go_error option op" where
  "signalProcessGroup p s =
     (if proc_pid p \<le> 0 then return (Some process_gone)
      else
        let groupID = (if proc_processGroupID p = 0 then proc_pid p else proc_processGroupID p)
        in if groupID \<le> 0 then return (Some process_gone)
           else call (SignalGroup groupID s))"

definition signal_by_pid :: "processState \<Rightarrow> signal \<Rightarrow> unit op" where
  "signal_by_pid p s =
     (if proc_startTick p \<noteq> 0
      then do {
        tick \<leftarrow> processStartTime (proc_pid p);
        if tick \<noteq> proc_startTick p then return ()
        else do { _ \<leftarrow> call (SignalPid (proc_pid p) s); return () } }
      else do { _ \<leftarrow> call (SignalPid (proc_pid p) s); return () })"

definition signalProcess :: "processState \<Rightarrow> signal \<Rightarrow> unit op" where
  "signalProcess p s =
     (if proc_pid p \<le> 0 then return ()
      else do {
        failed \<leftarrow> signalProcessGroup p s;
        if failed = None then return ()
        else (case proc_pidfd p of
            None \<Rightarrow> signal_by_pid p s
          | Some handle \<Rightarrow> do {
              unsent \<leftarrow> call (SignalHandle handle s);
              if (case unsent of None \<Rightarrow> True | Some e \<Rightarrow> ge_kind e = ProcessGone)
              then return ()
              else signal_by_pid p s }) })"

definition closeProcessFD :: "processState \<Rightarrow> processState op" where
  "closeProcessFD p =
     (case proc_pidfd p of
        None \<Rightarrow> return p
      | Some handle \<Rightarrow> do {
          _ \<leftarrow> call (CloseHandle handle);
          return (p\<lparr>proc_pidfd := None\<rparr>) })"

definition signalOwnedProcessIDWithGroup :: "int \<Rightarrow> nat \<Rightarrow> int \<Rightarrow> signal \<Rightarrow> unit op" where
  "signalOwnedProcessIDWithGroup pid startTick groupID s =
     (if pid \<le> 0 then return ()
      else do {
        stale \<leftarrow> (if startTick = 0 then return False
                  else do { tick \<leftarrow> processStartTime pid; return (tick \<noteq> startTick) });
        if stale then return ()
        else do {
          p0 \<leftarrow> newProcessState pid;
          let p1 = p0\<lparr>proc_startTick := startTick\<rparr>;
          let p = (if groupID \<noteq> 0 then p1\<lparr>proc_processGroupID := groupID\<rparr> else p1);
          gone \<leftarrow> (if startTick = 0 then return False
                   else do { tick \<leftarrow> processStartTime pid; return (tick \<noteq> startTick) });
          if gone then do { _ \<leftarrow> closeProcessFD p; return () }
          else do { signalProcess p s; _ \<leftarrow> closeProcessFD p; return () } }})"

section \<open>Dry runs\<close>

definition dry_run_error :: "string \<Rightarrow> duration \<Rightarrow> string \<Rightarrow> go_error op" where
  "dry_run_error before timeout after = do {
     text \<leftarrow> gets (\<lambda>m. h_duration_text (m_host m) timeout);
     return (errorf (before @ text @ after)) }"

definition kill_dry_run :: "processState \<Rightarrow> go_error op \<Rightarrow> go_error op \<Rightarrow> go_error option op" where
  "kill_dry_run p ended stuck = do {
     signalProcess p SignalKill;
     exited \<leftarrow> wait_exit (proc_pid p) second;
     e \<leftarrow> (if exited then ended else stuck);
     return (Some e) }"

definition end_dry_run :: "duration \<Rightarrow> processState \<Rightarrow> dry_run_end \<Rightarrow> go_error option op" where
  "end_dry_run timeout p ended =
     (case ended of
        DryRunExited r \<Rightarrow> return r
      | DryRunCancelled e \<Rightarrow>
          if timeout \<le> 0
          then do { signalProcess p SignalKill; _ \<leftarrow> call (ReapChild (proc_pid p)); return (Some e) }
          else kill_dry_run p (return e)
                 (return (errorf ''KMonad dry-run did not exit after cancellation''))
      | DryRunTimedOut \<Rightarrow>
          kill_dry_run p (dry_run_error ''KMonad dry-run timed out after '' timeout '''')
            (dry_run_error ''KMonad dry-run timed out after '' timeout
               '' and did not exit after forced termination''))"

definition dryRunContextWithWriters ::
  "string \<Rightarrow> duration \<Rightarrow> path \<Rightarrow> go_error option op" where
  "dryRunContextWithWriters command timeout config = do {
     started \<leftarrow> StartKMonad command [''--dry-run'', config];
     case started of
       Inl e \<Rightarrow> return (Some e)
     | Inr pid \<Rightarrow> do {
         p \<leftarrow> newProcessState pid;
         ended \<leftarrow> wait_dry_run pid timeout;
         result \<leftarrow> end_dry_run timeout p ended;
         _ \<leftarrow> closeProcessFD p;
         return result }}"

definition dryRun :: "path \<Rightarrow> go_error option op" where
  "dryRun config = do {
     command \<leftarrow> setting ms_kmonadCommand;
     timeout \<leftarrow> setting ms_dryRunTimeout;
     dryRunContextWithWriters command timeout config }"

section \<open>Stopping\<close>

definition cleanupLaunchSnapshot :: "processState \<Rightarrow> unit op" where
  "cleanupLaunchSnapshot p = do { _ \<leftarrow> removeConfigSnapshot (proc_launchPath p); return () }"

definition cleanupCgroup :: "path \<Rightarrow> unit op" where
  "cleanupCgroup p = do { _ \<leftarrow> call (CleanupCgroup p); return () }"

definition release_process :: "processState \<Rightarrow> unit op" where
  "release_process p = do {
     _ \<leftarrow> closeProcessFD p;
     cleanupLaunchSnapshot p;
     cleanupCgroup (proc_cgroupPath p) }"

definition scheduleRetry_op :: "time \<Rightarrow> string \<Rightarrow> configState \<Rightarrow> configState op" where
  "scheduleRetry_op now reason s = do {
     jitter \<leftarrow> retryJitter;
     return (scheduleRetry jitter now reason s) }"

text \<open>The state after the call; a graceful stop leaves the phase as it was.\<close>

definition stopProcess :: "path \<Rightarrow> time \<Rightarrow> configState \<Rightarrow> configState op" where
  "stopProcess config deadline s =
     (case cs_process s of
        None \<Rightarrow> return (transitionPhase phaseStopped s)
      | Some p \<Rightarrow> do {
          count (\<lambda>c. c\<lparr>ct_stops := ct_stops c + 1\<rparr>);
          owned \<leftarrow> ownsProcess config p;
          if \<not> owned
          then do {
            release_process p;
            return (transitionPhase phaseStopped (s\<lparr>cs_process := None\<rparr>)) }
          else do {
            signalProcess p SignalTerminate;
            exited \<leftarrow> waitForProcess (proc_pid p) deadline;
            if exited
            then do {
              release_process p;
              return (s\<lparr>cs_process := None\<rparr>) }
            else do {
              signalProcess p SignalKill;
              now \<leftarrow> time_Now;
              _ \<leftarrow> waitForProcess (proc_pid p) (now + 100 * millisecond);
              release_process p;
              return (transitionPhase phaseStopped (s\<lparr>cs_process := None\<rparr>)) }}})"

section \<open>Processes of an earlier manager\<close>

text \<open>
  The loop sleeps 25 milliseconds between two looks and its deadline is two seconds away, so it
  looks at most 81 times (\<open>wait_gone_ends\<close>); \<open>None\<close> is running out of rounds.
\<close>

fun wait_gone :: "int \<Rightarrow> time \<Rightarrow> nat \<Rightarrow> unit option op" where
  "wait_gone pid deadline 0 = return None"
| "wait_gone pid deadline (Suc rounds) = do {
     now \<leftarrow> time_Now;
     if now < deadline
     then do {
       alive \<leftarrow> pidExists pid;
       if alive
       then do { time_Sleep (25 * millisecond); wait_gone pid deadline rounds }
       else return (Some ()) }
     else return (Some ()) }"

definition recovery_rounds :: nat where "recovery_rounds = 81"

definition recover_process :: "string \<Rightarrow> path \<Rightarrow> status_config \<Rightarrow> unit op" where
  "recover_process kmonadCommand configDir item = do {
     let pid = sc_ProcessID item;
     if pid = 0 \<or> sc_ProcessStart item = 0 then return ()
     else do {
       tick \<leftarrow> processStartTime pid;
       if tick \<noteq> sc_ProcessStart item then return ()
       else do {
         let configPath = (if configDir = '''' then sc_Name item else path_join configDir (sc_Name item));
         let launchPath = (if sc_LaunchPath item = '''' then configPath else sc_LaunchPath item);
         matches \<leftarrow> processMatchesCommand pid kmonadCommand launchPath;
         if \<not> matches
         then do { _ \<leftarrow> removeConfigSnapshot (sc_LaunchPath item); return () }
         else do {
           signalOwnedProcessIDWithGroup pid (sc_ProcessStart item) (sc_ProcessGroupID item)
             SignalTerminate;
           now \<leftarrow> time_Now;
           _ \<leftarrow> wait_gone pid (now + 2 * second) recovery_rounds;
           alive \<leftarrow> pidExists pid;
           (if alive
            then signalOwnedProcessIDWithGroup pid (sc_ProcessStart item) (sc_ProcessGroupID item)
                   SignalKill
            else return ());
           remains \<leftarrow> pidExists pid;
           if remains then return ()
           else do { _ \<leftarrow> removeConfigSnapshot (sc_LaunchPath item); return () } }}}}"

definition recoverOwnedProcesses :: "path \<Rightarrow> string \<Rightarrow> unit op" where
  "recoverOwnedProcesses statusPath kmonadCommand = do {
     read \<leftarrow> os_ReadFile statusPath;
     host \<leftarrow> gets m_host;
     case read of
       Inl _ \<Rightarrow> return ()
     | Inr data \<Rightarrow> do {
         (case h_parse_json host data of
            Some (StatusDocument status) \<Rightarrow>
              for_each (sf_Configurations status)
                (recover_process kmonadCommand (sf_ConfigDir status))
          | _ \<Rightarrow> return ());
         _ \<leftarrow> call (RemoveFile statusPath);
         return () }}"

section \<open>Safe histories\<close>

text \<open>
  What a history of calls must show. A signal goes only to a process this manager started:
  its group and its handle are the ones the system gave for it. KMonad is started on a
  configuration only after that very file was written by the manager and then passed a dry run.
\<close>

definition started :: "int \<Rightarrow> history \<Rightarrow> bool" where
  "started pid h \<longleftrightarrow> (\<exists>c a. EvStart c a (Inr pid) \<in> set h)"

definition launched :: "processState \<Rightarrow> history \<Rightarrow> bool" where
  "launched p h \<longleftrightarrow> started (proc_pid p) h
     \<and> (\<exists>info. EvStartedProcess (proc_pid p) info \<in> set h
           \<and> proc_processGroupID p = pi_GroupID info
           \<and> (proc_pidfd p = None \<or> proc_pidfd p = pi_Handle info))"

definition dry_run_passed :: "path \<Rightarrow> history \<Rightarrow> bool" where
  "dry_run_passed config h \<longleftrightarrow>
     (\<exists>newer older c pid d. h = newer @ EvStart c [''--dry-run'', config] (Inr pid) # older
        \<and> EvWaitDryRun pid d (DryRunExited None) \<in> set newer
        \<and> (\<exists>data. EvCall (WriteFile config data) None \<in> set older))"

fun event_ok :: "os_event \<Rightarrow> history \<Rightarrow> bool" where
  "event_ok (EvStart c args r) h \<longleftrightarrow>
     (\<forall>config. args = [config] \<longrightarrow> dry_run_passed config h)"
| "event_ok (EvCall (SignalGroup g s) r) h \<longleftrightarrow>
     (\<exists>pid info. started pid h \<and> EvStartedProcess pid info \<in> set h
        \<and> g = (if pi_GroupID info = 0 then pid else pi_GroupID info))"
| "event_ok (EvCall (SignalHandle k s) r) h \<longleftrightarrow>
     (\<exists>pid info. started pid h \<and> EvStartedProcess pid info \<in> set h \<and> pi_Handle info = Some k)"
| "event_ok (EvCall (SignalPid pid s) r) h \<longleftrightarrow> started pid h"
| "event_ok e h \<longleftrightarrow> True"

fun safe_history :: "history \<Rightarrow> bool" where
  "safe_history [] \<longleftrightarrow> True"
| "safe_history (e # h) \<longleftrightarrow> event_ok e h \<and> safe_history h"

lemma event_ok_plain: "plain e \<Longrightarrow> event_ok e h"
  by (cases "(e, h)" rule: event_ok.cases) simp_all

lemma safe_history_plain: "list_all plain es \<Longrightarrow> safe_history h \<Longrightarrow> safe_history (es @ h)"
  by (induction es) (simp_all add: event_ok_plain)

lemma started_mono: "started pid h \<Longrightarrow> started pid (es @ h)"
  by (auto simp: started_def)

lemma launched_mono: "launched p h \<Longrightarrow> launched p (es @ h)"
  by (auto simp: launched_def intro: started_mono)

lemma dry_run_passed_mono:
  assumes "dry_run_passed config h"
  shows "dry_run_passed config (es @ h)"
proof -
  from assms obtain n o1 c pid d data where
    "h = n @ EvStart c [''--dry-run'', config] (Inr pid) # o1"
    "EvWaitDryRun pid d (DryRunExited None) \<in> set n" "EvCall (WriteFile config data) None \<in> set o1"
    unfolding dry_run_passed_def by blast
  then have "es @ h = (es @ n) @ EvStart c [''--dry-run'', config] (Inr pid) # o1"
    "EvWaitDryRun pid d (DryRunExited None) \<in> set (es @ n)" by simp_all
  then show ?thesis
    unfolding dry_run_passed_def using \<open>EvCall (WriteFile config data) None \<in> set o1\<close> by blast
qed

text \<open>A step that may start and signal, as long as the history stays safe.\<close>

definition acts :: "manager \<Rightarrow> manager \<Rightarrow> bool" where
  "acts m m' \<longleftrightarrow> extends (\<lambda>_. True) m m' \<and> supervision m' = supervision m
     \<and> (safe_history (m_history m) \<longrightarrow> safe_history (m_history m'))"

interpretation acting: step_relation acts
  by unfold_locales (auto simp: acts_def intro: extends_refl extends_trans)

lemma quiet_acts: "quiet m m' \<Longrightarrow> acts m m'"
  by (auto simp: quiet_def acts_def extends_def safe_history_plain list_all_iff)

lemma acts_launched: "acts m m' \<Longrightarrow> launched p (m_history m) \<Longrightarrow> launched p (m_history m')"
  by (auto simp: acts_def extends_def launched_mono)

lemma acts_dry_run_passed:
  "acts m m' \<Longrightarrow> dry_run_passed c (m_history m) \<Longrightarrow> dry_run_passed c (m_history m')"
  by (auto simp: acts_def extends_def dry_run_passed_mono)

lemma wp_quiet:
  assumes "steps quiet f" "acts base m" "\<And>r m'. acts base m' \<Longrightarrow> Q r m'"
  shows "wp f Q m"
  using assms(1) by (rule wp_steps) (metis assms(2,3) quiet_acts acting.trans)

lemma wp_call:
  assumes "acts base m" "\<And>r. event_ok (EvCall c r) (m_history m)" "\<And>r m'. acts base m' \<Longrightarrow> Q r m'"
  shows "wp (call c) Q m"
  unfolding call_def
proof (rule wp_ask)
  fix a
  have "acts m (m\<lparr>m_history := EvCall c a # m_history m\<rparr>)"
    using assms(2) by (simp add: acts_def extends_def supervision_def)
  then show "Q a (m\<lparr>m_history := EvCall c a # m_history m\<rparr>)"
    by (rule assms(3) [OF acting.trans [OF assms(1)]])
qed

lemma signals_ok:
  assumes "launched p h"
  shows "event_ok (EvCall (SignalPid (proc_pid p) s) r) h"
    and "proc_processGroupID p = 0 \<Longrightarrow> event_ok (EvCall (SignalGroup (proc_pid p) s) r) h"
    and "proc_processGroupID p \<noteq> 0
         \<Longrightarrow> event_ok (EvCall (SignalGroup (proc_processGroupID p) s) r) h"
    and "proc_pidfd p = Some k \<Longrightarrow> event_ok (EvCall (SignalHandle k s) r) h"
  using assms by (auto simp: launched_def) metis+

lemmas quiet_now = plain_ops [THEN quiet_of_asks]

lemma quiet_count: "steps quiet (count f)"
  by (rule quiet_ops) (auto simp: supervision_def intro!: extends_same)

lemma quiet_ownership:
  "steps quiet (ownsProcess config p)" "steps quiet (closeProcessFD p)"
  "steps quiet (waitForProcess pid deadline)" "steps quiet (newProcessState pid)"
  "steps quiet (cleanupCgroup c)" "steps quiet (cleanupLaunchSnapshot p)"
  "steps quiet (scheduleRetry_op now reason s)" "steps quiet (processStillRunning p)"
  by (auto simp: ownsProcess_def closeProcessFD_def waitForProcess_def newProcessState_def
        cleanupCgroup_def cleanupLaunchSnapshot_def scheduleRetry_op_def processStillRunning_def
        Let_def intro!: quiet_now split: option.splits)

lemma quiet_process:
  "steps quiet (processHealthy config p)" "steps quiet (release_process p)"
  by (auto simp: processHealthy_def release_process_def intro!: quiet_now quiet_ownership)

lemmas quiet_process_ops [quiet_ops] = quiet_now quiet_count quiet_ownership quiet_process

lemma acts_counters: "acts base (m\<lparr>m_counters := c\<rparr>) \<longleftrightarrow> acts base m"
  by (simp add: acts_def extends_def supervision_def)

lemma spec_signalProcessGroup:
  assumes "launched p (m_history base)" "acts base m" "\<And>r m'. acts base m' \<Longrightarrow> Q r m'"
  shows "wp (signalProcessGroup p s) Q m"
  using assms(2,3) acts_launched [OF _ assms(1)]
  by (auto simp: signalProcessGroup_def wp_simps Let_def simp del: event_ok.simps
        intro!: wp_call [of base] signals_ok)

lemma spec_signal_by_pid:
  assumes "launched p (m_history base)" "acts base m" "\<And>r m'. acts base m' \<Longrightarrow> Q r m'"
  shows "wp (signal_by_pid p s) Q m"
  using assms(2,3) acts_launched [OF _ assms(1)]
  by (auto simp: signal_by_pid_def wp_simps simp del: event_ok.simps
        intro!: wp_call [of base] quiet_now [THEN wp_quiet, where base = base] signals_ok)

lemma spec_signalProcess [wp_specs]:
  assumes "launched p (m_history base)" "acts base m" "\<And>r m'. acts base m' \<Longrightarrow> Q r m'"
  shows "wp (signalProcess p s) Q m"
  using assms(2,3) acts_launched [OF _ assms(1)] assms(1)
  by (auto simp: signalProcess_def wp_simps simp del: event_ok.simps
        intro!: spec_signalProcessGroup [of p base] spec_signal_by_pid [of p base] wp_call [of base]
          signals_ok split: option.splits)

lemma spec_stopProcess [wp_specs]:
  assumes "case cs_process s of None \<Rightarrow> True | Some p \<Rightarrow> launched p (m_history base)"
    and "acts base m"
    and "\<And>s' m'. acts base m' \<Longrightarrow> cs_process s' = None \<Longrightarrow> cs_deviceID s' = cs_deviceID s \<Longrightarrow> Q s' m'"
  shows "wp (stopProcess config deadline s) Q m"
  using assms
  by (auto simp: stopProcess_def wp_simps acts_counters
        intro!: quiet_process_ops [THEN wp_quiet, where base = base] spec_signalProcess [of _ base]
        split: option.splits)

end
