(* ===== verification/KDM_Public.thy ===== *)
theory KDM_Public
  imports KDM_Devices KDM_Process
begin

text \<open>
  What the manager shows of its state: the public configurations
  (\<^verbatim>\<open>manager/configurations.go\<close>), the diagnostics (\<^verbatim>\<open>manager/diagnostics.go\<close>), the
  public state and the snapshot (\<^verbatim>\<open>manager/events.go\<close>, \<^verbatim>\<open>manager/snapshot.go\<close>), the
  availability of KMonad (\<^verbatim>\<open>manager/kmonad.go\<close>) and the status file
  (\<^verbatim>\<open>manager/state.go\<close>).
\<close>

section \<open>KMonad itself\<close>

definition kmonadAvailabilityCheckInterval :: duration where
  "kmonadAvailabilityCheckInterval = 30 * second"

definition refreshKMonadAvailability :: "time \<Rightarrow> unit op" where
  "refreshKMonadAvailability now = do {
     next_check \<leftarrow> gets m_nextKMonadCheck;
     if next_check \<noteq> 0 \<and> now < next_check then return ()
     else do {
       modify (\<lambda>m. m\<lparr>m_nextKMonadCheck := now + kmonadAvailabilityCheckInterval\<rparr>);
       command \<leftarrow> setting ms_kmonadCommand;
       available \<leftarrow> KMonadAvailable command;
       info \<leftarrow> gets m_kmonad;
       if available = ki_Available info \<and> ki_ReasonCode info \<noteq> ReasonUnset then return ()
       else
         let info1 = info\<lparr>ki_Available := available\<rparr>
         in modify (\<lambda>m. m\<lparr>m_kmonad :=
              (if \<not> available
               then info1\<lparr>ki_Compatibility := KMonadCompatibilityUnavailable,
                      ki_ReasonCode := ReasonDependencyUnavailable,
                      ki_Reason := ''KMonad executable is unavailable''\<rparr>
               else if ki_Version info1 = ''''
               then info1\<lparr>ki_Compatibility := KMonadCompatibilityUnknown,
                      ki_ReasonCode := ReasonKMonadVersionUnknown,
                      ki_Reason := ''KMonad version could not be determined''\<rparr>
               else info1)\<rparr>) }}"

definition normalizedKMonadInfo :: "kmonad_info \<Rightarrow> kmonad_info" where
  "normalizedKMonadInfo info =
     (if ki_ReasonCode info \<noteq> ReasonUnset then info
      else \<lparr>ki_Available = False, ki_Version = '''',
             ki_Compatibility = KMonadCompatibilityUnavailable,
             ki_ReasonCode = ReasonDependencyUnavailable,
             ki_Reason = ''KMonad executable is unavailable''\<rparr>)"

section \<open>Configurations\<close>

fun runtimePhase :: "configPhase \<Rightarrow> runtime_phase" where
  "runtimePhase phaseValidating = RuntimeValidating"
| "runtimePhase phaseWaiting = RuntimeWaiting"
| "runtimePhase phaseRunning = RuntimeRunning"
| "runtimePhase phaseFailed = RuntimeFailed"
| "runtimePhase phaseDuplicate = RuntimeDuplicate"
| "runtimePhase phaseStopped = RuntimeStopped"
| "runtimePhase phaseDiscovered = RuntimeDiscovered"
| "runtimePhase phaseUnset = RuntimeDiscovered"

definition runtime_of :: "runtime_phase \<Rightarrow> reason_code \<Rightarrow> string \<Rightarrow> runtime_state" where
  "runtime_of phase code reason = \<lparr>rt_Phase = phase, rt_ReasonCode = code, rt_Reason = reason,
     rt_Connected = False, rt_Healthy = False, rt_RetryAt = None, rt_FailureCount = 0\<rparr>"

definition runtimeForConfiguration :: "path \<Rightarrow> string \<Rightarrow> bool \<Rightarrow> runtime_state op" where
  "runtimeForConfiguration p device enabled =
     (if \<not> enabled
      then return (runtime_of RuntimeDisabled ReasonConfigurationDisabled ''configuration is disabled'')
      else do {
        known \<leftarrow> gets (\<lambda>m. map_get (m_states m) p);
        case known of
          Some s \<Rightarrow> do {
            healthy \<leftarrow> (case cs_process s of None \<Rightarrow> return False | Some q \<Rightarrow> processHealthy p q);
            if healthy
            then return ((runtime_of RuntimeRunning ReasonRuntimeRunning ''process healthy'')
                    \<lparr>rt_Connected := True, rt_Healthy := True, rt_FailureCount := nat (cs_failures s)\<rparr>)
            else do {
              let phase = runtimePhase (cs_phase s);
              let (code, reason) =
                (if phase = RuntimeFailed
                 then (ReasonRuntimeActivationFailed,
                       ''configuration is waiting to retry after a failed activation'')
                 else if phase = RuntimeDuplicate
                 then (ReasonRuntimeDuplicateDevice,
                       ''another configuration currently claims this keyboard'')
                 else if phase = RuntimeStopped
                 then (ReasonRuntimeStopped, ''configuration process is stopped'')
                 else (ReasonRuntimeWaitingForDevice, ''configuration is waiting for its keyboard''));
              return ((runtime_of phase code reason)
                \<lparr>rt_RetryAt := (if cs_retryAfter s = 0 then None else Some (cs_retryAfter s)),
                 rt_FailureCount := nat (cs_failures s)\<rparr>) }}
        | None \<Rightarrow> do {
            found \<leftarrow> gets (\<lambda>m. map_get (m_devices m) device);
            return (case found of
                Some d \<Rightarrow> (runtime_of RuntimeWaiting (dev_ReasonCode d) (dev_Reason d))
                            \<lparr>rt_Connected := (dev_Availability d = DeviceConnected)\<rparr>
              | None \<Rightarrow> runtime_of RuntimeDiscovered ReasonConfigurationDiscovered
                          ''configuration is awaiting reconciliation'') }})"

definition later_operation :: "operation \<Rightarrow> operation option \<Rightarrow> operation option" where
  "later_operation o1 latest =
     (case latest of
        None \<Rightarrow> Some o1
      | Some l \<Rightarrow>
          if op_UpdatedAt o1 > op_UpdatedAt l
             \<or> op_UpdatedAt o1 = op_UpdatedAt l \<and> op_ID o1 > op_ID l
          then Some o1 else latest)"

definition latestConfigurationOperation ::
  "string \<Rightarrow> (string, operation) gomap \<Rightarrow> operation option" where
  "latestConfigurationOperation i ops =
     fold later_operation
       (filter (\<lambda>o1. ref_Kind (op_Resource o1) = ResourceConfiguration \<and> ref_ID (op_Resource o1) = i)
         (map snd ops)) None"

definition managedConfigurationResource :: "managed_configuration \<Rightarrow> configuration op" where
  "managedConfigurationResource c = do {
     settings \<leftarrow> gets m_settings;
     rt \<leftarrow> runtimeForConfiguration (managedConfigurationPath settings c)
             (model_DeviceID (mc_Model c)) (mc_Enabled c);
     intact \<leftarrow> managedConfigurationIntact c;
     let rt1 = (if intact then rt
                else runtime_of RuntimeFailed ReasonConfigurationChanged
                       ''manager-owned revision was changed outside the manager'');
     ops \<leftarrow> gets (\<lambda>m. j_operations (m_journal m));
     return \<lparr>conf_ID = mc_ID c, conf_Name = mc_Name c, conf_Ownership = ConfigurationManaged,
       conf_Enabled = mc_Enabled c, conf_DeviceID = model_DeviceID (mc_Model c),
       conf_DesiredRevision = mc_Revision c,
       conf_ActiveRevision = (if rt_Phase rt1 = RuntimeRunning then mc_ContentRevision c
                              else mc_ActiveRevision c),
       conf_ContentRevision = 0, conf_Runtime = rt1,
       conf_LastOperation = latestConfigurationOperation (mc_ID c) ops\<rparr> }"

definition externalConfigurationResource :: "external_configuration \<Rightarrow> configuration op" where
  "externalConfigurationResource c =
     (let base = \<lparr>conf_ID = xc_ID c, conf_Name = xc_Name c, conf_Ownership = ConfigurationExternal,
            conf_Enabled = False, conf_DeviceID = xc_DeviceID c, conf_DesiredRevision = 0,
            conf_ActiveRevision = 0, conf_ContentRevision = xc_ContentRevision c,
            conf_Runtime = runtime_of RuntimeStopped ReasonConfigurationAdoptionRequired
              ''external configuration is represented by a managed configuration'',
            conf_LastOperation = None\<rparr>
      in if xc_AdoptedBy c \<noteq> '''' \<and> xc_AdoptedSignature c = xc_Signature c then return base
         else do {
           rt \<leftarrow> runtimeForConfiguration (xc_Path c) (xc_DeviceID c) True;
           return (base\<lparr>conf_Enabled := True, conf_Runtime := rt\<rparr>) })"

definition configurationList :: "configuration list op" where
  "configurationList = do {
     refreshExternalConfigurationRegistry;
     managed \<leftarrow> gets m_managedConfigs;
     ms \<leftarrow> loop managed [] (\<lambda>(i, c) acc. do {
       r \<leftarrow> managedConfigurationResource c; return (acc @ [r]) });
     external \<leftarrow> gets m_externalConfigs;
     xs \<leftarrow> loop external [] (\<lambda>(i, c) acc. do {
       r \<leftarrow> externalConfigurationResource c; return (acc @ [r]) });
     return (sort_key conf_ID (ms @ xs)) }"

section \<open>Diagnostics\<close>

record manager_health =
  mh_Healthy :: bool
  mh_ReasonCode :: reason_code
  mh_Reason :: string
  mh_LastProgressAt :: "time option"
  mh_ReconcileCount :: nat
  mh_FailureCount :: nat
  mh_MetricsAvailable :: bool
  mh_StatusWriteFailures :: nat

definition managerHealth :: "manager \<Rightarrow> manager_health" where
  "managerHealth m =
     (let c = m_counters m;
          started = (ct_lastProgress c \<noteq> 0)
      in \<lparr>mh_Healthy = True,
          mh_ReasonCode = (if started then ReasonManagerHealthy else ReasonManagerStarting),
          mh_Reason = (if started then ''manager reconciliation owner is responsive''
                       else ''manager is initializing its first reconciliation''),
          mh_LastProgressAt = (if started then Some (ct_lastProgress c) else None),
          mh_ReconcileCount = ct_reconciles c, mh_FailureCount = ct_failures c,
          mh_MetricsAvailable = ct_metricsServerUp c,
          mh_StatusWriteFailures = ct_statusFailures c\<rparr>)"

definition manager_resource :: resource_ref where
  "manager_resource = \<lparr>ref_Kind = ResourceManager, ref_ID = ''manager''\<rparr>"

definition diagnostic_of ::
  "string \<Rightarrow> diagnostic_severity \<Rightarrow> reason_code \<Rightarrow> string \<Rightarrow> string \<Rightarrow> resource_ref \<Rightarrow> diagnostic" where
  "diagnostic_of i severity code summary remediation resource =
     \<lparr>diag_ID = i, diag_Severity = severity, diag_ReasonCode = code, diag_Summary = summary,
      diag_Remediation = remediation, diag_Resource = Some resource, diag_Location = None\<rparr>"

definition kmonadDiagnostic :: "kmonad_info \<Rightarrow> diagnostic" where
  "kmonadDiagnostic info =
     (let (severity, remediation) = (case ki_Compatibility info of
            KMonadCompatibilityCompatible \<Rightarrow> (DiagnosticOK, ''No action is required.'')
          | KMonadCompatibilityUnknown \<Rightarrow> (DiagnosticWarning,
              ''Install a KMonad release that reports a semantic version of 0.4.0 or newer.'')
          | _ \<Rightarrow> (DiagnosticError,
              ''Install KMonad 0.4.0 or newer and ensure it remains available to the user service.''))
      in diagnostic_of ''manager.kmonad'' severity (ki_ReasonCode info) (ki_Reason info) remediation
           manager_resource)"

definition managerHealthDiagnostic :: "manager_health \<Rightarrow> diagnostic" where
  "managerHealthDiagnostic health =
     (let (s0, r0) = (if mh_Healthy health then (DiagnosticOK, ''No action is required.'')
                      else (SeverityUnset, ''''));
          (s1, r1) = (if mh_ReasonCode health = ReasonManagerStarting
            then (DiagnosticTemporary, ''Wait for the manager to complete its first reconciliation.'')
            else (s0, r0));
          (s2, r2) = (if \<not> mh_Healthy health
            then (DiagnosticError,
              ''Inspect manager logs and restart the user service if it does not recover.'')
            else (s1, r1))
      in diagnostic_of ''manager.health'' s2 (mh_ReasonCode health) (mh_Reason health) r2
           manager_resource)"

definition deviceDiagnostic :: "device \<Rightarrow> diagnostic" where
  "deviceDiagnostic d =
     (let (severity, remediation) = (case dev_Availability d of
            DeviceConnected \<Rightarrow> (DiagnosticOK, ''No action is required.'')
          | DeviceDisconnected \<Rightarrow> (DiagnosticTemporary,
              ''Reconnect the keyboard and wait for the manager to reconcile it.'')
          | DeviceConflicting \<Rightarrow> (DiagnosticWarning,
              ''Resolve the conflicting keyboard mapping before enabling another configuration.'')
          | _ \<Rightarrow> (DiagnosticError, ''Check keyboard support and access permissions.''))
      in diagnostic_of (''device.'' @ dev_ID d @ ''.availability'') severity (dev_ReasonCode d)
           (dev_Reason d) remediation \<lparr>ref_Kind = ResourceDevice, ref_ID = dev_ID d\<rparr>)"

definition configurationDiagnostic :: "configuration \<Rightarrow> diagnostic" where
  "configurationDiagnostic c =
     (let rt = conf_Runtime c;
          (severity, remediation) =
            (if rt_Phase rt \<in> {RuntimeRunning, RuntimeDisabled}
             then (DiagnosticOK, ''No action is required.'')
             else if rt_Phase rt \<in> {RuntimeWaiting, RuntimeValidating, RuntimeApplying,
                                     RuntimeBackoff, RuntimeRecovering}
             then (DiagnosticTemporary,
               ''Wait for the manager to retry, or reconnect the configured keyboard.'')
             else if rt_Phase rt = RuntimeDuplicate
             then (DiagnosticWarning,
               ''Assign this configuration to a keyboard not claimed by another configuration.'')
             else (DiagnosticError,
               ''Inspect the configuration and its most recent operation before retrying.''))
      in diagnostic_of (''configuration.'' @ conf_ID c @ ''.runtime'') severity (rt_ReasonCode rt)
           (rt_Reason rt) remediation \<lparr>ref_Kind = ResourceConfiguration, ref_ID = conf_ID c\<rparr>)"

definition publicDiagnostics :: "diagnostic list op" where
  "publicDiagnostics = do {
     m \<leftarrow> gets id;
     ms \<leftarrow> loop (m_managedConfigs m) [] (\<lambda>(i, c) acc. do {
       r \<leftarrow> managedConfigurationResource c; return (acc @ [configurationDiagnostic r]) });
     xs \<leftarrow> loop (m_externalConfigs m) [] (\<lambda>(i, c) acc. do {
       r \<leftarrow> externalConfigurationResource c; return (acc @ [configurationDiagnostic r]) });
     return (sort_key diag_ID
       ([managerHealthDiagnostic (managerHealth m), kmonadDiagnostic (normalizedKMonadInfo (m_kmonad m))]
        @ map (\<lambda>e. deviceDiagnostic (snd e)) (m_devices m) @ ms @ xs)) }"

section \<open>The public state\<close>

definition capturePublicState :: "public_state op" where
  "capturePublicState = do {
     devices \<leftarrow> gets m_devices;
     managed \<leftarrow> gets m_managedConfigs;
     external \<leftarrow> gets m_externalConfigs;
     cs1 \<leftarrow> loop managed [] (\<lambda>(i, c) acc. do {
       r \<leftarrow> managedConfigurationResource c; return (map_put i r acc) });
     cs2 \<leftarrow> loop external cs1 (\<lambda>(i, c) acc. do {
       r \<leftarrow> externalConfigurationResource c; return (map_put i r acc) });
     ops \<leftarrow> gets (\<lambda>m. j_operations (m_journal m));
     diagnostics \<leftarrow> publicDiagnostics;
     return \<lparr>ps_devices = devices, ps_configurations = cs2, ps_operations = ops,
       ps_diagnostics = fold (\<lambda>d. map_put (diag_ID d) d) diagnostics []\<rparr> }"

definition publish_changes :: "public_state \<Rightarrow> public_state \<Rightarrow> unit op" where
  "publish_changes before after =
     modify (\<lambda>m. m\<lparr>m_log := publishStateChangesBetween (h_event_clock (m_host m)) before after (m_log m)\<rparr>)"

definition publish_operation :: "operation \<Rightarrow> unit op" where
  "publish_operation o1 =
     modify (\<lambda>m. m\<lparr>m_log := publishOperationChange (h_event_clock (m_host m)) o1 (m_log m)\<rparr>)"

record snapshot =
  sn_StateRevision :: nat
  sn_EventID :: nat
  sn_Devices :: "device list"
  sn_Configurations :: "configuration list"
  sn_Operations :: "operation list"
  sn_Diagnostics :: "diagnostic list"
  sn_Health :: manager_health

definition take_snapshot :: "snapshot op" where
  "take_snapshot = do {
     before \<leftarrow> gets m_lastPublicState;
     refreshDevices;
     refreshExternalConfigurationRegistry;
     state \<leftarrow> capturePublicState;
     modify (\<lambda>m. m\<lparr>m_lastPublicState := state\<rparr>);
     publish_changes before state;
     m \<leftarrow> gets id;
     return \<lparr>sn_StateRevision = el_stateRevision (m_log m), sn_EventID = el_nextEventID (m_log m),
       sn_Devices = sort_key dev_ID (map snd (ps_devices state)),
       sn_Configurations = sort_key conf_ID (map snd (ps_configurations state)),
       sn_Operations = operationList (j_operations (m_journal m)),
       sn_Diagnostics = sort_key diag_ID (map snd (ps_diagnostics state)),
       sn_Health = managerHealth m\<rparr> }"

end
