(* ===== verification/KDM_Status.thy ===== *)
theory KDM_Status
  imports KDM_Public
begin

text \<open>
  The status file (\<^verbatim>\<open>writeStatus\<close>, \<^verbatim>\<open>restoreBackoff\<close> of \<^verbatim>\<open>manager/state.go\<close>):
  what the manager writes after every pass for the status command and for its own restart.
\<close>

fun phase_text :: "configPhase \<Rightarrow> string" where
  "phase_text phaseUnset = ''''"
| "phase_text phaseDiscovered = ''discovered''"
| "phase_text phaseValidating = ''validating''"
| "phase_text phaseWaiting = ''waiting''"
| "phase_text phaseRunning = ''running''"
| "phase_text phaseFailed = ''failed''"
| "phase_text phaseDuplicate = ''duplicate''"
| "phase_text phaseStopped = ''stopped''"

definition findPrimary :: "string \<Rightarrow> path \<Rightarrow> manager \<Rightarrow> path option" where
  "findPrimary identity current m =
     map_option fst (find (\<lambda>(config, s). config \<noteq> current \<and> cs_deviceID s = identity) (m_states m))"

definition new_status_item :: "string \<Rightarrow> status_config" where
  "new_status_item name =
     \<lparr>sc_Name = name, sc_State = ''waiting'', sc_Device = '''', sc_ProcessID = 0,
      sc_ProcessStart = 0, sc_ProcessGroupID = 0, sc_LaunchPath = '''', sc_Connected = False,
      sc_Availability = None, sc_AvailabilityReasonCode = ReasonUnset,
      sc_ReasonCode = ReasonConfigurationDiscovered, sc_Healthy = False,
      sc_Reason = ''configuration not loaded'', sc_Failures = 0, sc_RetryAfter = 0,
      sc_FailureReason = '''', sc_LastKnownGoodSignature = ''''\<rparr>"

definition with_device :: "path \<Rightarrow> device_availability \<times> reason_code \<times> string \<Rightarrow> status_config \<Rightarrow> status_config" where
  "with_device device found item =
     (case found of (availability, code, reason) \<Rightarrow>
        let item1 = item\<lparr>sc_Device := device, sc_Availability := Some availability,
              sc_AvailabilityReasonCode := code, sc_Reason := reason,
              sc_Connected := (availability = DeviceConnected)\<rparr>
        in if availability \<noteq> DeviceConnected then item1\<lparr>sc_ReasonCode := code\<rparr>
           else item1\<lparr>sc_Reason := ''configuration not loaded''\<rparr>)"

definition duplicate_item :: "status_config \<Rightarrow> status_config" where
  "duplicate_item item = item\<lparr>sc_State := ''duplicate'', sc_Availability := Some DeviceConflicting,
     sc_AvailabilityReasonCode := ReasonDeviceConflicting, sc_ReasonCode := ReasonDeviceConflicting,
     sc_Reason := ''duplicate device claim''\<rparr>"

definition with_state :: "path \<Rightarrow> configState \<Rightarrow> status_config \<Rightarrow> status_config op" where
  "with_state config s item0 = do {
     let item1 = item0\<lparr>sc_Failures := cs_failures s, sc_RetryAfter := cs_retryAfter s,
           sc_FailureReason := cs_failureReason s,
           sc_LastKnownGoodSignature := cs_lastKnownGoodSignature s\<rparr>;
     let item = (if cs_phase s \<noteq> phaseUnset then item1\<lparr>sc_State := phase_text (cs_phase s)\<rparr> else item1);
     case cs_process s of
       Some p \<Rightarrow> do {
         healthy \<leftarrow> processHealthy config p;
         tick \<leftarrow> processStartTime (proc_pid p);
         return (item\<lparr>sc_State := ''running'', sc_Healthy := healthy,
           sc_ReasonCode := (if healthy then ReasonRuntimeRunning else ReasonRuntimeProcessUnhealthy),
           sc_Reason := (if healthy then ''process healthy''
                         else ''process ownership or health check failed''),
           sc_ProcessID := proc_pid p, sc_ProcessStart := tick,
           sc_ProcessGroupID := proc_processGroupID p, sc_LaunchPath := proc_launchPath p\<rparr>) }
     | None \<Rightarrow> do {
         now \<leftarrow> time_Now;
         return (if now < cs_retryAfter s then item\<lparr>sc_State := ''backoff''\<rparr>
                 else if sc_Device item = '''' \<or> sc_Availability item \<noteq> Some DeviceConnected
                 then item\<lparr>sc_State := ''waiting''\<rparr>
                 else item) }}"

definition status_item :: "path \<Rightarrow> status_config op" where
  "status_item config = do {
     name \<leftarrow> gets (configurationClaimName config);
     limit \<leftarrow> setting ms_maxConfigBytes;
     read \<leftarrow> readDeviceFileWithLimit config limit;
     item1 \<leftarrow> (case read of
         Inl _ \<Rightarrow> return (new_status_item name)
       | Inr device \<Rightarrow> do {
           found \<leftarrow> configuredDeviceAvailability device;
           return (with_device device found (new_status_item name)) });
     identity \<leftarrow> deviceID (sc_Device item1);
     item2 \<leftarrow> gets (\<lambda>m. case identity of
         Inl _ \<Rightarrow> item1
       | Inr i \<Rightarrow>
           if map_get (m_duplicates m) config \<noteq> None then duplicate_item item1
           else if findPrimary i config m \<noteq> None then duplicate_item item1
           else item1);
     known \<leftarrow> gets (\<lambda>m. map_get (m_states m) config);
     case known of None \<Rightarrow> return item2 | Some s \<Rightarrow> with_state config s item2 }"

definition statusWriteFailed :: "unit op" where
  "statusWriteFailed = count (\<lambda>c. c\<lparr>ct_statusFailures := ct_statusFailures c + 1\<rparr>)"

definition writeStatus :: "unit op" where
  "writeStatus = do {
     settings \<leftarrow> gets m_settings;
     if ms_statusPath settings = '''' then return ()
     else do {
       listed \<leftarrow> configurationPaths;
       if (case listed of Inl e \<Rightarrow> ge_kind e \<noteq> NotExist | Inr _ \<Rightarrow> False) then statusWriteFailed
       else do {
         let configs = (case listed of Inl _ \<Rightarrow> [] | Inr ps \<Rightarrow> ps);
         pid \<leftarrow> gets (\<lambda>m. h_pid (m_host m));
         tick \<leftarrow> processStartTime pid;
         now \<leftarrow> time_Now;
         items \<leftarrow> loop configs [] (\<lambda>config acc. do {
           item \<leftarrow> status_item config; return (acc @ [item]) });
         data \<leftarrow> encoded (StatusDocument \<lparr>sf_PID = pid, sf_ProcessStart = tick,
           sf_UpdatedAt = now, sf_ConfigDir = ms_configDir settings,
           sf_Configurations = sort_key sc_Name items\<rparr>);
         failed \<leftarrow> writeAtomicFile (ms_statusPath settings) data 384;
         case failed of None \<Rightarrow> return () | Some _ \<Rightarrow> statusWriteFailed }}}"

definition restored_state :: "status_config \<Rightarrow> configState" where
  "restored_state item = \<lparr>cs_phase = phaseFailed, cs_signature = '''', cs_deviceID = '''',
     cs_failures = sc_Failures item, cs_retryAfter = sc_RetryAfter item, cs_process = None,
     cs_pendingSignature = '''', cs_failureReason = sc_FailureReason item,
     cs_lastKnownGoodSignature = sc_LastKnownGoodSignature item\<rparr>"

definition readStatusFile :: "path \<Rightarrow> status_file option op" where
  "readStatusFile p = do {
     read \<leftarrow> os_ReadFile p;
     host \<leftarrow> gets m_host;
     return (case read of
         Inl _ \<Rightarrow> None
       | Inr data \<Rightarrow> (case h_parse_json host data of
             Some (StatusDocument status) \<Rightarrow> Some status | _ \<Rightarrow> None)) }"

definition restoreBackoff :: "status_file option \<Rightarrow> unit op" where
  "restoreBackoff status =
     (case status of
        None \<Rightarrow> return ()
      | Some file \<Rightarrow>
          for_each (sf_Configurations file) (\<lambda>item.
            if sc_Failures item = 0 \<and> sc_RetryAfter item = 0 \<and> sc_FailureReason item = ''''
               \<and> sc_LastKnownGoodSignature item = '''' then return ()
            else do {
              dir \<leftarrow> setting ms_configDir;
              modify (\<lambda>m. m\<lparr>m_states :=
                map_put (path_join dir (sc_Name item)) (restored_state item) (m_states m)\<rparr>) }))"

section \<open>Nothing here touches the supervision\<close>

lemma quiet_public [quiet_ops]:
  "steps quiet (refreshKMonadAvailability now)"
  "steps quiet (runtimeForConfiguration p d e)"
  by (auto simp: refreshKMonadAvailability_def runtimeForConfiguration_def Let_def supervision_def
        intro!: quiet_ops extends_same split: option.splits)

lemma quiet_resources [quiet_ops]:
  "steps quiet (managedConfigurationResource c)" "steps quiet (externalConfigurationResource x)"
  by (auto simp: managedConfigurationResource_def externalConfigurationResource_def Let_def
        intro!: quiet_ops)

lemma quiet_state_views [quiet_ops]:
  "steps quiet configurationList" "steps quiet publicDiagnostics"
  by (auto simp: configurationList_def publicDiagnostics_def intro!: quiet_ops)

lemma quiet_publishing [quiet_ops]:
  "steps quiet (publish_changes before after)" "steps quiet (publish_operation o1)"
  by (auto simp: publish_changes_def publish_operation_def supervision_def
        intro!: quiet_ops extends_same)

lemma quiet_capture [quiet_ops]: "steps quiet capturePublicState"
  by (auto simp: capturePublicState_def intro!: quiet_ops)

lemma quiet_snapshot [quiet_ops]: "steps quiet take_snapshot"
  by (auto simp: take_snapshot_def supervision_def intro!: quiet_ops extends_same)

lemma quiet_status_item [quiet_ops]:
  "steps quiet (with_state config s item)" "steps quiet (status_item config)"
  "steps quiet (readStatusFile p)" "steps quiet statusWriteFailed"
  by (auto simp: with_state_def status_item_def readStatusFile_def statusWriteFailed_def Let_def
        intro!: quiet_ops split: option.splits sum.splits)

lemma quiet_writeStatus [quiet_ops]: "steps quiet writeStatus"
  by (auto simp: writeStatus_def intro!: quiet_ops split: option.splits sum.splits)

end
