(* ===== verification/KDM_Supervisor.thy ===== *)
theory KDM_Supervisor
  imports KDM_Status
begin

text \<open>
  The supervisor (\<^verbatim>\<open>manager/supervisor.go\<close>): one pass of \<^verbatim>\<open>reconcile\<close> compares the
  configuration files with the processes and starts, keeps, stops or retries each of them.

  The loop over the configurations is a fold of \<open>reconcile_config\<close> over the sorted paths. It
  carries the devices claimed so far; an early \<^verbatim>\<open>continue\<close> is a branch that returns. The
  pointer to a \<^verbatim>\<open>configState\<close> is the entry of \<open>m_states\<close>: what the code writes through
  the pointer is put back under the same key.
\<close>

section \<open>The table of states\<close>

definition get_state :: "path \<Rightarrow> configState option op" where
  "get_state config = gets (\<lambda>m. map_get (m_states m) config)"

definition put_state :: "path \<Rightarrow> configState \<Rightarrow> unit op" where
  "put_state config s = modify (\<lambda>m. m\<lparr>m_states := map_put config s (m_states m)\<rparr>)"

definition stopAndDelete :: "path \<Rightarrow> time \<Rightarrow> unit op" where
  "stopAndDelete config deadline = do {
     known \<leftarrow> get_state config;
     case known of
       None \<Rightarrow> return ()
     | Some s \<Rightarrow> do {
         _ \<leftarrow> stopProcess config deadline s;
         modify (\<lambda>m. m\<lparr>m_states := map_del config (m_states m)\<rparr>) }}"

definition stopStates :: "(path, configState) gomap \<Rightarrow> time \<Rightarrow> unit op" where
  "stopStates states deadline =
     for_each states (\<lambda>(config, s). do { _ \<leftarrow> stopProcess config deadline s; return () })"

definition stopAll :: "time \<Rightarrow> unit op" where
  "stopAll deadline = do {
     states \<leftarrow> gets m_states;
     modify (\<lambda>m. m\<lparr>m_states := []\<rparr>);
     stopStates states deadline }"

section \<open>Validation and start\<close>

definition takePrevalidated :: "path \<Rightarrow> string \<Rightarrow> validated_config option op" where
  "takePrevalidated config signature = do {
     known \<leftarrow> gets (\<lambda>m. map_get (m_prevalidated m) config);
     case known of
       None \<Rightarrow> return None
     | Some v \<Rightarrow> do {
         modify (\<lambda>m. m\<lparr>m_prevalidated := map_del config (m_prevalidated m)\<rparr>);
         if vc_signature v \<noteq> signature
         then do { _ \<leftarrow> removeConfigSnapshot (vc_launchPath v); return None }
         else return (Some v) }}"

definition drop_snapshot :: "path \<Rightarrow> go_error \<Rightarrow> (go_error + 'a) op" where
  "drop_snapshot p e = do { _ \<leftarrow> removeConfigSnapshot p; return (Inl e) }"

definition validateConfigSnapshot :: "path \<Rightarrow> string \<Rightarrow> (go_error + validated_config) op" where
  "validateConfigSnapshot config expectedSignature = do {
     limit \<leftarrow> setting ms_maxConfigBytes;
     read \<leftarrow> readConfigDataWithLimit config limit;
     case read of
       Inl e \<Rightarrow> return (Inl e)
     | Inr (device, actualSignature, data) \<Rightarrow>
         if actualSignature \<noteq> expectedSignature then return (Inl errConfigChanged)
         else do {
           created \<leftarrow> createConfigSnapshot config data;
           case created of
             Inl e \<Rightarrow> return (Inl e)
           | Inr launchPath \<Rightarrow> do {
               rejected \<leftarrow> dryRun launchPath;
               case rejected of
                 Some e \<Rightarrow> drop_snapshot launchPath e
               | None \<Rightarrow> do {
                   again \<leftarrow> readConfigWithLimit config limit;
                   case again of
                     Inl e \<Rightarrow> drop_snapshot launchPath e
                   | Inr (_, finalSignature) \<Rightarrow>
                       if finalSignature \<noteq> actualSignature
                       then drop_snapshot launchPath errConfigChanged
                       else return (Inr \<lparr>vc_device = device, vc_signature = actualSignature,
                                      vc_launchPath = launchPath\<rparr>) }}}}"

definition attachProcessCgroup :: "path \<Rightarrow> int \<Rightarrow> go_error option op" where
  "attachProcessCgroup config pid = do {
     settings \<leftarrow> gets m_settings;
     call (ConfigureCgroup (ms_cgroupRoot settings) (path_base config) pid
             (ms_processMemoryMax settings) (ms_processCPUQuota settings)) }"

definition count_failure :: "unit op" where
  "count_failure = count (\<lambda>c. c\<lparr>ct_failures := ct_failures c + 1\<rparr>)"

text \<open>What follows a failed validation, and a start from a validated snapshot.\<close>

definition validation_failed :: "time \<Rightarrow> go_error \<Rightarrow> configState \<Rightarrow> configState op" where
  "validation_failed now e s =
     (if ge_kind e = ConfigChanged
      then return (transitionPhase phaseWaiting
             (s\<lparr>cs_failureReason := ''configuration changed during validation'',
                cs_retryAfter := now + second\<rparr>))
      else if ge_kind e = NotExist
      then return (transitionPhase phaseWaiting
             (s\<lparr>cs_failureReason := ''configuration disappeared during validation'',
                cs_retryAfter := now + second\<rparr>))
      else do {
        count_failure;
        scheduleRetry_op now (''validation failed: '' @ ge_text e) (transitionPhase phaseFailed s) })"

definition start_failed :: "time \<Rightarrow> string \<Rightarrow> validated_config \<Rightarrow> configState \<Rightarrow> configState op" where
  "start_failed now reason v s = do {
     count_failure;
     s1 \<leftarrow> scheduleRetry_op now reason s;
     _ \<leftarrow> removeConfigSnapshot (vc_launchPath v);
     return s1 }"

definition attach_child ::
  "path \<Rightarrow> time \<Rightarrow> string \<Rightarrow> validated_config \<Rightarrow> int \<Rightarrow> configState \<Rightarrow> configState op" where
  "attach_child config now expectedSignature v pid s = do {
     p \<leftarrow> newProcessState pid;
     unattached \<leftarrow> attachProcessCgroup config (proc_pid p);
     case unattached of
       Some e \<Rightarrow> do {
         signalProcess p SignalKill;
         _ \<leftarrow> call (ReapChild pid);
         _ \<leftarrow> closeProcessFD p;
         start_failed now (''cgroup attach failed: '' @ ge_text e) v s }
     | None \<Rightarrow> do {
         root \<leftarrow> setting ms_cgroupRoot;
         count (\<lambda>c. c\<lparr>ct_starts := ct_starts c + 1\<rparr>);
         return (transitionPhase phaseRunning
           (s\<lparr>cs_process := Some (p\<lparr>proc_startedAt := now,
                  proc_cgroupPath := (if root = '''' then '''' else path_join root (path_base config)),
                  proc_launchPath := vc_launchPath v\<rparr>),
              cs_lastKnownGoodSignature := expectedSignature\<rparr>)) }}"

definition launch :: "path \<Rightarrow> time \<Rightarrow> string \<Rightarrow> validated_config \<Rightarrow> configState \<Rightarrow> configState op" where
  "launch config now expectedSignature v s = do {
     identity \<leftarrow> deviceID (vc_device v);
     ready \<leftarrow> deviceReady (vc_device v);
     if \<not> ready \<or> (case identity of Inl _ \<Rightarrow> True
                     | Inr i \<Rightarrow> cs_deviceID s \<noteq> '''' \<and> i \<noteq> cs_deviceID s)
     then do {
       _ \<leftarrow> removeConfigSnapshot (vc_launchPath v);
       return (transitionPhase phaseWaiting (s\<lparr>cs_retryAfter := 0\<rparr>)) }
     else do {
       command \<leftarrow> setting ms_kmonadCommand;
       child \<leftarrow> StartKMonad command [vc_launchPath v];
       case child of
         Inl e \<Rightarrow> start_failed now (''process start failed: '' @ ge_text e) v s
       | Inr pid \<Rightarrow> attach_child config now expectedSignature v pid s }}"

definition startConfig ::
  "path \<Rightarrow> time \<Rightarrow> string \<Rightarrow> validated_config option \<Rightarrow> configState \<Rightarrow> configState op" where
  "startConfig config now expectedSignature validation s0 = do {
     let s = transitionPhase phaseValidating s0;
     checked \<leftarrow> (case validation of
         Some v \<Rightarrow> return (Inr v)
       | None \<Rightarrow> validateConfigSnapshot config expectedSignature);
     case checked of
       Inl e \<Rightarrow> validation_failed now e s
     | Inr v \<Rightarrow> launch config now expectedSignature v s }"

section \<open>One configuration\<close>

text \<open>
  A new version of a configuration that runs is validated before the old process is touched.
  \<open>Inl\<close> keeps the process and goes on with the next configuration.
\<close>

definition check_update ::
  "path \<Rightarrow> time \<Rightarrow> string \<Rightarrow> configState \<Rightarrow> validated_config option
   \<Rightarrow> (configState + validated_config option) op" where
  "check_update config now signature s validation =
     (if cs_pendingSignature s = signature \<and> now < cs_retryAfter s
      then (case validation of
          None \<Rightarrow> return (Inl s)
        | Some v \<Rightarrow> do { _ \<leftarrow> removeConfigSnapshot (vc_launchPath v); return (Inl s) })
      else do {
        checked \<leftarrow> (case validation of
            Some v \<Rightarrow> return (Inr v)
          | None \<Rightarrow> validateConfigSnapshot config signature);
        case checked of
          Inr v \<Rightarrow> return (Inr (Some v))
        | Inl e \<Rightarrow>
            if ge_kind e = ConfigChanged
            then return (Inl (s\<lparr>cs_failureReason := ''configuration changed during validation''\<rparr>))
            else do {
              s1 \<leftarrow> scheduleRetry_op now (''configuration update validation failed: '' @ ge_text e)
                      (s\<lparr>cs_pendingSignature := signature\<rparr>);
              return (Inl s1) } })"

definition switch_config ::
  "path \<Rightarrow> time \<Rightarrow> string \<Rightarrow> string \<Rightarrow> configState \<Rightarrow> configState op" where
  "switch_config config stopDeadline identity signature s = do {
     s1 \<leftarrow> stopProcess config stopDeadline s;
     return (s1\<lparr>cs_failures := 0, cs_retryAfter := 0, cs_deviceID := identity,
       cs_signature := signature, cs_pendingSignature := '''', cs_failureReason := ''''\<rparr>) }"

text \<open>Health and exit of the process; \<open>True\<close> goes on with the next configuration.\<close>

definition reap :: "time \<Rightarrow> processState \<Rightarrow> go_error option \<Rightarrow> configState \<Rightarrow> configState op" where
  "reap now p exitErr s = do {
     _ \<leftarrow> signalProcessGroup p SignalKill;
     cleanupCgroup (proc_cgroupPath p);
     p1 \<leftarrow> closeProcessFD p;
     cleanupLaunchSnapshot p1;
     scheduleRetry_op now
       (case exitErr of None \<Rightarrow> ''process exited'' | Some e \<Rightarrow> ''process exited: '' @ ge_text e)
       (s\<lparr>cs_process := None\<rparr>) }"

definition poll_process :: "time \<Rightarrow> processState \<Rightarrow> configState \<Rightarrow> (configState \<times> bool) op" where
  "poll_process now p s = do {
     exited \<leftarrow> poll_exit (proc_pid p);
     case exited of
       Some exitErr \<Rightarrow> do {
         s1 \<leftarrow> reap now p exitErr s;
         return (s1, False) }
     | None \<Rightarrow>
         return (if now - proc_startedAt p \<ge> 30 * second
                 then s\<lparr>cs_failures := 0, cs_retryAfter := 0\<rparr> else s, True) }"

definition check_process ::
  "path \<Rightarrow> time \<Rightarrow> time \<Rightarrow> configState \<Rightarrow> (configState \<times> bool) op" where
  "check_process config now stopDeadline s =
     (case cs_process s of
        None \<Rightarrow> return (s, False)
      | Some p \<Rightarrow> do {
          healthy \<leftarrow> processHealthy config p;
          watchdog \<leftarrow> setting ms_watchdogTimeout;
          if healthy
          then do {
            _ \<leftarrow> confirmManagedConfigurationActive config;
            let p1 = p\<lparr>proc_unhealthySince := 0\<rparr>;
            poll_process now p1 (s\<lparr>cs_process := Some p1\<rparr>) }
          else if proc_unhealthySince p = 0
          then do {
            let p1 = p\<lparr>proc_unhealthySince := now\<rparr>;
            poll_process now p1 (s\<lparr>cs_process := Some p1\<rparr>) }
          else if now - proc_unhealthySince p \<ge> watchdog
          then do {
            s1 \<leftarrow> stopProcess config stopDeadline s;
            s2 \<leftarrow> scheduleRetry_op now ''watchdog timeout'' s1;
            return (s2, True) }
          else poll_process now p s })"

definition advance_config ::
  "path \<Rightarrow> time \<Rightarrow> time \<Rightarrow> string \<Rightarrow> validated_config option \<Rightarrow> configState \<Rightarrow> unit op" where
  "advance_config config now stopDeadline signature validation s1 = do {
     put_state config s1;
     (s2, settled) \<leftarrow> check_process config now stopDeadline s1;
     put_state config s2;
     if settled then return ()
     else if now < cs_retryAfter s2 then put_state config (transitionPhase phaseWaiting s2)
     else do {
       s3 \<leftarrow> startConfig config now signature validation s2;
       put_state config s3 } }"

definition supervise_config ::
  "path \<Rightarrow> time \<Rightarrow> time \<Rightarrow> string \<Rightarrow> string \<Rightarrow> unit op" where
  "supervise_config config now stopDeadline identity signature = do {
     known \<leftarrow> get_state config;
     let s = (case known of None \<Rightarrow> discovered_state | Some s \<Rightarrow> s);
     put_state config s;
     let changed = (cs_deviceID s \<noteq> identity \<or> cs_signature s \<noteq> signature);
     prevalidated \<leftarrow> takePrevalidated config signature;
     checked \<leftarrow> (if changed \<and> cs_process s \<noteq> None
                 then check_update config now signature s prevalidated
                 else return (Inr prevalidated));
     case checked of
       Inl s1 \<Rightarrow> put_state config s1
     | Inr validation \<Rightarrow> do {
         s1 \<leftarrow> (if changed then switch_config config stopDeadline identity signature s else return s);
         advance_config config now stopDeadline signature validation s1 } }"

definition session_holds :: "string \<Rightarrow> manager \<Rightarrow> bool" where
  "session_holds identity m \<longleftrightarrow>
     (case m_identification m of None \<Rightarrow> False | Some s \<Rightarrow> ses_platformID s = identity)
     \<or> (case m_probe m of None \<Rightarrow> False | Some s \<Rightarrow> ses_platformID s = identity)"

definition pause_config :: "path \<Rightarrow> time \<Rightarrow> unit op" where
  "pause_config config stopDeadline = do {
     known \<leftarrow> get_state config;
     case known of
       None \<Rightarrow> return ()
     | Some s \<Rightarrow> do {
         s1 \<leftarrow> stopProcess config stopDeadline s;
         put_state config (transitionPhase phaseStopped s1) }}"

definition duplicate_config :: "path \<Rightarrow> time \<Rightarrow> string \<Rightarrow> unit op" where
  "duplicate_config config stopDeadline identity = do {
     known \<leftarrow> get_state config;
     (case known of
        None \<Rightarrow> return ()
      | Some s \<Rightarrow> put_state config (transitionPhase phaseDuplicate s));
     modify (\<lambda>m. if map_get (m_duplicates m) config = Some identity then m
                 else m\<lparr>m_duplicates := map_put config identity (m_duplicates m)\<rparr>);
     stopAndDelete config stopDeadline }"

definition reconcile_config ::
  "time \<Rightarrow> time \<Rightarrow> nat \<times> path \<Rightarrow> (string, path) gomap \<Rightarrow> (string, path) gomap op" where
  "reconcile_config now stopDeadline entry activeDevices = do {
     settings \<leftarrow> gets m_settings;
     let config = snd entry;
     let give_up = do { stopAndDelete config stopDeadline; return activeDevices };
     if int (fst entry) + 1 > ms_maxConfigs settings then give_up
     else do {
       unsafe \<leftarrow> worldWritable config;
       if unsafe \<noteq> Inr False then give_up
       else do {
         read \<leftarrow> readConfigWithLimit config (ms_maxConfigBytes settings);
         case read of
           Inl e \<Rightarrow> if ge_kind e = ConfigChanged then return activeDevices else give_up
         | Inr (device, signature) \<Rightarrow> do {
             ready \<leftarrow> deviceReady device;
             if \<not> ready then give_up
             else do {
               identity \<leftarrow> deviceID device;
               case identity of
                 Inl _ \<Rightarrow> give_up
               | Inr i \<Rightarrow> do {
                   held \<leftarrow> gets (session_holds i);
                   if held
                   then do { pause_config config stopDeadline; return activeDevices }
                   else if map_get activeDevices i \<noteq> None
                   then do { duplicate_config config stopDeadline i; return activeDevices }
                   else do {
                     modify (\<lambda>m. m\<lparr>m_duplicates := map_del config (m_duplicates m)\<rparr>);
                     supervise_config config now stopDeadline i signature;
                     return (map_put i config activeDevices) } }}}}}}"

section \<open>The pass\<close>

definition reconcile_all :: "time \<Rightarrow> time \<Rightarrow> path list \<Rightarrow> unit op" where
  "reconcile_all now stopDeadline configs = do {
     _ \<leftarrow> loop (enumerate 0 configs) [] (reconcile_config now stopDeadline);
     stale \<leftarrow> gets (\<lambda>m. filter (\<lambda>c. c \<notin> set configs) (map fst (m_states m)));
     for_each stale (\<lambda>config. stopAndDelete config stopDeadline);
     modify (\<lambda>m. m\<lparr>m_duplicates := filter (\<lambda>d. fst d \<in> set configs) (m_duplicates m)\<rparr>) }"

definition publish_pass :: "public_state \<Rightarrow> unit op" where
  "publish_pass before = do {
     after \<leftarrow> capturePublicState;
     modify (\<lambda>m. m\<lparr>m_lastPublicState := after\<rparr>);
     publish_changes before after }"

definition reconcile :: "time \<Rightarrow> unit op" where
  "reconcile now = do {
     before \<leftarrow> gets m_lastPublicState;
     count (\<lambda>c. c\<lparr>ct_reconciles := ct_reconciles c + 1\<rparr>);
     refreshKMonadAvailability now;
     refreshDevices;
     refreshExternalConfigurationRegistry;
     settings \<leftarrow> gets m_settings;
     let stopDeadline = now + ms_stopTimeout settings;
     unsafe \<leftarrow> worldWritable (ms_configDir settings);
     (if (case unsafe of Inl e \<Rightarrow> ge_kind e \<noteq> NotExist | Inr b \<Rightarrow> b)
      then stopAll stopDeadline
      else do {
        listed \<leftarrow> configurationPaths;
        reconcile_all now stopDeadline (case listed of Inl _ \<Rightarrow> [] | Inr ps \<Rightarrow> ps) });
     writeStatus;
     publish_pass before }"

text \<open>The end of the service: every process is stopped and no snapshot is kept.\<close>

definition cleanup :: "unit op" where
  "cleanup = do {
     modify (\<lambda>m. m\<lparr>m_identification := None, m_probe := None\<rparr>);
     kept \<leftarrow> gets m_prevalidated;
     for_each kept (\<lambda>(p, v). do { _ \<leftarrow> removeConfigSnapshot (vc_launchPath v); return () });
     modify (\<lambda>m. m\<lparr>m_prevalidated := []\<rparr>);
     now \<leftarrow> time_Now;
     settings \<leftarrow> gets m_settings;
     states \<leftarrow> gets m_states;
     modify (\<lambda>m. m\<lparr>m_states := []\<rparr>);
     stopStates states (now + ms_stopTimeout settings);
     (if ms_statusPath settings = '''' then return ()
      else do { _ \<leftarrow> call (RemoveFile (ms_statusPath settings)); return () }) }"

end
