(* ===== verification/KDM_Safety.thy ===== *)
theory KDM_Safety
  imports KDM_Supervisor
begin

text \<open>
  The safety of the supervisor: whatever the system answers, the manager signals only
  processes it started and starts KMonad only on a file it wrote itself and that passed a dry
  run (\<open>safe_history\<close>). The invariant \<open>supervised\<close> says the same of what the manager
  remembers: its processes and the snapshots kept for a start.
\<close>

definition state_ok :: "history \<Rightarrow> configState \<Rightarrow> bool" where
  "state_ok h s \<longleftrightarrow> (case cs_process s of None \<Rightarrow> True
     | Some p \<Rightarrow> launched p h \<and> dry_run_passed (proc_launchPath p) h)"

definition supervised :: "manager \<Rightarrow> bool" where
  "supervised m \<longleftrightarrow> safe_history (m_history m)
     \<and> (\<forall>e \<in> set (m_states m). state_ok (m_history m) (snd e))
     \<and> (\<forall>e \<in> set (m_prevalidated m). dry_run_passed (vc_launchPath (snd e)) (m_history m))"

definition grows :: "manager \<Rightarrow> manager \<Rightarrow> bool" where
  "grows m m' \<longleftrightarrow> (\<exists>es. m_history m' = es @ m_history m)"

lemma grows_refl [simp]: "grows m m"
  by (simp add: grows_def)

lemma grows_trans: "grows m1 m2 \<Longrightarrow> grows m2 m3 \<Longrightarrow> grows m1 m3"
  by (auto simp: grows_def)

lemma state_ok_mono: "grows m m' \<Longrightarrow> state_ok (m_history m) s \<Longrightarrow> state_ok (m_history m') s"
  by (auto simp: grows_def state_ok_def launched_mono dry_run_passed_mono split: option.splits)

lemma passed_mono: "grows m m' \<Longrightarrow> dry_run_passed c (m_history m) \<Longrightarrow> dry_run_passed c (m_history m')"
  by (auto simp: grows_def dry_run_passed_mono)

lemma state_ok_frame [simp]:
  "state_ok h (transitionPhase ph s) = state_ok h s"
  "state_ok h (s\<lparr>cs_failures := n\<rparr>) = state_ok h s" "state_ok h (s\<lparr>cs_retryAfter := t\<rparr>) = state_ok h s"
  "state_ok h (s\<lparr>cs_deviceID := d\<rparr>) = state_ok h s" "state_ok h (s\<lparr>cs_signature := d\<rparr>) = state_ok h s"
  "state_ok h (s\<lparr>cs_pendingSignature := d\<rparr>) = state_ok h s"
  "state_ok h (s\<lparr>cs_failureReason := d\<rparr>) = state_ok h s"
  "state_ok h (scheduleRetry j t r s) = state_ok h s"
  by (simp_all add: state_ok_def)

lemma state_ok_idle: "cs_process s = None \<Longrightarrow> state_ok h s"
  by (simp add: state_ok_def)

lemma supervised_acts:
  assumes "supervised m" "acts m m'"
  shows "supervised m' \<and> grows m m'"
proof -
  have g: "grows m m'" and same: "m_states m' = m_states m" "m_prevalidated m' = m_prevalidated m"
    using assms(2) by (auto simp: acts_def extends_def grows_def supervision_def)
  moreover have "safe_history (m_history m')"
    using assms by (auto simp: acts_def supervised_def)
  ultimately show ?thesis
    using assms(1) state_ok_mono [OF g] passed_mono [OF g] by (auto simp: supervised_def)
qed

lemma set_put: "set (map_put k v xs) \<subseteq> insert (k, v) (set xs)"
  by (induction xs) auto

lemma set_del: "set (map_del k xs) \<subseteq> set xs"
  by (auto simp: AList.delete_eq)

section \<open>The operations\<close>

lemma spec_quiet:
  assumes "steps quiet f" "supervised m"
    "\<And>r m'. supervised m' \<Longrightarrow> grows m m' \<Longrightarrow> supervision m' = supervision m \<Longrightarrow> Q r m'"
  shows "wp f Q m"
  using assms(1)
proof (rule wp_steps)
  fix r m' assume q: "quiet m m'"
  then show "Q r m'"
    using assms(3) supervised_acts [OF assms(2) quiet_acts [OF q]] by (auto simp: quiet_def)
qed

lemma spec_stop [wp_specs]:
  assumes "supervised m" "state_ok (m_history m) s"
    "\<And>s' m'. supervised m' \<Longrightarrow> grows m m' \<Longrightarrow> cs_process s' = None \<Longrightarrow> Q s' m'"
  shows "wp (stopProcess config d s) Q m"
proof (rule spec_stopProcess [where base = m])
  show "case cs_process s of None \<Rightarrow> True | Some p \<Rightarrow> launched p (m_history m)"
    using assms(2) by (auto simp: state_ok_def split: option.splits)
qed (use assms(3) supervised_acts [OF assms(1)] in \<open>auto intro: acting.refl\<close>)

lemma spec_signal [wp_specs]:
  assumes "supervised m" "launched p (m_history m)"
    "\<And>r m'. supervised m' \<Longrightarrow> grows m m' \<Longrightarrow> Q r m'"
  shows "wp (signalProcess p sg) Q m"
  by (rule spec_signalProcess [where base = m])
    (use assms supervised_acts [OF assms(1)] in \<open>auto intro: acting.refl\<close>)

lemma spec_signal_group [wp_specs]:
  assumes "supervised m" "launched p (m_history m)"
    "\<And>r m'. supervised m' \<Longrightarrow> grows m m' \<Longrightarrow> Q r m'"
  shows "wp (signalProcessGroup p sg) Q m"
  by (rule spec_signalProcessGroup [where base = m])
    (use assms supervised_acts [OF assms(1)] in \<open>auto intro: acting.refl\<close>)

lemma supervised_put:
  "supervised m \<Longrightarrow> state_ok (m_history m) s
   \<Longrightarrow> supervised (m\<lparr>m_states := map_put config s (m_states m)\<rparr>)"
  using set_put [of config s "m_states m"] by (auto simp: supervised_def)

lemma supervised_del: "supervised m \<Longrightarrow> supervised (m\<lparr>m_states := map_del c (m_states m)\<rparr>)"
  using set_del [of c "m_states m"] by (auto simp: supervised_def)

lemma supervised_get:
  "supervised m \<Longrightarrow> map_get (m_states m) config = Some s \<Longrightarrow> state_ok (m_history m) s"
  unfolding supervised_def by (metis map_of_SomeD snd_conv)

lemma spec_put_state [wp_specs]:
  assumes "supervised m" "state_ok (m_history m) s"
    "\<And>m'. supervised m' \<Longrightarrow> grows m m' \<Longrightarrow> Q () m'"
  shows "wp (put_state config s) Q m"
  by (auto simp: put_state_def wp_simps grows_def intro!: assms supervised_put)

lemma spec_get_state [wp_specs]:
  assumes "supervised m"
    "Q None m" "\<And>s. state_ok (m_history m) s \<Longrightarrow> Q (Some s) m"
  shows "wp (get_state config) Q m"
  using assms supervised_get [OF assms(1), of config]
  by (cases "map_get (m_states m) config") (auto simp: get_state_def wp_simps)

lemma spec_stopAndDelete [wp_specs]:
  assumes "supervised m" "\<And>m'. supervised m' \<Longrightarrow> grows m m' \<Longrightarrow> Q () m'"
  shows "wp (stopAndDelete config d) Q m"
  unfolding stopAndDelete_def wp_simps
proof (rule spec_get_state [OF assms(1)])
  fix s assume "state_ok (m_history m) s"
  then have "wp (stopProcess config d s)
      (\<lambda>_ m'. Q () (m'\<lparr>m_states := map_del config (m_states m')\<rparr>)) m"
    by (rule spec_stop [OF assms(1)])
      (rule assms(2) [OF supervised_del], auto simp: grows_def)
  then show "(case Some s of None \<Rightarrow> Q () | Some s \<Rightarrow> wp (stopProcess config d s)
      (\<lambda>_ m'. Q () (m'\<lparr>m_states := map_del config (m_states m')\<rparr>))) m"
    by simp
qed (simp add: assms)

section \<open>Snapshots and dry runs\<close>

lemma spec_ask:
  assumes "supervised m" "\<And>a. event_ok (ev a) (m_history m)"
    "\<And>a m'. supervised m' \<Longrightarrow> m_history m' = ev a # m_history m \<Longrightarrow> Q a m'"
  shows "wp (ask q ev) Q m"
proof (rule wp_ask)
  fix a
  have "acts m (m\<lparr>m_history := ev a # m_history m\<rparr>)"
    using assms(2) by (simp add: acts_def extends_def supervision_def)
  then show "Q a (m\<lparr>m_history := ev a # m_history m\<rparr>)"
    using supervised_acts [OF assms(1)] by (auto intro: assms(3))
qed

definition written :: "path \<Rightarrow> history \<Rightarrow> bool" where
  "written p h \<longleftrightarrow> (\<exists>data. EvCall (WriteFile p data) None \<in> set h)"

lemma written_mono: "grows m m' \<Longrightarrow> written p (m_history m) \<Longrightarrow> written p (m_history m')"
  by (auto simp: grows_def written_def)

lemma grows_cons: "m_history m' = e # m_history m \<Longrightarrow> grows m m'"
  by (auto simp: grows_def intro: exI [where x = "[e]"])

lemma spec_call:
  assumes "supervised m" "\<And>r. plain (EvCall c r)"
    "\<And>r m'. supervised m' \<Longrightarrow> grows m m'
       \<Longrightarrow> (\<forall>p data. c = WriteFile p data \<longrightarrow> r = None \<longrightarrow> written p (m_history m')) \<Longrightarrow> Q r m'"
  shows "wp (call c) Q m"
  unfolding call_def
  by (rule spec_ask [OF assms(1)])
    (auto intro!: assms event_ok_plain simp: grows_cons written_def)

lemma spec_calls:
  assumes "supervised m" "\<And>c r. c \<in> set cs \<Longrightarrow> plain (EvCall c r)"
    "\<And>r m'. supervised m' \<Longrightarrow> grows m m' \<Longrightarrow>
       (r = None \<longrightarrow> (\<forall>p data. WriteFile p data \<in> set cs \<longrightarrow> written p (m_history m'))) \<Longrightarrow> Q r m'"
  shows "wp (calls cs) Q m"
  using assms
proof (induction cs arbitrary: m Q)
  case Nil
  then show ?case by (simp add: wp_simps)
next
  case (Cons c cs)
  show ?case
    unfolding calls.simps wp_simps
  proof (rule spec_call [OF Cons.prems(1)])
    fix r :: "go_error option" and m1
    assume m1: "supervised m1" "grows m m1"
      "\<forall>p data. c = WriteFile p data \<longrightarrow> r = None \<longrightarrow> written p (m_history m1)"
    show "(case r of None \<Rightarrow> wp (calls cs) Q | Some e \<Rightarrow> Q (Some e)) m1"
    proof (cases r)
      case None
      have "wp (calls cs) Q m1"
      proof (rule Cons.IH [OF m1(1)])
        fix r' :: "go_error option" and m'
        assume "supervised m'" "grows m1 m'"
          "r' = None \<longrightarrow> (\<forall>p data. WriteFile p data \<in> set cs \<longrightarrow> written p (m_history m'))"
        moreover from this have "r' = None \<longrightarrow>
            (\<forall>p data. WriteFile p data \<in> set (c # cs) \<longrightarrow> written p (m_history m'))"
          using m1(3) None written_mono [of m1 m'] by auto
        ultimately show "Q r' m'"
          using m1(2) by (auto intro!: Cons.prems(3) intro: grows_trans)
      qed (simp add: Cons.prems(2))
      then show ?thesis by (simp add: None)
    qed (use m1 in \<open>auto intro: Cons.prems(3)\<close>)
  qed (simp add: Cons.prems(2))
qed

lemma spec_createSnapshot:
  assumes "supervised m"
    "\<And>r m'. supervised m' \<Longrightarrow> grows m m' \<Longrightarrow> (\<forall>p. r = Inr p \<longrightarrow> written p (m_history m')) \<Longrightarrow> Q r m'"
  shows "wp (createSnapshot d pattern data) Q m"
  unfolding createSnapshot_def wp_simps
proof (rule spec_quiet [OF _ assms(1)])
  show "steps quiet (os_CreateTemp d pattern)" by (rule quiet_ops)
next
  fix r m1 assume m1: "supervised m1" "grows m m1"
  show "(case r of Inl e \<Rightarrow> Q (Inl e) | Inr n \<Rightarrow> let p = temp_path d pattern n
       in wp (calls [WriteFile p data, SyncFile p, ChmodPath p 256, CloseFile p])
            (\<lambda>x. wp (call (CloseFile p)) (\<lambda>xa. case x of None \<Rightarrow> Q (Inr p)
               | Some e \<Rightarrow> wp (call (RemoveFile p)) (\<lambda>xa. Q (Inl e))))) m1"
    using m1
    by (cases r) (auto 2 12 simp: Let_def simp del: calls.simps intro!: assms(2) spec_calls spec_call
        intro: grows_trans written_mono split: option.splits)
qed

lemma dry_run_passedI:
  assumes "m_history m3 = EvWaitDryRun pid d (DryRunExited None) # h2" "h2 = n @ EvStart c [''--dry-run'', config] (Inr pid) # h0"
    "written config h0"
  shows "dry_run_passed config (m_history m3)"
proof -
  have "m_history m3 = (EvWaitDryRun pid d (DryRunExited None) # n)
      @ EvStart c [''--dry-run'', config] (Inr pid) # h0"
    using assms(1,2) by simp
  moreover have "EvWaitDryRun pid d (DryRunExited None)
      \<in> set (EvWaitDryRun pid d (DryRunExited None) # n)" by simp
  ultimately show ?thesis
    using assms(3) unfolding dry_run_passed_def written_def by blast
qed

lemma spec_newProcessState:
  assumes "supervised m" "started pid (m_history m)"
    "\<And>p m' info. supervised m' \<Longrightarrow> m_history m' = EvStartedProcess pid info # m_history m
        \<Longrightarrow> launched p (m_history m') \<Longrightarrow> proc_pid p = pid \<Longrightarrow> Q p m'"
  shows "wp (newProcessState pid) Q m"
  unfolding newProcessState_def wp_simps StartedProcess_def
proof (rule spec_ask [OF assms(1)])
  fix a m' assume m': "supervised m'" "m_history m' = EvStartedProcess pid a # m_history m"
  show "Q \<lparr>proc_pid = pid, proc_pidfd = pi_Handle a, proc_startedAt = 0,
       proc_startTick = pi_StartTick a, proc_processGroupID = pi_GroupID a,
       proc_launchPath = '''', proc_unhealthySince = 0, proc_cgroupPath = ''''\<rparr> m'"
    by (rule assms(3) [OF m']) (use assms(2) m'(2) in \<open>auto simp: launched_def started_def\<close>)
qed simp

lemma spec_kill_dry_run:
  assumes "supervised m" "launched p (m_history m)"
    "\<And>e m'. supervised m' \<Longrightarrow> grows m m' \<Longrightarrow> Q (Some e) m'"
    "steps quiet a" "steps quiet b"
  shows "wp (kill_dry_run p a b) Q m"
  unfolding kill_dry_run_def wp_simps
  using assms(4,5)
  by (auto 2 12 intro!: spec_signal [OF assms(1,2)] spec_quiet [of "wait_exit i d" for i d]
      spec_quiet [of a] spec_quiet [of b] quiet_ops assms(3) intro: grows_trans)

lemma spec_end_dry_run:
  assumes "supervised m" "launched p (m_history m)"
    and "\<And>r m'. supervised m' \<Longrightarrow> grows m m' \<Longrightarrow> (r = None \<longrightarrow> ended = DryRunExited None) \<Longrightarrow> Q r m'"
  shows "wp (end_dry_run timeout p ended) Q m"
  using assms(1,2)
  by (cases ended) (auto 2 12 simp: end_dry_run_def wp_simps dry_run_error_def
      intro!: assms(3) spec_kill_dry_run spec_signal spec_call intro: grows_trans)

lemma spec_dryRunContext:
  assumes m: "supervised m" "written config (m_history m)"
    and Q: "\<And>r m'. supervised m' \<Longrightarrow> grows m m' \<Longrightarrow>
       (r = None \<longrightarrow> dry_run_passed config (m_history m')) \<Longrightarrow> Q r m'"
  shows "wp (dryRunContextWithWriters command timeout config) Q m"
  unfolding dryRunContextWithWriters_def wp_simps StartKMonad_def
proof (rule spec_ask [OF m(1)])
  fix a :: "go_error + int" and m1
  assume m1: "supervised m1"
    "m_history m1 = EvStart command [''--dry-run'', config] a # m_history m"
  have "wp (newProcessState pid) (\<lambda>p. wp (wait_dry_run pid timeout)
      (\<lambda>x. wp (end_dry_run timeout p x) (\<lambda>x. wp (closeProcessFD p) (\<lambda>xa. Q x)))) m1"
    if pid: "a = Inr pid" for pid
  proof (rule spec_newProcessState [OF m1(1)])
    show "started pid (m_history m1)" using m1 pid by (auto simp: started_def)
    fix p m2 info
    assume m2: "supervised m2" "m_history m2 = EvStartedProcess pid info # m_history m1"
      "launched p (m_history m2)"
    show "wp (wait_dry_run pid timeout)
      (\<lambda>x. wp (end_dry_run timeout p x) (\<lambda>x. wp (closeProcessFD p) (\<lambda>xa. Q x))) m2"
      unfolding wait_dry_run_def
    proof (rule spec_ask [OF m2(1)])
      fix x m3
      assume m3: "supervised m3" "m_history m3 = EvWaitDryRun pid timeout x # m_history m2"
      have l: "launched p (m_history m3)" and g: "grows m m3"
        using m3(2) m2(2,3) m1(2) launched_mono [of p "m_history m2" "[EvWaitDryRun pid timeout x]"]
        by (simp_all add: grows_def)
      have passed: "x = DryRunExited None \<Longrightarrow> dry_run_passed config (m_history m3)"
        by (rule dry_run_passedI [of _ pid timeout _ "[EvStartedProcess pid info]" command _ "m_history m"])
          (use m3 m2 m1 m(2) pid in auto)
      show "wp (end_dry_run timeout p x) (\<lambda>x. wp (closeProcessFD p) (\<lambda>xa. Q x)) m3"
        using g passed
        by (auto 2 12 intro!: spec_end_dry_run [OF m3(1) l] Q spec_quiet [of "closeProcessFD p"]
            quiet_ops intro: grows_trans passed_mono)
    qed simp
  qed
  then show "(case a of Inl e \<Rightarrow> Q (Some e)
      | Inr pid \<Rightarrow> wp (newProcessState pid) (\<lambda>p. wp (wait_dry_run pid timeout)
          (\<lambda>x. wp (end_dry_run timeout p x) (\<lambda>x. wp (closeProcessFD p) (\<lambda>xa. Q x))))) m1"
    using m1 by (cases a) (auto intro!: Q simp: grows_cons)
qed simp

lemma spec_dryRun:
  assumes "supervised m" "written config (m_history m)"
    and "\<And>r m'. supervised m' \<Longrightarrow> grows m m' \<Longrightarrow>
       (r = None \<longrightarrow> dry_run_passed config (m_history m')) \<Longrightarrow> Q r m'"
  shows "wp (dryRun config) Q m"
  by (auto simp: dryRun_def wp_simps intro!: spec_dryRunContext assms)

section \<open>Validation and start\<close>

lemma spec_createConfigSnapshot:
  assumes "supervised m"
    "\<And>r m'. supervised m' \<Longrightarrow> grows m m' \<Longrightarrow> (\<forall>p. r = Inr p \<longrightarrow> written p (m_history m')) \<Longrightarrow> Q r m'"
  shows "wp (createConfigSnapshot config data) Q m"
  unfolding createConfigSnapshot_def by (rule spec_createSnapshot [OF assms])

lemma spec_drop_snapshot:
  assumes "supervised m" "\<And>m'. supervised m' \<Longrightarrow> grows m m' \<Longrightarrow> Q (Inl e) m'"
  shows "wp (drop_snapshot p e) Q m"
  unfolding drop_snapshot_def wp_simps
  by (rule spec_quiet [OF _ assms(1)]) (auto intro!: assms(2) quiet_ops)

lemma spec_validateConfigSnapshot:
  assumes "supervised m"
    "\<And>r m'. supervised m' \<Longrightarrow> grows m m' \<Longrightarrow>
       (\<forall>v. r = Inr v \<longrightarrow> dry_run_passed (vc_launchPath v) (m_history m')) \<Longrightarrow> Q r m'"
  shows "wp (validateConfigSnapshot config signature) Q m"
  unfolding validateConfigSnapshot_def wp_simps
  using assms(1)
  by (auto 2 14 intro!: assms(2) spec_drop_snapshot spec_createConfigSnapshot spec_dryRun
      spec_quiet [of "readConfigDataWithLimit c n" for c n]
      spec_quiet [of "readConfigWithLimit c n" for c n] quiet_ops
      intro: grows_trans passed_mono split: sum.splits option.splits prod.splits)

lemma spec_takePrevalidated:
  assumes "supervised m"
    "\<And>r m'. supervised m' \<Longrightarrow> grows m m' \<Longrightarrow>
       (\<forall>v. r = Some v \<longrightarrow> dry_run_passed (vc_launchPath v) (m_history m')) \<Longrightarrow> Q r m'"
  shows "wp (takePrevalidated config signature) Q m"
proof -
  have del: "supervised (m\<lparr>m_prevalidated := map_del config (m_prevalidated m)\<rparr>)"
    using assms(1) set_del [of config "m_prevalidated m"] by (auto simp: supervised_def)
  have same: "grows m (m\<lparr>m_prevalidated := x\<rparr>)" for x by (simp add: grows_def)
  have passed: "dry_run_passed (vc_launchPath v) (m_history m)"
    if "map_get (m_prevalidated m) config = Some v" for v
    using assms(1) that unfolding supervised_def by (metis map_of_SomeD snd_conv)
  have "wp (removeConfigSnapshot p) (\<lambda>_. Q None)
      (m\<lparr>m_prevalidated := map_del config (m_prevalidated m)\<rparr>)" for p
    by (rule spec_quiet [OF _ del]) (auto intro!: assms(2) quiet_ops intro: grows_trans same)
  then show ?thesis
    unfolding takePrevalidated_def wp_simps
    using del same passed by (auto intro!: assms split: option.splits)
qed

lemma spec_validation_failed:
  assumes "supervised m" "state_ok (m_history m) s"
    "\<And>s' m'. supervised m' \<Longrightarrow> grows m m' \<Longrightarrow> state_ok (m_history m') s' \<Longrightarrow> Q s' m'"
  shows "wp (validation_failed now e s) Q m"
  unfolding validation_failed_def count_failure_def scheduleRetry_op_def wp_simps
  using assms(1,2)
  by (auto 2 12 intro!: assms(3) spec_quiet [of retryJitter] quiet_ops
      simp: supervised_def grows_def intro: state_ok_mono)

lemma counters_frame [simp]:
  "supervised (m\<lparr>m_counters := c\<rparr>) = supervised m"
  "grows (m\<lparr>m_counters := c\<rparr>) m' = grows m m'" "grows m0 (m\<lparr>m_counters := c\<rparr>) = grows m0 m"
  by (simp_all add: supervised_def grows_def)

lemma state_ok_launch:
  assumes "launched p h" "dry_run_passed config h"
  shows "state_ok h (s\<lparr>cs_process := Some (p\<lparr>proc_startedAt := t, proc_cgroupPath := g,
            proc_launchPath := config\<rparr>), cs_lastKnownGoodSignature := k\<rparr>)"
  using assms by (simp add: state_ok_def launched_def)

lemma spec_scheduleRetry:
  assumes "supervised m" "state_ok (m_history m) s"
    "\<And>s' m'. supervised m' \<Longrightarrow> grows m m' \<Longrightarrow> state_ok (m_history m') s' \<Longrightarrow> Q s' m'"
  shows "wp (scheduleRetry_op now reason s) Q m"
  unfolding scheduleRetry_op_def wp_simps
  by (rule spec_quiet [OF _ assms(1)])
    (use assms(2) in \<open>auto intro!: assms(3) quiet_ops intro: state_ok_mono\<close>)

lemma started_cons: "h = EvStart c a (Inr pid) # h' \<Longrightarrow> started pid h"
  unfolding started_def by (metis list.set_intros(1))

lemma spec_StartKMonad:
  assumes "supervised m" "dry_run_passed config (m_history m)"
    and "\<And>r m'. supervised m' \<Longrightarrow> grows m m' \<Longrightarrow>
       (\<forall>pid. r = Inr pid \<longrightarrow> started pid (m_history m')) \<Longrightarrow> Q r m'"
  shows "wp (StartKMonad command [config]) Q m"
  unfolding StartKMonad_def
  by (rule spec_ask [OF assms(1)]) (auto intro!: assms grows_cons started_cons)

lemma spec_new_child:
  assumes "supervised m" "started pid (m_history m)"
    "\<And>p m'. supervised m' \<Longrightarrow> grows m m' \<Longrightarrow> launched p (m_history m') \<Longrightarrow> proc_pid p = pid
       \<Longrightarrow> Q p m'"
  shows "wp (newProcessState pid) Q m"
  by (rule spec_newProcessState [OF assms(1,2)]) (auto intro!: assms(3) grows_cons)

lemma launched_grows: "grows m m' \<Longrightarrow> launched p (m_history m) \<Longrightarrow> launched p (m_history m')"
  by (auto simp: grows_def launched_mono)

lemma spec_start_failed:
  assumes "supervised m" "state_ok (m_history m) s"
    and "\<And>s' m'. supervised m' \<Longrightarrow> grows m m' \<Longrightarrow> state_ok (m_history m') s' \<Longrightarrow> Q s' m'"
  shows "wp (start_failed now reason v s) Q m"
  unfolding start_failed_def count_failure_def wp_simps
  using assms(1,2)
  by (auto 2 14 intro!: assms(3) spec_scheduleRetry spec_quiet [of "removeConfigSnapshot p" for p]
      quiet_ops intro: grows_trans state_ok_mono)

lemma spec_attach_child:
  assumes "supervised m" "state_ok (m_history m) s" "started pid (m_history m)"
    "dry_run_passed (vc_launchPath v) (m_history m)"
    and "\<And>s' m'. supervised m' \<Longrightarrow> grows m m' \<Longrightarrow> state_ok (m_history m') s' \<Longrightarrow> Q s' m'"
  shows "wp (attach_child config now signature v pid s) Q m"
  unfolding attach_child_def attachProcessCgroup_def wp_simps
  using assms(1-4)
  by (auto 2 20 intro!: assms(5) spec_new_child spec_call spec_signal spec_start_failed
      spec_quiet [of "closeProcessFD p" for p] quiet_ops state_ok_launch
      intro: grows_trans state_ok_mono passed_mono launched_grows split: option.splits)

lemma spec_launch:
  assumes "supervised m" "state_ok (m_history m) s" "dry_run_passed (vc_launchPath v) (m_history m)"
    and "\<And>s' m'. supervised m' \<Longrightarrow> grows m m' \<Longrightarrow> state_ok (m_history m') s' \<Longrightarrow> Q s' m'"
  shows "wp (launch config now signature v s) Q m"
  unfolding launch_def wp_simps
  using assms(1-3)
  by (auto 2 20 intro!: assms(4) spec_StartKMonad spec_start_failed spec_attach_child
      spec_quiet [of "deviceID d" for d] spec_quiet [of "deviceReady d" for d]
      spec_quiet [of "removeConfigSnapshot p" for p] quiet_ops
      intro: grows_trans state_ok_mono passed_mono split: option.splits sum.splits)

lemma spec_startConfig:
  assumes "supervised m" "state_ok (m_history m) s"
    "\<forall>v. validation = Some v \<longrightarrow> dry_run_passed (vc_launchPath v) (m_history m)"
    and "\<And>s' m'. supervised m' \<Longrightarrow> grows m m' \<Longrightarrow> state_ok (m_history m') s' \<Longrightarrow> Q s' m'"
  shows "wp (startConfig config now signature validation s) Q m"
  unfolding startConfig_def wp_simps
  using assms(1-3)
  by (auto 2 16 intro!: assms(4) spec_validateConfigSnapshot spec_validation_failed spec_launch
      simp: wp_simps Let_def intro: grows_trans state_ok_mono split: option.splits sum.splits)

section \<open>One configuration\<close>

lemma spec_check_update:
  assumes "supervised m" "state_ok (m_history m) s"
    "\<forall>v. validation = Some v \<longrightarrow> dry_run_passed (vc_launchPath v) (m_history m)"
    and "\<And>r m'. supervised m' \<Longrightarrow> grows m m' \<Longrightarrow>
      (case r of Inl s' \<Rightarrow> state_ok (m_history m') s'
       | Inr w \<Rightarrow> \<forall>v. w = Some v \<longrightarrow> dry_run_passed (vc_launchPath v) (m_history m')) \<Longrightarrow> Q r m'"
  shows "wp (check_update config now signature s validation) Q m"
  unfolding check_update_def wp_simps
  using assms(1-3)
  by (auto 2 16 intro!: assms(4) spec_validateConfigSnapshot spec_scheduleRetry
      spec_quiet [of "removeConfigSnapshot p" for p] quiet_ops
      simp: wp_simps intro: grows_trans state_ok_mono passed_mono split: option.splits sum.splits)

lemma spec_switch_config:
  assumes "supervised m" "state_ok (m_history m) s"
    and "\<And>s' m'. supervised m' \<Longrightarrow> grows m m' \<Longrightarrow> state_ok (m_history m') s' \<Longrightarrow> Q s' m'"
  shows "wp (switch_config config d i signature s) Q m"
  unfolding switch_config_def wp_simps
  using assms(1,2) by (auto intro!: assms(3) spec_stop state_ok_idle)

lemma spec_reap:
  assumes "supervised m" "launched p (m_history m)"
    and "\<And>s' m'. supervised m' \<Longrightarrow> grows m m' \<Longrightarrow> state_ok (m_history m') s' \<Longrightarrow> Q s' m'"
  shows "wp (reap now p e s) Q m"
  unfolding reap_def wp_simps
  using assms(1,2)
  by (auto 2 16 intro!: assms(3) spec_signal_group spec_scheduleRetry state_ok_idle
      spec_quiet [of "cleanupCgroup p" for p] spec_quiet [of "closeProcessFD p" for p]
      spec_quiet [of "cleanupLaunchSnapshot p" for p] quiet_ops
      intro: grows_trans split: option.splits)

lemma spec_poll_process:
  assumes "supervised m" "state_ok (m_history m) s" "launched p (m_history m)"
    and "\<And>s' b m'. supervised m' \<Longrightarrow> grows m m' \<Longrightarrow> state_ok (m_history m') s' \<Longrightarrow> Q (s', b) m'"
  shows "wp (poll_process now p s) Q m"
  unfolding poll_process_def wp_simps
  using assms(1-3)
  by (auto 2 16 intro!: assms(4) spec_reap spec_quiet [of "poll_exit p" for p] quiet_ops
      simp: wp_simps intro: grows_trans state_ok_mono launched_grows split: option.splits)

lemma spec_check_process:
  assumes "supervised m" "state_ok (m_history m) s"
    and "\<And>s' b m'. supervised m' \<Longrightarrow> grows m m' \<Longrightarrow> state_ok (m_history m') s' \<Longrightarrow> Q (s', b) m'"
  shows "wp (check_process config now d s) Q m"
proof (cases "cs_process s")
  case None
  then show ?thesis using assms by (simp add: check_process_def wp_simps)
next
  case (Some p)
  have ok: "launched p (m_history m)" "dry_run_passed (proc_launchPath p) (m_history m)"
    using assms(2) Some by (simp_all add: state_ok_def)
  have marked: "state_ok (m_history m') (s\<lparr>cs_process := Some (p\<lparr>proc_unhealthySince := t\<rparr>)\<rparr>)"
    "launched (p\<lparr>proc_unhealthySince := t\<rparr>) (m_history m')" if "grows m m'" for m' t
    using launched_grows [OF that ok(1)] passed_mono [OF that ok(2)]
    by (simp_all add: state_ok_def launched_def)
  show ?thesis
    unfolding check_process_def Some option.case wp_simps
    using assms(1,2) ok
    by (auto 2 16 intro!: assms(3) marked spec_poll_process spec_stop spec_scheduleRetry
        spec_quiet [of "processHealthy c q" for c q]
        spec_quiet [of "confirmManagedConfigurationActive c" for c] quiet_ops
        simp: wp_simps Let_def intro: grows_trans state_ok_mono launched_grows state_ok_idle)
qed

lemma spec_advance_config:
  assumes "supervised m" "state_ok (m_history m) s"
    "\<forall>v. validation = Some v \<longrightarrow> dry_run_passed (vc_launchPath v) (m_history m)"
    and "\<And>m'. supervised m' \<Longrightarrow> grows m m' \<Longrightarrow> Q () m'"
  shows "wp (advance_config config now d signature validation s) Q m"
  unfolding advance_config_def wp_simps
  using assms(1-3)
  by (auto 2 16 intro!: assms(4) spec_check_process spec_put_state spec_startConfig
      simp: wp_simps intro: grows_trans state_ok_mono passed_mono)

lemma spec_supervise_config:
  assumes "supervised m" and "\<And>m'. supervised m' \<Longrightarrow> grows m m' \<Longrightarrow> Q () m'"
  shows "wp (supervise_config config now d i signature) Q m"
proof -
  have known: "wp (do {
      put_state config s;
      prevalidated \<leftarrow> takePrevalidated config signature;
      checked \<leftarrow> (if c \<and> cs_process s \<noteq> None
                  then check_update config now signature s prevalidated
                  else return (Inr prevalidated));
      case checked of
        Inl s1 \<Rightarrow> put_state config s1
      | Inr validation \<Rightarrow> do {
          s1 \<leftarrow> (if c then switch_config config d i signature s else return s);
          advance_config config now d signature validation s1 } }) Q m"
    if "state_ok (m_history m) s" for s c
    unfolding wp_simps
    using that assms(1)
    by (auto 2 16 intro!: assms(2) spec_put_state spec_takePrevalidated spec_check_update
        spec_switch_config spec_advance_config
        simp: wp_simps intro: grows_trans state_ok_mono passed_mono split: sum.splits)
  have fresh: "state_ok (m_history m) discovered_state"
    by (simp add: state_ok_def discovered_state_def)
  show ?thesis
    unfolding supervise_config_def Let_def
    by (subst wp_bind, rule spec_get_state [OF assms(1)]; simp only: option.case; rule known)
      (rule fresh, assumption)
qed

lemma spec_pause_config:
  assumes "supervised m" and "\<And>m'. supervised m' \<Longrightarrow> grows m m' \<Longrightarrow> Q () m'"
  shows "wp (pause_config config d) Q m"
  unfolding pause_config_def wp_simps
  using assms(1)
  by (auto 2 12 intro!: assms(2) spec_get_state spec_stop spec_put_state
      intro: grows_trans state_ok_idle)

lemma duplicates_frame [simp]:
  "supervised (m\<lparr>m_duplicates := c\<rparr>) = supervised m"
  "grows (m\<lparr>m_duplicates := c\<rparr>) m' = grows m m'" "grows m0 (m\<lparr>m_duplicates := c\<rparr>) = grows m0 m"
  by (simp_all add: supervised_def grows_def)

lemma spec_duplicate_config:
  assumes "supervised m" and "\<And>m'. supervised m' \<Longrightarrow> grows m m' \<Longrightarrow> Q () m'"
  shows "wp (duplicate_config config d i) Q m"
  unfolding duplicate_config_def wp_simps
  using assms(1)
  by (auto 2 12 intro!: assms(2) spec_get_state spec_put_state spec_stopAndDelete simp: wp_simps
      intro: grows_trans)

lemma spec_reconcile_config:
  assumes "supervised m" and "\<And>r m'. supervised m' \<Longrightarrow> grows m m' \<Longrightarrow> Q r m'"
  shows "wp (reconcile_config now d entry taken) Q m"
  unfolding reconcile_config_def Let_def wp_simps
  using assms(1)
  by (auto 2 18 intro!: assms(2) spec_stopAndDelete spec_pause_config spec_duplicate_config
      spec_supervise_config spec_quiet [of "worldWritable c" for c]
      spec_quiet [of "readConfigWithLimit c n" for c n] spec_quiet [of "deviceReady c" for c]
      spec_quiet [of "deviceID c" for c] quiet_ops
      simp: wp_simps intro: grows_trans split: sum.splits prod.splits)

section \<open>The pass\<close>

lemma spec_stopStates:
  assumes "supervised m" "\<forall>e \<in> set states. state_ok (m_history m) (snd e)"
  shows "wp (stopStates states d) (\<lambda>_ m'. supervised m' \<and> grows m m') m"
  unfolding stopStates_def
proof (rule wp_for_each)
  fix e m1 assume e: "e \<in> set states" and m1: "supervised m1 \<and> grows m m1"
  have "state_ok (m_history m1) (snd e)"
    using assms(2) e m1 state_ok_mono by blast
  then show "wp (case e of (config, s) \<Rightarrow> do { _ \<leftarrow> stopProcess config d s; return () })
      (\<lambda>_ m'. supervised m' \<and> grows m m') m1"
    using m1 by (cases e) (auto simp: wp_simps intro!: spec_stop intro: grows_trans)
qed (simp add: assms(1))

lemma spec_stopAll: "supervised m \<Longrightarrow> wp (stopAll d) (\<lambda>_ m'. supervised m' \<and> grows m m') m"
  using spec_stopStates [of "m\<lparr>m_states := []\<rparr>" "m_states m" d]
  by (simp add: stopAll_def wp_simps supervised_def grows_def)

lemma spec_reconcile_all:
  assumes "supervised m"
  shows "wp (reconcile_all now d configs) (\<lambda>_ m'. supervised m' \<and> grows m m') m"
proof -
  have pass: "wp (loop es taken (reconcile_config now d)) (\<lambda>_ m'. supervised m' \<and> grows m m') m"
    for es taken
    by (rule wp_loop [where I = "\<lambda>_ _ m'. supervised m' \<and> grows m m'"])
      (use assms in \<open>auto intro: spec_reconcile_config grows_trans\<close>)
  have stale: "wp (for_each cs (\<lambda>c. stopAndDelete c d))
      (\<lambda>_ m'. supervised m' \<and> grows m m') m1"
    if "supervised m1" "grows m m1" for cs m1
    by (rule wp_for_each [where I = "\<lambda>m'. supervised m' \<and> grows m m'"])
      (use that in \<open>auto intro!: spec_stopAndDelete intro: grows_trans\<close>)
  show ?thesis
    unfolding reconcile_all_def wp_simps
    by (rule wp_mono [OF pass]) (auto intro!: stale)
qed

lemma quiet_publish_pass [quiet_ops]: "steps quiet (publish_pass before)"
  by (auto simp: publish_pass_def supervision_def intro!: quiet_ops extends_same)

lemma spec_reconcile:
  assumes "supervised m"
  shows "wp (reconcile now) (\<lambda>_ m'. supervised m' \<and> grows m m') m"
proof -
  have closing: "wp (do { writeStatus; publish_pass before }) (\<lambda>_ m'. supervised m' \<and> grows m m') m1"
    if "supervised m1" "grows m m1" for before m1
    by (rule spec_quiet [OF _ that(1)]) (use that(2) in \<open>auto intro!: quiet_ops intro: grows_trans\<close>)
  have stopping: "wp (stopAll d) (\<lambda>_. wp (do { writeStatus; publish_pass before })
      (\<lambda>_ m'. supervised m' \<and> grows m m')) m1" if "supervised m1" "grows m m1" for before d m1
    by (rule wp_mono [OF spec_stopAll [OF that(1)]]) (use that(2) in \<open>auto intro: closing grows_trans\<close>)
  have working: "wp (reconcile_all now d ps) (\<lambda>_. wp (do { writeStatus; publish_pass before })
      (\<lambda>_ m'. supervised m' \<and> grows m m')) m1" if "supervised m1" "grows m m1" for before d ps m1
    by (rule wp_mono [OF spec_reconcile_all [OF that(1)]])
      (use that(2) in \<open>auto intro: closing grows_trans\<close>)
  show ?thesis
    unfolding reconcile_def Let_def wp_simps
    using assms
    by (auto 2 14 intro!: spec_quiet [of "refreshKMonadAvailability t" for t]
        spec_quiet [of refreshDevices] spec_quiet [of refreshExternalConfigurationRegistry]
        spec_quiet [of "worldWritable c" for c] spec_quiet [of configurationPaths]
        stopping [unfolded wp_simps] working [unfolded wp_simps] quiet_ops
        intro: grows_trans simp: wp_simps)
qed

end
