(* ===== verification/KDM_Sessions.thy ===== *)
theory KDM_Sessions
  imports KDM_Safety
begin

text \<open>
  Input sessions: identification (\<^verbatim>\<open>manager/identify.go\<close>), the probe for one key and the
  scan of a device's keys (\<^verbatim>\<open>manager/inputscan.go\<close>). A session holds one device; while it
  lasts the configurations of that device are paused.

  The request's context is the argument \<open>expired\<close>. The goroutine that waits for a key press
  submits \<open>finishIdentification\<close> or \<open>finishProbe\<close> with what the wait returned; a session
  object is known by its address.
\<close>

section \<open>Common parts\<close>

definition defaultSessionTimeout :: duration where "defaultSessionTimeout = 15 * second"
definition minSessionTimeout :: duration where "minSessionTimeout = second"
definition maxSessionTimeout :: duration where "maxSessionTimeout = 30 * second"

text \<open>\<^verbatim>\<open>time.Duration(ms) * time.Millisecond\<close> in 64-bit arithmetic.\<close>

definition wrap64 :: "int \<Rightarrow> int" where
  "wrap64 x = (x + 2 ^ 63) mod 2 ^ 64 - 2 ^ 63"

definition session_timeout :: "int \<Rightarrow> duration option" where
  "session_timeout timeoutMS =
     (let timeout = (if timeoutMS \<noteq> 0 then wrap64 (timeoutMS * millisecond) else defaultSessionTimeout)
      in if timeout < minSessionTimeout \<or> timeout > maxSessionTimeout then None else Some timeout)"

definition commandDeadlineResult :: api_error where
  "commandDeadlineResult = api_err ''deadline_exceeded''
     ''request deadline expired before the manager could process it''"

definition newOperationID :: "string option op" where
  "newOperationID = do {
     r \<leftarrow> random_id;
     return (map_option (\<lambda>hex. ''op_'' @ hex) r) }"

definition put_operation :: "operation \<Rightarrow> unit op" where
  "put_operation o1 = modify (\<lambda>m. m\<lparr>m_journal := (m_journal m)\<lparr>j_operations :=
     map_put (op_ID o1) o1 (j_operations (m_journal m))\<rparr>\<rparr>)"

definition prune_operations :: "unit op" where
  "prune_operations = modify (\<lambda>m. m\<lparr>m_journal := (m_journal m)\<lparr>j_operations :=
     pruneOperations (j_records (m_journal m)) (map_option ses_operationID (m_identification m))
       (map_option ses_operationID (m_probe m)) (j_operations (m_journal m))\<rparr>\<rparr>)"

text \<open>The operation of the map, or the zero value when there is none.\<close>

definition get_operation :: "string \<Rightarrow> operation op" where
  "get_operation i = gets (\<lambda>m. case map_get (j_operations (m_journal m)) i of
     None \<Rightarrow> zero_operation | Some o1 \<Rightarrow> o1)"

definition pauseDeviceConfigurations :: "string \<Rightarrow> unit op" where
  "pauseDeviceConfigurations platformID = do {
     now \<leftarrow> time_Now;
     timeout \<leftarrow> setting ms_stopTimeout;
     states \<leftarrow> gets m_states;
     for_each states (\<lambda>(config, s).
       if cs_deviceID s \<noteq> platformID then return ()
       else do {
         s1 \<leftarrow> stopProcess config (now + timeout) s;
         put_state config (transitionPhase phaseStopped s1) }) }"

text \<open>The public device ID becomes a discovered keyboard and its platform identity.\<close>

definition inputDeviceTarget :: "string \<Rightarrow> (api_error + discovered_keyboard \<times> string) op" where
  "inputDeviceTarget publicDeviceID =
     (if publicDeviceID = '''' then return (Inl (api_err ''invalid_request'' ''device_id is required''))
      else do {
        refreshDevices;
        known \<leftarrow> gets (\<lambda>m. map_get (m_devices m) publicDeviceID);
        if (case known of None \<Rightarrow> False | Some d \<Rightarrow> dev_Role d = DeviceRoleManagerOutput)
        then return (Inl (api_err ''device_not_configurable'' ''device is a manager-owned virtual output''))
        else do {
          discovered \<leftarrow> discoverKeyboardDevices;
          case discovered of
            Inl _ \<Rightarrow> return (Inl (api_err ''temporary_unavailable'' ''keyboard discovery is unavailable''))
          | Inr ks \<Rightarrow> (case find (\<lambda>k. dev_ID (dk_device k) = publicDeviceID) ks of
                None \<Rightarrow> return (Inl (api_err ''not_found'' ''device does not exist''))
              | Some k \<Rightarrow>
                  if dev_Availability (dk_device k) \<noteq> DeviceConnected
                  then return (Inl (api_err ''temporary_unavailable''
                         ''device is not connected and accessible''))
                  else do {
                    identity \<leftarrow> deviceID (dk_nodePath k);
                    return (case identity of
                        Inl _ \<Rightarrow> Inl (api_err ''temporary_unavailable'' ''device is no longer available'')
                      | Inr i \<Rightarrow> Inr (k, i)) }) }})"

definition session_operation ::
  "operation_kind \<Rightarrow> string \<Rightarrow> string \<Rightarrow> string \<Rightarrow> time \<Rightarrow> operation" where
  "session_operation kind oid device reason now =
     \<lparr>op_ID = oid, op_Kind = kind, op_State = OperationWaiting,
      op_Resource = \<lparr>ref_Kind = ResourceDevice, ref_ID = device\<rparr>, op_StartedAt = now,
      op_UpdatedAt = now, op_ReasonCode = ReasonOperationRunning, op_Reason = reason,
      op_Validation = None, op_ConfigurationRevision = 0\<rparr>"

text \<open>Both kinds of session open their node, record the operation and pause the device.\<close>

definition begin_session ::
  "(session \<Rightarrow> manager \<Rightarrow> manager) \<Rightarrow> operation \<Rightarrow> (nat \<Rightarrow> session) \<Rightarrow> operation command_result op" where
  "begin_session install o1 session_at = do {
     address \<leftarrow> gets m_nextSession;
     put_operation o1;
     publish_operation o1;
     modify (\<lambda>m. install (session_at address) (m\<lparr>m_nextSession := address + 1\<rparr>));
     pauseDeviceConfigurations (ses_platformID (session_at address));
     writeStatus;
     return (Inr o1) }"

definition open_session ::
  "operation_kind \<Rightarrow> string \<Rightarrow> string \<Rightarrow> (string \<times> KeyCode) option
   \<Rightarrow> (session \<Rightarrow> manager \<Rightarrow> manager) \<Rightarrow> discovered_keyboard \<Rightarrow> string \<Rightarrow> operation command_result op" where
  "open_session kind failure reason key install k platformID = do {
     fresh \<leftarrow> newOperationID;
     case fresh of
       None \<Rightarrow> return (Inl (api_err ''internal'' failure))
     | Some oid \<Rightarrow> do {
         unobservable \<leftarrow> keypressObserver (dk_nodePath k);
         case unobservable of
           Some _ \<Rightarrow> return (Inl (api_err ''temporary_unavailable'' ''device cannot be observed''))
         | None \<Rightarrow> do {
             now \<leftarrow> time_Now;
             begin_session install (session_operation kind oid (dev_ID (dk_device k)) reason now)
               (\<lambda>address. \<lparr>ses_address = address, ses_operationID = oid,
                 ses_deviceID = dev_ID (dk_device k), ses_platformID = platformID,
                 ses_nodePath = dk_nodePath k, ses_key = key\<rparr>) }}}"

text \<open>The outcome of a wait: the state and reason of the operation.\<close>

definition session_outcome ::
  "go_error option \<Rightarrow> string \<Rightarrow> string \<Rightarrow> string \<Rightarrow> reason_code \<times> string
   \<Rightarrow> operation_state \<times> reason_code \<times> string" where
  "session_outcome result got late ended lost =
     (case result of
        None \<Rightarrow> (OperationSucceeded, ReasonOperationSucceeded, got)
      | Some e \<Rightarrow>
          if ge_kind e = DeadlineExceeded then (OperationFailed, ReasonOperationTimedOut, late)
          else if ge_kind e = Canceled then (OperationCancelled, ReasonOperationCancelled, ended)
          else (OperationFailed, lost))"

definition needs_reason :: "go_error option \<Rightarrow> bool" where
  "needs_reason result \<longleftrightarrow> (case result of None \<Rightarrow> False
     | Some e \<Rightarrow> ge_kind e \<notin> {DeadlineExceeded, Canceled})"

section \<open>Identification\<close>

definition startIdentification :: "bool \<Rightarrow> string \<Rightarrow> int \<Rightarrow> operation command_result op" where
  "startIdentification expired device timeoutMS =
     (if expired then return (Inl commandDeadlineResult)
      else if device = '''' then return (Inl (api_err ''invalid_request'' ''device_id is required''))
      else do {
        running \<leftarrow> gets m_identification;
        if running \<noteq> None
        then return (Inl (api_err ''conflict'' ''an identification session is already running''))
        else if session_timeout timeoutMS = None
        then return (Inl (api_err ''invalid_request'' ''timeout_ms must be between 1000 and 30000''))
        else do {
          target \<leftarrow> inputDeviceTarget device;
          case target of
            Inl e \<Rightarrow> return (Inl e)
          | Inr (k, platformID) \<Rightarrow>
              open_session OperationIdentify ''cannot create identification operation''
                ''waiting for a keypress'' None (\<lambda>s m. m\<lparr>m_identification := Some s\<rparr>) k platformID }})"

definition identificationFailureReason :: "session \<Rightarrow> (reason_code \<times> string) op" where
  "identificationFailureReason s = do {
     availability \<leftarrow> deviceAvailability (ses_nodePath s);
     return (case availability of
         PlatformDisconnected \<Rightarrow>
           (ReasonDeviceDisconnected, ''device disconnected during identification'')
       | PlatformInaccessible \<Rightarrow>
           (ReasonDeviceInaccessible, ''device became inaccessible during identification'')
       | PlatformUnsupported \<Rightarrow>
           (ReasonDeviceUnsupported, ''device became unsupported during identification'')
       | PlatformConnected \<Rightarrow> (ReasonInternal, ''keypress observation failed'')) }"

definition finish_operation ::
  "session \<Rightarrow> time \<Rightarrow> operation_state \<times> reason_code \<times> string \<Rightarrow> unit op" where
  "finish_operation s now outcome = do {
     o1 \<leftarrow> get_operation (ses_operationID s);
     let o2 = (case outcome of (state, code, reason) \<Rightarrow>
           o1\<lparr>op_UpdatedAt := now, op_State := state, op_ReasonCode := code, op_Reason := reason\<rparr>);
     modify (\<lambda>m. m\<lparr>m_journal := (m_journal m)\<lparr>j_operations :=
       map_put (ses_operationID s) o2 (j_operations (m_journal m))\<rparr>\<rparr>);
     publish_operation o2 }"

definition finishIdentification :: "session \<Rightarrow> go_error option \<Rightarrow> unit op" where
  "finishIdentification s result = do {
     running \<leftarrow> gets m_identification;
     if map_option ses_address running \<noteq> Some (ses_address s) then return ()
     else do {
       now \<leftarrow> time_Now;
       lost \<leftarrow> (if needs_reason result then identificationFailureReason s
               else return (ReasonInternal, ''''));
       finish_operation s now (session_outcome result ''keypress received''
         ''no keypress was received before the timeout'' ''identification was cancelled'' lost);
       modify (\<lambda>m. m\<lparr>m_identification := None\<rparr>);
       prune_operations;
       later \<leftarrow> time_Now;
       reconcile later }}"

definition cancelled_error :: go_error where
  "cancelled_error = error_of Canceled ''context canceled''"

definition cancelIdentificationOperation :: "string \<Rightarrow> operation command_result op" where
  "cancelIdentificationOperation oid = do {
     known \<leftarrow> gets (\<lambda>m. map_get (j_operations (m_journal m)) oid);
     running \<leftarrow> gets m_identification;
     if known = None then return (Inl (api_err ''not_found'' ''operation does not exist''))
     else (case running of
         None \<Rightarrow> return (Inl (api_err ''operation_not_cancellable'' ''operation is no longer running''))
       | Some s \<Rightarrow>
           if ses_operationID s \<noteq> oid
           then return (Inl (api_err ''operation_not_cancellable'' ''operation is no longer running''))
           else do {
             finishIdentification s (Some cancelled_error);
             o1 \<leftarrow> get_operation oid;
             return (Inr o1) }) }"

definition identificationOperation :: "string \<Rightarrow> operation command_result op" where
  "identificationOperation oid = do {
     known \<leftarrow> gets (\<lambda>m. map_get (j_operations (m_journal m)) oid);
     return (case known of
         None \<Rightarrow> Inl (api_err ''not_found'' ''operation does not exist'')
       | Some o1 \<Rightarrow> Inr o1) }"

section \<open>Probe and scan\<close>

definition startProbe :: "bool \<Rightarrow> string \<Rightarrow> string \<Rightarrow> int \<Rightarrow> operation command_result op" where
  "startProbe expired device token timeoutMS =
     (if expired then return (Inl commandDeadlineResult)
      else if device = '''' then return (Inl (api_err ''invalid_request'' ''device_id is required''))
      else if token = '''' then return (Inl (api_err ''invalid_request'' ''token is required''))
      else case kmonadV1TokenCode token of
        None \<Rightarrow> return (Inl (api_err ''invalid_request'' ''token is not a kmonad-v1 key''))
      | Some code \<Rightarrow>
          if session_timeout timeoutMS = None
          then return (Inl (api_err ''invalid_request'' ''timeout_ms must be between 1000 and 30000''))
          else do {
            running \<leftarrow> gets m_probe;
            if running \<noteq> None
            then return (Inl (api_err ''conflict'' ''a probe session is already running''))
            else do {
              target \<leftarrow> inputDeviceTarget device;
              case target of
                Inl e \<Rightarrow> return (Inl e)
              | Inr (k, platformID) \<Rightarrow>
                  open_session OperationProbe ''cannot create probe operation''
                    (''waiting for the '' @ token @ '' key'') (Some (token, code))
                    (\<lambda>s m. m\<lparr>m_probe := Some s\<rparr>) k platformID }})"

definition probeFailureReason :: "session \<Rightarrow> (reason_code \<times> string) op" where
  "probeFailureReason s = do {
     availability \<leftarrow> deviceAvailability (ses_nodePath s);
     return (case availability of
         PlatformDisconnected \<Rightarrow> (ReasonDeviceDisconnected, ''device disconnected during probe'')
       | PlatformInaccessible \<Rightarrow>
           (ReasonDeviceInaccessible, ''device became inaccessible during probe'')
       | PlatformUnsupported \<Rightarrow>
           (ReasonDeviceUnsupported, ''device became unsupported during probe'')
       | PlatformConnected \<Rightarrow> (ReasonInternal, ''key observation failed'')) }"

definition finishProbe :: "session \<Rightarrow> go_error option \<Rightarrow> unit op" where
  "finishProbe s result = do {
     running \<leftarrow> gets m_probe;
     if map_option ses_address running \<noteq> Some (ses_address s) then return ()
     else do {
       now \<leftarrow> time_Now;
       let token = (case ses_key s of None \<Rightarrow> '''' | Some (t, _) \<Rightarrow> t);
       lost \<leftarrow> (if needs_reason result then probeFailureReason s
               else return (ReasonInternal, ''''));
       finish_operation s now (session_outcome result (token @ '' keypress received'')
         (''no '' @ token @ '' keypress was received before the timeout'')
         ''probe was cancelled'' lost);
       modify (\<lambda>m. m\<lparr>m_probe := None\<rparr>);
       prune_operations;
       later \<leftarrow> time_Now;
       reconcile later }}"

definition cancelProbeOperation :: "string \<Rightarrow> operation command_result op" where
  "cancelProbeOperation oid = do {
     known \<leftarrow> gets (\<lambda>m. map_get (j_operations (m_journal m)) oid);
     running \<leftarrow> gets m_probe;
     if known = None then return (Inl (api_err ''not_found'' ''operation does not exist''))
     else (case running of
         None \<Rightarrow> return (Inl (api_err ''operation_not_cancellable'' ''operation is no longer running''))
       | Some s \<Rightarrow>
           if ses_operationID s \<noteq> oid
           then return (Inl (api_err ''operation_not_cancellable'' ''operation is no longer running''))
           else do {
             finishProbe s (Some cancelled_error);
             o1 \<leftarrow> get_operation oid;
             return (Inr o1) }) }"

definition inputScan :: "bool \<Rightarrow> string \<Rightarrow> input_scan command_result op" where
  "inputScan expired device =
     (if expired then return (Inl commandDeadlineResult)
      else do {
        target \<leftarrow> inputDeviceTarget device;
        case target of
          Inl e \<Rightarrow> return (Inl e)
        | Inr (k, platformID) \<Rightarrow> do {
            reported \<leftarrow> inputKeyCapabilities (dk_nodePath k);
            case reported of
              Inl _ \<Rightarrow> return (Inl (api_err ''temporary_unavailable''
                         ''device input capabilities are unavailable''))
            | Inr codes \<Rightarrow> do {
                now \<leftarrow> time_Now;
                m \<leftarrow> gets id;
                let (scan, tracker) = scan_result (h_sha256hex (m_host m)) now device platformID codes
                      (m_inputScans m);
                modify (\<lambda>m. m\<lparr>m_inputScans := tracker\<rparr>);
                return (Inr scan) }}})"

section \<open>Sessions keep the supervisor safe\<close>

lemma quiet_sessions [quiet_ops]:
  "steps quiet newOperationID" "steps quiet (put_operation o1)" "steps quiet prune_operations"
  "steps quiet (get_operation i)" "steps quiet (identificationFailureReason s)"
  "steps quiet (probeFailureReason s)" "steps quiet (identificationOperation i)"
  by (auto simp: newOperationID_def put_operation_def prune_operations_def get_operation_def
        identificationFailureReason_def probeFailureReason_def identificationOperation_def
        supervision_def intro!: quiet_ops extends_same)

lemma quiet_inputs [quiet_ops]:
  "steps quiet (inputDeviceTarget d)" "steps quiet (finish_operation s now outcome)"
  "steps quiet (inputScan expired d)"
proof -
  show target: "steps quiet (inputDeviceTarget d)" for d
    by (auto simp: inputDeviceTarget_def intro!: quiet_ops split: sum.splits option.splits)
  show "steps quiet (finish_operation s now outcome)"
    by (auto simp: finish_operation_def supervision_def Let_def intro!: quiet_ops extends_same)
  show "steps quiet (inputScan expired d)"
    by (auto simp: inputScan_def supervision_def Let_def intro!: target quiet_ops extends_same
        split: sum.splits prod.splits)
qed

lemma sessions_frame [simp]:
  "supervised (m\<lparr>m_identification := s\<rparr>) = supervised m" "supervised (m\<lparr>m_probe := s\<rparr>) = supervised m"
  "supervised (m\<lparr>m_nextSession := n\<rparr>) = supervised m"
  "grows m (m'\<lparr>m_identification := s\<rparr>) = grows m m'" "grows m (m'\<lparr>m_probe := s\<rparr>) = grows m m'"
  "grows m (m'\<lparr>m_nextSession := n\<rparr>) = grows m m'"
  "grows (m\<lparr>m_identification := s\<rparr>) m' = grows m m'" "grows (m\<lparr>m_probe := s\<rparr>) m' = grows m m'"
  "grows (m\<lparr>m_nextSession := n\<rparr>) m' = grows m m'"
  by (simp_all add: supervised_def grows_def)

lemma spec_pauseDeviceConfigurations:
  assumes "supervised m" "\<And>m'. supervised m' \<Longrightarrow> grows m m' \<Longrightarrow> Q () m'"
  shows "wp (pauseDeviceConfigurations platformID) Q m"
proof -
  have pause: "wp (for_each (m_states m1) (\<lambda>(config, s).
      if cs_deviceID s \<noteq> platformID then return ()
      else do {
        s1 \<leftarrow> stopProcess config d s;
        put_state config (transitionPhase phaseStopped s1) })) Q m1"
    if m1: "supervised m1" "grows m m1" for d m1
  proof (rule wp_mono [OF wp_for_each [where I = "\<lambda>m'. supervised m' \<and> grows m1 m'"]])
    fix e m2 assume e: "e \<in> set (m_states m1)" and m2: "supervised m2 \<and> grows m1 m2"
    have "state_ok (m_history m2) (snd e)"
      using m1(1) e m2 state_ok_mono unfolding supervised_def by blast
    then show "wp (case e of (config, s) \<Rightarrow> if cs_deviceID s \<noteq> platformID then return ()
        else do {
          s1 \<leftarrow> stopProcess config d s;
          put_state config (transitionPhase phaseStopped s1) })
        (\<lambda>_ m'. supervised m' \<and> grows m1 m') m2"
      using m2 by (cases e) (auto simp: wp_simps intro!: spec_stop spec_put_state
          intro: grows_trans state_ok_idle)
  qed (use m1 in \<open>auto intro: assms(2) grows_trans\<close>)
  show ?thesis
    unfolding pauseDeviceConfigurations_def wp_simps
    using assms(1) by (auto intro!: spec_quiet [of time_Now] pause [unfolded wp_simps] quiet_ops)
qed

lemma spec_begin_session:
  assumes "supervised m" "\<And>r m'. supervised m' \<Longrightarrow> grows m m' \<Longrightarrow> Q r m'"
    and install: "\<And>s m1. supervised (install s m1) = supervised m1"
      "\<And>s m1. m_history (install s m1) = m_history m1"
  shows "wp (begin_session install o1 session_at) Q m"
proof -
  have put: "supervised m1 \<Longrightarrow> grows m m1 \<Longrightarrow>
      wp (do { modify (\<lambda>m. install (session_at a) (m\<lparr>m_nextSession := a + 1\<rparr>));
               pauseDeviceConfigurations p; writeStatus; return (Inr o1) }) Q m1" for a p m1
    unfolding wp_simps
    by (rule spec_pauseDeviceConfigurations, simp add: install,
        rule spec_quiet [of writeStatus, OF quiet_writeStatus], assumption)
      (auto simp: wp_simps grows_def install intro: assms(2))
  show ?thesis
    unfolding begin_session_def wp_simps
    by (rule spec_quiet [of "put_operation o1", OF _ assms(1)], rule quiet_ops,
        rule spec_quiet [of "publish_operation o1"], rule quiet_ops, assumption)
      (rule put [unfolded wp_simps], auto intro: grows_trans)
qed

lemma spec_open_session:
  assumes "supervised m" "\<And>r m'. supervised m' \<Longrightarrow> grows m m' \<Longrightarrow> Q r m'"
    and "\<And>s m1. supervised (install s m1) = supervised m1"
    and "\<And>s m1. m_history (install s m1) = m_history m1"
  shows "wp (open_session kind failure reason key install k platformID) Q m"
  unfolding open_session_def wp_simps
  using assms(1)
  by (auto 2 12 intro!: assms(2) spec_quiet [of newOperationID]
      spec_quiet [of "keypressObserver p" for p] spec_quiet [of time_Now]
      spec_begin_session [OF _ _ assms(3,4)] quiet_ops
      intro: grows_trans split: option.splits)

lemma spec_startIdentification:
  assumes "supervised m" "\<And>r m'. supervised m' \<Longrightarrow> grows m m' \<Longrightarrow> Q r m'"
  shows "wp (startIdentification expired d t) Q m"
  unfolding startIdentification_def wp_simps
  using assms(1)
  by (auto 2 12 intro!: assms(2) spec_quiet [of "inputDeviceTarget p" for p] spec_open_session
      quiet_ops intro: grows_trans split: sum.splits prod.splits)

lemma spec_startProbe:
  assumes "supervised m" "\<And>r m'. supervised m' \<Longrightarrow> grows m m' \<Longrightarrow> Q r m'"
  shows "wp (startProbe expired d token t) Q m"
  unfolding startProbe_def wp_simps
  using assms(1)
  by (auto 2 12 intro!: assms(2) spec_quiet [of "inputDeviceTarget p" for p] spec_open_session
      quiet_ops intro: grows_trans split: sum.splits prod.splits option.splits)

lemma spec_reconcile' [wp_specs]:
  assumes "supervised m" "\<And>m'. supervised m' \<Longrightarrow> grows m m' \<Longrightarrow> Q () m'"
  shows "wp (reconcile now) Q m"
  by (rule wp_mono [OF spec_reconcile [OF assms(1)]]) (simp add: assms(2))

lemma spec_finish_session:
  assumes "supervised m" "\<And>m'. supervised m' \<Longrightarrow> grows m m' \<Longrightarrow> Q () m'"
  shows "wp (finishIdentification s result) Q m" "wp (finishProbe s result) Q m"
  unfolding finishIdentification_def finishProbe_def wp_simps Let_def
  using assms(1)
  by (auto 2 16 intro!: assms(2) spec_quiet [of time_Now]
      spec_quiet [of "identificationFailureReason s" for s] spec_quiet [of "probeFailureReason s" for s]
      spec_quiet [of "finish_operation s now out" for s now out] spec_quiet [of prune_operations]
      spec_reconcile' quiet_ops intro: grows_trans)

lemma spec_cancel_session:
  assumes "supervised m" "\<And>r m'. supervised m' \<Longrightarrow> grows m m' \<Longrightarrow> Q r m'"
  shows "wp (cancelIdentificationOperation i) Q m" "wp (cancelProbeOperation i) Q m"
  unfolding cancelIdentificationOperation_def cancelProbeOperation_def wp_simps
  using assms(1)
  by (auto 2 12 intro!: assms(2) spec_finish_session spec_quiet [of "get_operation i" for i]
      quiet_ops intro: grows_trans split: option.splits)

end
