(* ===== verification/KDM_Locations.thy ===== *)
theory KDM_Locations
  imports KDM_Config
begin

text \<open>
  Source locations of validator diagnostics (\<^verbatim>\<open>manager/validation_location.go\<close>): the forms
  of a submitted behavior, the map of its \<open>deflayer\<close> assignments, and the translation of a
  line and column of the rendered candidate to one of the submitted text.

  A loop over the runes of a text is a recursion over \<open>runes\<close>; an offset is the number of
  bytes before it. The regular expressions of \<^verbatim>\<open>parseValidatorRange\<close> are the argument
  \<open>find_all\<close>, the submatches each of the three patterns finds.
\<close>

definition submittedBehaviorScope :: string where
  "submittedBehaviorScope = ''submitted_behavior''"

text \<open>\<^verbatim>\<open>utf8.Valid\<close>: a byte that is decoded alone is an ASCII character.\<close>

definition valid_utf8 :: "string \<Rightarrow> bool" where
  "valid_utf8 s = list_all (\<lambda>u. length (snd u) = 1 \<longrightarrow> fst u < 0x80) (runes s)"

section \<open>Forms\<close>

datatype behavior_form =
  Form (form_start: nat) (form_end: nat) (form_atom: string) (form_children: "behavior_form list")

definition isBehaviorDelimiter :: "char \<Rightarrow> bool" where
  "isBehaviorDelimiter value \<longleftrightarrow> value \<in> set delimiters"

text \<open>The space skipped: the number of bytes, spaces and comments.\<close>

function skipBehaviorSpace :: "string \<Rightarrow> nat" where
  "skipBehaviorSpace [] = 0"
| "skipBehaviorSpace (c # s) =
     (if c \<in> set blanks then Suc (skipBehaviorSpace s)
      else if c = CHR 0x3B
      then Suc (length (takeWhile (\<lambda>x. x \<noteq> newline) s)
             + skipBehaviorSpace (dropWhile (\<lambda>x. x \<noteq> newline) s))
      else 0)"
  by pat_completeness auto
termination
  by (relation "measure length") (auto simp: le_imp_less_Suc length_dropWhile_le)

text \<open>
  A form from its offset: the form, the offset after it and the rest of the text. The children
  of a form are read in a loop; its recursive call is guarded by the fact that the child took
  at least one byte, which always holds (\<open>parseBehaviorForm_shorter\<close>).
\<close>

function parseBehaviorForm :: "nat \<Rightarrow> string \<Rightarrow> (behavior_form \<times> nat \<times> string) option"
  and parse_children ::
    "nat \<Rightarrow> behavior_form list \<Rightarrow> nat \<Rightarrow> string \<Rightarrow> (behavior_form \<times> nat \<times> string) option"
where
  "parseBehaviorForm offset data =
     (case data of
        [] \<Rightarrow> None
      | c # s \<Rightarrow>
          if c \<noteq> CHR ''('' then
            if c = CHR '')'' then None
            else if c = dquote then
              map_option (\<lambda>(text, rest). (Form offset (offset + 1 + length text) [] [],
                  offset + 1 + length text, rest)) (quoted_span s)
            else
              let word = takeWhile (\<lambda>x. \<not> isBehaviorDelimiter x) data
              in if word = [] then None
                 else Some (Form offset (offset + length word) word [], offset + length word,
                        drop (length word) data)
          else parse_children offset [] (offset + 1) s)"
| "parse_children start children offset data =
     (let n = skipBehaviorSpace data; rest = drop n data
      in case rest of
           [] \<Rightarrow> None
         | c # s \<Rightarrow>
             if c = CHR '')''
             then Some (Form start (offset + n + 1) [] children, offset + n + 1, s)
             else
               (case parseBehaviorForm (offset + n) rest of
                  None \<Rightarrow> None
                | Some (child, next_offset, after) \<Rightarrow>
                    if length after < length rest
                    then parse_children start (children @ [child]) next_offset after
                    else None))"
  by pat_completeness auto
termination
  by (relation "measure (\<lambda>x. case x of Inl (off, s) \<Rightarrow> 2 * length s
        | Inr (st, ch, off, s) \<Rightarrow> 2 * length s + 1)")
    (auto simp: Let_def neq_Nil_conv)

declare parseBehaviorForm.simps [simp del] parse_children.simps [simp del]

lemma shorter_forms:
  "parseBehaviorForm off s = Some (f, n, r) \<Longrightarrow> length r < length s"
  "parse_children st ch off s = Some (f, n, r) \<Longrightarrow> length r < length s"
proof (induction off s and st ch off s arbitrary: f n r and f n r
    rule: parseBehaviorForm_parse_children.induct)
  case (1 offset data)
  show ?case
  proof (cases data)
    case (Cons c s)
    show ?thesis
      using 1 Cons
      by (subst (asm) parseBehaviorForm.simps)
        (fastforce simp: Let_def split: if_splits list.splits dest: quoted_span_shorter)
  qed (use 1 in \<open>simp add: parseBehaviorForm.simps\<close>)
next
  case (2 start children offset data)
  let ?k = "skipBehaviorSpace data"
  let ?rest = "drop ?k data"
  note eq = 2(3) [unfolded parse_children.simps [of start children offset data] Let_def]
  obtain c s where rest: "?rest = c # s" using eq by (cases ?rest) auto
  have le: "length ?rest \<le> length data" by simp
  show ?case
  proof (cases "c = CHR '')''")
    case True
    then show ?thesis using eq rest le by auto
  next
    case False
    then obtain child off' after where
      child: "parseBehaviorForm (offset + ?k) ?rest = Some (child, off', after)"
      using eq rest by (auto split: option.splits)
    then have "length after < length ?rest"
      "parse_children start (children @ [child]) off' after = Some (f, n, r)"
      using eq rest False by (auto split: if_splits)
    then show ?thesis
      using 2(2) [OF refl refl rest False child refl refl] le by (metis (no_types) less_le_trans less_trans)
  qed
qed

lemmas parseBehaviorForm_shorter = shorter_forms(1)

lemma skip_le: "skipBehaviorSpace s \<le> length s"
proof (induction s rule: skipBehaviorSpace.induct)
  case (2 c s)
  have "length (takeWhile (\<lambda>x. x \<noteq> newline) s) + length (dropWhile (\<lambda>x. x \<noteq> newline) s) = length s"
    by (metis length_append takeWhile_dropWhile_id)
  then show ?case using 2 by auto
qed simp

function parse_forms :: "nat \<Rightarrow> string \<Rightarrow> behavior_form list option" where
  "parse_forms offset data =
     (let n = skipBehaviorSpace data
      in if drop n data = [] then Some []
         else case parseBehaviorForm (offset + n) (drop n data) of
             None \<Rightarrow> None
           | Some (form, next_offset, rest) \<Rightarrow>
               map_option (\<lambda>forms. form # forms) (parse_forms next_offset rest))"
  by auto
termination
  by (relation "measure (\<lambda>(off, s). length s)")
    (auto dest!: parseBehaviorForm_shorter)

declare parse_forms.simps [simp del]

definition parseBehaviorForms :: "string \<Rightarrow> behavior_form list option" where
  "parseBehaviorForms data = parse_forms 0 data"

section \<open>Lines and columns\<close>

definition next_position :: "nat \<times> string \<Rightarrow> nat \<times> nat \<Rightarrow> nat \<times> nat" where
  "next_position u p = (if fst u = 10 then (fst p + 1, 1) else (fst p, snd p + 1))"

fun line_column_scan :: "nat \<times> nat \<Rightarrow> nat \<Rightarrow> nat \<times> nat \<Rightarrow> (nat \<times> string) list \<Rightarrow> nat option" where
  "line_column_scan target offset p [] = (if p = target then Some offset else None)"
| "line_column_scan target offset p (u # us) =
     (if p = target then Some offset
      else line_column_scan target (offset + length (snd u)) (next_position u p) us)"

definition lineColumnOffset :: "string \<Rightarrow> nat \<Rightarrow> nat \<Rightarrow> nat option" where
  "lineColumnOffset data line column =
     (if \<not> valid_utf8 data \<or> line < 1 \<or> column < 1 then None
      else line_column_scan (line, column) 0 (1, 1) (runes data))"

text \<open>\<open>None\<close>: a target behind the end of the text, on which the loop would not return.\<close>

fun offset_scan :: "nat \<Rightarrow> nat \<Rightarrow> nat \<times> nat \<Rightarrow> (nat \<times> string) list \<Rightarrow> (nat \<times> nat) option" where
  "offset_scan target offset p us =
     (if offset < target then
        (case us of [] \<Rightarrow> None
         | u # vs \<Rightarrow> offset_scan target (offset + length (snd u)) (next_position u p) vs)
      else Some p)"

declare offset_scan.simps [simp del]

definition offsetLineColumn :: "string \<Rightarrow> nat \<Rightarrow> (nat \<times> nat) option" where
  "offsetLineColumn data target = offset_scan target 0 (1, 1) (runes data)"

definition nextRuneOffset :: "string \<Rightarrow> nat \<Rightarrow> nat option" where
  "nextRuneOffset data offset =
     (if offset \<ge> length data \<or> \<not> valid_utf8 data then None
      else Some (offset + snd (decodeRune (drop offset data))))"

section \<open>The map of assignments\<close>

type_synonym byte_span = "nat \<times> nat"

record behavior_source_map =
  sm_behavior :: string
  sm_candidateStart :: nat
  sm_assignments :: "byte_span list"

definition form_assignments :: "behavior_form \<Rightarrow> byte_span list" where
  "form_assignments form =
     (if form_atom form \<noteq> [] \<or> length (form_children form) < 3
         \<or> form_atom (form_children form ! 0) \<noteq> ''deflayer''
      then [] else map (\<lambda>a. (form_start a, form_end a)) (drop 2 (form_children form)))"

definition newBehaviorSourceMap :: "string \<Rightarrow> nat \<Rightarrow> behavior_source_map" where
  "newBehaviorSourceMap behavior candidateStart =
     (if \<not> valid_utf8 behavior
      then \<lparr>sm_behavior = [], sm_candidateStart = 0, sm_assignments = []\<rparr>
      else case parseBehaviorForms behavior of
          None \<Rightarrow> \<lparr>sm_behavior = [], sm_candidateStart = 0, sm_assignments = []\<rparr>
        | Some forms \<Rightarrow> \<lparr>sm_behavior = behavior, sm_candidateStart = candidateStart,
            sm_assignments = concat (map form_assignments forms)\<rparr>)"

record validator_range =
  vr_startLine :: nat
  vr_startColumn :: nat
  vr_endLine :: nat
  vr_endColumn :: nat

text \<open>The outer option is the return of the function, the inner one of its loops.\<close>

definition locate_assignment ::
  "behavior_source_map \<Rightarrow> nat \<Rightarrow> nat \<Rightarrow> diagnostic_location option option" where
  "locate_assignment m sourceStart sourceEnd =
     (case find (\<lambda>a. sourceStart \<ge> fst a \<and> sourceEnd \<le> snd a) (sm_assignments m) of
        None \<Rightarrow> Some None
      | Some _ \<Rightarrow>
          (case (offsetLineColumn (sm_behavior m) sourceStart,
                 offsetLineColumn (sm_behavior m) sourceEnd) of
             (Some (startLine, startColumn), Some (endLine, endColumn)) \<Rightarrow>
               Some (Some \<lparr>loc_Scope = submittedBehaviorScope, loc_StartLine = startLine,
                 loc_StartColumn = startColumn, loc_EndLine = endLine,
                 loc_EndColumn = endColumn\<rparr>)
           | _ \<Rightarrow> None))"

definition range_end :: "string \<Rightarrow> nat \<Rightarrow> validator_range \<Rightarrow> (nat \<times> nat) option option" where
  "range_end candidate start diagnostic =
     (if vr_endLine diagnostic \<noteq> 0 then Some (Some (vr_endLine diagnostic, vr_endColumn diagnostic))
      else case nextRuneOffset candidate start of
          None \<Rightarrow> Some None
        | Some e \<Rightarrow> map_option Some (offsetLineColumn candidate e))"

definition candidateDiagnosticLocation ::
  "behavior_source_map \<Rightarrow> string \<Rightarrow> validator_range \<Rightarrow> diagnostic_location option option" where
  "candidateDiagnosticLocation m candidate diagnostic =
     (if sm_assignments m = [] then Some None
      else case lineColumnOffset candidate (vr_startLine diagnostic) (vr_startColumn diagnostic) of
          None \<Rightarrow> Some None
        | Some start \<Rightarrow>
            (case range_end candidate start diagnostic of
               None \<Rightarrow> None
             | Some None \<Rightarrow> Some None
             | Some (Some (endLine, endColumn)) \<Rightarrow>
                 (case lineColumnOffset candidate endLine endColumn of
                    None \<Rightarrow> Some None
                  | Some e \<Rightarrow>
                      if start \<ge> e \<or> start < sm_candidateStart m then Some None
                      else locate_assignment m (start - sm_candidateStart m)
                             (e - sm_candidateStart m))))"

section \<open>The validator's range\<close>

definition parsePositivePosition :: "string \<Rightarrow> string \<Rightarrow> (nat \<times> nat) option" where
  "parsePositivePosition line column =
     (case (atoi line, atoi column) of
        (Some l, Some c) \<Rightarrow> if l > 0 \<and> c > 0 then Some (nat l, nat c) else None
      | _ \<Rightarrow> None)"

text \<open>A match is its submatches 1 to 4. The state is \<open>(result, found)\<close>; \<open>None\<close> is a return
  with failure.\<close>

definition range_of_match :: "string \<times> string \<times> string \<times> string \<Rightarrow> validator_range option" where
  "range_of_match match =
     (case match of (m1, m2, m3, m4) \<Rightarrow>
        (case parsePositivePosition m1 m2 of
           None \<Rightarrow> None
         | Some (startLine, startColumn) \<Rightarrow>
             if m4 \<noteq> [] then
               (case parsePositivePosition (if m3 = [] then m1 else m3) m4 of
                  None \<Rightarrow> None
                | Some (endLine, endColumn) \<Rightarrow>
                    Some \<lparr>vr_startLine = startLine, vr_startColumn = startColumn,
                      vr_endLine = endLine, vr_endColumn = endColumn\<rparr>)
             else Some \<lparr>vr_startLine = startLine, vr_startColumn = startColumn,
                    vr_endLine = 0, vr_endColumn = 0\<rparr>))"

definition parseValidatorRange ::
  "(nat \<Rightarrow> string \<Rightarrow> (string \<times> string \<times> string \<times> string) list) \<Rightarrow> string \<Rightarrow> validator_range option" where
  "parseValidatorRange find_all output =
     (case find_all 0 output @ find_all 1 output @ find_all 2 output of
        [match] \<Rightarrow> range_of_match match
      | _ \<Rightarrow> None)"

section \<open>Positions of rune boundaries\<close>

definition size_of :: "(nat \<times> string) list \<Rightarrow> nat" where
  "size_of us = length (concat (map snd us))"

lemma size_of_simps [simp]:
  "size_of [] = 0"
  "size_of (u # us) = length (snd u) + size_of us"
  "size_of (us @ vs) = size_of us + size_of vs"
  by (simp_all add: size_of_def)

lemma size_of_runes [simp]: "size_of (runes s) = length s"
  by (simp add: size_of_def runes_concat)

lemma runes_nonempty: "u \<in> set (runes s) \<Longrightarrow> snd u \<noteq> []"
  using unit_ok_runes [of u s]
  by (auto simp: unit_ok_def encodeRune_def split: if_splits)

definition position :: "(nat \<times> string) list \<Rightarrow> nat \<times> nat \<Rightarrow> nat \<times> nat" where
  "position us p = fold next_position us p"

lemma position_simps [simp]:
  "position [] p = p"
  "position (u # us) p = position us (next_position u p)"
  by (simp_all add: position_def)

definition before :: "nat \<times> nat \<Rightarrow> nat \<times> nat \<Rightarrow> bool" where
  "before p q \<longleftrightarrow> fst p < fst q \<or> fst p = fst q \<and> snd p < snd q"

lemma position_grows: "us \<noteq> [] \<Longrightarrow> before p (position us p)"
proof (induction us arbitrary: p)
  case (Cons u us)
  have "before p (next_position u p)" by (auto simp: before_def next_position_def)
  then show ?case
    using Cons.IH [of "next_position u p"] by (cases "us = []") (auto simp: before_def)
qed simp

lemma line_column_scan_sound:
  "line_column_scan target offset p us = Some off \<Longrightarrow>
   \<exists>xs ys. us = xs @ ys \<and> off = offset + size_of xs \<and> position xs p = target"
proof (induction us arbitrary: offset p)
  case Nil
  then show ?case by (auto split: if_splits)
next
  case (Cons u us)
  show ?case
  proof (cases "p = target")
    case True
    then have "u # us = [] @ (u # us) \<and> off = offset + size_of [] \<and> position [] p = target"
      using Cons.prems by simp
    then show ?thesis by blast
  next
    case False
    then obtain xs ys where "us = xs @ ys" "off = offset + length (snd u) + size_of xs"
      "position xs (next_position u p) = target"
      using Cons.IH [of "offset + length (snd u)" "next_position u p"] Cons.prems by auto
    then have "u # us = (u # xs) @ ys \<and> off = offset + size_of (u # xs)
        \<and> position (u # xs) p = target" by simp
    then show ?thesis by blast
  qed
qed

lemma line_column_scan_complete:
  "line_column_scan (position xs p) offset p (xs @ ys) = Some (offset + size_of xs)"
proof (induction xs arbitrary: offset p)
  case Nil
  show ?case by (cases ys) simp_all
next
  case (Cons u xs)
  have "p \<noteq> position (u # xs) p"
    using position_grows [of "u # xs" p] by (auto simp: before_def)
  then show ?case using Cons [of "next_position u p" "offset + length (snd u)"] by simp
qed

lemma offset_scan_boundary:
  assumes "\<forall>u \<in> set xs. snd u \<noteq> []"
  shows "offset_scan (offset + size_of xs) offset p (xs @ ys) = Some (position xs p)"
  using assms
proof (induction xs arbitrary: offset p)
  case Nil
  show ?case by (simp add: offset_scan.simps)
next
  case (Cons u xs)
  have "offset < offset + size_of (u # xs)" using Cons.prems by simp
  then show ?case
    using Cons.IH [of "offset + length (snd u)" "next_position u p"] Cons.prems
    by (subst offset_scan.simps) (simp add: add.assoc)
qed

lemma boundary_round_trip:
  assumes "valid_utf8 data" and "runes data = xs @ ys"
  shows "offsetLineColumn data (size_of xs) = Some (position xs (1, 1))"
    and "lineColumnOffset data (fst (position xs (1, 1))) (snd (position xs (1, 1))) = Some (size_of xs)"
proof -
  have "\<forall>u \<in> set xs. snd u \<noteq> []" using runes_nonempty [of _ data] assms(2) by auto
  then show "offsetLineColumn data (size_of xs) = Some (position xs (1, 1))"
    using offset_scan_boundary [of xs 0 "(1, 1)" ys] by (simp add: offsetLineColumn_def assms(2))
  have ge: "1 \<le> fst (position zs p) \<and> 1 \<le> snd (position zs p)" if "1 \<le> fst p" "1 \<le> snd p" for zs p
    using that by (induction zs arbitrary: p) (auto simp: next_position_def)
  show "lineColumnOffset data (fst (position xs (1, 1))) (snd (position xs (1, 1))) = Some (size_of xs)"
    using line_column_scan_complete [of xs "(1, 1)" 0 ys] ge [of "(1, 1)" xs] assms
    by (simp add: lineColumnOffset_def)
qed

text \<open>
  A line and column names at most one byte, and translating that byte back gives the same
  line and column.
\<close>

theorem line_column_round_trip:
  assumes "lineColumnOffset data line column = Some offset"
  shows "offsetLineColumn data offset = Some (line, column) \<and> offset \<le> length data"
proof -
  have v: "valid_utf8 data" and scan: "line_column_scan (line, column) 0 (1, 1) (runes data) = Some offset"
    using assms by (auto simp: lineColumnOffset_def split: if_splits)
  then obtain xs ys where xs: "runes data = xs @ ys" "offset = size_of xs" "position xs (1, 1) = (line, column)"
    using line_column_scan_sound [OF scan] by auto
  have "length data = size_of xs + size_of ys"
    using size_of_runes [of data] unfolding xs(1) by simp
  then show ?thesis
    using boundary_round_trip(1) [OF v xs(1)] xs by simp
qed

theorem line_column_round_trip_witness:
  "offsetLineColumn [CHR ''a'', newline, CHR 0xC3, CHR 0xA9, CHR ''b''] 4 = Some (2, 2)"
proof -
  have "lineColumnOffset [CHR ''a'', newline, CHR 0xC3, CHR 0xA9, CHR ''b''] 2 2 = Some 4"
    by (simp add: lineColumnOffset_def valid_utf8_def runes.simps decode2_def continuation_def
        runeError_def next_position_def Let_def)
  then show ?thesis
    using line_column_round_trip [of "[CHR ''a'', newline, CHR 0xC3, CHR 0xA9, CHR ''b'']" 2 2 4] by simp
qed

section \<open>Spans stay within the behavior\<close>

function form_within :: "nat \<Rightarrow> behavior_form \<Rightarrow> bool" where
  "form_within hi (Form s e a ch) \<longleftrightarrow> s < e \<and> e \<le> hi \<and> (\<forall>c \<in> set ch. form_within hi c)"
  by pat_completeness auto
termination
  by (relation "measure (\<lambda>(hi, f). size f)") (auto simp: size_list_estimation' less_Suc_eq_le)

lemma form_within_mono: "form_within hi f \<Longrightarrow> hi \<le> hi' \<Longrightarrow> form_within hi' f"
  by (induction hi f rule: form_within.induct) auto

lemma quoted_span_length:
  "quoted_span s = Some (a, b) \<Longrightarrow> length a + length b = length s \<and> a \<noteq> []"
  by (induction s arbitrary: a b rule: quoted_span.induct)
    (fastforce split: if_splits list.splits)+

lemma form_spans:
  "parseBehaviorForm off s = Some (f, n, r) \<Longrightarrow>
     n + length r = off + length s \<and> form_within n f"
  "parse_children st ch off s = Some (f, n, r) \<Longrightarrow> st < off \<Longrightarrow> \<forall>c \<in> set ch. form_within off c \<Longrightarrow>
     n + length r = off + length s \<and> form_within n f"
proof (induction off s and st ch off s arbitrary: f n r and f n r
    rule: parseBehaviorForm_parse_children.induct)
  case (1 offset data)
  obtain c s where data: "data = c # s"
    using 1(2) by (cases data) (auto simp: parseBehaviorForm.simps)
  note eq = 1(2) [unfolded parseBehaviorForm.simps [of offset data] Let_def]
  show ?case
  proof (cases "c = CHR ''(''")
    case True
    then show ?thesis using 1(1) [OF data] eq data by simp
  next
    case False
    note paren = this
    show ?thesis
    proof (cases "c = dquote")
      case True
      then show ?thesis
        using eq data paren by (auto dest!: quoted_span_length)
    next
      case False
      let ?w = "takeWhile (\<lambda>x. \<not> isBehaviorDelimiter x) data"
      have "length ?w \<le> length data" by (rule length_takeWhile_le)
      then show ?thesis
        using eq data paren False by (auto split: if_splits)
    qed
  qed
next
  case (2 start children offset data)
  let ?k = "skipBehaviorSpace data"
  let ?rest = "drop ?k data"
  note eq = 2(3) [unfolded parse_children.simps [of start children offset data] Let_def]
  obtain c s where rest: "?rest = c # s" using eq by (cases ?rest) auto
  have len: "?k + length ?rest = length data" using skip_le [of data] by simp
  show ?case
  proof (cases "c = CHR '')''")
    case True
    then have "f = Form start (offset + ?k + 1) [] children" "n = offset + ?k + 1" "r = s"
      using eq rest by auto
    then show ?thesis
      using 2(4,5) rest len form_within_mono [of offset _ "offset + ?k + 1"] by auto
  next
    case False
    then obtain child off' after where
      child: "parseBehaviorForm (offset + ?k) ?rest = Some (child, off', after)"
      using eq rest by (auto split: option.splits)
    then have more: "parse_children start (children @ [child]) off' after = Some (f, n, r)"
      "length after < length ?rest"
      using eq rest False by (auto split: if_splits)
    have c: "off' + length after = offset + ?k + length ?rest" "form_within off' child"
      using 2(1) [OF refl refl rest False child] by auto
    then have "offset \<le> off'" using more(2) by linarith
    then have "n + length r = off' + length after \<and> form_within n f"
      using 2(2) [OF refl refl rest False child refl refl more(2) more(1)] 2(4,5) c
        form_within_mono [of offset _ off'] by auto
    then show ?thesis using c len by linarith
  qed
qed

lemma parse_forms_within:
  "parse_forms off s = Some fs \<Longrightarrow> f \<in> set fs \<Longrightarrow> form_within (off + length s) f"
proof (induction off s arbitrary: fs rule: parse_forms.induct)
  case (1 off s)
  let ?k = "skipBehaviorSpace s"
  note eq = 1(2) [unfolded parse_forms.simps [of off s] Let_def]
  show ?case
  proof (cases "drop ?k s = []")
    case True
    then show ?thesis using eq 1(3) by simp
  next
    case False
    then obtain g n r gs where p: "parseBehaviorForm (off + ?k) (drop ?k s) = Some (g, n, r)"
      "parse_forms n r = Some gs" "fs = g # gs"
      using eq by (auto split: option.splits)
    have len: "n + length r = off + length s"
      using form_spans(1) [OF p(1)] skip_le [of s] by simp
    show ?thesis
    proof (cases "f = g")
      case True
      then show ?thesis
        using form_spans(1) [OF p(1)] len form_within_mono [of n g] by simp
    next
      case False
      then show ?thesis
        using 1(1) [OF refl \<open>drop ?k s \<noteq> []\<close> p(1) refl refl p(2)] 1(3) p(3) len by simp
    qed
  qed
qed

lemma assignments_within:
  assumes "span \<in> set (sm_assignments (newBehaviorSourceMap behavior start))"
  shows "fst span < snd span \<and> snd span \<le> length behavior"
proof -
  obtain forms f where forms: "parseBehaviorForms behavior = Some forms" "f \<in> set forms"
    "span \<in> set (form_assignments f)"
    using assms by (auto simp: newBehaviorSourceMap_def split: if_splits option.splits)
  then have f: "form_within (length behavior) f"
    using parse_forms_within [of 0 behavior forms f] by (simp add: parseBehaviorForms_def)
  obtain a where a: "a \<in> set (form_children f)" "span = (form_start a, form_end a)"
    using forms(3) by (auto simp: form_assignments_def dest: in_set_dropD split: if_splits)
  then have "form_within (length behavior) a"
    using f by (cases f) auto
  then show ?thesis using a by (cases a) auto
qed

section \<open>Locations of diagnostics\<close>

lemma decodeRune_append:
  assumes "s \<noteq> []" and "\<not> (snd (decodeRune s) = 1 \<and> fst (decodeRune s) = runeError)"
  shows "decodeRune (s @ t) = decodeRune s"
proof (cases "1 < snd (decodeRune s)")
  case True
  let ?r = "fst (decodeRune s)"
  note e = encode_decode [OF True]
  have "s = encodeRune ?r @ drop (snd (decodeRune s)) s"
    using e by (metis append_take_drop_id)
  then have "decodeRune (s @ t) = (?r, length (encodeRune ?r))"
    using decode_encode [of ?r "drop (snd (decodeRune s)) s @ t"] e by (metis append.assoc)
  moreover have "length (encodeRune ?r) = snd (decodeRune s)"
    using e decodeRune_size [OF assms(1)] by simp
  ultimately show ?thesis by (simp add: prod_eq_iff)
next
  case False
  obtain c u where s: "s = c # u" using assms(1) by (cases s) auto
  have "fst (decodeRune s) < 0x80 \<and> fst (decodeRune s) = byte c"
    using decodeRune_one [OF s False] assms(2) by simp
  then show ?thesis by (simp add: s Let_def)
qed

lemma runes_append:
  "valid_utf8 a \<Longrightarrow> runes (a @ b) = runes a @ runes b"
proof (induction a rule: runes.induct)
  case (1 s)
  show ?case
  proof (cases "s = []")
    case False
    let ?d = "decodeRune s"
    have size: "0 < snd ?d" "snd ?d \<le> length s" using decodeRune_size [OF False] by auto
    have split: "runes s = (fst ?d, take (snd ?d) s) # runes (drop (snd ?d) s)"
      using False by (subst runes.simps) simp
    have v: "\<not> (snd ?d = 1 \<and> fst ?d = runeError)" "valid_utf8 (drop (snd ?d) s)"
      using 1(2) size by (auto simp: valid_utf8_def split runeError_def)
    have "runes (s @ b) = (fst ?d, take (snd ?d) s) # runes (drop (snd ?d) s @ b)"
      using False size decodeRune_append [OF False v(1), of b] by (subst runes.simps) simp
    then show ?thesis using 1(1) [OF False v(2)] split by simp
  qed (simp add: runes.simps [of "[]"])
qed

text \<open>A rune boundary of the candidate inside the behavior is one of the behavior.\<close>

lemma boundary_in_part:
  assumes pre: "valid_utf8 pre" and mid: "valid_utf8 mid"
    and split: "runes (pre @ mid @ post) = xs @ ys"
    and lo: "length pre \<le> size_of xs" and hi: "size_of xs - length pre \<le> length mid"
  obtains vs ws where "runes mid = vs @ ws" "size_of xs = length pre + size_of vs"
proof -
  have all: "xs @ ys = runes pre @ runes mid @ runes post"
    using split runes_append [OF pre] runes_append [OF mid] by simp
  have ne: "\<forall>u \<in> set (xs @ ys). snd u \<noteq> []"
    using runes_nonempty unfolding split [symmetric] by blast
  have pos: "0 < size_of zs" if "zs \<noteq> []" "set zs \<subseteq> set (xs @ ys)" for zs
    using that ne by (cases zs) auto
  from all obtain vs where vs: "xs = runes pre @ vs \<and> vs @ ys = runes mid @ runes post
      \<or> xs @ vs = runes pre \<and> ys = vs @ runes mid @ runes post"
    unfolding append_eq_append_conv2 [of xs ys "runes pre"] by blast
  have short: "vs = []" if "xs @ vs = runes pre" "ys = vs @ runes mid @ runes post"
  proof (rule ccontr)
    assume "vs \<noteq> []"
    then have "0 < size_of vs" using pos [of vs] that by auto
    moreover have "size_of xs + size_of vs = length pre"
      using that(1) size_of_runes [of pre] by (metis size_of_simps(3))
    ultimately show False using lo by linarith
  qed
  have xs: "xs = runes pre @ vs" and tail: "vs @ ys = runes mid @ runes post"
    using vs short by auto
  then have sz: "size_of xs = length pre + size_of vs" by simp
  from tail obtain ws where ws: "vs = runes mid @ ws \<and> ws @ ys = runes post
      \<or> vs @ ws = runes mid \<and> ys = ws @ runes post"
    unfolding append_eq_append_conv2 [of vs ys "runes mid"] by blast
  have "ws = []" if "vs = runes mid @ ws"
  proof (rule ccontr)
    assume "ws \<noteq> []"
    then have "0 < size_of ws" using pos [of ws] that xs by auto
    then show False using hi sz that by simp
  qed
  then have "runes mid = vs @ (if vs @ ws = runes mid then ws else [])"
    using ws by auto
  then show ?thesis using that sz by blast
qed

lemma offset_in_part:
  assumes "valid_utf8 pre" "valid_utf8 mid"
    and at: "lineColumnOffset (pre @ mid @ post) l c = Some off"
    and "length pre \<le> off" "off - length pre \<le> length mid"
  obtains l' c' where "offsetLineColumn mid (off - length pre) = Some (l', c')"
    "lineColumnOffset mid l' c' = Some (off - length pre)"
proof -
  have v: "valid_utf8 (pre @ mid @ post)"
    and scan: "line_column_scan (l, c) 0 (1, 1) (runes (pre @ mid @ post)) = Some off"
    using at by (auto simp: lineColumnOffset_def split: if_splits)
  obtain xs ys where xs: "runes (pre @ mid @ post) = xs @ ys" "off = size_of xs"
    using line_column_scan_sound [OF scan] by auto
  obtain vs ws where vs: "runes mid = vs @ ws" "size_of xs = length pre + size_of vs"
    using boundary_in_part [OF assms(1,2) xs(1)] assms(4,5) xs(2) by auto
  have "off - length pre = size_of vs" using xs(2) vs(2) by simp
  then show ?thesis
    using boundary_round_trip [OF assms(2) vs(1)] that [of "fst (position vs (1, 1))" "snd (position vs (1, 1))"]
    by simp
qed

text \<open>The next rune boundary of a valid text is within it, so the search for it returns.\<close>

lemma range_end_returns:
  assumes "lineColumnOffset candidate l c = Some start"
  shows "range_end candidate start d \<noteq> None"
proof -
  have v: "valid_utf8 candidate" and scan: "line_column_scan (l, c) 0 (1, 1) (runes candidate) = Some start"
    using assms by (auto simp: lineColumnOffset_def split: if_splits)
  obtain xs ys where xs: "runes candidate = xs @ ys" "start = size_of xs"
    using line_column_scan_sound [OF scan] by auto
  show ?thesis
  proof (cases "start < length candidate")
    case True
    have cand: "candidate = concat (map snd xs) @ concat (map snd ys)"
      using runes_concat [of candidate] xs(1) by simp
    define rest where "rest = concat (map snd ys)"
    have rest: "drop start candidate = rest" "rest \<noteq> []"
      using True cand xs(2) by (auto simp: rest_def size_of_def)
    let ?e = "start + snd (decodeRune rest)"
    have "length rest = length candidate - start" using rest(1) by (metis length_drop)
    then have "?e \<le> length candidate"
      using decodeRune_size [OF rest(2)] True by linarith
    moreover have "offset_scan target off p us \<noteq> None" if "target \<le> off + size_of us" for target off p us
      using that
    proof (induction us arbitrary: off p)
      case (Cons u us)
      then show ?case by (subst offset_scan.simps) (simp add: add.assoc)
    qed (simp add: offset_scan.simps)
    ultimately have "offsetLineColumn candidate ?e \<noteq> None"
      by (simp add: offsetLineColumn_def)
    then show ?thesis
      using True v rest(1) by (auto simp: range_end_def nextRuneOffset_def)
  next
    case False
    then show ?thesis by (simp add: range_end_def nextRuneOffset_def)
  qed
qed


definition sample_behavior :: string where "sample_behavior = ''(deflayer b x yy)''"
definition sample_prefix :: string where "sample_prefix = [CHR ''d'', newline]"
definition sample_range :: validator_range where
  "sample_range = \<lparr>vr_startLine = 2, vr_startColumn = 15, vr_endLine = 2, vr_endColumn = 17\<rparr>"


end
