(* ===== verification/KDM_Validation.thy ===== *)
theory KDM_Validation
  imports KDM_Sessions KDM_Locations
begin

text \<open>
  Candidates: rendering a submitted model (\<^verbatim>\<open>manager/render.go\<close>), checking the input it
  selects, and the validation preview (\<^verbatim>\<open>manager/validation.go\<close>).

  The context of a request is looked at several times; \<open>expired k\<close> is the answer at the
  \<open>k\<close>-th look. The dry run of a preview happens outside the manager's goroutine, so
  preparation and run are two operations.
\<close>

section \<open>Results\<close>

definition verdict ::
  "validation_outcome \<Rightarrow> string \<Rightarrow> diagnostic_severity \<Rightarrow> reason_code \<Rightarrow> string \<Rightarrow> string
   \<Rightarrow> resource_ref option \<Rightarrow> validation_result" where
  "verdict outcome i severity code reason remediation resource =
     \<lparr>val_Outcome = outcome, val_ReasonCode = code, val_Reason = reason, val_CandidateDigest = '''',
      val_Diagnostics = [\<lparr>diag_ID = i, diag_Severity = severity, diag_ReasonCode = code,
        diag_Summary = reason, diag_Remediation = remediation, diag_Resource = resource,
        diag_Location = None\<rparr>]\<rparr>"

definition renderRejected ::
  "reason_code \<Rightarrow> string \<Rightarrow> string \<Rightarrow> resource_ref option \<Rightarrow> validation_result" where
  "renderRejected = verdict ValidationRejected ''configuration.render'' DiagnosticError"

abbreviation device_ref :: "string \<Rightarrow> resource_ref" where
  "device_ref i \<equiv> \<lparr>ref_Kind = ResourceDevice, ref_ID = i\<rparr>"

definition renderBlocked :: "reason_code \<Rightarrow> string \<Rightarrow> string \<Rightarrow> string \<Rightarrow> validation_result" where
  "renderBlocked code reason remediation device =
     verdict ValidationBlocked ''device.resolution'' DiagnosticTemporary code reason remediation
       (Some (device_ref device))"

definition validationRejected ::
  "reason_code \<Rightarrow> string \<Rightarrow> string \<Rightarrow> resource_ref option \<Rightarrow> validation_result" where
  "validationRejected = verdict ValidationRejected ''validation.candidate'' DiagnosticError"

definition validationBlocked ::
  "reason_code \<Rightarrow> string \<Rightarrow> string \<Rightarrow> resource_ref option \<Rightarrow> validation_result" where
  "validationBlocked = verdict ValidationBlocked ''validation.candidate'' DiagnosticTemporary"

definition valid_because :: "string \<Rightarrow> string \<Rightarrow> validation_result" where
  "valid_because reason digest =
     \<lparr>val_Outcome = ValidationValid, val_ReasonCode = ReasonValidationSucceeded, val_Reason = reason,
      val_CandidateDigest = digest, val_Diagnostics = []\<rparr>"

section \<open>Rendering\<close>

text \<open>The Linux backend; another one would answer \<open>OutputUnavailable\<close>.\<close>

definition RenderKMonadDefcfg :: "path \<Rightarrow> string \<Rightarrow> (go_error + string) op" where
  "RenderKMonadDefcfg inputPath outputName = do {
     availability \<leftarrow> deviceAvailability inputPath;
     printable \<leftarrow> gets (\<lambda>m. h_printable (m_host m));
     return (case renderKMonadDefcfg printable
                    (if availability = PlatformConnected then DeviceConnected else DeviceDisconnected)
                    inputPath outputName of
         Inl e \<Rightarrow> Inl (errorf e) | Inr s \<Rightarrow> Inr s) }"

definition render_on :: "managed_configuration_model \<Rightarrow> discovered_keyboard
    \<Rightarrow> (validation_result + string \<times> behavior_source_map) op" where
  "render_on model k = do {
     sha \<leftarrow> gets (\<lambda>m. h_sha256hex (m_host m));
     rendered \<leftarrow> RenderKMonadDefcfg (dk_nodePath k) (managedOutputName sha (model_DeviceID model));
     return (case rendered of
         Inl e \<Rightarrow> Inl
           (if ge_kind e = OutputUnavailable
            then renderBlocked ReasonPlatformUnsupported
                   ''the active platform backend cannot render a manager-owned KMonad output''
                   ''Use a platform backend with KMonad output support, then retry.''
                   (model_DeviceID model)
            else renderBlocked ReasonDeviceInaccessible
                   ''the selected device cannot be rendered as a KMonad input/output configuration''
                   ''Check device access, then retry.'' (model_DeviceID model))
       | Inr defcfg \<Rightarrow>
           Inr (render_content defcfg (model_Behavior model),
                newBehaviorSourceMap (model_Behavior model) (behavior_start defcfg))) }"

definition stale_device :: "string \<Rightarrow> string \<Rightarrow> string \<Rightarrow> validation_result" where
  "stale_device reason remediation device =
     renderRejected ReasonConfigurationRevisionStale reason remediation (Some (device_ref device))"

definition unrenderable_device :: "device option \<Rightarrow> string \<Rightarrow> validation_result option" where
  "unrenderable_device known device =
     (case known of
        None \<Rightarrow> Some (stale_device ''the selected device is no longer known''
                        ''Refresh devices and select a current keyboard.'' device)
      | Some d \<Rightarrow>
          if dev_Role d = DeviceRoleManagerOutput
          then Some (renderRejected ReasonDeviceManagerOutput
                 ''the selected device is a manager-owned virtual output''
                 ''Select a physical keyboard input.'' (Some (device_ref device)))
          else if dev_Availability d \<noteq> DeviceConnected
          then Some (renderBlocked (dev_ReasonCode d) (dev_Reason d)
                 ''Reconnect or fix access to the selected keyboard, then retry.'' device)
          else None)"

definition renderManagedConfigurationWithSourceMap ::
  "managed_configuration_model \<Rightarrow> (validation_result + string \<times> behavior_source_map) op" where
  "renderManagedConfigurationWithSourceMap model =
     (let device = model_DeviceID model
      in if device = ''''
      then return (Inl (renderRejected ReasonConfigurationRevisionStale ''a device ID is required''
             ''Select a currently discovered keyboard.'' None))
      else if containsManagerOwnedConfiguration (model_Behavior model)
      then return (Inl (renderRejected ReasonCandidateUnsupported
             ''behavior must not declare manager-owned KMonad configuration''
             ''Remove defcfg, device-file, uinput-sink, and other input/output forms; the manager renders them.''
             None))
      else do {
        refreshDevices;
        known \<leftarrow> gets (\<lambda>m. map_get (m_devices m) device);
        case unrenderable_device known device of
          Some r \<Rightarrow> return (Inl r)
        | None \<Rightarrow> do {
            discovered \<leftarrow> discoverKeyboardDevices;
            case discovered of
              Inl _ \<Rightarrow> return (Inl (renderBlocked ReasonDependencyUnavailable
                         ''keyboard discovery is unavailable''
                         ''Retry after Linux input discovery is available.'' device))
            | Inr ks \<Rightarrow> (case filter (\<lambda>k. dev_ID (dk_device k) = device) ks of
                  [] \<Rightarrow> return (Inl (stale_device
                          ''the selected device changed before it could be resolved''
                          ''Refresh devices and select the keyboard again.'' device))
                | [k] \<Rightarrow> render_on model k
                | _ \<Rightarrow> return (Inl (renderBlocked ReasonDeviceIdentityAmbiguous
                          ''the selected device resolves to multiple input interfaces''
                          ''Disconnect duplicate devices or select an unambiguous keyboard.'' device))) }})"

definition renderManagedConfiguration ::
  "managed_configuration_model \<Rightarrow> (validation_result + string) op" where
  "renderManagedConfiguration model = do {
     rendered \<leftarrow> renderManagedConfigurationWithSourceMap model;
     return (case rendered of Inl r \<Rightarrow> Inl r | Inr (content, _) \<Rightarrow> Inr content) }"

section \<open>The input of a candidate\<close>

text \<open>\<open>None\<close> is a valid candidate; otherwise the reason it is not.\<close>

definition refused_claims :: "string list \<Rightarrow> string list \<Rightarrow> validation_result option" where
  "refused_claims allowed claims =
     (if list_all (\<lambda>c. c \<in> set allowed) claims then None
      else Some (validationBlocked ReasonDeviceConflicting
             ''input device is already claimed by a configuration''
             ''Select an unclaimed keyboard or update its existing configuration.'' None))"

definition checkCandidateInputForClaims :: "string \<Rightarrow> string list \<Rightarrow> validation_result option op" where
  "checkCandidateInputForClaims content allowedClaims =
     (case device_of content of
        Inl _ \<Rightarrow> return (Some (validationRejected ReasonValidationFailed
                   ''candidate does not declare a valid input device''
                   ''Provide a valid KMonad input form or manager-owned model.'' None))
      | Inr device \<Rightarrow> do {
          (availability, code, reason) \<leftarrow> configuredDeviceAvailability device;
          if availability \<noteq> DeviceConnected
          then return (Some (validationBlocked code reason
                 ''Reconnect or fix access to the selected keyboard, then retry.'' None))
          else do {
            resolved \<leftarrow> deviceID device;
            case resolved of
              Inl _ \<Rightarrow> return (Some (validationBlocked ReasonDeviceDisconnected
                         ''input device changed during validation''
                         ''Reconnect the keyboard, then retry.'' None))
            | Inr identity \<Rightarrow> do {
                refreshDevices;
                m \<leftarrow> gets id;
                let public_id = opaqueDeviceID (h_sha256hex (m_host m)) identity;
                let found = (case map_get (m_discoveredNodeDevices m) identity of
                      Some d \<Rightarrow> Some d | None \<Rightarrow> map_get (m_devices m) public_id);
                case found of
                  Some d \<Rightarrow>
                    return (if dev_Role d = DeviceRoleManagerOutput
                      then Some (validationRejected ReasonDeviceManagerOutput
                             ''candidate selects a manager-owned virtual output''
                             ''Select a physical keyboard input.'' (Some (device_ref public_id)))
                      else refused_claims allowedClaims (dev_ConfiguredBy d))
                | None \<Rightarrow> do {
                    claims \<leftarrow> deviceClaims;
                    return (refused_claims allowedClaims
                      (case map_get claims identity of None \<Rightarrow> [] | Some ns \<Rightarrow> ns)) }}}})"

definition checkCandidateInput :: "string \<Rightarrow> validation_result option op" where
  "checkCandidateInput content = checkCandidateInputForClaims content ['''']"

section \<open>The preview\<close>

record validation_preparation =
  vp_snapshotPath :: path
  vp_command :: string
  vp_timeout :: duration
  vp_candidate :: string
  vp_sourceMap :: behavior_source_map
  vp_candidateDigest :: string

definition empty_source_map :: behavior_source_map where
  "empty_source_map = \<lparr>sm_behavior = '''', sm_candidateStart = 0, sm_assignments = []\<rparr>"

definition submittedBehaviorDigest :: "(string \<Rightarrow> string) \<Rightarrow> string \<Rightarrow> string" where
  "submittedBehaviorDigest sha256hex behavior = ''sha256:'' @ sha256hex behavior"

abbreviation digested :: "string \<Rightarrow> validation_result \<Rightarrow> validation_result" where
  "digested d r \<equiv> r\<lparr>val_CandidateDigest := d\<rparr>"

definition too_large :: validation_result where
  "too_large = validationRejected ReasonConfigurationTooLarge
     ''candidate exceeds the configuration size limit'' ''Reduce the candidate size, then retry.'' None"

definition candidate_limit :: "manager_settings \<Rightarrow> int" where
  "candidate_limit s = (if ms_maxConfigBytes s \<le> 0 then defaultMaxConfigBytes else ms_maxConfigBytes s)"

definition prepare_content ::
  "(nat \<Rightarrow> bool) \<Rightarrow> string \<Rightarrow> string \<times> behavior_source_map
   \<Rightarrow> (validation_result + validation_preparation) command_result op" where
  "prepare_content expired digest rendered = do {
     let (content, sourceMap) = rendered;
     settings \<leftarrow> gets m_settings;
     if int (length content) > candidate_limit settings then return (Inr (Inl (digested digest too_large)))
     else do {
       refused \<leftarrow> checkCandidateInput content;
       case refused of
         Some r \<Rightarrow> return (Inr (Inl (digested digest r)))
       | None \<Rightarrow>
           if expired 1 then return (Inl commandDeadlineResult)
           else do {
             created \<leftarrow> createValidationSnapshot content;
             case created of
               Inl _ \<Rightarrow> return (Inr (Inl (digested digest (validationBlocked ReasonDependencyUnavailable
                          ''cannot create a validation snapshot''
                          ''Check the manager runtime directory, then retry.'' None))))
             | Inr p \<Rightarrow>
                 if expired 2
                 then do { _ \<leftarrow> removeConfigSnapshot p; return (Inl commandDeadlineResult) }
                 else return (Inr (Inr \<lparr>vp_snapshotPath = p, vp_command = ms_kmonadCommand settings,
                        vp_timeout = (if ms_dryRunTimeout settings \<le> 0 then 30 * second
                                      else ms_dryRunTimeout settings),
                        vp_candidate = content, vp_sourceMap = sourceMap,
                        vp_candidateDigest = digest\<rparr>)) }}}"

definition prepareValidationPreview ::
  "(nat \<Rightarrow> bool) \<Rightarrow> managed_configuration_model option \<Rightarrow> string option
   \<Rightarrow> (validation_result + validation_preparation) command_result op" where
  "prepareValidationPreview expired model content =
     (if expired 0 then return (Inl commandDeadlineResult)
      else case (model, content) of
        (Some md, None) \<Rightarrow> do {
          sha \<leftarrow> gets (\<lambda>m. h_sha256hex (m_host m));
          let digest = submittedBehaviorDigest sha (model_Behavior md);
          rendered \<leftarrow> renderManagedConfigurationWithSourceMap md;
          case rendered of
            Inl r \<Rightarrow> return (Inr (Inl (digested digest r)))
          | Inr c \<Rightarrow> prepare_content expired digest c }
      | (None, Some c) \<Rightarrow> prepare_content expired '''' (c, empty_source_map)
      | _ \<Rightarrow> return (Inl (api_err ''invalid_request'' ''provide exactly one of model or content'')))"

text \<open>The validator's output is kept up to 64 KiB; the writes come from the child.\<close>

definition limitedOutputBuffer_write :: "nat \<Rightarrow> string \<Rightarrow> string \<Rightarrow> string" where
  "limitedOutputBuffer_write limit buffer data =
     (if length buffer < limit then buffer @ take (limit - length buffer) data else buffer)"

definition captured_output :: "string list \<Rightarrow> string" where
  "captured_output writes = fold (\<lambda>d b. limitedOutputBuffer_write 65536 b d) writes ''''"

definition isDryRunTimeout :: "go_error \<Rightarrow> bool" where
  "isDryRunTimeout e \<longleftrightarrow> hasPrefix (ge_text e) ''KMonad dry-run timed out''"

definition timed_out :: "go_error \<Rightarrow> bool" where
  "timed_out e \<longleftrightarrow> ge_kind e = DeadlineExceeded \<or> ge_kind e = Canceled \<or> isDryRunTimeout e"

text \<open>
  The verdict of a preview. \<open>find_all\<close> stands for the three regular expressions of the validator's
  messages; the outer \<open>None\<close> is an index panic in the translation of a location.
\<close>

definition with_location ::
  "diagnostic_location option \<Rightarrow> validation_result \<Rightarrow> validation_result" where
  "with_location l r = r\<lparr>val_Diagnostics := (case val_Diagnostics r of
     [] \<Rightarrow> [] | d # ds \<Rightarrow> d\<lparr>diag_Location := l\<rparr> # ds)\<rparr>"

definition preview_verdict ::
  "(nat \<Rightarrow> string \<Rightarrow> (string \<times> string \<times> string \<times> string) list) \<Rightarrow> string
   \<Rightarrow> validation_preparation \<Rightarrow> go_error option \<Rightarrow> validation_result option" where
  "preview_verdict find_all output p failed =
     (case failed of
        None \<Rightarrow> Some (valid_because ''candidate passed KMonad validation'' (vp_candidateDigest p))
      | Some e \<Rightarrow>
          if timed_out e
          then Some (digested (vp_candidateDigest p) (validationBlocked ReasonValidationTimedOut
                 ''KMonad validation timed out''
                 ''Retry validation or increase the configured dry-run timeout.'' None))
          else if ge_kind e = CommandNotFound
          then Some (digested (vp_candidateDigest p) (validationBlocked ReasonDependencyUnavailable
                 ''KMonad is unavailable''
                 ''Install KMonad or correct the configured command, then retry.'' None))
          else
            let r = digested (vp_candidateDigest p) (validationRejected ReasonValidationFailed
                      ''KMonad rejected the candidate''
                      ''Correct the KMonad configuration and retry.'' None)
            in case parseValidatorRange find_all output of
                 None \<Rightarrow> Some r
               | Some found \<Rightarrow> map_option (\<lambda>l. with_location l r)
                   (candidateDiagnosticLocation (vp_sourceMap p) (vp_candidate p) found))"

definition runPreparedValidation ::
  "(nat \<Rightarrow> string \<Rightarrow> (string \<times> string \<times> string \<times> string) list) \<Rightarrow> string list
   \<Rightarrow> validation_preparation \<Rightarrow> validation_result option op" where
  "runPreparedValidation find_all writes p = do {
     failed \<leftarrow> dryRunContextWithWriters (vp_command p) (vp_timeout p) (vp_snapshotPath p);
     _ \<leftarrow> removeConfigSnapshot (vp_snapshotPath p);
     return (preview_verdict find_all (captured_output writes) p failed) }"

section \<open>Nothing here touches the supervision\<close>

lemma quiet_render [quiet_ops]:
  "steps quiet (RenderKMonadDefcfg p n)" "steps quiet (render_on model k)"
proof -
  show r: "steps quiet (RenderKMonadDefcfg p n)" for p n
    by (auto simp: RenderKMonadDefcfg_def intro!: quiet_ops)
  show "steps quiet (render_on model k)"
    by (auto simp: render_on_def intro!: r)
qed

lemma quiet_rendering [quiet_ops]:
  "steps quiet (renderManagedConfigurationWithSourceMap model)"
  "steps quiet (renderManagedConfiguration model)"
proof -
  show r: "steps quiet (renderManagedConfigurationWithSourceMap model)" for model
    by (auto simp: renderManagedConfigurationWithSourceMap_def Let_def
          intro!: quiet_ops split: option.splits sum.splits list.splits)
  show "steps quiet (renderManagedConfiguration model)"
    by (auto simp: renderManagedConfiguration_def intro!: r)
qed

lemma quiet_candidate [quiet_ops]:
  "steps quiet (checkCandidateInputForClaims content allowed)" "steps quiet (checkCandidateInput content)"
proof -
  show r: "steps quiet (checkCandidateInputForClaims content allowed)" for allowed
    by (auto simp: checkCandidateInputForClaims_def Let_def
          intro!: quiet_ops split: option.splits sum.splits)
  show "steps quiet (checkCandidateInput content)"
    by (simp add: checkCandidateInput_def r)
qed

lemma spec_createValidationSnapshot:
  assumes "supervised m"
    "\<And>r m'. supervised m' \<Longrightarrow> grows m m' \<Longrightarrow> (\<forall>p. r = Inr p \<longrightarrow> written p (m_history m')) \<Longrightarrow> Q r m'"
  shows "wp (createValidationSnapshot data) Q m"
  unfolding createValidationSnapshot_def wp_simps
  using assms(1)
  by (auto 2 12 intro!: assms(2) spec_call spec_createSnapshot intro: grows_trans
      split: sum.splits option.splits)

definition preview_written :: "validation_preparation \<Rightarrow> history \<Rightarrow> bool" where
  "preview_written p h \<longleftrightarrow> written (vp_snapshotPath p) h"

lemma spec_prepare_content:
  assumes "supervised m"
    "\<And>r m'. supervised m' \<Longrightarrow> grows m m' \<Longrightarrow>
       (\<forall>p. r = Inr (Inr p) \<longrightarrow> preview_written p (m_history m')) \<Longrightarrow> Q r m'"
  shows "wp (prepare_content expired digest rendered) Q m"
  unfolding prepare_content_def wp_simps
  using assms(1)
  by (auto 2 12 intro!: assms(2) spec_quiet [of "checkCandidateInput c" for c]
      spec_createValidationSnapshot spec_quiet [of "removeConfigSnapshot p" for p] quiet_ops
      simp: preview_written_def wp_simps intro: grows_trans split: prod.splits option.splits sum.splits)

lemma spec_prepareValidationPreview:
  assumes "supervised m"
    "\<And>r m'. supervised m' \<Longrightarrow> grows m m' \<Longrightarrow>
       (\<forall>p. r = Inr (Inr p) \<longrightarrow> preview_written p (m_history m')) \<Longrightarrow> Q r m'"
  shows "wp (prepareValidationPreview expired model content) Q m"
  unfolding prepareValidationPreview_def
  using assms(1)
  by (auto 2 12 intro!: assms(2) spec_quiet [of "renderManagedConfigurationWithSourceMap c" for c]
      spec_prepare_content quiet_ops simp: wp_simps Let_def
      intro: grows_trans split: prod.splits option.splits sum.splits)

lemma spec_runPreparedValidation:
  assumes "supervised m" "preview_written p (m_history m)"
    "\<And>r m'. supervised m' \<Longrightarrow> grows m m' \<Longrightarrow> Q r m'"
  shows "wp (runPreparedValidation find_all writes p) Q m"
  unfolding runPreparedValidation_def wp_simps
  using assms(1,2)
  by (auto 2 12 intro!: assms(3) spec_dryRunContext spec_quiet [of "removeConfigSnapshot p" for p]
      quiet_ops simp: preview_written_def intro: grows_trans)

end
