(* ===== verification/KDM_Apply.thy ===== *)
theory KDM_Apply
  imports KDM_Validation
begin

text \<open>
  Managed configurations: applying a model (\<^verbatim>\<open>manager/apply.go\<close>), enabling, disabling and
  deleting (\<^verbatim>\<open>manager/lifecycle.go\<close>), adopting an external file (\<^verbatim>\<open>manager/adopt.go\<close>).

  An apply is three operations: the owner prepares a candidate, a worker runs KMonad's dry run
  on it, the owner commits it. Other operations of the manager may come between them.
\<close>

section \<open>Waiting for an activation\<close>

text \<open>
  The loop sleeps five milliseconds in every round and gives up after 500 milliseconds, so 102
  rounds are enough (\<open>activation_wait_ends\<close>); \<open>None\<close> is running out of rounds.
\<close>

definition same_process :: "processState \<Rightarrow> bool op" where
  "same_process p = do {
     running \<leftarrow> processStillRunning p;
     if \<not> running then return False
     else do { tick \<leftarrow> processStartTime (proc_pid p); return (tick = proc_startTick p) } }"

definition running_process :: "path \<Rightarrow> processState option op" where
  "running_process config = gets (\<lambda>m. case map_get (m_states m) config of
     None \<Rightarrow> None | Some s \<Rightarrow> cs_process s)"

fun await_activation :: "path \<Rightarrow> time \<Rightarrow> time option \<Rightarrow> nat \<Rightarrow> bool option op" where
  "await_activation config deadline firstHealthy 0 = return None"
| "await_activation config deadline firstHealthy (Suc rounds) = do {
     known \<leftarrow> running_process config;
     case known of
       None \<Rightarrow> return (Some False)
     | Some p \<Rightarrow> do {
         running \<leftarrow> processStillRunning p;
         if \<not> running then return (Some False)
         else do {
           now \<leftarrow> time_Now;
           if now > deadline then return (Some False)
           else do {
             healthy \<leftarrow> processHealthy config p;
             first \<leftarrow> (if healthy \<and> firstHealthy = None
                       then do { t \<leftarrow> time_Now; return (Some t) } else return firstHealthy);
             settled \<leftarrow> (case first of
                 None \<Rightarrow> return False
               | Some t \<Rightarrow> do { now1 \<leftarrow> time_Now; return (now1 - t \<ge> 100 * millisecond) });
             if settled then do { same \<leftarrow> same_process p; return (Some same) }
             else do {
               time_Sleep (5 * millisecond);
               await_activation config deadline first rounds }}}}}"

definition activation_rounds :: nat where "activation_rounds = 102"

definition activation_wait :: "path \<Rightarrow> duration \<Rightarrow> bool option op" where
  "activation_wait config timeout = do {
     now \<leftarrow> time_Now;
     await_activation config (now + timeout) None activation_rounds }"

definition waitForManagedActivation :: "path \<Rightarrow> duration \<Rightarrow> bool op" where
  "waitForManagedActivation config timeout = do {
     r \<leftarrow> activation_wait config timeout;
     return (r = Some True) }"

definition activation_timeout :: duration where "activation_timeout = 500 * millisecond"

text \<open>The process of the configuration, when the activation was confirmed and it still runs.\<close>

definition confirmed_process :: "bool \<Rightarrow> path \<Rightarrow> processState option op" where
  "confirmed_process confirmed config = do {
     known \<leftarrow> running_process config;
     case known of
       None \<Rightarrow> return None
     | Some p \<Rightarrow>
         if \<not> confirmed then return None
         else do { same \<leftarrow> same_process p; return (if same then Some p else None) } }"

section \<open>Preparing\<close>

record apply_params =
  ap_ConfigurationID :: string
  ap_Name :: string
  ap_Model :: managed_configuration_model
  ap_ExpectedRevision :: "nat option"
  ap_adoptExternalID :: string
  ap_operationKind :: "operation_kind option"
  ap_operationID :: string

record apply_preparation =
  pr_configuration :: managed_configuration
  pr_previous :: "managed_configuration option"
  pr_previousLive :: bool
  pr_external :: "external_configuration option"
  pr_content :: string
  pr_snapshotPath :: path
  pr_command :: string
  pr_timeout :: duration
  pr_operationID :: string

definition next_revision :: "nat \<Rightarrow> nat" where
  "next_revision n = (n + 1) mod 2 ^ 64"

definition newApplyOperation :: "string \<Rightarrow> operation op" where
  "newApplyOperation cid = do {
     fresh \<leftarrow> newOperationID;
     now \<leftarrow> time_Now;
     return \<lparr>op_ID = (case fresh of None \<Rightarrow> ''op_apply'' | Some i \<Rightarrow> i), op_Kind = OperationApply,
       op_State = OperationRunning, op_Resource = \<lparr>ref_Kind = ResourceConfiguration, ref_ID = cid\<rparr>,
       op_StartedAt = now, op_UpdatedAt = now, op_ReasonCode = ReasonOperationRunning,
       op_Reason = ''validating configuration candidate'', op_Validation = None,
       op_ConfigurationRevision = 0\<rparr> }"

definition operationKindOrApply :: "apply_params \<Rightarrow> operation_kind" where
  "operationKindOrApply params =
     (case ap_operationKind params of None \<Rightarrow> OperationApply | Some k \<Rightarrow> k)"

definition apply_operation :: "apply_params \<Rightarrow> managed_configuration \<Rightarrow> operation op" where
  "apply_operation params c = do {
     o1 \<leftarrow> newApplyOperation (mc_ID c);
     return (o1\<lparr>op_ID := (if ap_operationID params \<noteq> '''' then ap_operationID params else op_ID o1),
       op_Kind := operationKindOrApply params, op_ConfigurationRevision := mc_Revision c\<rparr>) }"

definition finishApplyValidation :: "operation \<Rightarrow> validation_result \<Rightarrow> operation op" where
  "finishApplyValidation o1 validation = do {
     now \<leftarrow> time_Now;
     let o2 = o1\<lparr>op_UpdatedAt := now, op_Validation := Some validation, op_State := OperationRejected,
           op_ReasonCode := val_ReasonCode validation, op_Reason := val_Reason validation\<rparr>;
     put_operation o2;
     publish_operation o2;
     prune_operations;
     return o2 }"

definition rejected_apply ::
  "operation \<Rightarrow> validation_result \<Rightarrow> (operation + apply_preparation) command_result op" where
  "rejected_apply o1 r = do { o2 \<leftarrow> finishApplyValidation o1 r; return (Inr (Inl o2)) }"

text \<open>The configuration to change: a new one, or a known one at the expected revision.\<close>

definition new_configuration :: "string \<Rightarrow> string \<Rightarrow> managed_configuration" where
  "new_configuration i name =
     \<lparr>mc_Version = managedConfigurationStoreVersion, mc_Ownership = ConfigurationManaged, mc_ID = i,
      mc_Name = name, mc_Model = \<lparr>model_DeviceID = '''', model_Behavior = ''''\<rparr>, mc_Revision = 0,
      mc_ContentRevision = 0, mc_ActiveRevision = 0, mc_Digest = '''', mc_Enabled = True\<rparr>"

definition apply_target :: "apply_params \<Rightarrow> managed_configuration command_result op" where
  "apply_target params = do {
     known \<leftarrow> gets (\<lambda>m. map_get (m_managedConfigs m) (ap_ConfigurationID params));
     if ap_ConfigurationID params = ''''
     then do {
       fresh \<leftarrow> newConfigurationID;
       return (case fresh of
           None \<Rightarrow> Inl (api_err ''internal'' ''cannot create configuration ID'')
         | Some i \<Rightarrow>
             if ap_Name params = ''''
             then Inl (api_err ''invalid_request'' ''name is required when creating a configuration'')
             else Inr (new_configuration i (ap_Name params))) }
     else return (case known of
         None \<Rightarrow> Inl (api_err ''not_found'' ''managed configuration does not exist'')
       | Some c \<Rightarrow>
           if \<not> validConfigurationID (ap_ConfigurationID params)
           then Inl (api_err ''not_found'' ''managed configuration does not exist'')
           else (case ap_ExpectedRevision params of
               None \<Rightarrow> Inl (api_err ''invalid_request''
                        ''expected_revision is required when updating a configuration'')
             | Some r \<Rightarrow>
                 if r \<noteq> mc_Revision c
                 then Inl (api_err ''stale_revision''
                        ''managed configuration changed; refresh it before applying'')
                 else Inr c)) }"

definition previously_live :: "managed_configuration option \<Rightarrow> bool op" where
  "previously_live previous =
     (case previous of
        None \<Rightarrow> return False
      | Some c \<Rightarrow> do {
          config \<leftarrow> gets (\<lambda>m. managedConfigurationPath (m_settings m) c);
          known \<leftarrow> running_process config;
          case known of None \<Rightarrow> return False | Some p \<Rightarrow> processHealthy config p })"

definition external_target ::
  "apply_params \<Rightarrow> manager \<Rightarrow> external_configuration option command_result" where
  "external_target params m =
     (if ap_adoptExternalID params = '''' then Inr None
      else case map_get (m_externalConfigs m) (ap_adoptExternalID params) of
          None \<Rightarrow> Inl (api_err ''not_found''
                   ''external configuration does not exist or is already adopted'')
        | Some x \<Rightarrow>
            if xc_AdoptedBy x \<noteq> ''''
            then Inl (api_err ''not_found''
                   ''external configuration does not exist or is already adopted'')
            else Inr (Some x))"

definition allowed_claims :: "managed_configuration \<Rightarrow> external_configuration option \<Rightarrow> string list" where
  "allowed_claims c external =
     mc_ID c # (case external of None \<Rightarrow> [] | Some x \<Rightarrow> [xc_Name x])"

definition revised :: "apply_params \<Rightarrow> managed_configuration \<Rightarrow> managed_configuration" where
  "revised params c =
     c\<lparr>mc_Name := (if ap_Name params \<noteq> '''' then ap_Name params else mc_Name c),
       mc_Model := ap_Model params, mc_Revision := next_revision (mc_Revision c),
       mc_ContentRevision := next_revision (mc_Revision c)\<rparr>"

definition prepare_snapshot ::
  "(nat \<Rightarrow> bool) \<Rightarrow> apply_preparation \<Rightarrow> operation
   \<Rightarrow> (operation + apply_preparation) command_result op" where
  "prepare_snapshot expired p o1 = do {
     created \<leftarrow> createValidationSnapshot (pr_content p);
     case created of
       Inl _ \<Rightarrow> rejected_apply o1 (validationBlocked ReasonDependencyUnavailable
                  ''cannot create an apply validation snapshot''
                  ''Check the manager runtime directory, then retry.'' None)
     | Inr path \<Rightarrow>
         if expired 1
         then do { _ \<leftarrow> removeConfigSnapshot path; return (Inl commandDeadlineResult) }
         else do {
           sha \<leftarrow> gets (\<lambda>m. h_sha256hex (m_host m));
           put_operation o1;
           publish_operation o1;
           return (Inr (Inr (p\<lparr>pr_snapshotPath := path, pr_operationID := op_ID o1,
             pr_configuration := (pr_configuration p)\<lparr>mc_Digest := sha (pr_content p)\<rparr>\<rparr>))) }}"

definition prepare_revision ::
  "(nat \<Rightarrow> bool) \<Rightarrow> apply_params \<Rightarrow> managed_configuration \<Rightarrow> managed_configuration option \<Rightarrow> bool
   \<Rightarrow> external_configuration option \<Rightarrow> (operation + apply_preparation) command_result op" where
  "prepare_revision expired params c previous live external = do {
     rendered \<leftarrow> renderManagedConfiguration (mc_Model c);
     o1 \<leftarrow> apply_operation params c;
     settings \<leftarrow> gets m_settings;
     case rendered of
       Inl r \<Rightarrow> rejected_apply o1 r
     | Inr content \<Rightarrow>
         if int (length content) > candidate_limit settings then rejected_apply o1 too_large
         else do {
           refused \<leftarrow> checkCandidateInputForClaims content (allowed_claims c external);
           case refused of
             Some r \<Rightarrow> rejected_apply o1 r
           | None \<Rightarrow> prepare_snapshot expired
               \<lparr>pr_configuration = c, pr_previous = previous, pr_previousLive = live,
                pr_external = external, pr_content = content, pr_snapshotPath = '''',
                pr_command = ms_kmonadCommand settings, pr_timeout = ms_dryRunTimeout settings,
                pr_operationID = ''''\<rparr> o1 }}"

definition prepare_target ::
  "(nat \<Rightarrow> bool) \<Rightarrow> apply_params \<Rightarrow> managed_configuration
   \<Rightarrow> (operation + apply_preparation) command_result op" where
  "prepare_target expired params c = do {
     exists \<leftarrow> gets (\<lambda>m. map_get (m_managedConfigs m) (ap_ConfigurationID params) \<noteq> None);
     let previous = (if exists then Some c else None);
     live \<leftarrow> previously_live previous;
     intact \<leftarrow> (if exists then managedConfigurationIntact c else return True);
     if \<not> intact
     then do {
       o1 \<leftarrow> apply_operation params c;
       rejected_apply o1 (validationRejected ReasonConfigurationChanged
         ''the manager-owned revision was changed outside the manager''
         ''Restore the managed revision or delete it before applying a new model.''
         (Some \<lparr>ref_Kind = ResourceConfiguration, ref_ID = mc_ID c\<rparr>)) }
     else do {
       external \<leftarrow> gets (external_target params);
       case external of
         Inl e \<Rightarrow> return (Inl e)
       | Inr x \<Rightarrow> prepare_revision expired params (revised params c) previous live x }}"

definition prepareManagedApply ::
  "(nat \<Rightarrow> bool) \<Rightarrow> apply_params \<Rightarrow> (operation + apply_preparation) command_result op" where
  "prepareManagedApply expired params =
     (if expired 0 then return (Inl commandDeadlineResult)
      else do {
        dir \<leftarrow> setting ms_managedConfigDir;
        if dir = ''''
        then return (Inl (api_err ''temporary_unavailable''
               ''managed configuration storage is unavailable''))
        else do {
          target \<leftarrow> apply_target params;
          case target of
            Inl e \<Rightarrow> return (Inl e)
          | Inr c \<Rightarrow> prepare_target expired params c }})"

section \<open>The dry run\<close>

definition apply_verdict :: "go_error option \<Rightarrow> validation_result" where
  "apply_verdict failed =
     (case failed of
        None \<Rightarrow> valid_because ''candidate passed KMonad validation'' ''''
      | Some e \<Rightarrow>
          if timed_out e
          then validationBlocked ReasonValidationTimedOut ''KMonad validation timed out''
                 ''Retry the apply operation after validation can complete.'' None
          else if ge_kind e = CommandNotFound
          then validationBlocked ReasonDependencyUnavailable ''KMonad is unavailable''
                 ''Install KMonad or correct the configured command, then retry.'' None
          else validationRejected ReasonValidationFailed ''KMonad rejected the candidate''
                 ''Correct the KMonad configuration and retry.'' None)"

definition runManagedApplyValidation :: "apply_preparation \<Rightarrow> validation_result op" where
  "runManagedApplyValidation p = do {
     failed \<leftarrow> dryRunContextWithWriters (pr_command p) (pr_timeout p) (pr_snapshotPath p);
     return (apply_verdict failed) }"

section \<open>Rolling back\<close>

definition drop_prevalidated :: "path \<Rightarrow> unit op" where
  "drop_prevalidated config = do {
     known \<leftarrow> gets (\<lambda>m. map_get (m_prevalidated m) config);
     case known of
       None \<Rightarrow> return ()
     | Some v \<Rightarrow> do {
         _ \<leftarrow> removeConfigSnapshot (vc_launchPath v);
         modify (\<lambda>m. m\<lparr>m_prevalidated := map_del config (m_prevalidated m)\<rparr>) }}"

abbreviation rollback_failed :: "string \<Rightarrow> operation \<Rightarrow> operation" where
  "rollback_failed reason o1 \<equiv>
     o1\<lparr>op_ReasonCode := ReasonRuntimeRollbackFailed, op_Reason := reason\<rparr>"

definition reconcile_now :: "unit op" where
  "reconcile_now = do { now \<leftarrow> time_Now; reconcile now }"

definition remove_new :: "apply_preparation \<Rightarrow> operation \<Rightarrow> operation op" where
  "remove_new p o1 = do {
     let i = mc_ID (pr_configuration p);
     uncleared \<leftarrow> (case pr_external p of
         None \<Rightarrow> return None
       | Some x \<Rightarrow> clearExternalConfigurationAdoption (xc_ID x) i);
     case uncleared of
       Some _ \<Rightarrow> return (rollback_failed
         ''activation failed and external supervision could not be restored'' o1)
     | None \<Rightarrow> do {
         unremoved \<leftarrow> removeManagedConfigurationMetadata i;
         reconcile_now;
         return (case unremoved of
             None \<Rightarrow> o1
           | Some _ \<Rightarrow> rollback_failed
               ''activation failed and the new configuration could not be removed'' o1) }}"

definition restore_previous :: "apply_preparation \<Rightarrow> managed_configuration \<Rightarrow> operation \<Rightarrow> operation op" where
  "restore_previous p previous o1 = do {
     unstored \<leftarrow> storeManagedConfigurationMetadata previous;
     case unstored of
       Some _ \<Rightarrow> return (rollback_failed
         ''activation failed and the previous revision could not be restored'' o1)
     | None \<Rightarrow> do {
         reconcile_now;
         config \<leftarrow> gets (\<lambda>m. managedConfigurationPath (m_settings m) previous);
         confirmed \<leftarrow> waitForManagedActivation config activation_timeout;
         live \<leftarrow> (if \<not> pr_previousLive p then return None else confirmed_process confirmed config);
         return (if \<not> pr_previousLive p \<or> live \<noteq> None
           then o1\<lparr>op_State := OperationRolledBack, op_ReasonCode := ReasonRuntimeRollbackSucceeded,
                  op_Reason := ''activation failed; the previous revision was restored'',
                  op_ConfigurationRevision := mc_Revision previous\<rparr>
           else rollback_failed
                  ''activation failed and the previous revision could not be restarted'' o1) }}"

definition stop_new_revision :: "path \<Rightarrow> unit op" where
  "stop_new_revision config = do {
     known \<leftarrow> get_state config;
     case known of
       None \<Rightarrow> return ()
     | Some _ \<Rightarrow> do {
         now \<leftarrow> time_Now;
         timeout \<leftarrow> setting ms_stopTimeout;
         stopAndDelete config (now + timeout) }}"

definition rollbackManagedApply :: "apply_preparation \<Rightarrow> operation \<Rightarrow> operation op" where
  "rollbackManagedApply p o0 = do {
     now \<leftarrow> time_Now;
     let o1 = o0\<lparr>op_UpdatedAt := now, op_State := OperationFailed,
           op_ReasonCode := ReasonRuntimeActivationFailed,
           op_Reason := ''configuration activation was not confirmed''\<rparr>;
     config \<leftarrow> gets (\<lambda>m. managedConfigurationPath (m_settings m) (pr_configuration p));
     stop_new_revision config;
     drop_prevalidated config;
     case pr_previous p of
       None \<Rightarrow> remove_new p o1
     | Some previous \<Rightarrow> restore_previous p previous o1 }"

section \<open>Committing\<close>

definition record_outcome :: "operation \<Rightarrow> unit op" where
  "record_outcome o1 = do {
     put_operation o1;
     publish_operation o1;
     prune_operations }"

definition succeeded :: "time \<Rightarrow> validation_result \<Rightarrow> string \<Rightarrow> operation \<Rightarrow> operation" where
  "succeeded now validation reason o1 =
     o1\<lparr>op_UpdatedAt := now, op_Validation := Some validation, op_State := OperationSucceeded,
        op_ReasonCode := ReasonOperationSucceeded, op_Reason := reason\<rparr>"

text \<open>
  What the body of \<^verbatim>\<open>finishManagedApply\<close> gives: the result, and whether the new process
  runs from the snapshot of the candidate, which is then kept.
\<close>

definition activate_apply ::
  "apply_preparation \<Rightarrow> validation_result \<Rightarrow> operation \<Rightarrow> path \<Rightarrow> path
   \<Rightarrow> (operation command_result \<times> bool) op" where
  "activate_apply p validation o0 config device = do {
     modify (\<lambda>m. m\<lparr>m_prevalidated := map_put config
       \<lparr>vc_device = device, vc_signature = mc_Digest (pr_configuration p),
        vc_launchPath = pr_snapshotPath p\<rparr> (m_prevalidated m)\<rparr>);
     reconcile_now;
     confirmed \<leftarrow> waitForManagedActivation config activation_timeout;
     o1 \<leftarrow> get_operation (op_ID o0);
     now \<leftarrow> time_Now;
     live \<leftarrow> confirmed_process confirmed config;
     o2 \<leftarrow> (case live of
         Some _ \<Rightarrow> do {
           _ \<leftarrow> confirmManagedConfigurationActive config;
           return (succeeded now validation ''configuration persisted and activation confirmed'' o1) }
       | None \<Rightarrow> rollbackManagedApply p (o1\<lparr>op_UpdatedAt := now, op_Validation := Some validation\<rparr>));
     record_outcome o2;
     return (Inr o2, case live of None \<Rightarrow> False | Some q \<Rightarrow> proc_launchPath q = pr_snapshotPath p) }"

definition commit_apply ::
  "apply_preparation \<Rightarrow> validation_result \<Rightarrow> operation \<Rightarrow> string
   \<Rightarrow> (operation command_result \<times> bool) op" where
  "commit_apply p validation o1 content = do {
     config \<leftarrow> gets (\<lambda>m. managedConfigurationPath (m_settings m) (pr_configuration p));
     if \<not> mc_Enabled (pr_configuration p)
     then do {
       now \<leftarrow> time_Now;
       let o2 = succeeded now validation ''configuration persisted while disabled'' o1;
       record_outcome o2;
       return (Inr o2, False) }
     else (case device_of content of
         Inl _ \<Rightarrow> return (Inl (api_err ''internal'' ''persisted configuration has no input device''), False)
       | Inr device \<Rightarrow> activate_apply p validation o1 config device) }"

definition not_committed ::
  "operation \<Rightarrow> validation_result \<Rightarrow> (operation command_result \<times> bool) op" where
  "not_committed o1 r = do { o2 \<leftarrow> finishApplyValidation o1 r; return (Inr o2, False) }"

definition persist_apply ::
  "apply_preparation \<Rightarrow> validation_result \<Rightarrow> operation \<Rightarrow> string
   \<Rightarrow> (operation command_result \<times> bool) op" where
  "persist_apply p validation o1 content = do {
     let c = pr_configuration p;
     unstored \<leftarrow> storeManagedConfiguration c content;
     case unstored of
       Some _ \<Rightarrow> not_committed o1 (validationBlocked ReasonDependencyUnavailable
                   ''cannot persist the managed configuration''
                   ''Check manager state-directory access, then retry.'' None)
     | None \<Rightarrow> do {
         unmarked \<leftarrow> (case pr_external p of
             None \<Rightarrow> return None
           | Some x \<Rightarrow> markExternalConfigurationAdopted (xc_ID x) (mc_ID c) (xc_Signature x));
         case unmarked of
           Some _ \<Rightarrow> do {
             _ \<leftarrow> removeManagedConfigurationMetadata (mc_ID c);
             not_committed o1 (validationBlocked ReasonConfigurationChanged
               ''external configuration changed before it could be adopted''
               ''Refresh configurations and retry adoption.'' None) }
         | None \<Rightarrow> commit_apply p validation o1 content }}"

definition recheck_apply ::
  "apply_preparation \<Rightarrow> validation_result \<Rightarrow> operation \<Rightarrow> (operation command_result \<times> bool) op" where
  "recheck_apply p validation o1 = do {
     rendered \<leftarrow> renderManagedConfiguration (mc_Model (pr_configuration p));
     case rendered of
       Inl r \<Rightarrow> not_committed o1 r
     | Inr content \<Rightarrow>
         if content \<noteq> pr_content p
         then not_committed o1 (validationBlocked ReasonConfigurationChanged
                ''the keyboard input target changed during apply'' ''Retry the apply operation.'' None)
         else do {
           refused \<leftarrow> checkCandidateInputForClaims content
             (allowed_claims (pr_configuration p) (pr_external p));
           case refused of
             Some r \<Rightarrow> not_committed o1 r
           | None \<Rightarrow> persist_apply p validation o1 content }}"

definition finish_body ::
  "bool \<Rightarrow> apply_preparation \<Rightarrow> validation_result \<Rightarrow> (operation command_result \<times> bool) op" where
  "finish_body expired p validation0 = do {
     known \<leftarrow> gets (\<lambda>m. map_get (j_operations (m_journal m)) (pr_operationID p));
     let validation = (if expired
           then validationBlocked ReasonValidationBlocked
                  ''apply request was cancelled before persistence'' ''Retry the apply operation.'' None
           else validation0);
     case known of
       None \<Rightarrow> return (Inl (api_err ''internal'' ''apply operation disappeared''), False)
     | Some o1 \<Rightarrow>
         if val_Outcome validation \<noteq> ValidationValid then not_committed o1 validation
         else recheck_apply p validation o1 }"

text \<open>The deferred removal of the candidate's snapshot.\<close>

definition discard_candidate :: "apply_preparation \<Rightarrow> bool \<Rightarrow> unit op" where
  "discard_candidate p adopted = do {
     retained \<leftarrow> gets (\<lambda>m. map_get (m_prevalidated m)
       (managedConfigurationPath (m_settings m) (pr_configuration p)) \<noteq> None);
     if retained \<or> adopted then return ()
     else do { _ \<leftarrow> removeConfigSnapshot (pr_snapshotPath p); return () } }"

definition finishManagedApply ::
  "bool \<Rightarrow> apply_preparation \<Rightarrow> validation_result \<Rightarrow> operation command_result op" where
  "finishManagedApply expired p validation = do {
     (result, adopted) \<leftarrow> finish_body expired p validation;
     discard_candidate p adopted;
     return result }"

section \<open>Lifecycle\<close>

definition currentManagedConfiguration ::
  "string \<Rightarrow> nat \<Rightarrow> manager \<Rightarrow> managed_configuration command_result" where
  "currentManagedConfiguration i expectedRevision m =
     (if \<not> validConfigurationID i
      then Inl (api_err ''not_found'' ''managed configuration does not exist'')
      else case map_get (m_managedConfigs m) i of
          None \<Rightarrow> Inl (api_err ''not_found'' ''managed configuration does not exist'')
        | Some c \<Rightarrow>
            if expectedRevision = 0
            then Inl (api_err ''invalid_request'' ''expected_revision is required'')
            else if mc_Revision c \<noteq> expectedRevision
            then Inl (api_err ''stale_revision''
                   ''managed configuration changed; refresh it before retrying'')
            else Inr c)"

definition newLifecycleOperation :: "managed_configuration \<Rightarrow> string \<Rightarrow> operation op" where
  "newLifecycleOperation c reason = do {
     fresh \<leftarrow> newOperationID;
     i \<leftarrow> (case fresh of
         Some i \<Rightarrow> return i
       | None \<Rightarrow> do { now \<leftarrow> time_Now; return (''op_lifecycle_'' @ digits (nat now)) });
     now \<leftarrow> time_Now;
     return \<lparr>op_ID = i, op_Kind = OperationLifecycle, op_State = OperationSucceeded,
       op_Resource = \<lparr>ref_Kind = ResourceConfiguration, ref_ID = mc_ID c\<rparr>, op_StartedAt = now,
       op_UpdatedAt = now, op_ReasonCode = ReasonOperationSucceeded, op_Reason = reason,
       op_Validation = None, op_ConfigurationRevision = mc_Revision c\<rparr> }"

definition lifecycle_done ::
  "string \<Rightarrow> managed_configuration \<Rightarrow> nat \<Rightarrow> string \<Rightarrow> operation command_result op" where
  "lifecycle_done operationID c revision reason = do {
     o0 \<leftarrow> newLifecycleOperation c reason;
     let o1 = o0\<lparr>op_ID := (if operationID \<noteq> '''' then operationID else op_ID o0),
           op_ConfigurationRevision := revision\<rparr>;
     record_outcome o1;
     return (Inr o1) }"

definition set_enabled :: "string \<Rightarrow> bool \<Rightarrow> managed_configuration \<Rightarrow> operation command_result op" where
  "set_enabled operationID enabled c0 = do {
     let c = c0\<lparr>mc_Enabled := enabled, mc_Revision := next_revision (mc_Revision c0)\<rparr>;
     unstored \<leftarrow> storeManagedConfigurationMetadata c;
     case unstored of
       Some _ \<Rightarrow> return (Inl (api_err ''temporary_unavailable''
                   ''cannot persist managed configuration lifecycle state''))
     | None \<Rightarrow> do {
         reconcile_now;
         lifecycle_done operationID c (mc_Revision c)
           (if enabled
            then ''configuration enabled; it will recover automatically when its keyboard is available''
            else ''configuration disabled and its KMonad process stopped'') }}"

definition setManagedConfigurationEnabled ::
  "bool \<Rightarrow> string \<Rightarrow> string \<Rightarrow> nat \<Rightarrow> bool \<Rightarrow> operation command_result op" where
  "setManagedConfigurationEnabled expired operationID i expectedRevision enabled =
     (if expired then return (Inl commandDeadlineResult)
      else do {
        current \<leftarrow> gets (currentManagedConfiguration i expectedRevision);
        case current of
          Inl e \<Rightarrow> return (Inl e)
        | Inr c \<Rightarrow> do {
            refreshDevices;
            known \<leftarrow> gets (\<lambda>m. map_get (m_devices m) (model_DeviceID (mc_Model c)));
            if (case known of None \<Rightarrow> False | Some d \<Rightarrow> dev_Role d = DeviceRoleManagerOutput)
            then return (Inl (api_err ''device_not_configurable''
                   ''configuration targets a manager-owned virtual output''))
            else do {
              intact \<leftarrow> (if enabled then managedConfigurationIntact c else return True);
              if \<not> intact
              then return (Inl (api_err ''conflict''
                     ''manager-owned revision was changed outside the manager; restore or delete it before enabling''))
              else if mc_Enabled c = enabled
              then lifecycle_done operationID c (mc_Revision c)
                     ''configuration is already in the requested lifecycle state''
              else set_enabled operationID enabled c }}})"

definition delete_stored :: "string \<Rightarrow> managed_configuration \<Rightarrow> operation command_result op" where
  "delete_stored operationID c = do {
     dir \<leftarrow> setting ms_managedConfigDir;
     unremoved \<leftarrow> call (RemoveAll (path_join dir (mc_ID c)));
     case unremoved of
       Some _ \<Rightarrow> return (Inl (api_err ''internal''
                   ''configuration was stopped but its stored revisions could not be removed''))
     | None \<Rightarrow> do {
         unsynced \<leftarrow> syncDirectory dir;
         case unsynced of
           Some _ \<Rightarrow> return (Inl (api_err ''internal''
                       ''configuration was stopped but its deletion could not be synchronized''))
         | None \<Rightarrow> lifecycle_done operationID c 0
                     ''configuration deleted and its KMonad process stopped'' }}"

definition deleteManagedConfiguration ::
  "bool \<Rightarrow> string \<Rightarrow> string \<Rightarrow> nat \<Rightarrow> operation command_result op" where
  "deleteManagedConfiguration expired operationID i expectedRevision =
     (if expired then return (Inl commandDeadlineResult)
      else do {
        current \<leftarrow> gets (currentManagedConfiguration i expectedRevision);
        case current of
          Inl e \<Rightarrow> return (Inl e)
        | Inr c \<Rightarrow> do {
            uncleared \<leftarrow> clearExternalConfigurationAdoptionsForManaged (mc_ID c);
            case uncleared of
              Some _ \<Rightarrow> return (Inl (api_err ''temporary_unavailable''
                          ''cannot restore external configuration supervision''))
            | None \<Rightarrow> do {
                unremoved \<leftarrow> removeManagedConfigurationMetadata (mc_ID c);
                case unremoved of
                  Some _ \<Rightarrow> return (Inl (api_err ''temporary_unavailable''
                              ''cannot remove managed configuration metadata''))
                | None \<Rightarrow> do { reconcile_now; delete_stored operationID c } }}})"

section \<open>Adoption\<close>

definition adoption_params ::
  "external_configuration \<Rightarrow> string \<Rightarrow> string \<Rightarrow> managed_configuration_model \<Rightarrow> apply_params" where
  "adoption_params x name operationID model =
     \<lparr>ap_ConfigurationID = '''', ap_Name = (if name = '''' then xc_Name x else name), ap_Model = model,
      ap_ExpectedRevision = None, ap_adoptExternalID = xc_ID x,
      ap_operationKind = Some OperationAdopt, ap_operationID = operationID\<rparr>"

definition prepareExternalAdoption ::
  "(nat \<Rightarrow> bool) \<Rightarrow> string \<Rightarrow> string \<Rightarrow> string
   \<Rightarrow> (operation + apply_preparation) command_result op" where
  "prepareExternalAdoption expired cid name operationID =
     (if expired 0 then return (Inl commandDeadlineResult)
      else do {
        refreshExternalConfigurationRegistry;
        m \<leftarrow> gets id;
        case map_get (m_externalConfigs m) cid of
          None \<Rightarrow> return (Inl (api_err ''not_found'' ''external configuration does not exist''))
        | Some x \<Rightarrow>
            if xc_AdoptedBy x \<noteq> ''''
            then return (Inl (api_err ''conflict''
                   ''external configuration is already represented by a managed configuration''))
            else do {
              read \<leftarrow> readFileLimited (xc_Path x) (configurationByteLimit (m_settings m));
              let changed = api_err ''configuration_changed''
                    ''external configuration changed; refresh it before adoption'';
              case read of
                Inl _ \<Rightarrow> return (Inl changed)
              | Inr data \<Rightarrow>
                  if h_sha256hex (m_host m) data \<noteq> xc_Signature x then return (Inl changed)
                  else (case managedModelFromExternal data (xc_DeviceID x) of
                      Inl e \<Rightarrow> return (Inl (api_err ''candidate_unsupported'' e))
                    | Inr model \<Rightarrow> prepareManagedApply (\<lambda>k. expired (k + 1))
                        (adoption_params x name operationID model)) }})"

section \<open>Applying keeps the supervisor safe\<close>

lemma quiet_activation [quiet_ops]:
  "steps quiet (same_process p)" "steps quiet (running_process config)"
  "steps quiet (await_activation config deadline t n)"
  "steps quiet (waitForManagedActivation config d)" "steps quiet (confirmed_process b config)"
proof -
  show same: "steps quiet (same_process p)" for p
    by (auto simp: same_process_def intro!: quiet_ops)
  show known: "steps quiet (running_process config)" for config
    by (auto simp: running_process_def intro!: quiet_ops)
  show wait: "steps quiet (await_activation config deadline t n)" for config deadline t n
    by (induction n arbitrary: t) (auto intro!: same known quiet_ops split: option.splits)
  show "steps quiet (waitForManagedActivation config d)"
    by (auto simp: waitForManagedActivation_def activation_wait_def intro!: wait quiet_ops)
  show "steps quiet (confirmed_process b config)"
    by (auto simp: confirmed_process_def intro!: same known split: option.splits)
qed

lemma quiet_apply_operations [quiet_ops]:
  "steps quiet (newApplyOperation i)" "steps quiet (apply_operation params c)"
  "steps quiet (finishApplyValidation o1 r)" "steps quiet (rejected_apply o1 r)"
  "steps quiet (not_committed o1 r)" "steps quiet (record_outcome o1)"
  by (auto simp: newApplyOperation_def apply_operation_def finishApplyValidation_def Let_def
        rejected_apply_def not_committed_def record_outcome_def intro!: quiet_ops)

lemma quiet_apply_target [quiet_ops]:
  "steps quiet (apply_target params)" "steps quiet (previously_live previous)"
  by (auto simp: apply_target_def previously_live_def newConfigurationID_def
        intro!: quiet_ops split: option.splits)

lemma quiet_lifecycle [quiet_ops]:
  "steps quiet (lifecycle_done i c n r)" "steps quiet (delete_stored i c)"
  by (auto simp: lifecycle_done_def newLifecycleOperation_def delete_stored_def Let_def
        intro!: quiet_ops split: option.splits)

definition apply_written :: "apply_preparation \<Rightarrow> history \<Rightarrow> bool" where
  "apply_written p h \<longleftrightarrow> written (pr_snapshotPath p) h"

lemma spec_prepare_snapshot:
  assumes "supervised m"
    "\<And>r m'. supervised m' \<Longrightarrow> grows m m' \<Longrightarrow>
       (\<forall>p. r = Inr (Inr p) \<longrightarrow> apply_written p (m_history m')) \<Longrightarrow> Q r m'"
  shows "wp (prepare_snapshot expired p o1) Q m"
  unfolding prepare_snapshot_def wp_simps rejected_apply_def
  using assms(1)
  by (auto 2 12 intro!: assms(2) spec_createValidationSnapshot
      spec_quiet [of "finishApplyValidation o1 r" for o1 r] spec_quiet [of "put_operation o1" for o1]
      spec_quiet [of "publish_operation o1" for o1] spec_quiet [of "removeConfigSnapshot q" for q]
      quiet_ops simp: apply_written_def wp_simps intro: grows_trans written_mono split: sum.splits)

lemma spec_prepare_revision:
  assumes "supervised m"
    "\<And>r m'. supervised m' \<Longrightarrow> grows m m' \<Longrightarrow>
       (\<forall>p. r = Inr (Inr p) \<longrightarrow> apply_written p (m_history m')) \<Longrightarrow> Q r m'"
  shows "wp (prepare_revision expired params c previous live external) Q m"
  unfolding prepare_revision_def wp_simps rejected_apply_def
  using assms(1)
  by (auto 2 12 intro!: assms(2) spec_prepare_snapshot
      spec_quiet [of "renderManagedConfiguration q" for q] spec_quiet [of "apply_operation q c" for q c]
      spec_quiet [of "finishApplyValidation o1 r" for o1 r]
      spec_quiet [of "checkCandidateInputForClaims q c" for q c]
      quiet_ops simp: wp_simps intro: grows_trans split: sum.splits option.splits)

lemma spec_prepare_target:
  assumes "supervised m"
    "\<And>r m'. supervised m' \<Longrightarrow> grows m m' \<Longrightarrow>
       (\<forall>p. r = Inr (Inr p) \<longrightarrow> apply_written p (m_history m')) \<Longrightarrow> Q r m'"
  shows "wp (prepare_target expired params c) Q m"
  unfolding prepare_target_def wp_simps rejected_apply_def Let_def
  using assms(1)
  by (auto 2 12 intro!: assms(2) spec_prepare_revision
      spec_quiet [of "previously_live q" for q] spec_quiet [of "apply_operation q c" for q c]
      spec_quiet [of "finishApplyValidation o1 r" for o1 r]
      spec_quiet [of "managedConfigurationIntact q" for q]
      quiet_ops simp: wp_simps intro: grows_trans split: sum.splits option.splits)

lemma spec_prepareManagedApply:
  assumes "supervised m"
    "\<And>r m'. supervised m' \<Longrightarrow> grows m m' \<Longrightarrow>
       (\<forall>p. r = Inr (Inr p) \<longrightarrow> apply_written p (m_history m')) \<Longrightarrow> Q r m'"
  shows "wp (prepareManagedApply expired params) Q m"
  unfolding prepareManagedApply_def wp_simps
  using assms(1)
  by (auto 2 12 intro!: assms(2) spec_prepare_target spec_quiet [of "apply_target q" for q]
      quiet_ops intro: grows_trans split: sum.splits)

lemma spec_prepareExternalAdoption:
  assumes "supervised m"
    "\<And>r m'. supervised m' \<Longrightarrow> grows m m' \<Longrightarrow>
       (\<forall>p. r = Inr (Inr p) \<longrightarrow> apply_written p (m_history m')) \<Longrightarrow> Q r m'"
  shows "wp (prepareExternalAdoption expired cid name oid) Q m"
  unfolding prepareExternalAdoption_def wp_simps Let_def
  using assms(1)
  by (auto 2 12 intro!: assms(2) spec_prepareManagedApply
      spec_quiet [of refreshExternalConfigurationRegistry] spec_quiet [of "readFileLimited q n" for q n]
      quiet_ops simp: wp_simps intro: grows_trans split: sum.splits option.splits)

lemma spec_runManagedApplyValidation:
  assumes "supervised m" "apply_written p (m_history m)"
    "\<And>r m'. supervised m' \<Longrightarrow> grows m m' \<Longrightarrow>
       (val_Outcome r = ValidationValid \<longrightarrow> dry_run_passed (pr_snapshotPath p) (m_history m')) \<Longrightarrow> Q r m'"
  shows "wp (runManagedApplyValidation p) Q m"
  unfolding runManagedApplyValidation_def wp_simps
  using assms(1,2)
  by (auto 2 12 intro!: assms(3) spec_dryRunContext
      simp: apply_written_def apply_verdict_def validationBlocked_def validationRejected_def verdict_def
      split: option.splits if_splits)

lemma prevalidated_frame [simp]:
  "m_history (m\<lparr>m_prevalidated := v\<rparr>) = m_history m"
  "grows m' (m\<lparr>m_prevalidated := v\<rparr>) = grows m' m" "grows (m\<lparr>m_prevalidated := v\<rparr>) m' = grows m m'"
  by (simp_all add: grows_def)

lemma supervised_drop:
  "supervised m \<Longrightarrow> supervised (m\<lparr>m_prevalidated := map_del config (m_prevalidated m)\<rparr>)"
  using set_del [of config "m_prevalidated m"] by (auto simp: supervised_def)

lemma supervised_prevalidate:
  "supervised m \<Longrightarrow> dry_run_passed (vc_launchPath v) (m_history m)
   \<Longrightarrow> supervised (m\<lparr>m_prevalidated := map_put config v (m_prevalidated m)\<rparr>)"
  using set_put [of config v "m_prevalidated m"] by (auto simp: supervised_def)

lemma spec_drop_prevalidated:
  assumes "supervised m" "\<And>m'. supervised m' \<Longrightarrow> grows m m' \<Longrightarrow> Q () m'"
  shows "wp (drop_prevalidated config) Q m"
  unfolding drop_prevalidated_def wp_simps
  using assms(1)
  by (auto 2 12 intro!: assms(2) spec_quiet [of "removeConfigSnapshot q" for q] quiet_ops
      supervised_drop split: option.splits)

lemma spec_reconcile_now:
  assumes "supervised m" "\<And>m'. supervised m' \<Longrightarrow> grows m m' \<Longrightarrow> Q () m'"
  shows "wp reconcile_now Q m"
  unfolding reconcile_now_def wp_simps
  using assms(1)
  by (auto 2 12 intro!: assms(2) spec_quiet [of time_Now] spec_reconcile' quiet_ops intro: grows_trans)

lemma spec_stop_new_revision:
  assumes "supervised m" "\<And>m'. supervised m' \<Longrightarrow> grows m m' \<Longrightarrow> Q () m'"
  shows "wp (stop_new_revision config) Q m"
  unfolding stop_new_revision_def wp_simps
  using assms(1)
  by (auto 2 12 intro!: assms(2) spec_get_state spec_quiet [of time_Now] spec_stopAndDelete quiet_ops
      intro: grows_trans)

lemma spec_remove_new:
  assumes "supervised m" "\<And>r m'. supervised m' \<Longrightarrow> grows m m' \<Longrightarrow> Q r m'"
  shows "wp (remove_new p o1) Q m"
  unfolding remove_new_def wp_simps Let_def
  using assms(1)
  by (auto 2 12 intro!: assms(2) spec_quiet [of "clearExternalConfigurationAdoption q i" for q i]
      spec_quiet [of "removeManagedConfigurationMetadata i" for i] spec_reconcile_now
      quiet_ops simp: wp_simps intro: grows_trans split: option.splits)

lemma spec_restore_previous:
  assumes "supervised m" "\<And>r m'. supervised m' \<Longrightarrow> grows m m' \<Longrightarrow> Q r m'"
  shows "wp (restore_previous p previous o1) Q m"
  unfolding restore_previous_def wp_simps
  using assms(1)
  by (auto 2 12 intro!: assms(2) spec_quiet [of "storeManagedConfigurationMetadata q" for q]
      spec_quiet [of "waitForManagedActivation i d" for i d]
      spec_quiet [of "confirmed_process b i" for b i] spec_reconcile_now
      quiet_ops simp: wp_simps intro: grows_trans split: option.splits)

lemma spec_rollbackManagedApply:
  assumes "supervised m" "\<And>r m'. supervised m' \<Longrightarrow> grows m m' \<Longrightarrow> Q r m'"
  shows "wp (rollbackManagedApply p o1) Q m"
  unfolding rollbackManagedApply_def wp_simps Let_def
  using assms(1)
  by (auto 2 12 intro!: assms(2) spec_quiet [of time_Now] spec_stop_new_revision spec_drop_prevalidated
      spec_remove_new spec_restore_previous quiet_ops simp: wp_simps intro: grows_trans split: option.splits)

lemma spec_activate_apply:
  assumes "supervised m" "dry_run_passed (pr_snapshotPath p) (m_history m)"
    "\<And>r m'. supervised m' \<Longrightarrow> grows m m' \<Longrightarrow> Q r m'"
  shows "wp (activate_apply p validation o1 config device) Q m"
  unfolding activate_apply_def wp_simps
  using assms(1,2)
  by (auto 2 14 intro!: assms(3) spec_reconcile_now supervised_prevalidate
      spec_quiet [of "waitForManagedActivation i d" for i d]
      spec_quiet [of "confirmed_process b i" for b i] spec_quiet [of "get_operation i" for i]
      spec_quiet [of time_Now] spec_quiet [of "confirmManagedConfigurationActive i" for i]
      spec_rollbackManagedApply spec_quiet [of "record_outcome i" for i]
      quiet_ops simp: wp_simps intro: grows_trans split: option.splits)

lemma spec_commit_apply:
  assumes "supervised m" "dry_run_passed (pr_snapshotPath p) (m_history m)"
    "\<And>r m'. supervised m' \<Longrightarrow> grows m m' \<Longrightarrow> Q r m'"
  shows "wp (commit_apply p validation o1 content) Q m"
  unfolding commit_apply_def wp_simps Let_def
  using assms(1,2)
  by (auto 2 14 intro!: assms(3) spec_activate_apply spec_quiet [of time_Now]
      spec_quiet [of "record_outcome i" for i]
      quiet_ops simp: wp_simps intro: grows_trans split: sum.splits)

lemma spec_persist_apply:
  assumes "supervised m" "dry_run_passed (pr_snapshotPath p) (m_history m)"
    "\<And>r m'. supervised m' \<Longrightarrow> grows m m' \<Longrightarrow> Q r m'"
  shows "wp (persist_apply p validation o1 content) Q m"
  unfolding persist_apply_def wp_simps Let_def
  using assms(1,2)
  by (auto 2 14 intro!: assms(3) spec_commit_apply spec_quiet [of "storeManagedConfiguration q i" for q i]
      spec_quiet [of "not_committed i r" for i r]
      spec_quiet [of "markExternalConfigurationAdopted i q r" for i q r]
      spec_quiet [of "removeManagedConfigurationMetadata i" for i]
      quiet_ops simp: wp_simps intro: grows_trans passed_mono split: option.splits)

lemma spec_recheck_apply:
  assumes "supervised m" "dry_run_passed (pr_snapshotPath p) (m_history m)"
    "\<And>r m'. supervised m' \<Longrightarrow> grows m m' \<Longrightarrow> Q r m'"
  shows "wp (recheck_apply p validation o1) Q m"
  unfolding recheck_apply_def wp_simps
  using assms(1,2)
  by (auto 2 14 intro!: assms(3) spec_persist_apply spec_quiet [of "renderManagedConfiguration q" for q]
      spec_quiet [of "not_committed i r" for i r]
      spec_quiet [of "checkCandidateInputForClaims q c" for q c]
      quiet_ops simp: wp_simps intro: grows_trans passed_mono split: option.splits sum.splits)

lemma spec_finish_body:
  assumes "supervised m"
    "val_Outcome validation = ValidationValid \<longrightarrow> dry_run_passed (pr_snapshotPath p) (m_history m)"
    "\<And>r m'. supervised m' \<Longrightarrow> grows m m' \<Longrightarrow> Q r m'"
  shows "wp (finish_body expired p validation) Q m"
  unfolding finish_body_def Let_def wp_simps
  using assms(1,2)
  by (auto 2 8 intro!: assms(3) spec_recheck_apply spec_quiet [of "not_committed i r" for i r] quiet_ops
      simp: validationBlocked_def verdict_def split: option.splits)

lemma quiet_discard [quiet_ops]: "steps quiet (discard_candidate p adopted)"
  by (auto simp: discard_candidate_def intro!: quiet_ops)

lemma spec_finishManagedApply:
  assumes "supervised m"
    "val_Outcome validation = ValidationValid \<longrightarrow> dry_run_passed (pr_snapshotPath p) (m_history m)"
    "\<And>r m'. supervised m' \<Longrightarrow> grows m m' \<Longrightarrow> Q r m'"
  shows "wp (finishManagedApply expired p validation) Q m"
  unfolding finishManagedApply_def wp_simps
  by (rule spec_finish_body [OF assms(1,2)])
    (auto intro!: assms(3) spec_quiet [of "discard_candidate q a" for q a] quiet_ops intro: grows_trans)

lemma spec_set_enabled:
  assumes "supervised m" "\<And>r m'. supervised m' \<Longrightarrow> grows m m' \<Longrightarrow> Q r m'"
  shows "wp (set_enabled i b c) Q m"
  unfolding set_enabled_def wp_simps Let_def
  using assms(1)
  by (auto 2 12 intro!: assms(2) spec_quiet [of "storeManagedConfigurationMetadata q" for q]
      spec_reconcile_now spec_quiet [of "lifecycle_done i c n r" for i c n r]
      quiet_ops simp: wp_simps intro: grows_trans split: option.splits)

lemma spec_setManagedConfigurationEnabled:
  assumes "supervised m" "\<And>r m'. supervised m' \<Longrightarrow> grows m m' \<Longrightarrow> Q r m'"
  shows "wp (setManagedConfigurationEnabled expired oid i n b) Q m"
  unfolding setManagedConfigurationEnabled_def wp_simps
  using assms(1)
  by (auto 2 12 intro!: assms(2) spec_quiet [of refreshDevices]
      spec_quiet [of "managedConfigurationIntact q" for q] spec_set_enabled
      spec_quiet [of "lifecycle_done i c n r" for i c n r]
      quiet_ops simp: wp_simps intro: grows_trans split: sum.splits)

lemma spec_deleteManagedConfiguration:
  assumes "supervised m" "\<And>r m'. supervised m' \<Longrightarrow> grows m m' \<Longrightarrow> Q r m'"
  shows "wp (deleteManagedConfiguration expired oid i n) Q m"
  unfolding deleteManagedConfiguration_def wp_simps
  using assms(1)
  by (auto 2 12 intro!: assms(2) spec_reconcile_now
      spec_quiet [of "clearExternalConfigurationAdoptionsForManaged q" for q]
      spec_quiet [of "removeManagedConfigurationMetadata i" for i]
      spec_quiet [of "delete_stored i c" for i c]
      quiet_ops simp: wp_simps intro: grows_trans split: sum.splits option.splits)

end
