(* ===== verification/KDM_Content.thy ===== *)
theory KDM_Content
  imports KDM_Apply
begin

text \<open>
  Reading the source of an external configuration and exporting a managed one
  (\<^verbatim>\<open>manager/content.go\<close>). The length of a result as JSON is the parameter \<open>encoded_length\<close>;
  \<open>None\<close> is a result that cannot be encoded.
\<close>

definition managerRenderedKBDFormat :: string where
  "managerRenderedKBDFormat = ''manager_rendered_kbd''"

definition apiFrameLimit :: nat where "apiFrameLimit = 1048576"

record content_result =
  cr_ConfigurationID :: string
  cr_Ownership :: configuration_ownership
  cr_ContentRevision :: nat
  cr_Digest :: string
  cr_Content :: string

record export_result =
  er_ConfigurationID :: string
  er_Revision :: nat
  er_Format :: string
  er_Digest :: string
  er_Content :: string

definition boundedContentResult :: "('r \<Rightarrow> nat option) \<Rightarrow> 'r \<Rightarrow> 'r command_result" where
  "boundedContentResult encoded_length r =
     (case encoded_length r of
        None \<Rightarrow> Inl (api_err ''resource_exhausted''
                  ''configuration content exceeds the API response limit'')
      | Some n \<Rightarrow>
          if n + 128 > apiFrameLimit
          then Inl (api_err ''resource_exhausted''
                 ''configuration content exceeds the API response limit'')
          else Inr r)"

text \<open>
  The file is looked at before, through and after the open descriptor; it must be one regular
  file of one size and modification time. The \<^verbatim>\<open>nil\<close> error of the code is \<open>errInvalid\<close>.
\<close>

definition errInvalid :: go_error where "errInvalid = errorf ''invalid argument''"

definition same_version :: "file_info \<Rightarrow> file_info \<Rightarrow> bool" where
  "same_version opened after \<longleftrightarrow> fi_Regular after \<and> fi_Identity opened = fi_Identity after
     \<and> fi_ModTime after = fi_ModTime opened \<and> fi_Size after = fi_Size opened"

definition readBoundedExternalContent :: "path \<Rightarrow> int \<Rightarrow> (go_error + string) op" where
  "readBoundedExternalContent p limit = do {
     before \<leftarrow> os_Lstat p;
     case before of
       Inl _ \<Rightarrow> return (Inl errInvalid)
     | Inr b \<Rightarrow>
         if \<not> fi_Regular b then return (Inl errInvalid)
         else do {
           opened \<leftarrow> os_Open p;
           case opened of
             Inl e \<Rightarrow> return (Inl e)
           | Inr file \<Rightarrow> (case of_info file of
                 Inl _ \<Rightarrow> return (Inl errInvalid)
               | Inr i \<Rightarrow>
                   if fi_Identity b \<noteq> fi_Identity i \<or> fi_Size i > limit then return (Inl errInvalid)
                   else (case of_content file of
                       Inl _ \<Rightarrow> return (Inl errInvalid)
                     | Inr content \<Rightarrow>
                         let data = take (nat (limit + 1)) content
                         in if int (length data) > limit then return (Inl errInvalid)
                            else do {
                              after \<leftarrow> os_Lstat p;
                              return (case after of
                                  Inl _ \<Rightarrow> Inl errInvalid
                                | Inr a \<Rightarrow> if same_version i a then Inr data else Inl errInvalid) })) }}"

definition content_changed :: "string \<Rightarrow> 'a command_result" where
  "content_changed text = Inl (api_err ''configuration_changed'' text)"

text \<open>A file that was known and can no longer be scanned: too large, or gone.\<close>

definition content_lost :: "external_configuration \<Rightarrow> 'a command_result op" where
  "content_lost previous = do {
     settings \<leftarrow> gets m_settings;
     info \<leftarrow> os_Lstat (xc_Path previous);
     return (if (case info of Inl _ \<Rightarrow> False | Inr i \<Rightarrow> fi_Size i > configurationByteLimit settings)
       then Inl (api_err ''resource_exhausted'' ''external configuration exceeds the content limit'')
       else content_changed ''external configuration is no longer readable'') }"

definition content_of_entry ::
  "(content_result \<Rightarrow> nat option) \<Rightarrow> external_configuration \<Rightarrow> content_result command_result op" where
  "content_of_entry encoded_length x = do {
     m \<leftarrow> gets id;
     read \<leftarrow> readBoundedExternalContent (xc_Path x) (configurationByteLimit (m_settings m));
     return (case read of
         Inl _ \<Rightarrow> content_changed
           ''external configuration is unavailable, unsafe, or exceeds the content limit''
       | Inr content \<Rightarrow>
           if \<not> valid_utf8 content \<or> h_sha256hex (m_host m) content \<noteq> xc_Signature x
           then content_changed
             ''external configuration changed during reading or is not UTF-8 text''
           else boundedContentResult encoded_length \<lparr>cr_ConfigurationID = xc_ID x,
             cr_Ownership = ConfigurationExternal, cr_ContentRevision = xc_ContentRevision x,
             cr_Digest = ''sha256:'' @ xc_Signature x, cr_Content = content\<rparr>) }"

definition misplaced :: "manager_settings \<Rightarrow> external_configuration \<Rightarrow> bool" where
  "misplaced settings x \<longleftrightarrow> xc_Ownership x \<noteq> ConfigurationExternal
     \<or> xc_Path x \<noteq> path_join (ms_configDir settings) (xc_Name x) \<or> path_base (xc_Name x) \<noteq> xc_Name x"

definition externalConfigurationContent ::
  "(content_result \<Rightarrow> nat option) \<Rightarrow> string \<Rightarrow> nat \<Rightarrow> content_result command_result op" where
  "externalConfigurationContent encoded_length i expectedRevision =
     (if i = '''' \<or> expectedRevision = 0
      then return (Inl (api_err ''invalid_request''
             ''configuration_id and positive expected_revision are required''))
      else do {
        previous \<leftarrow> gets (\<lambda>m. map_get (m_externalConfigs m) i);
        refreshExternalConfigurationRegistry;
        m \<leftarrow> gets id;
        if map_get (m_managedConfigs m) i \<noteq> None
        then return (Inl (api_err ''unsupported_capability''
               ''managed source is not available through external content read; use configuration.export''))
        else case (map_get (m_externalConfigs m) i, previous) of
            (None, Some p) \<Rightarrow> content_lost p
          | (None, None) \<Rightarrow> return (Inl (api_err ''not_found'' ''external configuration does not exist''))
          | (Some x, _) \<Rightarrow>
              if misplaced (m_settings m) x
              then return (Inl (api_err ''not_found'' ''external configuration does not exist''))
              else if xc_ContentRevision x \<noteq> expectedRevision
              then return (Inl (api_err ''stale_revision''
                     ''external configuration content changed; refresh the inventory''))
              else content_of_entry encoded_length x })"

definition exportManagedConfiguration ::
  "(export_result \<Rightarrow> nat option) \<Rightarrow> string \<Rightarrow> string \<Rightarrow> export_result command_result op" where
  "exportManagedConfiguration encoded_length i format =
     (if i = '''' \<or> format = ''''
      then return (Inl (api_err ''invalid_request'' ''configuration_id and format are required''))
      else if format \<noteq> managerRenderedKBDFormat
      then return (Inl (api_err ''unsupported_capability'' ''unsupported configuration export format''))
      else do {
        m \<leftarrow> gets id;
        case map_get (m_managedConfigs m) i of
          None \<Rightarrow> return (Inl (if map_get (m_externalConfigs m) i \<noteq> None
              then api_err ''unsupported_capability'' ''external configurations are not managed exports''
              else api_err ''not_found'' ''managed configuration does not exist''))
        | Some c \<Rightarrow> do {
            read \<leftarrow> readFileLimited (managedConfigurationPath (m_settings m) c)
                      (configurationByteLimit (m_settings m));
            return (case read of
                Inl _ \<Rightarrow> content_changed ''manager-owned revision changed or cannot be exported''
              | Inr content \<Rightarrow>
                  if \<not> valid_utf8 content \<or> h_sha256hex (m_host m) content \<noteq> mc_Digest c
                  then content_changed ''manager-owned revision changed or cannot be exported''
                  else boundedContentResult encoded_length \<lparr>er_ConfigurationID = mc_ID c,
                    er_Revision = mc_Revision c, er_Format = format,
                    er_Digest = ''sha256:'' @ mc_Digest c, er_Content = content\<rparr>) }})"

section \<open>Nothing here touches the supervision\<close>

lemma plain_content_reads [plain_ops]:
  "steps (asks plain) (readBoundedExternalContent p n)"
  by (auto simp: readBoundedExternalContent_def Let_def intro!: plain_ops split: sum.splits)

lemma quiet_content_reads [quiet_ops]:
  "steps quiet (readBoundedExternalContent p n)" "steps quiet (content_lost x)"
  by (auto simp: content_lost_def plain_ops [THEN quiet_of_asks] intro!: quiet_ops split: sum.splits)

lemma quiet_content [quiet_ops]:
  "steps quiet (externalConfigurationContent len i n)"
  "steps quiet (exportManagedConfiguration len' i f)"
  by (auto simp: externalConfigurationContent_def exportManagedConfiguration_def content_of_entry_def
        intro!: quiet_ops split: option.splits)

section \<open>What is handed out\<close>

lemma wp_asks:
  assumes "steps (asks P) f" "\<And>r h. Q r (m\<lparr>m_history := h\<rparr>)"
  shows "wp f Q m"
  by (rule wp_steps [OF assms(1)]) (auto simp: asks_def intro: assms(2))

lemma bounded_result: "boundedContentResult len r = Inr r' \<Longrightarrow> r' = r \<and> (\<exists>k. len r = Some k \<and> k + 128 \<le> apiFrameLimit)"
  by (auto simp: boundedContentResult_def split: option.splits if_splits)

text \<open>
  C34: What the manager hands out as the content of an external configuration is what its registry
  recorded: the digest of the returned text is the signature of the entry, the text is valid UTF-8,
  the revision is the one the client asked for, and the reply fits into one frame.
\<close>

theorem external_content_matches_registry:
  "case run_state (externalConfigurationContent len i n) m of
     (Inl e, m') \<Rightarrow> True
   | (Inr r, m') \<Rightarrow>
       cr_Digest r = ''sha256:'' @ h_sha256hex (m_host m) (cr_Content r) \<and> valid_utf8 (cr_Content r)
       \<and> cr_ContentRevision r = n
       \<and> (\<exists>x. map_get (m_externalConfigs m') i = Some x \<and> cr_Digest r = ''sha256:'' @ xc_Signature x)
       \<and> (\<exists>k. len r = Some k \<and> k + 128 \<le> apiFrameLimit)"
proof -
  have entry: "wp (content_of_entry len x) (\<lambda>a m2. \<forall>r. a = Inr r \<longrightarrow>
      cr_Digest r = ''sha256:'' @ h_sha256hex (m_host m) (cr_Content r) \<and> valid_utf8 (cr_Content r)
      \<and> cr_ContentRevision r = xc_ContentRevision x \<and> cr_Digest r = ''sha256:'' @ xc_Signature x
      \<and> m_externalConfigs m2 = m_externalConfigs m1
      \<and> (\<exists>k. len r = Some k \<and> k + 128 \<le> apiFrameLimit)) m1"
    if "m_host m1 = m_host m" for x m1
    unfolding content_of_entry_def wp_simps
    by (rule wp_asks [OF plain_content_reads])
      (use that in \<open>auto simp: content_changed_def dest!: bounded_result split: sum.splits if_splits\<close>)
  have lost: "wp (content_lost x) (\<lambda>a m2. \<forall>r. a = Inr r \<longrightarrow> A r m2) m1"
    for x A and m1 :: manager
    unfolding content_lost_def wp_simps
    by (rule wp_asks [of plain]) (auto simp: content_changed_def intro: plain_ops)
  define Q :: "content_result command_result \<Rightarrow> manager \<Rightarrow> bool" where "Q = (\<lambda>a m2. \<forall>r. a = Inr r \<longrightarrow>
      cr_Digest r = ''sha256:'' @ h_sha256hex (m_host m) (cr_Content r) \<and> valid_utf8 (cr_Content r)
      \<and> cr_ContentRevision r = n
      \<and> (\<exists>x. map_get (m_externalConfigs m2) i = Some x \<and> cr_Digest r = ''sha256:'' @ xc_Signature x)
      \<and> (\<exists>k. len r = Some k \<and> k + 128 \<le> apiFrameLimit))"
  have known: "wp (content_of_entry len x) Q m1"
    if "quiet m m1" "map_get (m_externalConfigs m1) i = Some x" "xc_ContentRevision x = n" for x m1
    by (rule wp_mono [OF entry]) (use that in \<open>auto simp: quiet_def extends_def Q_def\<close>)
  have gone: "wp (content_lost x) Q m1" for x and m1 :: manager
    unfolding Q_def by (rule lost)
  have refused: "Q (Inl e) m1" for e m1
    by (simp add: Q_def)
  have "wp (externalConfigurationContent len i n) Q m"
    unfolding externalConfigurationContent_def wp_simps
    by (auto intro!: wp_steps [OF quiet_external_refresh] known gone refused simp: wp_simps
        split: option.splits)
  then show ?thesis
    by (auto simp: Q_def wp_def split: prod.splits sum.splits)
qed

end
