(* ===== verification/KDM_Version.thy ===== *)
theory KDM_Version
  imports KDM_Safety
begin

text \<open>
  The version of KMonad (\<^verbatim>\<open>manager/kmonad.go\<close>). The pattern
  \<^verbatim>\<open>\b([0-9]+)\.([0-9]+)(?:\.([0-9]+))?\b\<close> is matched by hand, leftmost first: a match
  begins where no word character precedes, each number is the whole run of digits (what follows it
  is a dot or a word boundary), and the patch number is left out when a word character follows it.
\<close>

definition kmonadVersionProbeTimeout :: duration where "kmonadVersionProbeTimeout = 5 * second"

definition is_digit :: "char \<Rightarrow> bool" where
  "is_digit c \<longleftrightarrow> digit_value c \<noteq> None"

definition is_word :: "char \<Rightarrow> bool" where
  "is_word c \<longleftrightarrow>
     is_digit c \<or> list_ex (\<lambda>(first, final). first \<le> byte c \<and> byte c \<le> final)
       [(65, 90), (95, 95), (97, 122)]"

definition ends_word :: "string \<Rightarrow> bool" where
  "ends_word s \<longleftrightarrow> s = [] \<or> \<not> is_word (hd s)"

definition number_after_dot :: "string \<Rightarrow> (string \<times> string) option" where
  "number_after_dot s =
     (case s of
        c # r \<Rightarrow> if c = CHR ''.'' \<and> takeWhile is_digit r \<noteq> []
                 then Some (takeWhile is_digit r, dropWhile is_digit r) else None
      | [] \<Rightarrow> None)"

definition version_here :: "string \<Rightarrow> (string \<times> string \<times> string) option" where
  "version_here s =
     (let major = takeWhile is_digit s
      in if major = [] then None
         else case number_after_dot (dropWhile is_digit s) of
           None \<Rightarrow> None
         | Some (minor, r) \<Rightarrow>
             (case number_after_dot r of
                Some (patch, r') \<Rightarrow>
                  if ends_word r' then Some (major, minor, patch)
                  else if ends_word r then Some (major, minor, '''') else None
              | None \<Rightarrow> if ends_word r then Some (major, minor, '''') else None))"

fun find_version :: "bool \<Rightarrow> string \<Rightarrow> (string \<times> string \<times> string) option" where
  "find_version after_word [] = None"
| "find_version after_word (c # s) =
     (case (if after_word then None else version_here (c # s)) of
        Some v \<Rightarrow> Some v
      | None \<Rightarrow> find_version (is_word c) s)"

text \<open>\<^verbatim>\<open>strconv.Atoi\<close> gives the largest \<^verbatim>\<open>int\<close> when the digits do not fit; the error is dropped.\<close>

definition version_number :: "string \<Rightarrow> nat" where
  "version_number s = (case parse_digits 0 s of None \<Rightarrow> 0 | Some n \<Rightarrow> min n (2 ^ 63 - 1))"

definition version_unknown :: "bool \<Rightarrow> kmonad_info" where
  "version_unknown available = \<lparr>ki_Available = available, ki_Version = '''',
     ki_Compatibility = KMonadCompatibilityUnknown, ki_ReasonCode = ReasonKMonadVersionUnknown,
     ki_Reason = ''KMonad version could not be determined''\<rparr>"

definition kmonadInfoFromVersion :: "string \<Rightarrow> kmonad_info" where
  "kmonadInfoFromVersion output =
     (case find_version False output of
        None \<Rightarrow> version_unknown False
      | Some (a, b, c) \<Rightarrow>
          let major = version_number a; minor = version_number b;
              patch = (if c \<noteq> '''' then version_number c else 0);
              info = \<lparr>ki_Available = False,
                ki_Version = digits major @ ''.'' @ digits minor @ ''.'' @ digits patch,
                ki_Compatibility = KMonadCompatibilityUnset, ki_ReasonCode = ReasonUnset, ki_Reason = ''''\<rparr>
          in if major > 0 \<or> minor \<ge> 4
             then info\<lparr>ki_Compatibility := KMonadCompatibilityCompatible,
                    ki_ReasonCode := ReasonKMonadCompatible,
                    ki_Reason := ''KMonad version supports the manager validation lifecycle''\<rparr>
             else info\<lparr>ki_Compatibility := KMonadCompatibilityIncompatible,
                    ki_ReasonCode := ReasonKMonadVersionUnsupported,
                    ki_Reason := ''KMonad 0.4.0 or newer is required''\<rparr>)"

definition probeKMonadInfo :: "string \<Rightarrow> kmonad_info op" where
  "probeKMonadInfo command = do {
     available \<leftarrow> KMonadAvailable command;
     if \<not> available
     then return \<lparr>ki_Available = False, ki_Version = '''',
            ki_Compatibility = KMonadCompatibilityUnavailable,
            ki_ReasonCode = ReasonDependencyUnavailable,
            ki_Reason = ''KMonad executable is unavailable''\<rparr>
     else do {
       output \<leftarrow> KMonadVersion command;
       return (case output of
           Inl _ \<Rightarrow> version_unknown True
         | Inr text \<Rightarrow> (kmonadInfoFromVersion text)\<lparr>ki_Available := True\<rparr>) }}"

definition probeKMonadVersion :: "unit op" where
  "probeKMonadVersion = do {
     command \<leftarrow> setting ms_kmonadCommand;
     info \<leftarrow> probeKMonadInfo command;
     modify (\<lambda>m. m\<lparr>m_kmonad := info\<rparr>);
     now \<leftarrow> time_Now;
     modify (\<lambda>m. m\<lparr>m_nextKMonadCheck := now + kmonadAvailabilityCheckInterval\<rparr>) }"

lemma quiet_version [quiet_ops]: "steps quiet probeKMonadVersion"
  by (auto simp: probeKMonadVersion_def probeKMonadInfo_def supervision_def
        intro!: quiet_ops extends_same split: sum.splits)

section \<open>Which versions are accepted\<close>

lemma digits_are_digits: "list_all is_digit (digits n)"
proof (induction n rule: digits.induct)
  case (1 n)
  then show ?case
    by (subst digits.simps) (auto simp: is_digit_def [abs_def] digit_value_chr)
qed

lemma dot_is_no_word [simp]: "\<not> is_digit CHR ''.''" "\<not> is_word CHR ''.''"
  by (simp_all add: is_digit_def is_word_def digit_value_def)

lemma word_of_digit: "is_digit c \<Longrightarrow> is_word c"
  by (simp add: is_word_def)

lemma takeWhile_digits:
  assumes "s = [] \<or> \<not> is_digit (hd s)"
  shows "takeWhile is_digit (digits n @ s) = digits n" "dropWhile is_digit (digits n @ s) = s"
  using digits_are_digits [of n] assms by (cases s; simp add: list_all_iff)+

lemma version_number_digits: "n < 2 ^ 63 \<Longrightarrow> version_number (digits n) = n"
  by (simp add: version_number_def parse_digits_digits)

lemma ends_no_digit: "ends_word s \<Longrightarrow> s = [] \<or> \<not> is_digit (hd s)"
  by (auto simp: ends_word_def word_of_digit)

lemma version_here_version:
  assumes "ends_word post"
  shows "version_here (digits a @ ''.'' @ digits b @ ''.'' @ digits c @ post)
         = Some (digits a, digits b, digits c)"
  using ends_no_digit [OF assms] assms
  by (simp add: version_here_def takeWhile_digits number_after_dot_def Let_def)

lemma find_version_skip:
  assumes "list_all (\<lambda>c. \<not> is_digit c) pre" "pre = [] \<or> \<not> is_word (last pre)" "pre = [] \<longrightarrow> \<not> w"
    "version_here s = Some v"
  shows "find_version w (pre @ s) = Some v"
  using assms
proof (induction pre arbitrary: w)
  case Nil
  have "s \<noteq> []" using Nil.prems(4) by (auto simp: version_here_def Let_def)
  then show ?case using Nil.prems by (cases s) auto
next
  case (Cons c pre)
  have "version_here ((c # pre) @ s) = None"
    using Cons.prems(1) by (simp add: version_here_def Let_def)
  then show ?case using Cons by (auto split: if_splits)
qed

text \<open>
  A line that reports the version \<open>a.b.c\<close>, after text without digits and before a word
  boundary, is recognised as that version, and the manager calls KMonad compatible exactly from
  0.4 on.
\<close>

theorem kmonad_version_recognised:
  assumes "list_all (\<lambda>c. \<not> is_digit c) pre" "pre = [] \<or> \<not> is_word (last pre)" "ends_word post"
    and "a < 2 ^ 63" "b < 2 ^ 63" "c < 2 ^ 63"
  defines "info \<equiv> kmonadInfoFromVersion (pre @ digits a @ ''.'' @ digits b @ ''.'' @ digits c @ post)"
  shows "ki_Version info = digits a @ ''.'' @ digits b @ ''.'' @ digits c
    \<and> (ki_Compatibility info = KMonadCompatibilityCompatible \<longleftrightarrow> a > 0 \<or> b \<ge> 4)
    \<and> (ki_Compatibility info = KMonadCompatibilityIncompatible \<longleftrightarrow> a = 0 \<and> b < 4)"
proof -
  have "find_version False (pre @ digits a @ ''.'' @ digits b @ ''.'' @ digits c @ post)
      = Some (digits a, digits b, digits c)"
    by (rule find_version_skip [OF assms(1,2) _ version_here_version [OF assms(3)]]) simp
  then show ?thesis
    using assms(4-6) by (auto simp: info_def kmonadInfoFromVersion_def version_number_digits Let_def)
qed

theorem kmonad_version_recognised_witness:
  "ki_Compatibility (kmonadInfoFromVersion
     (''kmonad '' @ digits 0 @ ''.'' @ digits 3 @ ''.'' @ digits 9 @ [newline]))
   = KMonadCompatibilityIncompatible"
  using kmonad_version_recognised [of "''kmonad ''" "[newline]" 0 3 9]
  by (simp add: is_digit_def is_word_def digit_value_def ends_word_def)

end
