(* ===== verification/KDM_Service.thy ===== *)
theory KDM_Service
  imports KDM_Content KDM_Version
begin

text \<open>
  The service: how the manager starts (\<^verbatim>\<open>manager/service_runtime.go\<close>), what its loop does
  between commands (\<^verbatim>\<open>manager/runtime.go\<close>), and runs of it. A run is a sequence of requests; a
  pass of the loop is one of them. Requests come in any order and number, so every interleaving of
  clients, timers, key presses and dry runs is a run.
\<close>

section \<open>Start\<close>

definition no_log :: event_log where
  "no_log = \<lparr>el_events = [], el_eventStart = 0, el_nextEventID = 0, el_nextSubscriberID = 0,
     el_eventSubscribers = [], el_channels = [], el_stateRevision = 0, el_publicStateRevision = 0,
     el_publicEvents = replicate (length publicEventMetricTypes) 0, el_ticks = 0\<rparr>"

definition new_manager :: "host \<Rightarrow> manager_settings \<Rightarrow> manager" where
  "new_manager host settings =
     \<lparr>m_host = host, m_history = [], m_settings = settings,
      m_counters = \<lparr>ct_lastProgress = 0, ct_metricsServerUp = False, ct_statusFailures = 0,
        ct_reconciles = 0, ct_starts = 0, ct_failures = 0, ct_stops = 0\<rparr>,
      m_kmonad = \<lparr>ki_Available = False, ki_Version = '''', ki_Compatibility = KMonadCompatibilityUnset,
        ki_ReasonCode = ReasonUnset, ki_Reason = ''''\<rparr>,
      m_nextKMonadCheck = 0, m_watchPaths = [], m_states = [], m_duplicates = [], m_devices = [],
      m_discoveredNodeDevices = [], m_managedConfigs = [], m_managedTampered = [],
      m_externalConfigs = [], m_prevalidated = [], m_log = no_log,
      m_journal = \<lparr>j_path = '''', j_records = [], j_operations = [], j_disk = None\<rparr>,
      m_identification = None, m_probe = None, m_nextSession = 0,
      m_inputScans = \<lparr>inputScanBasis = [], inputScanGeneration = []\<rparr>,
      m_lastPublicState = \<lparr>ps_devices = [], ps_configurations = [], ps_operations = [],
        ps_diagnostics = []\<rparr>\<rparr>"

definition markProgress :: "unit op" where
  "markProgress = do {
     now \<leftarrow> time_Now;
     count (\<lambda>c. c\<lparr>ct_lastProgress := now\<rparr>) }"

definition start_manager :: "(go_error + path) \<Rightarrow> status_file option \<Rightarrow> unit op" where
  "start_manager stateDir previousStatus = do {
     loadDeviceRegistry;
     probeKMonadVersion;
     (case stateDir of
        Inl _ \<Rightarrow> return ()
      | Inr base \<Rightarrow> do {
          failed \<leftarrow> openManagedConfigurationStore base;
          case failed of Some _ \<Rightarrow> return () | None \<Rightarrow> loadExternalConfigurationRegistry });
     markProgress;
     restoreBackoff previousStatus }"

section \<open>Watches\<close>

definition desired_watches :: "path list op" where
  "desired_watches = do {
     settings \<leftarrow> gets m_settings;
     listed \<leftarrow> configurationPaths;
     dirs \<leftarrow> loop (case listed of Inl _ \<Rightarrow> [] | Inr ps \<Rightarrow> ps) [] (\<lambda>config acc. do {
       read \<leftarrow> readDeviceFileWithLimit config (ms_maxConfigBytes settings);
       return (case read of
           Inl _ \<Rightarrow> acc
         | Inr device \<Rightarrow> if device = '''' then acc else acc @ [path_dir device]) });
     return (remdups ((if ms_configDir settings = '''' then [] else [ms_configDir settings]) @ dirs)) }"

text \<open>The watches that are kept: wanted and still there.\<close>

definition keep_watch :: "path list \<Rightarrow> path \<Rightarrow> path list \<Rightarrow> path list op" where
  "keep_watch desired p kept =
     (if p \<notin> set desired then do { _ \<leftarrow> call (WatchRemove p); return kept }
      else do {
        missing \<leftarrow> call (StatPath p);
        if (case missing of None \<Rightarrow> False | Some e \<Rightarrow> ge_kind e = NotExist)
        then do { _ \<leftarrow> call (WatchRemove p); return kept }
        else return (kept @ [p]) })"

definition add_watch :: "path \<Rightarrow> path list \<Rightarrow> path list op" where
  "add_watch p watched =
     (if p \<in> set watched then return watched
      else do {
        failed \<leftarrow> call (WatchAdd p);
        return (case failed of None \<Rightarrow> watched @ [p] | Some _ \<Rightarrow> watched) })"

definition refreshWatches :: "unit op" where
  "refreshWatches = do {
     desired \<leftarrow> desired_watches;
     watched \<leftarrow> gets m_watchPaths;
     kept \<leftarrow> loop watched [] (keep_watch desired);
     now_watched \<leftarrow> loop desired kept add_watch;
     modify (\<lambda>m. m\<lparr>m_watchPaths := now_watched\<rparr>) }"

definition service_pass :: "bool \<Rightarrow> unit op" where
  "service_pass watching = do {
     now \<leftarrow> time_Now;
     reconcile now;
     markProgress;
     if watching then refreshWatches else return () }"

section \<open>Runs\<close>

record service =
  sv_manager :: manager
  sv_applies :: "(apply_preparation \<times> validation_result option) list"
  sv_previews :: "validation_preparation list"

datatype request =
    ReconcilePass bool
  | StartIdentify bool string int | FinishIdentify session "go_error option" | CancelIdentify string
  | StartProbe bool string string int | FinishProbeSession session "go_error option" | CancelProbe string
  | ScanInput bool string
  | TakeSnapshot | ListConfigurations
  | PreparePreview "nat \<Rightarrow> bool" "managed_configuration_model option" "string option"
  | RunPreview nat "nat \<Rightarrow> string \<Rightarrow> (string \<times> string \<times> string \<times> string) list" "string list"
  | PrepareApply "nat \<Rightarrow> bool" apply_params
  | PrepareAdoption "nat \<Rightarrow> bool" string string string
  | ValidateApply nat | CommitApply nat bool
  | SetEnabled bool string string nat bool | DeleteConfiguration bool string string nat
  | ReadContent "content_result \<Rightarrow> nat option" string nat
  | ExportConfiguration "export_result \<Rightarrow> nat option" string string
  | Shutdown

definition on_manager :: "'a op \<Rightarrow> service \<Rightarrow> service" where
  "on_manager f s = s\<lparr>sv_manager := snd (run_state f (sv_manager s))\<rparr>"

definition prepare_on :: "(operation + apply_preparation) command_result op \<Rightarrow> service \<Rightarrow> service" where
  "prepare_on f s = (case run_state f (sv_manager s) of (r, m) \<Rightarrow>
     s\<lparr>sv_manager := m, sv_applies := (case r of
         Inr (Inr p) \<Rightarrow> sv_applies s @ [(p, None)] | _ \<Rightarrow> sv_applies s)\<rparr>)"

definition preview_on ::
  "(validation_result + validation_preparation) command_result op \<Rightarrow> service \<Rightarrow> service" where
  "preview_on f s = (case run_state f (sv_manager s) of (r, m) \<Rightarrow>
     s\<lparr>sv_manager := m, sv_previews := (case r of
         Inr (Inr p) \<Rightarrow> sv_previews s @ [p] | _ \<Rightarrow> sv_previews s)\<rparr>)"

text \<open>The dry run of the \<open>k\<close>-th prepared apply, and its commit, once each.\<close>

definition validate_nth :: "nat \<Rightarrow> service \<Rightarrow> service" where
  "validate_nth k s =
     (if k < length (sv_applies s)
      then (case sv_applies s ! k of
          (p, Some _) \<Rightarrow> s
        | (p, None) \<Rightarrow> (case run_state (runManagedApplyValidation p) (sv_manager s) of (r, m) \<Rightarrow>
            s\<lparr>sv_manager := m, sv_applies := (sv_applies s)[k := (p, Some r)]\<rparr>))
      else s)"

definition commit_nth :: "nat \<Rightarrow> bool \<Rightarrow> service \<Rightarrow> service" where
  "commit_nth k expired s =
     (if k < length (sv_applies s)
      then (case sv_applies s ! k of
          (p, None) \<Rightarrow> s
        | (p, Some r) \<Rightarrow>
            on_manager (finishManagedApply expired p r)
              (s\<lparr>sv_applies := take k (sv_applies s) @ drop (k + 1) (sv_applies s)\<rparr>))
      else s)"

definition preview_nth ::
  "nat \<Rightarrow> (nat \<Rightarrow> string \<Rightarrow> (string \<times> string \<times> string \<times> string) list) \<Rightarrow> string list
   \<Rightarrow> service \<Rightarrow> service" where
  "preview_nth k find_all writes s =
     (if k < length (sv_previews s)
      then on_manager (runPreparedValidation find_all writes (sv_previews s ! k))
             (s\<lparr>sv_previews := take k (sv_previews s) @ drop (k + 1) (sv_previews s)\<rparr>)
      else s)"

fun serve_request :: "request \<Rightarrow> service \<Rightarrow> service" where
  "serve_request (ReconcilePass watching) = on_manager (service_pass watching)"
| "serve_request (StartIdentify e d t) = on_manager (startIdentification e d t)"
| "serve_request (FinishIdentify s r) = on_manager (finishIdentification s r)"
| "serve_request (CancelIdentify i) = on_manager (cancelIdentificationOperation i)"
| "serve_request (StartProbe e d k t) = on_manager (startProbe e d k t)"
| "serve_request (FinishProbeSession s r) = on_manager (finishProbe s r)"
| "serve_request (CancelProbe i) = on_manager (cancelProbeOperation i)"
| "serve_request (ScanInput e d) = on_manager (inputScan e d)"
| "serve_request TakeSnapshot = on_manager take_snapshot"
| "serve_request ListConfigurations = on_manager configurationList"
| "serve_request (PreparePreview e md c) = preview_on (prepareValidationPreview e md c)"
| "serve_request (RunPreview k f ws) = preview_nth k f ws"
| "serve_request (PrepareApply e p) = prepare_on (prepareManagedApply e p)"
| "serve_request (PrepareAdoption e c n i) = prepare_on (prepareExternalAdoption e c n i)"
| "serve_request (ValidateApply k) = validate_nth k"
| "serve_request (CommitApply k e) = commit_nth k e"
| "serve_request (SetEnabled e o1 i n b) = on_manager (setManagedConfigurationEnabled e o1 i n b)"
| "serve_request (DeleteConfiguration e o1 i n) = on_manager (deleteManagedConfiguration e o1 i n)"
| "serve_request (ReadContent l i n) = on_manager (externalConfigurationContent l i n)"
| "serve_request (ExportConfiguration l i f) = on_manager (exportManagedConfiguration l i f)"
| "serve_request Shutdown = on_manager cleanup"

definition started_service ::
  "host \<Rightarrow> manager_settings \<Rightarrow> (go_error + path) \<Rightarrow> status_file option \<Rightarrow> service" where
  "started_service host settings stateDir previousStatus =
     on_manager (start_manager stateDir previousStatus)
       \<lparr>sv_manager = new_manager host settings, sv_applies = [], sv_previews = []\<rparr>"

definition serve :: "request list \<Rightarrow> service \<Rightarrow> service" where
  "serve = fold serve_request"

section \<open>Every run is safe\<close>

definition service_ok :: "service \<Rightarrow> bool" where
  "service_ok s \<longleftrightarrow> supervised (sv_manager s)
     \<and> (\<forall>e \<in> set (sv_applies s). apply_written (fst e) (m_history (sv_manager s))
          \<and> (\<forall>r. snd e = Some r \<longrightarrow> val_Outcome r = ValidationValid
                \<longrightarrow> dry_run_passed (pr_snapshotPath (fst e)) (m_history (sv_manager s))))
     \<and> (\<forall>p \<in> set (sv_previews s). preview_written p (m_history (sv_manager s)))"

lemma service_ok_grows:
  assumes "service_ok s" "supervised m" "grows (sv_manager s) m"
    "set a \<subseteq> set (sv_applies s)" "set v \<subseteq> set (sv_previews s)"
  shows "service_ok (s\<lparr>sv_manager := m, sv_applies := a, sv_previews := v\<rparr>)"
  using assms written_mono [OF assms(3)] passed_mono [OF assms(3)]
  by (auto 4 4 simp: service_ok_def apply_written_def preview_written_def subset_iff)

lemma on_manager_ok:
  assumes "service_ok s" "wp f (\<lambda>_ m'. supervised m' \<and> grows (sv_manager s) m') (sv_manager s)"
  shows "service_ok (on_manager f s)"
  using service_ok_grows [OF assms(1), of "snd (run_state f (sv_manager s))" "sv_applies s" "sv_previews s"]
    assms(2)
  by (auto simp: on_manager_def wp_def split: prod.splits)

lemma quiet_service [quiet_ops]:
  "steps quiet markProgress" "steps quiet refreshWatches"
  by (auto simp: markProgress_def refreshWatches_def desired_watches_def keep_watch_def add_watch_def
        supervision_def intro!: quiet_ops extends_same split: option.splits)

lemma spec_service_pass:
  assumes "supervised m" "\<And>m'. supervised m' \<Longrightarrow> grows m m' \<Longrightarrow> Q () m'"
  shows "wp (service_pass watching) Q m"
  unfolding service_pass_def wp_simps
  using assms(1)
  by (auto 2 10 intro!: assms(2) spec_quiet [of time_Now] spec_reconcile' spec_quiet [of markProgress]
      spec_quiet [of refreshWatches] quiet_ops intro: grows_trans)

lemma spec_stop_everything:
  assumes "supervised m1" "grows m m1"
  shows "wp (stopStates (m_states m1) d) (\<lambda>_. wp (if p = '''' then return ()
      else do { _ \<leftarrow> call (RemoveFile p); return () })
      (\<lambda>_ m'. supervised m' \<and> grows m m')) (m1\<lparr>m_states := []\<rparr>)"
proof -
  have "wp (stopStates (m_states m1) d) (\<lambda>_ m'. supervised m' \<and> grows (m1\<lparr>m_states := []\<rparr>) m')
      (m1\<lparr>m_states := []\<rparr>)"
    by (rule spec_stopStates) (use assms(1) in \<open>auto simp: supervised_def\<close>)
  then show ?thesis
    by (rule wp_mono)
      (use assms in \<open>auto simp: wp_simps grows_def intro!: spec_call intro: grows_trans\<close>)
qed

lemma spec_cleanup:
  assumes "supervised m"
  shows "wp cleanup (\<lambda>_ m'. supervised m' \<and> grows m m') m"
proof -
  have calm: "supervised (m\<lparr>m_identification := None, m_probe := None\<rparr>)"
    using assms by (simp add: supervised_def)
  have stop: "wp time_Now (\<lambda>now m2. wp (stopStates (m_states m2) (now + ms_stopTimeout (m_settings m2)))
      (\<lambda>_. wp (if ms_statusPath (m_settings m2) = '''' then return ()
         else do { _ \<leftarrow> call (RemoveFile (ms_statusPath (m_settings m2))); return () })
         (\<lambda>_ m'. supervised m' \<and> grows m m')) (m2\<lparr>m_states := []\<rparr>)) m1"
    if "supervised m1" "grows m m1" for m1
    by (rule spec_quiet [OF _ that(1)], rule quiet_ops, rule spec_stop_everything, assumption)
      (use that(2) in \<open>rule grows_trans\<close>)
  show ?thesis
    unfolding cleanup_def wp_bind wp_modify wp_gets
    by (rule spec_quiet [OF _ calm], (auto intro!: quiet_ops)[1], rule stop)
      (simp_all add: supervised_def grows_def)
qed

lemma settings_frame [simp]:
  "supervised (m\<lparr>m_settings := s\<rparr>) = supervised m"
  "grows m (m'\<lparr>m_settings := s\<rparr>) = grows m m'" "grows (m\<lparr>m_settings := s\<rparr>) m' = grows m m'"
  by (simp_all add: supervised_def grows_def)

lemma quiet_loading [quiet_ops]:
  "steps quiet (load_managed_entry e)" "steps quiet (openJournal p)" "steps quiet loadDeviceRegistry"
  "steps quiet loadExternalConfigurationRegistry"
  by (auto simp: load_managed_entry_def openJournal_def write_journal_def loadDeviceRegistry_def
        loadExternalConfigurationRegistry_def supervision_def Let_def
        intro!: quiet_ops extends_same
        split: sum.splits option.splits document.splits journal_read.splits)

lemma spec_openStore:
  assumes "supervised m" "\<And>r m'. supervised m' \<Longrightarrow> grows m m' \<Longrightarrow> Q r m'"
  shows "wp (openManagedConfigurationStore base) Q m"
  unfolding openManagedConfigurationStore_def wp_simps Let_def
  using assms(1)
  by (auto 2 12 simp del: calls.simps intro!: assms(2) spec_quiet [of "calls cs" for cs]
      spec_quiet [of "openJournal p" for p] spec_quiet [of "os_ReadDir p" for p]
      spec_quiet [of "for_each es load_managed_entry" for es] quiet_ops
      simp: wp_simps intro: grows_trans split: option.splits sum.splits)

lemma spec_restoreBackoff:
  assumes "supervised m"
  shows "wp (restoreBackoff status) (\<lambda>_ m'. supervised m' \<and> grows m m') m"
proof (cases status)
  case (Some saved)
  have put: "supervised (m1\<lparr>m_states := map_put p (restored_state item) (m_states m1)\<rparr>)"
    if "supervised m1" for p item m1
    using that by (intro supervised_put) (auto simp: state_ok_def restored_state_def)
  show ?thesis
    unfolding restoreBackoff_def Some option.case
    by (rule wp_for_each [where I = "\<lambda>m'. supervised m' \<and> grows m m'"])
      (use assms in \<open>auto simp: wp_simps grows_def intro!: put\<close>)
qed (use assms in \<open>simp add: restoreBackoff_def wp_simps\<close>)

lemma spec_start_manager:
  assumes "supervised m"
  shows "wp (start_manager stateDir status) (\<lambda>_ m'. supervised m' \<and> grows m m') m"
proof -
  have last: "wp (restoreBackoff status) (\<lambda>_ m'. supervised m' \<and> grows m m') m1"
    if "supervised m1" "grows m m1" for m1
    by (rule wp_mono [OF spec_restoreBackoff [OF that(1)]]) (use that(2) in \<open>auto intro: grows_trans\<close>)
  have mark: "wp markProgress (\<lambda>_. wp (restoreBackoff status) (\<lambda>_ m'. supervised m' \<and> grows m m')) m1"
    if "supervised m1" "grows m m1" for m1
    by (rule spec_quiet [OF _ that(1)], rule quiet_ops, rule last) (use that(2) in \<open>auto intro: grows_trans\<close>)
  show ?thesis
    unfolding start_manager_def wp_simps
    using assms
    by (auto 2 10 intro!: mark spec_quiet [of loadDeviceRegistry] spec_quiet [of probeKMonadVersion]
        spec_openStore spec_quiet [of loadExternalConfigurationRegistry] quiet_ops
        intro: grows_trans split: sum.splits option.splits)
qed

lemma apply_pending:
  assumes "service_ok s" "k < length (sv_applies s)" "sv_applies s ! k = (p, v)"
  shows "apply_written p (m_history (sv_manager s))"
    and "v = Some r \<Longrightarrow> val_Outcome r = ValidationValid
         \<longrightarrow> dry_run_passed (pr_snapshotPath p) (m_history (sv_manager s))"
  using assms nth_mem [OF assms(2)] by (auto simp: service_ok_def)

lemma prepare_on_ok:
  assumes "service_ok s"
    "wp f (\<lambda>r m'. supervised m' \<and> grows (sv_manager s) m'
       \<and> (\<forall>p. r = Inr (Inr p) \<longrightarrow> apply_written p (m_history m'))) (sv_manager s)"
  shows "service_ok (prepare_on f s)"
proof -
  obtain r m where run: "run_state f (sv_manager s) = (r, m)" by force
  have new: "supervised m" "grows (sv_manager s) m"
    "\<And>p. r = Inr (Inr p) \<Longrightarrow> apply_written p (m_history m)"
    using assms(2) run by (auto simp: wp_def)
  have kept: "service_ok (s\<lparr>sv_manager := m\<rparr>)"
    using service_ok_grows [OF assms(1) new(1,2), of "sv_applies s" "sv_previews s"] by simp
  show ?thesis
    using kept new(3) by (auto simp: prepare_on_def run service_ok_def split: sum.splits)
qed

lemma preview_on_ok:
  assumes "service_ok s"
    "wp f (\<lambda>r m'. supervised m' \<and> grows (sv_manager s) m'
       \<and> (\<forall>p. r = Inr (Inr p) \<longrightarrow> preview_written p (m_history m'))) (sv_manager s)"
  shows "service_ok (preview_on f s)"
proof -
  obtain r m where run: "run_state f (sv_manager s) = (r, m)" by force
  have new: "supervised m" "grows (sv_manager s) m"
    "\<And>p. r = Inr (Inr p) \<Longrightarrow> preview_written p (m_history m)"
    using assms(2) run by (auto simp: wp_def)
  have kept: "service_ok (s\<lparr>sv_manager := m\<rparr>)"
    using service_ok_grows [OF assms(1) new(1,2), of "sv_applies s" "sv_previews s"] by simp
  show ?thesis
    using kept new(3) by (auto simp: preview_on_def run service_ok_def split: sum.splits)
qed

lemma validate_nth_ok:
  assumes "service_ok s"
  shows "service_ok (validate_nth k s)"
proof (cases "k < length (sv_applies s) \<and> snd (sv_applies s ! k) = None")
  case True
  then obtain p where k: "k < length (sv_applies s)" "sv_applies s ! k = (p, None)"
    by (metis prod.collapse)
  obtain r m where run: "run_state (runManagedApplyValidation p) (sv_manager s) = (r, m)" by force
  have "wp (runManagedApplyValidation p) (\<lambda>r m'. supervised m' \<and> grows (sv_manager s) m'
      \<and> (val_Outcome r = ValidationValid \<longrightarrow> dry_run_passed (pr_snapshotPath p) (m_history m')))
      (sv_manager s)"
    by (rule spec_runManagedApplyValidation)
      (use assms apply_pending(1) [OF assms k] in \<open>auto simp: service_ok_def\<close>)
  then have new: "supervised m" "grows (sv_manager s) m"
    "val_Outcome r = ValidationValid \<longrightarrow> dry_run_passed (pr_snapshotPath p) (m_history m)"
    using run by (auto simp: wp_def)
  have kept: "service_ok (s\<lparr>sv_manager := m\<rparr>)"
    using service_ok_grows [OF assms new(1,2), of "sv_applies s" "sv_previews s"] by simp
  have "apply_written p (m_history m)"
    using apply_pending(1) [of "s\<lparr>sv_manager := m\<rparr>" k p None] kept k by simp
  then have entry: "apply_written (fst e) (m_history m) \<and> (\<forall>r'. snd e = Some r' \<longrightarrow>
      val_Outcome r' = ValidationValid \<longrightarrow> dry_run_passed (pr_snapshotPath (fst e)) (m_history m))"
    if "e = (p, Some r)" for e
    using that new(3) by simp
  have "\<forall>e \<in> set ((sv_applies s)[k := (p, Some r)]). apply_written (fst e) (m_history m)
      \<and> (\<forall>r'. snd e = Some r' \<longrightarrow> val_Outcome r' = ValidationValid
            \<longrightarrow> dry_run_passed (pr_snapshotPath (fst e)) (m_history m))" (is "\<forall>e \<in> _. ?ok e")
  proof
    fix e assume "e \<in> set ((sv_applies s)[k := (p, Some r)])"
    then have "e = (p, Some r) \<or> e \<in> set (sv_applies s)"
      using set_update_subset_insert [of "sv_applies s" k "(p, Some r)"] by blast
    then show "?ok e"
    proof
      assume "e \<in> set (sv_applies s)"
      then show ?thesis using kept by (simp add: service_ok_def)
    qed (rule entry)
  qed
  then show ?thesis
    using kept k by (simp add: validate_nth_def run service_ok_def)
qed (use assms in \<open>auto simp: validate_nth_def split: prod.splits option.splits\<close>)

lemma commit_nth_ok:
  assumes "service_ok s"
  shows "service_ok (commit_nth k expired s)"
proof (cases "k < length (sv_applies s) \<and> snd (sv_applies s ! k) \<noteq> None")
  case True
  then obtain p r where k: "k < length (sv_applies s)" "sv_applies s ! k = (p, Some r)"
    by (metis not_None_eq prod.collapse)
  let ?s = "s\<lparr>sv_applies := take k (sv_applies s) @ drop (k + 1) (sv_applies s)\<rparr>"
  have "service_ok ?s"
    using assms set_take_subset [of k "sv_applies s"] set_drop_subset [of "k + 1" "sv_applies s"]
    by (auto simp: service_ok_def)
  moreover have "wp (finishManagedApply expired p r) (\<lambda>_ m'. supervised m' \<and> grows (sv_manager ?s) m')
      (sv_manager ?s)"
    by (rule spec_finishManagedApply)
      (use assms apply_pending(2) [OF assms k] in \<open>auto simp: service_ok_def\<close>)
  ultimately show ?thesis
    using k by (simp add: commit_nth_def on_manager_ok)
qed (use assms in \<open>auto simp: commit_nth_def split: prod.splits option.splits\<close>)

lemma preview_nth_ok:
  assumes "service_ok s"
  shows "service_ok (preview_nth k find_all writes s)"
proof (cases "k < length (sv_previews s)")
  case True
  let ?s = "s\<lparr>sv_previews := take k (sv_previews s) @ drop (k + 1) (sv_previews s)\<rparr>"
  have "service_ok ?s"
    using assms set_take_subset [of k "sv_previews s"] set_drop_subset [of "k + 1" "sv_previews s"]
    by (auto simp: service_ok_def)
  moreover have "wp (runPreparedValidation find_all writes (sv_previews s ! k))
      (\<lambda>_ m'. supervised m' \<and> grows (sv_manager ?s) m') (sv_manager ?s)"
    by (rule spec_runPreparedValidation) (use assms True in \<open>auto simp: service_ok_def\<close>)
  ultimately show ?thesis
    using True by (simp add: preview_nth_def on_manager_ok)
qed (use assms in \<open>simp add: preview_nth_def\<close>)

lemma serve_request_ok:
  assumes "service_ok s"
  shows "service_ok (serve_request q s)"
proof -
  have m: "supervised (sv_manager s)" using assms by (simp add: service_ok_def)
  show ?thesis
    using assms
    by (cases q)
      (auto intro!: on_manager_ok prepare_on_ok preview_on_ok validate_nth_ok
        commit_nth_ok preview_nth_ok spec_service_pass [OF m] spec_startIdentification [OF m]
        spec_finish_session [OF m] spec_cancel_session [OF m] spec_startProbe [OF m]
        spec_prepareValidationPreview [OF m] spec_prepareManagedApply [OF m]
        spec_prepareExternalAdoption [OF m] spec_setManagedConfigurationEnabled [OF m]
        spec_deleteManagedConfiguration [OF m] spec_cleanup [OF m]
        spec_quiet [of "inputScan e d" for e d, OF _ m] spec_quiet [of take_snapshot, OF _ m]
        spec_quiet [of configurationList, OF _ m]
        spec_quiet [of "externalConfigurationContent l i n" for l i n, OF _ m]
        spec_quiet [of "exportManagedConfiguration l i n" for l i n, OF _ m] quiet_ops)
qed

lemma serve_ok: "service_ok s \<Longrightarrow> service_ok (serve qs s)"
  unfolding serve_def by (induction qs arbitrary: s) (simp_all add: serve_request_ok)

lemma started_service_ok: "service_ok (started_service host settings stateDir status)"
proof -
  have new: "supervised (new_manager host settings)"
    by (simp add: supervised_def new_manager_def)
  show ?thesis
    unfolding started_service_def
    by (rule on_manager_ok) (simp_all add: service_ok_def new spec_start_manager)
qed

text \<open>
  C1: Whatever the system answers and whatever is asked of the manager, in any order, over its
  whole life it signals only processes it started itself (their group, handle and identifier as the
  system gave them), and it starts KMonad on a configuration only from a file it wrote itself and on
  which a dry run of KMonad has succeeded.
\<close>

theorem service_history_safe:
  "safe_history (m_history (sv_manager
     (serve requests (started_service host settings stateDir previousStatus))))"
  using serve_ok [OF started_service_ok] by (simp add: service_ok_def supervised_def)

end
