(* ===== verification/KDM_Pass.thy ===== *)
theory KDM_Pass
  imports KDM_Service
begin

text \<open>
  One pass of the supervisor, as a whole: which configurations it leaves supervised, how many
  processes it starts, and what it does when the configuration directory is not to be trusted.

  Most operations of the supervisor change only the history and the counters. \<open>calling\<close> is the
  interface of a relation that every such operation keeps; it is used with two relations, one that
  says that the table of configurations stays as it is and one that says that nothing is launched.
\<close>

section \<open>Operations that only call out\<close>

text \<open>A start that is not a dry run.\<close>

definition is_launch :: "os_event \<Rightarrow> bool" where
  "is_launch e = (case e of EvStart _ [_] _ \<Rightarrow> True | _ \<Rightarrow> False)"

lemma is_launch_simps [simp]:
  "\<not> is_launch (EvCall c r)" "\<not> is_launch (EvStart command [] child)"
  "is_launch (EvStart command [x] child)" "\<not> is_launch (EvStart command (x # y # ys) child)"
  "plain e \<Longrightarrow> \<not> is_launch e"
  by (auto simp: is_launch_def plain_def split: os_event.splits)

locale calling = step_relation R for R :: "manager \<Rightarrow> manager \<Rightarrow> bool" +
  assumes quiet: "quiet m m' \<Longrightarrow> R m m'"
    and effect: "\<not> is_launch e \<Longrightarrow> R m (m\<lparr>m_history := e # m_history m\<rparr>)"
begin

lemma steps_quiet: "steps quiet f \<Longrightarrow> steps R f"
  by (simp add: state_io_rel_def quiet)

lemmas quiet_steps = quiet_ops [THEN steps_quiet]

lemma steps_ask: "(\<And>a. \<not> is_launch (ev a)) \<Longrightarrow> steps R (ask q ev)"
  by (simp add: state_io_rel_def run_ask effect)

lemma steps_call [intro!]: "steps R (call c)"
  unfolding call_def by (rule steps_ask) simp

lemma steps_waits [intro!]: "steps R (wait_exit i d)" "steps R (wait_dry_run i d)"
  unfolding wait_exit_def wait_dry_run_def by (rule steps_ask; simp)+

lemma steps_dry_start [intro!]: "steps R (StartKMonad command [''--dry-run'', config])"
  unfolding StartKMonad_def by (rule steps_ask) simp

lemma steps_signal [intro!]:
  "steps R (signalProcessGroup p s)" "steps R (signal_by_pid p s)" "steps R (signalProcess p s)"
proof -
  show group: "steps R (signalProcessGroup p s)"
    by (auto simp: signalProcessGroup_def Let_def)
  show by_pid: "steps R (signal_by_pid p s)"
    by (auto simp: signal_by_pid_def intro!: quiet_steps)
  show "steps R (signalProcess p s)"
    by (auto simp: signalProcess_def intro!: group by_pid split: option.splits)
qed

lemma steps_stopProcess [intro!]: "steps R (stopProcess config d s)"
  by (auto simp: stopProcess_def intro!: quiet_steps split: option.splits)

lemma steps_dryRun [intro!]: "steps R (dryRun config)"
  by (auto simp: dryRun_def dryRunContextWithWriters_def end_dry_run_def kill_dry_run_def
        dry_run_error_def intro!: quiet_steps split: sum.splits dry_run_end.splits)

lemma steps_snapshots [intro!]:
  "steps R (createConfigSnapshot config data)" "steps R (drop_snapshot p e)"
  by (auto simp: drop_snapshot_def intro!: quiet_steps)

lemma steps_validate [intro!]: "steps R (validateConfigSnapshot config signature)"
  by (auto simp: validateConfigSnapshot_def intro!: quiet_steps split: sum.splits option.splits)

lemma steps_retry [intro!]:
  "steps R (scheduleRetry_op now reason s)" "steps R (removeConfigSnapshot p)" "steps R count_failure"
  by (auto simp: count_failure_def intro!: quiet_steps)

lemma steps_update [intro!]:
  "steps R (check_update config now signature s v)" "steps R (switch_config config d i signature s)"
  by (auto simp: check_update_def switch_config_def split: sum.splits option.splits)

lemma steps_reap [intro!]: "steps R (reap now p e s)"
  by (auto simp: reap_def intro!: quiet_steps)

lemma steps_check [intro!]: "steps R (check_process config now d s)"
  by (auto simp: check_process_def poll_process_def Let_def intro!: quiet_steps split: option.splits)

lemma steps_failures [intro!]:
  "steps R (validation_failed now e s)" "steps R (start_failed now reason v s)"
  by (auto simp: validation_failed_def start_failed_def)

lemma steps_attach [intro!]: "steps R (attach_child config now signature v pid s)"
  by (auto simp: attach_child_def attachProcessCgroup_def intro!: quiet_steps split: option.splits)

lemma steps_stopStates [intro!]: "steps R (stopStates states d)"
  by (auto simp: stopStates_def)

end

text \<open>The table of configurations, the snapshots kept and the sessions stay.\<close>

definition outward :: "manager \<Rightarrow> manager \<Rightarrow> bool" where
  "outward m m' \<longleftrightarrow> extends (\<lambda>_. True) m m' \<and> supervision m' = supervision m"

definition unlaunched :: "manager \<Rightarrow> manager \<Rightarrow> bool" where
  "unlaunched = extends (\<lambda>e. \<not> is_launch e)"

lemma extends_mono: "extends P m m' \<Longrightarrow> (\<And>e. P e \<Longrightarrow> Q e) \<Longrightarrow> extends Q m m'"
  unfolding extends_def list_all_iff by blast

lemma extends_cons: "P e \<Longrightarrow> extends P m (m\<lparr>m_history := e # m_history m\<rparr>)"
  by (auto simp: extends_def intro: exI [where x = "[e]"])

interpretation outgoing: calling outward
  by unfold_locales
    (auto simp: outward_def quiet_def supervision_def
      intro: extends_refl extends_trans extends_mono extends_cons)

interpretation unlaunching: calling unlaunched
  by unfold_locales
    (auto simp: unlaunched_def quiet_def intro: extends_refl extends_trans extends_mono extends_cons)

section \<open>Which configurations stay supervised\<close>

lemma outward_start [intro!]: "steps outward (StartKMonad command args)"
  unfolding StartKMonad_def state_io_rel_def
  by (auto simp: run_ask outward_def supervision_def intro: extends_cons)

lemma outward_startConfig [intro!]: "steps outward (startConfig config now signature v s)"
  by (auto simp: startConfig_def launch_def Let_def intro!: outgoing.quiet_steps
      split: option.splits sum.splits)

definition elsewhere :: "path \<Rightarrow> manager \<Rightarrow> manager \<Rightarrow> bool" where
  "elsewhere config m m' \<longleftrightarrow> m_settings m' = m_settings m
     \<and> (\<forall>c. c \<noteq> config \<longrightarrow> map_get (m_states m') c = map_get (m_states m) c)"

interpretation else_where: step_relation "elsewhere config" for config
  by unfold_locales (auto simp: elsewhere_def)

lemma outward_elsewhere: "steps outward f \<Longrightarrow> steps (elsewhere config) f"
  by (auto simp: state_io_rel_def outward_def extends_def supervision_def elsewhere_def)

lemma elsewhere_modify: "(\<And>m. elsewhere config m (f m)) \<Longrightarrow> steps (elsewhere config) (modify f)"
  by (rule steps_modify)

lemmas elsewhere_calls = outgoing.steps_stopProcess [THEN outward_elsewhere]
  outgoing.steps_update [THEN outward_elsewhere] outgoing.steps_check [THEN outward_elsewhere]
  outgoing.steps_retry [THEN outward_elsewhere] outward_startConfig [THEN outward_elsewhere]

lemma elsewhere_table [intro!]:
  "steps (elsewhere config) (put_state config s)" "steps (elsewhere config) (get_state c)"
  "steps (elsewhere config) (takePrevalidated c signature)"
  "steps (elsewhere config) (modify (\<lambda>m. m\<lparr>m_states := map_del config (m_states m)\<rparr>))"
  "steps (elsewhere config) (modify (\<lambda>m. m\<lparr>m_duplicates := f m\<rparr>))"
  by (auto simp: put_state_def get_state_def takePrevalidated_def elsewhere_def update_conv'
      delete_conv' intro!: elsewhere_modify elsewhere_calls split: option.splits)

lemma elsewhere_config [intro!]:
  "steps (elsewhere config) (stopAndDelete config d)"
  "steps (elsewhere config) (supervise_config config now d i signature)"
  "steps (elsewhere config) (pause_config config d)" "steps (elsewhere config) (duplicate_config config d i)"
proof -
  show gone: "steps (elsewhere config) (stopAndDelete config d)" for d
    by (auto simp: stopAndDelete_def intro!: elsewhere_calls split: option.splits)
  show "steps (elsewhere config) (supervise_config config now d i signature)"
    by (auto simp: supervise_config_def advance_config_def Let_def intro!: elsewhere_calls
        split: option.splits sum.splits)
  show "steps (elsewhere config) (pause_config config d)"
    by (auto simp: pause_config_def intro!: elsewhere_calls split: option.splits)
  show "steps (elsewhere config) (duplicate_config config d i)"
    by (auto simp: duplicate_config_def elsewhere_def intro!: elsewhere_modify gone split: option.splits)
qed

lemma elsewhere_reconcile [intro!]:
  "steps (elsewhere config) (reconcile_config now d (n, config) taken)"
  by (auto simp: reconcile_config_def Let_def
      intro!: outgoing.quiet_steps [THEN outward_elsewhere] split: sum.splits)

lemma stopAndDelete_gone:
  "wp (stopAndDelete config d) (\<lambda>_ m'. m_settings m' = m_settings m \<and> map_get (m_states m') config = None
     \<and> (\<forall>c. c \<noteq> config \<longrightarrow> map_get (m_states m') c = map_get (m_states m) c)) m"
proof -
  have "wp (stopProcess config d s) (\<lambda>_ m'. m_settings m' = m_settings m
      \<and> map_get (map_del config (m_states m')) config = None
      \<and> (\<forall>c. c \<noteq> config \<longrightarrow> map_get (m_states m') c = map_get (m_states m) c)) m" for s
    by (rule wp_steps [OF outgoing.steps_stopProcess])
      (auto simp: outward_def extends_def supervision_def delete_conv')
  then show ?thesis
    by (auto simp: stopAndDelete_def get_state_def wp_simps split: option.splits)
qed

lemma wp_conj: "wp f P m \<Longrightarrow> wp f Q m \<Longrightarrow> wp f (\<lambda>r m'. P r m' \<and> Q r m') m"
  by (auto simp: wp_def)

lemma for_each_loop: "for_each xs f = loop xs () (\<lambda>x _. f x)"
  by (induction xs) simp_all

lemma over_limit_stops:
  assumes "int n + 1 > ms_maxConfigs (m_settings m)"
  shows "wp (reconcile_config now d (n, config) taken) (\<lambda>_ m'. map_get (m_states m') config = None) m"
  using assms
  by (auto simp: reconcile_config_def Let_def wp_simps intro!: wp_mono [OF stopAndDelete_gone])

lemma pass_within_limit:
  "wp (loop (enumerate 0 configs) taken (reconcile_config now d))
     (\<lambda>_ m'. \<forall>c \<in> set configs. map_get (m_states m') c \<noteq> None
        \<longrightarrow> c \<in> set (take (nat (ms_maxConfigs (m_settings m))) configs)) m"
proof (rule wp_mono)
  let ?ok = "\<lambda>k m'. \<forall>c \<in> set (take k configs). map_get (m_states m') c \<noteq> None
      \<longrightarrow> c \<in> set (take (nat (ms_maxConfigs (m_settings m))) configs)"
  let ?I = "\<lambda>ys (acc :: (string, path) gomap) m'. m_settings m' = m_settings m
      \<and> (\<exists>k. ys = enumerate k (drop k configs) \<and> ?ok k m')"
  show "wp (loop (enumerate 0 configs) taken (reconcile_config now d)) (?I []) m"
  proof (rule wp_loop)
    show "?I (enumerate 0 configs) taken m"
      by (auto intro!: exI [where x = 0])
    fix x ys acc and m1 :: manager assume I: "?I (x # ys) acc m1"
    then obtain k where k: "x # ys = enumerate k (drop k configs)" "?ok k m1" by blast
    have lt: "k < length configs" using k(1) by (cases "k < length configs") simp_all
    have x: "x = (k, configs ! k)" and ys: "ys = enumerate (Suc k) (drop (Suc k) configs)"
      using k(1) by (simp_all add: Cons_nth_drop_Suc [OF lt, symmetric])
    have near: "wp (reconcile_config now d x acc) (\<lambda>_ m'. map_get (m_states m') (configs ! k) \<noteq> None
        \<longrightarrow> configs ! k \<in> set (take (nat (ms_maxConfigs (m_settings m))) configs)) m1"
    proof (cases "int k + 1 > ms_maxConfigs (m_settings m1)")
      case True
      then show ?thesis unfolding x by (rule wp_mono [OF over_limit_stops]) simp
    next
      case False
      then have "k < nat (ms_maxConfigs (m_settings m))" using I by simp
      then have "configs ! k \<in> set (take (nat (ms_maxConfigs (m_settings m))) configs)"
        using lt by (metis in_set_conv_nth length_take min_less_iff_conj nth_take)
      then show ?thesis by (simp add: wp_def split: prod.splits)
    qed
    have kept: "wp (reconcile_config now d x acc) (\<lambda>_. elsewhere (configs ! k) m1) m1"
      unfolding x by (rule wp_steps [OF elsewhere_reconcile])
    show "wp (reconcile_config now d x acc) (?I ys) m1"
    proof (rule wp_mono [OF wp_conj [OF near kept]])
      fix r m2
      assume both: "(map_get (m_states m2) (configs ! k) \<noteq> None
          \<longrightarrow> configs ! k \<in> set (take (nat (ms_maxConfigs (m_settings m))) configs))
        \<and> elsewhere (configs ! k) m1 m2"
      have "?ok (Suc k) m2"
        unfolding take_Suc_conv_app_nth [OF lt] using both k(2)
        by (metis (no_types, lifting) elsewhere_def UnE empty_iff empty_set insertE list.simps(15)
            set_append)
      then show "?I ys r m2" using both I ys by (auto simp: elsewhere_def)
    qed
  qed
  fix r m' assume "?I [] r m'"
  then obtain k where "[] = enumerate k (drop k configs)" "?ok k m'" by blast
  then show "\<forall>c \<in> set configs. map_get (m_states m') c \<noteq> None
      \<longrightarrow> c \<in> set (take (nat (ms_maxConfigs (m_settings m))) configs)"
    by (metis drop_eq_Nil2 enumerate_simps(1) length_enumerate length_0_conv take_all)
qed


section \<open>How many processes a pass starts\<close>

definition launches :: "manager \<Rightarrow> nat" where
  "launches m = length (filter is_launch (m_history m))"

lemma unlaunched_launches: "unlaunched m m' \<Longrightarrow> launches m' = launches m"
  by (auto simp: unlaunched_def extends_def launches_def list_all_iff filter_empty_conv)

text \<open>An operation that launches at most \<open>n\<close> processes.\<close>

definition costs :: "nat \<Rightarrow> 'a op \<Rightarrow> bool" where
  "costs n f \<longleftrightarrow> (\<forall>m. wp f (\<lambda>_ m'. launches m' \<le> launches m + n) m)"

lemma costs_nothing: "steps unlaunched f \<Longrightarrow> costs n f"
  unfolding costs_def by (blast intro: wp_steps dest: unlaunched_launches eq_imp_le trans_le_add1)

lemma costs_bind: "costs a f \<Longrightarrow> (\<And>x. costs b (g x)) \<Longrightarrow> costs (a + b) (State_Monad.bind f g)"
proof -
  assume f: "costs a f" and g: "\<And>x. costs b (g x)"
  have "wp (g x) (\<lambda>_ m2. launches m2 \<le> launches m + (a + b)) m1"
    if "launches m1 \<le> launches m + a" for x m m1
    using g [unfolded costs_def, rule_format, of x m1] that by (auto elim!: wp_mono)
  then show ?thesis using f by (auto simp: costs_def wp_bind intro: wp_mono)
qed

lemma costs_then: "steps unlaunched f \<Longrightarrow> (\<And>x. costs n (g x)) \<Longrightarrow> costs n (State_Monad.bind f g)"
  using costs_bind [OF costs_nothing [of f 0], of n g] by simp

lemma costs_last: "costs n f \<Longrightarrow> (\<And>x. steps unlaunched (g x)) \<Longrightarrow> costs n (State_Monad.bind f g)"
  using costs_bind [of n f 0 g] costs_nothing [of "g x" 0 for x] by simp

lemma costs_return: "costs n (return x)"
  by (rule costs_nothing) (rule unlaunching.steps_return)

lemma unlaunched_modify:
  "(\<And>m. m_host (f m) = m_host m \<and> m_settings (f m) = m_settings m \<and> m_history (f m) = m_history m)
    \<Longrightarrow> steps unlaunched (modify f)"
  by (rule steps_modify) (simp add: unlaunched_def extends_def)

lemma unlaunched_table [intro!]:
  "steps unlaunched (put_state config s)" "steps unlaunched (get_state config)"
  "steps unlaunched (takePrevalidated config signature)"
  "steps unlaunched (modify (\<lambda>m. m\<lparr>m_states := f m\<rparr>))"
  "steps unlaunched (modify (\<lambda>m. m\<lparr>m_duplicates := g m\<rparr>))"
  by (auto simp: put_state_def get_state_def takePrevalidated_def
      intro!: unlaunched_modify unlaunching.steps_retry split: option.splits)

lemma unlaunched_stops [intro!]:
  "steps unlaunched (stopAndDelete config d)" "steps unlaunched (pause_config config d)"
  "steps unlaunched (duplicate_config config d i)"
proof -
  show stop: "steps unlaunched (stopAndDelete config d)"
    by (auto simp: stopAndDelete_def intro!: unlaunching.steps_stopProcess split: option.splits)
  show "steps unlaunched (pause_config config d)"
    by (auto simp: pause_config_def intro!: unlaunching.steps_stopProcess split: option.splits)
  show "steps unlaunched (duplicate_config config d i)"
    by (auto simp: duplicate_config_def intro!: unlaunched_modify stop split: option.splits)
qed

lemma costs_start: "costs (Suc 0) (StartKMonad command args)"
  by (auto simp: costs_def StartKMonad_def wp_def run_ask launches_def)

lemma costs_launch: "costs (Suc 0) (launch config now signature v s)"
proof -
  have quiet: "steps unlaunched (deviceID p)" "steps unlaunched (deviceReady p)" for p
    by (auto intro!: unlaunching.quiet_steps)
  show ?thesis
    unfolding launch_def
    by (rule costs_then [OF quiet(1)], rule costs_then [OF quiet(2)], split if_split)
      (auto intro!: costs_then [OF unlaunching.steps_gets costs_last [OF costs_start]]
        intro: costs_nothing split: sum.splits)
qed

lemma costs_startConfig: "costs (Suc 0) (startConfig config now signature v s)"
  unfolding startConfig_def Let_def
  by (auto intro!: costs_then costs_launch intro: costs_nothing split: option.splits sum.splits)

lemma costs_supervise: "costs (Suc 0) (supervise_config config now d i signature)"
proof -
  have start: "costs (Suc 0) (do { s3 \<leftarrow> startConfig config now signature v s; put_state config s3 })" for v s
    by (rule costs_last [OF costs_startConfig]) auto
  have "costs (Suc 0) (advance_config config now d signature v s)" for v s
    unfolding advance_config_def Let_def
    by (auto intro!: costs_then start intro: costs_nothing split: prod.splits)
  then show ?thesis
    unfolding supervise_config_def Let_def
    by (auto intro!: costs_then intro: costs_nothing split: option.splits sum.splits)
qed

definition claims :: "manager \<Rightarrow> (string, path) gomap \<Rightarrow> (string, path) gomap \<Rightarrow> manager \<Rightarrow> bool" where
  "claims m taken taken' m' \<longleftrightarrow> launches m' + length taken \<le> launches m + length taken'
     \<and> (map_ok taken \<longrightarrow> map_ok taken')"

lemma silent: "steps unlaunched f \<Longrightarrow> (\<And>r m'. launches m' = launches m \<Longrightarrow> Q r m') \<Longrightarrow> wp f Q m"
  by (erule wp_steps) (blast dest: unlaunched_launches)

lemma claims_config:
  "wp (reconcile_config now d (n, config) taken) (claims m taken) m"
proof -
  have quiet: "steps unlaunched (worldWritable p)" "steps unlaunched (readConfigWithLimit p k)"
    "steps unlaunched (deviceReady p)" "steps unlaunched (deviceID p)" for p k
    by (auto intro!: unlaunching.quiet_steps)
  have give_up: "wp (stopAndDelete config d) (\<lambda>_ m'. claims m taken taken m') m1"
    if "launches m1 = launches m" for m1
    using that by (auto intro!: silent simp: claims_def)
  have supervised: "wp (do {
        modify (\<lambda>m. m\<lparr>m_duplicates := map_del config (m_duplicates m)\<rparr>);
        supervise_config config now d i signature;
        return (map_put i config taken) }) (claims m taken) m1"
    if "launches m1 = launches m" "map_get taken i = None" for m1 i signature
  proof -
    have "costs (Suc 0) (do {
        modify (\<lambda>m. m\<lparr>m_duplicates := map_del config (m_duplicates m)\<rparr>);
        supervise_config config now d i signature })"
      by (rule costs_then) (auto intro: costs_supervise)
    then show ?thesis
      using that unfolding costs_def wp_simps
      by (auto elim!: wp_mono allE [where x = m1] simp: claims_def length_put)
  qed
  show ?thesis
    unfolding reconcile_config_def Let_def snd_conv fst_conv
    using give_up supervised [unfolded wp_simps] unfolding wp_simps
    by (auto intro!: silent quiet simp: claims_def split: sum.splits if_splits option.splits)
qed

lemma wp_any: "(\<And>r m'. Q r m') \<Longrightarrow> wp f Q m"
  by (simp add: wp_def split: prod.splits)

lemma claims_length:
  "wp (reconcile_config now d (n, config) taken) (\<lambda>taken' m'. length taken'
     \<le> length taken + (if int n + 1 > ms_maxConfigs (m_settings m) then 0 else 1)) m"
  unfolding reconcile_config_def Let_def snd_conv fst_conv wp_simps
  by (auto intro!: wp_any simp: length_put split: sum.splits)

text \<open>C4: A pass starts at most one process for each input device it settles: whatever the
  host answers, the processes launched while the configurations are looked at are no more than
  the devices claimed in the pass, each device is claimed by one configuration only, and no
  more devices are claimed than configurations are listed or than \<open>maxConfigs\<close> allows.\<close>

theorem one_start_per_device:
  "case run_state (loop (enumerate 0 configs) [] (reconcile_config now d)) m of (taken, m') \<Rightarrow>
     launches m' \<le> launches m + length taken \<and> map_ok taken
     \<and> length taken \<le> min (length configs) (nat (ms_maxConfigs (m_settings m)))"
proof -
  let ?max = "nat (ms_maxConfigs (m_settings m))"
  let ?I = "\<lambda>ys acc m'. claims m [] acc m' \<and> m_settings m' = m_settings m
      \<and> (\<exists>k. ys = enumerate k (drop k configs) \<and> k \<le> length configs \<and> length acc \<le> min k ?max)"
  have "wp (loop (enumerate 0 configs) [] (reconcile_config now d)) (?I []) m"
  proof (rule wp_loop)
    show "?I (enumerate 0 configs) [] m" by (auto simp: claims_def intro!: exI [where x = 0])
    fix x ys acc and m1 :: manager assume I: "?I (x # ys) acc m1"
    then obtain k where k: "x # ys = enumerate k (drop k configs)" "length acc \<le> min k ?max" by blast
    have lt: "k < length configs" using k(1) by (cases "k < length configs") simp_all
    have x: "x = (k, configs ! k)" and ys: "ys = enumerate (Suc k) (drop (Suc k) configs)"
      using k(1) by (simp_all add: Cons_nth_drop_Suc [OF lt, symmetric])
    have kept: "wp (reconcile_config now d x acc) (\<lambda>_. elsewhere (configs ! k) m1) m1"
      unfolding x by (rule wp_steps [OF elsewhere_reconcile])
    show "wp (reconcile_config now d x acc) (?I ys) m1"
      by (rule wp_mono [OF wp_conj [OF kept [unfolded x] wp_conj [OF claims_config claims_length]],
          folded x])
        (use I k(2) lt in \<open>auto simp: x ys elsewhere_def claims_def split: if_splits\<close>)
  qed
  then show ?thesis by (auto simp: wp_def claims_def split: prod.splits)
qed

end
