(* ===== verification/KDM_Sample.thy ===== *)
theory KDM_Sample
  imports KDM_Service
begin

text \<open>
  A concrete system and a concrete configuration: one keyboard, one external configuration for
  it, a clock that advances only while the manager sleeps, and calls that all succeed. The
  witnesses evaluate the model on it and on variants of it.
\<close>

definition sample_config_path :: path where "sample_config_path = ''/etc/kmonad/board.kbd''"
definition sample_device :: path where "sample_device = ''/dev/input/by-id/board''"

definition sample_text :: string where
  "sample_text = ''(defcfg input (device-file \"/dev/input/by-id/board\"))''"

definition sample_host :: host where
  "sample_host = \<lparr>h_now = slept,
     h_ReadDir = \<lambda>_ _. Inr [(''board.kbd'', False)],
     h_Open = \<lambda>_ _. Inr \<lparr>of_info = Inr \<lparr>fi_Regular = True, fi_Identity = 7, fi_ModTime = 0,
         fi_Size = int (length sample_text)\<rparr>, of_content = Inr sample_text\<rparr>,
     h_Lstat = \<lambda>_ _. Inr \<lparr>fi_Regular = True, fi_Identity = 7, fi_ModTime = 0,
         fi_Size = int (length sample_text)\<rparr>,
     h_CreateTemp = \<lambda>t _ _. Inr (length t),
     h_call = \<lambda>_ _. None,
     h_WorldWritable = \<lambda>_ _. Inr False,
     h_DeviceAvailability = \<lambda>_ _. PlatformConnected,
     h_DeviceID = \<lambda>_ _. Inr ''board'',
     h_FileSignature = \<lambda>_ _. Inr ''7-0'',
     h_ListKeyboards = \<lambda>_. Inr [],
     h_StartKMonad = \<lambda>_ _ _. Inr 4711,
     h_StartedProcess = \<lambda>_ _. \<lparr>pi_Handle = None, pi_StartTick = 99, pi_GroupID = 4711\<rparr>,
     h_ProcessStartTime = \<lambda>_ _. 99,
     h_ProcessMatchesCommand = \<lambda>_ _ _ _. True,
     h_ProcessState = \<lambda>_ _. ''S'',
     h_PIDExists = \<lambda>_ _. True,
     h_poll_exit = \<lambda>_ _. None,
     h_wait_exit = \<lambda>_ _ _. True,
     h_wait_dry_run = \<lambda>_ _ _. DryRunExited None,
     h_KMonadAvailable = \<lambda>_ _. True,
     h_KMonadVersion = \<lambda>_ _. Inr ''kmonad 0.4.2'',
     h_KeypressObserver = \<lambda>_ _. None,
     h_KeyCapabilities = \<lambda>_ _. Inr [30],
     h_random_id = \<lambda>_. Some ''op'',
     h_retryJitter = \<lambda>_ d. 0,
     h_pid = 1,
     h_event_clock = int,
     h_printable = \<lambda>_. True,
     h_duration_text = \<lambda>_. ''5s'',
     h_sha256hex = \<lambda>s. digits (length s),
     h_canonical_json = \<lambda>_. '''',
     h_parse_json = \<lambda>_. None\<rparr>"

definition sample_settings :: manager_settings where
  "sample_settings = \<lparr>ms_configDir = ''/etc/kmonad'', ms_managedConfigDir = ''/var/lib/kdm'',
     ms_kmonadCommand = ''/usr/bin/kmonad'', ms_stopTimeout = 2 * second, ms_dryRunTimeout = 5 * second,
     ms_watchdogTimeout = 30 * second, ms_cgroupRoot = '''', ms_processMemoryMax = '''',
     ms_processCPUQuota = '''', ms_statusPath = '''', ms_maxConfigs = 8, ms_maxConfigBytes = 65536,
     ms_deviceRegistryPath = '''', ms_externalRegistryPath = '''', ms_runtimeDir = Inr ''/run/kdm''\<rparr>"

definition sample_manager :: manager where
  "sample_manager = new_manager sample_host sample_settings"

lemma slept_append: "slept (newer @ older) = slept newer + slept older"
  by (induction newer rule: slept.induct) simp_all

lemma sample_clock: "clock_advances sample_host"
  by (simp add: clock_advances_def sample_host_def slept_append)

end
