(* ===== verification/KDM_Decisions.thy ===== *)
theory KDM_Decisions
  imports KDM_Pass KDM_Sample
begin

text \<open>
  What the supervisor decides for one configuration and for the whole directory, stated on the
  complete operations: an untrusted directory stops everything, a retry delay is honoured, a
  running process outlives every edit that does not validate, and a valid configuration of a
  connected device is started.
\<close>

section \<open>An untrusted directory\<close>

lemma wp_exact: "wp (ask q ev) Q m = Q (q (m_host m) (m_history m))
    (m\<lparr>m_history := ev (q (m_host m) (m_history m)) # m_history m\<rparr>)"
  by (simp add: wp_def run_ask)

text \<open>What a quiet operation leaves as it was.\<close>

lemma calm:
  assumes "steps quiet f"
    and "\<And>r m'. m_host m' = m_host m \<Longrightarrow> m_settings m' = m_settings m \<Longrightarrow> m_states m' = m_states m
      \<Longrightarrow> launches m' = launches m \<Longrightarrow> Q r m'"
  shows "wp f Q m"
  using assms(1)
  by (rule wp_steps)
    (auto intro!: assms(2) dest: quiet_frame unlaunching.quiet unlaunched_launches)

lemma launches_counters [simp]: "launches (m\<lparr>m_counters := c\<rparr>) = launches m"
  by (simp add: launches_def)

lemma stopAll_empties:
  "wp (stopAll d) (\<lambda>_ m'. m_states m' = [] \<and> launches m' = launches m) m"
proof -
  have "wp (stopStates states d) (\<lambda>_ m'. m_states m' = [] \<and> launches m' = launches m)
      (m\<lparr>m_states := []\<rparr>)" for states
    using wp_conj [OF wp_steps [OF outgoing.steps_stopStates] silent [OF unlaunching.steps_stopStates],
      of "m\<lparr>m_states := []\<rparr>" "\<lambda>_ m'. m_states m' = []" "\<lambda>_ m'. launches m' = launches m" states d]
    by (simp add: outward_def supervision_def launches_def)
  then show ?thesis by (simp add: stopAll_def wp_simps)
qed


definition open_host :: host where
  "open_host = sample_host\<lparr>h_WorldWritable := \<lambda>_ p. Inr (p = ''/etc/kmonad'')\<rparr>"


section \<open>A retry delay is honoured\<close>

text \<open>C9: While the retry delay of an idle configuration runs and neither its file nor its device
  changed, looking at it makes no call at all: it only waits.\<close>

theorem backoff_respected:
  assumes "map_get (m_states m) config = Some s" and "cs_process s = None"
    and "cs_signature s = signature" and "cs_deviceID s = identity"
    and "map_get (m_prevalidated m) config = None" and "now < cs_retryAfter s"
  shows "run_state (supervise_config config now d identity signature) m =
    ((), m\<lparr>m_states := map_put config (transitionPhase phaseWaiting s) (m_states m)\<rparr>)"
proof -
  have put: "map_put config b (map_put config a xs) = map_put config b xs"
    for a b and xs :: "(path, configState) gomap"
    by (induction xs) auto
  show ?thesis
    using assms by (simp add: supervise_config_def advance_config_def check_process_def
        takePrevalidated_def get_state_def put_state_def put)
qed

definition waiting_state :: configState where
  "waiting_state = discovered_state\<lparr>cs_phase := phaseFailed, cs_signature := ''s1'',
     cs_deviceID := ''board'', cs_failures := 1, cs_retryAfter := 2 * second\<rparr>"

definition waiting_manager :: manager where
  "waiting_manager = sample_manager\<lparr>m_states := [(sample_config_path, waiting_state)]\<rparr>"

theorem backoff_respected_witness:
  "run_state (supervise_config sample_config_path second 0 ''board'' ''s1'') waiting_manager =
    ((), waiting_manager\<lparr>m_states := map_put sample_config_path
       (transitionPhase phaseWaiting waiting_state) (m_states waiting_manager)\<rparr>)"
  by (rule backoff_respected)
    (simp_all add: waiting_manager_def sample_manager_def new_manager_def waiting_state_def
      discovered_state_def)

section \<open>A running process outlives edits that do not validate\<close>

interpretation growing: calling grows
  by unfold_locales (auto simp: grows_def quiet_def extends_def)

text \<open>A dry run ended well between the two.\<close>

definition passed_since :: "manager \<Rightarrow> manager \<Rightarrow> bool" where
  "passed_since m m' \<longleftrightarrow> (\<exists>es. m_history m' = es @ m_history m
     \<and> (\<exists>pid t. EvWaitDryRun pid t (DryRunExited None) \<in> set es))"

lemma passed_since_trans:
  "passed_since m m1 \<Longrightarrow> grows m1 m2 \<Longrightarrow> passed_since m m2"
  "grows m m1 \<Longrightarrow> passed_since m1 m2 \<Longrightarrow> passed_since m m2"
  by (force simp: passed_since_def grows_def)+

lemma wp_grows: "steps grows f \<Longrightarrow> grows m m1 \<Longrightarrow> (\<And>r m'. grows m m' \<Longrightarrow> Q r m') \<Longrightarrow> wp f Q m1"
  by (erule wp_steps) (blast intro: grows_trans)

lemma wp_passed:
  "steps grows f \<Longrightarrow> passed_since m m1 \<Longrightarrow> (\<And>r m'. passed_since m m' \<Longrightarrow> Q r m') \<Longrightarrow> wp f Q m1"
  by (erule wp_steps) (blast intro: passed_since_trans)

lemma passed_grows: "passed_since m m' \<Longrightarrow> grows m m'"
  by (auto simp: passed_since_def grows_def)

lemma end_only_exited:
  assumes "grows m m1"
  shows "wp (end_dry_run t p e) (\<lambda>r m'. grows m m' \<and> (r = None \<longrightarrow> e = DryRunExited None)) m1"
  unfolding end_dry_run_def kill_dry_run_def dry_run_error_def
  using assms
  by (auto simp: wp_simps intro!: wp_grows [where m = m] growing.steps_signal growing.steps_call
      growing.steps_waits split: dry_run_end.splits)

lemma dry_run_in_time:
  assumes "grows m m1"
  shows "wp (dryRun config) (\<lambda>r m'. grows m m' \<and> (r = None \<longrightarrow> passed_since m m')) m1"
proof -
  have ended: "wp (end_dry_run t p e) (\<lambda>r m'. grows m m' \<and> (r = None \<longrightarrow> passed_since m m'))
      (m2\<lparr>m_history := EvWaitDryRun pid t e # m_history m2\<rparr>)" if "grows m m2" for pid t p e m2
  proof -
    let ?m3 = "m2\<lparr>m_history := EvWaitDryRun pid t e # m_history m2\<rparr>"
    have step: "grows m2 ?m3" by (simp add: grows_def)
    have "e = DryRunExited None \<Longrightarrow> passed_since m2 ?m3" by (auto simp: passed_since_def)
    then have "e = DryRunExited None \<Longrightarrow> grows ?m3 m' \<Longrightarrow> passed_since m m'" for m'
      using that by (blast intro: passed_since_trans)
    then show ?thesis
      using that step by (auto intro!: wp_mono [OF end_only_exited [OF growing.refl]] intro: grows_trans)
  qed
  have closed: "wp (closeProcessFD p) (\<lambda>_ m'. grows m m' \<and> (r = None \<longrightarrow> passed_since m m')) m2"
    if "grows m m2 \<and> (r = None \<longrightarrow> passed_since m m2)" for p r m2
    by (rule wp_steps [where R = grows])
      (use that in \<open>auto intro!: growing.quiet_steps intro: grows_trans passed_since_trans\<close>)
  show ?thesis
    unfolding dryRun_def dryRunContextWithWriters_def wp_simps wait_dry_run_def wp_exact
    using assms ended
    by (auto intro!: wp_grows [where m = m] growing.steps_dry_start growing.quiet_steps wp_mono [OF ended] closed
      split: sum.splits)
qed

lemma validated_in_time:
  assumes "grows m m1"
  shows "wp (validateConfigSnapshot config signature)
    (\<lambda>r m'. grows m m' \<and> (case r of Inl _ \<Rightarrow> True | Inr _ \<Rightarrow> passed_since m m')) m1"
proof -
  define Q :: "go_error + validated_config \<Rightarrow> manager \<Rightarrow> bool" where
    "Q = (\<lambda>r m'. grows m m' \<and> (case r of Inl _ \<Rightarrow> True | Inr _ \<Rightarrow> passed_since m m'))"
  have Q: "Q (Inl e) m' = grows m m'" "Q (Inr v) m' = passed_since m m'" for e v m'
    by (auto simp: Q_def dest: passed_grows)
  have failed: "wp (drop_snapshot p e) Q m2" if "grows m m2" for p e m2
    using that Q by (auto simp: drop_snapshot_def wp_simps intro!: wp_grows [where m = m] growing.quiet_steps)
  have again: "wp (readConfigWithLimit config limit)
      (\<lambda>r. case r of
         Inl e \<Rightarrow> wp (drop_snapshot p e) Q
       | Inr (_, final) \<Rightarrow>
           if final \<noteq> actual then wp (drop_snapshot p errConfigChanged) Q
           else wp (return (Inr v)) Q) m2"
    if "passed_since m m2" for limit p actual v m2
    by (rule wp_passed [OF _ that])
      (auto intro!: growing.quiet_steps failed dest: passed_grows simp: wp_simps Q split: sum.splits)
  show ?thesis
    unfolding Q_def [symmetric] validateConfigSnapshot_def wp_bind wp_sum wp_option wp_if wp_prod wp_gets wp_let
    using assms
    by (auto intro!: wp_grows [where m = m] growing.steps_snapshots growing.quiet_steps failed again
        wp_mono [OF dry_run_in_time [where m = m]] simp: wp_return Q split: sum.splits option.splits)
qed

lemma scheduleRetry_process [simp]: "cs_process (scheduleRetry jitter now reason s) = cs_process s"
  by (simp add: scheduleRetry_def Let_def)

lemma update_in_time:
  "wp (check_update config now signature s None)
     (\<lambda>r m'. case r of Inl s' \<Rightarrow> cs_process s' = cs_process s | Inr _ \<Rightarrow> passed_since m m') m"
  unfolding check_update_def scheduleRetry_op_def wp_simps retryJitter_def
  by (auto intro!: wp_mono [OF validated_in_time [OF growing.refl]] wp_ask simp: wp_simps
      split: sum.splits)

lemma growing_table [intro!]:
  "steps grows (put_state config s)" "steps grows (StartKMonad command args)"
  by (auto simp: put_state_def StartKMonad_def grows_def state_io_rel_def run_ask)

lemma growing_advance [intro!]: "steps grows (advance_config config now d signature v s)"
proof -
  have "steps grows (startConfig config now signature v s)" for v s
    by (auto simp: startConfig_def launch_def Let_def intro!: growing.quiet_steps
        split: option.splits sum.splits)
  then show ?thesis
    by (auto simp: advance_config_def Let_def split: prod.splits)
qed


definition running_sample :: configState where
  "running_sample = discovered_state\<lparr>cs_phase := phaseRunning, cs_signature := ''s1'',
     cs_deviceID := ''board'', cs_process := Some \<lparr>proc_pid = 4711, proc_pidfd = None,
       proc_startedAt = 0, proc_startTick = 99, proc_processGroupID = 4711, proc_launchPath = '''',
       proc_unhealthySince = 0, proc_cgroupPath = ''''\<rparr>\<rparr>"

definition running_manager :: manager where
  "running_manager = sample_manager\<lparr>m_states := [(sample_config_path, running_sample)]\<rparr>"


section \<open>A valid configuration is started\<close>

text \<open>The system keeps a valid configuration for a connected device, and launches well.\<close>

definition serves :: "host \<Rightarrow> int \<Rightarrow> path \<Rightarrow> string \<Rightarrow> path \<Rightarrow> string \<Rightarrow> bool" where
  "serves h limit config data device identity \<longleftrightarrow>
     (\<forall>t. h_WorldWritable h t config = Inr False)
     \<and> (\<exists>g. \<forall>t. h_FileSignature h t config = Inr g)
     \<and> 0 < limit \<and> (\<exists>f. limited_content limit f = Inr data \<and> (\<forall>t. h_Open h t config = Inr f))
     \<and> device_of data = Inr device
     \<and> (\<forall>t. h_DeviceAvailability h t device = PlatformConnected)
     \<and> (\<forall>t. h_DeviceID h t device = Inr identity)"

definition launches_well :: "host \<Rightarrow> bool" where
  "launches_well h \<longleftrightarrow> (\<forall>t d pattern. \<exists>n. h_CreateTemp h t d pattern = Inr n)
     \<and> (\<forall>t c. h_call h t c = None) \<and> (\<forall>t command args. \<exists>pid. h_StartKMonad h t command args = Inr pid)
     \<and> (\<forall>t pid d. h_wait_dry_run h t pid d = DryRunExited None)"

text \<open>Only calls were made.\<close>

definition only_calls :: "manager \<Rightarrow> manager \<Rightarrow> bool" where
  "only_calls m m' \<longleftrightarrow> (\<exists>h. m' = m\<lparr>m_history := h\<rparr>)"

lemma only_calls_event [simp]: "only_calls m m1 \<Longrightarrow> only_calls m (m1\<lparr>m_history := h\<rparr>)"
  by (auto simp: only_calls_def)

lemma only_calls_refl [simp]: "only_calls m m"
  unfolding only_calls_def by (rule exI [where x = "m_history m"]) simp

lemma only_callsD: "only_calls m m' \<Longrightarrow> m_host m' = m_host m \<and> m_settings m' = m_settings m
    \<and> m_states m' = m_states m"
  by (auto simp: only_calls_def)

lemma wp_asking: "steps (asks P) f \<Longrightarrow> only_calls m m1 \<Longrightarrow> (\<And>r m'. only_calls m m' \<Longrightarrow> Q r m') \<Longrightarrow> wp f Q m1"
  by (erule wp_steps) (auto simp: asks_def)

lemma serves_read:
  assumes "serves (m_host m) limit config data device identity" and "only_calls m m1"
    and "\<And>m'. only_calls m m' \<Longrightarrow> Q (Inr (device, h_sha256hex (m_host m) data, data)) m'"
  shows "wp (readConfigDataWithLimit config limit) Q m1"
proof -
  obtain g f where "\<forall>t. h_FileSignature (m_host m) t config = Inr g" "0 < limit"
    "limited_content limit f = Inr data" "\<forall>t. h_Open (m_host m) t config = Inr f"
    "device_of data = Inr device"
    using assms(1) by (auto simp: serves_def)
  then show ?thesis
    using only_callsD [OF assms(2)] assms(2,3)
    by (simp add: readConfigDataWithLimit_def readFileLimited_def fileSignature_def os_Open_def
        wp_simps wp_exact)
qed

lemma serves_read_config:
  assumes "serves (m_host m) limit config data device identity" and "only_calls m m1"
    and "\<And>m'. only_calls m m' \<Longrightarrow> Q (Inr (device, h_sha256hex (m_host m) data)) m'"
  shows "wp (readConfigWithLimit config limit) Q m1"
  unfolding readConfigWithLimit_def wp_simps
  by (rule serves_read [OF assms(1,2)]) (simp add: assms(3) wp_simps)

lemma well_snapshot:
  assumes "launches_well (m_host m)" and "only_calls m m1" and "\<And>p m'. only_calls m m' \<Longrightarrow> Q (Inr p) m'"
  shows "wp (createConfigSnapshot config data) Q m1"
proof -
  obtain n where n: "h_CreateTemp (m_host m) (m_history m1) (path_dir config)
      (configSnapshotPrefix @ path_base config @ ''-'') = Inr n"
    using assms(1) unfolding launches_well_def by blast
  have "\<forall>t c. h_call (m_host m) t c = None" using assms(1) by (simp add: launches_well_def)
  then show ?thesis
    using n only_callsD [OF assms(2)] assms(2,3)
    by (simp add: createConfigSnapshot_def createSnapshot_def os_CreateTemp_def call_def Let_def
        wp_simps wp_exact)
qed

lemma well_dry_run:
  assumes "launches_well (m_host m)" and "only_calls m m1" and "\<And>m'. only_calls m m' \<Longrightarrow> Q None m'"
  shows "wp (dryRun config) Q m1"
proof -
  have closed: "wp (closeProcessFD p) (\<lambda>_ m'. only_calls m m') m2" if "only_calls m m2" for p m2
    using that by (auto simp: closeProcessFD_def call_def wp_simps wp_exact split: option.splits)
  obtain child where "\<forall>t command args. h_StartKMonad (m_host m) t command args = Inr (child t command args)"
    "\<forall>t pid d. h_wait_dry_run (m_host m) t pid d = DryRunExited None"
    using assms(1) unfolding launches_well_def by metis
  then show ?thesis
    using only_callsD [OF assms(2)] assms(2,3)
    by (simp add: dryRun_def dryRunContextWithWriters_def newProcessState_def StartKMonad_def
        StartedProcess_def wait_dry_run_def end_dry_run_def wp_simps wp_exact wp_mono [OF closed])
qed

lemma well_validated:
  assumes "launches_well (m_host m)" and "serves (m_host m) (ms_maxConfigBytes (m_settings m)) config data device identity"
    and "signature = h_sha256hex (m_host m) data" and "only_calls m m1"
    and "\<And>p m'. only_calls m m' \<Longrightarrow>
      Q (Inr \<lparr>vc_device = device, vc_signature = signature, vc_launchPath = p\<rparr>) m'"
  shows "wp (validateConfigSnapshot config signature) Q m1"
  unfolding validateConfigSnapshot_def wp_simps
  using only_callsD [OF assms(4)] assms(3,4)
  by (auto intro!: serves_read [OF assms(2)] well_snapshot [OF assms(1)] well_dry_run [OF assms(1)]
      serves_read_config [OF assms(2)] assms(5) [unfolded assms(3)] simp: wp_simps)

lemma well_launched:
  assumes "launches_well (m_host m)" and "serves (m_host m) limit config data device identity"
    and "m_host m1 = m_host m" and "cs_deviceID s = identity" and "cs_phase s = phaseValidating"
    and "\<And>s' p m'. cs_phase s' = phaseRunning \<Longrightarrow> cs_process s' = Some p \<Longrightarrow> proc_launchPath p = vc_launchPath v
      \<Longrightarrow> proc_startedAt p = now \<Longrightarrow> cs_signature s' = cs_signature s \<Longrightarrow> cs_deviceID s' = identity
      \<Longrightarrow> Q s' m'"
    and "vc_device v = device"
  shows "wp (launch config now signature v s) Q m1"
proof -
  obtain child where child: "\<forall>t command args. h_StartKMonad (m_host m) t command args = Inr (child t command args)"
    "\<forall>t c. h_call (m_host m) t c = None"
    using assms(1) unfolding launches_well_def by metis
  have serves: "\<forall>t. h_DeviceAvailability (m_host m) t device = PlatformConnected"
    "\<forall>t. h_DeviceID (m_host m) t device = Inr identity"
    using assms(2) by (auto simp: serves_def)
  have running: "cs_phase (transitionPhase phaseRunning s) = phaseRunning"
    "cs_phase (transitionPhase phaseRunning (s\<lparr>cs_process := q, cs_lastKnownGoodSignature := g\<rparr>)) = phaseRunning"
    for q g using assms(5) by (simp_all add: transitionPhase_def)
  show ?thesis
    using child serves running assms(3,4,7)
    by (auto simp: launch_def deviceID_def deviceReady_def configuredDeviceAvailability_def
        deviceAvailability_def StartKMonad_def attach_child_def newProcessState_def StartedProcess_def
        attachProcessCgroup_def call_def wp_simps wp_exact intro!: assms(6))
qed

lemma well_advanced:
  assumes "launches_well (m_host m)" and "serves (m_host m) (ms_maxConfigBytes (m_settings m)) config data device identity"
    and "m_host m1 = m_host m" "m_settings m1 = m_settings m"
    and "cs_process s = None" "cs_retryAfter s \<le> now" "cs_deviceID s = identity"
    and "cs_signature s = h_sha256hex (m_host m) data"
    and "cs_phase s \<in> {phaseDiscovered, phaseStopped}"
  shows "wp (advance_config config now d (h_sha256hex (m_host m) data) None s)
    (\<lambda>_ m'. \<exists>s p. map_get (m_states m') config = Some s \<and> cs_phase s = phaseRunning
        \<and> cs_signature s = h_sha256hex (m_host m) data \<and> cs_process s = Some p \<and> proc_startedAt p = now) m1"
proof -
  let ?m2 = "m1\<lparr>m_states := map_put config s (map_put config s (m_states m1))\<rparr>"
  have validating: "cs_phase (transitionPhase phaseValidating s) = phaseValidating"
    using assms(9) by (auto simp: transitionPhase_def)
  have "wp (startConfig config now (h_sha256hex (m_host m) data) None s)
      (\<lambda>s' m'. cs_phase s' = phaseRunning \<and> cs_signature s' = h_sha256hex (m_host m) data
         \<and> (\<exists>p. cs_process s' = Some p \<and> proc_startedAt p = now)) m3"
    if "m_host m3 = m_host m" "m_settings m3 = m_settings m" for m3
    unfolding startConfig_def Let_def wp_simps
    using assms(1,2) that validating assms(7,8)
    by (auto intro!: well_validated [of m3] well_launched [of m3] simp: wp_simps dest: only_callsD)
  then show ?thesis
    using assms(3-6)
    by (auto simp: advance_config_def check_process_def put_state_def wp_simps Let_def update_conv' elim!: wp_mono)
qed



end
