(* ===== verification/KDM_Waits.thy ===== *)
theory KDM_Waits
  imports KDM_Sample
begin

text \<open>
  The two loops of the code that poll and sleep: the wait for a process of an earlier manager
  to go (\<open>wait_gone\<close>) and the wait for an activation (\<open>await_activation\<close>). Both end
  within the rounds the model gives them, on every system whose clock runs on while the manager
  sleeps; so running out of rounds is never what the model shows of the code.
\<close>

section \<open>A clock that runs on\<close>

text \<open>The clock has reached \<open>t\<close>, and goes on from there.\<close>

definition clock_at :: "time \<Rightarrow> manager \<Rightarrow> bool" where
  "clock_at t m \<longleftrightarrow> clock_advances (m_host m)
     \<and> (\<forall>newer. h_now (m_host m) (newer @ m_history m) \<ge> t + slept newer)"

lemma clock_at_start:
  "clock_advances (m_host m) \<Longrightarrow> clock_at (h_now (m_host m) (m_history m)) m"
  by (simp add: clock_at_def clock_advances_def)

lemma slept_cons: "slept (e # newer) = slept [e] + slept newer"
  by (cases e) simp_all

lemma clock_at_event:
  "clock_at t m \<Longrightarrow> m_history m' = e # m_history m \<Longrightarrow> m_host m' = m_host m \<Longrightarrow> clock_at (t + slept [e]) m'"
  unfolding clock_at_def
proof (elim conjE, intro conjI allI)
  fix newer
  assume "\<forall>newer. t + slept newer \<le> h_now (m_host m) (newer @ m_history m)"
    and "m_history m' = e # m_history m" and "m_host m' = m_host m"
  then show "t + slept [e] + slept newer \<le> h_now (m_host m') (newer @ m_history m')"
    using slept_append [of newer "[e]"] by (metis (no_types, opaque_lifting) add.assoc add.commute append.assoc append_Cons append_Nil)
qed simp

lemma clock_at_plain:
  "clock_at t m \<Longrightarrow> slept [e] = 0 \<Longrightarrow> clock_at t (m\<lparr>m_history := e # m_history m\<rparr>)"
  using clock_at_event [of t m "m\<lparr>m_history := e # m_history m\<rparr>" e] by simp

lemma wp_time_Now:
  "clock_at t m \<Longrightarrow> (\<And>now. t \<le> now \<Longrightarrow> clock_at now (m\<lparr>m_history := EvNow now # m_history m\<rparr>)
     \<Longrightarrow> Q now (m\<lparr>m_history := EvNow now # m_history m\<rparr>)) \<Longrightarrow> wp time_Now Q m"
proof -
  assume at: "clock_at t m" and Q: "\<And>now. t \<le> now \<Longrightarrow> clock_at now (m\<lparr>m_history := EvNow now # m_history m\<rparr>)
     \<Longrightarrow> Q now (m\<lparr>m_history := EvNow now # m_history m\<rparr>)"
  let ?now = "h_now (m_host m) (m_history m)"
  from at have "t \<le> ?now" unfolding clock_at_def by (metis append_Nil add_0_right slept.simps(1))
  moreover have "clock_at ?now m" using at clock_at_start unfolding clock_at_def by blast
  then have "clock_at ?now (m\<lparr>m_history := EvNow ?now # m_history m\<rparr>)" by (rule clock_at_plain) simp
  ultimately show ?thesis using Q by (simp add: time_Now_def wp_def run_ask)
qed

lemma clock_at_mono: "clock_at now m \<Longrightarrow> t \<le> now \<Longrightarrow> clock_at t m"
  unfolding clock_at_def by (meson add_right_mono order_trans)

lemma wp_later:
  "clock_at t m \<Longrightarrow> (\<And>now m'. t \<le> now \<Longrightarrow> clock_at t m' \<Longrightarrow> Q now m') \<Longrightarrow> wp time_Now Q m"
  by (erule wp_time_Now) (meson clock_at_mono)

lemma wp_time_Sleep:
  "clock_at t m \<Longrightarrow> (\<And>m'. clock_at (t + d) m' \<Longrightarrow> Q () m') \<Longrightarrow> wp (time_Sleep d) Q m"
  using clock_at_event [of t m "m\<lparr>m_history := EvSleep d # m_history m\<rparr>" "EvSleep d"]
  by (simp add: time_Sleep_def wp_def run_ask)

text \<open>Any other operation leaves the clock where it is or lets it run on.\<close>

definition runs_on :: "manager \<Rightarrow> manager \<Rightarrow> bool" where
  "runs_on m m' \<longleftrightarrow> (\<forall>t. clock_at t m \<longrightarrow> clock_at t m')"

interpretation running_on: step_relation runs_on
  by unfold_locales (auto simp: runs_on_def)

lemma runs_on_ask: "(\<And>a. slept [ev a] = 0) \<Longrightarrow> steps runs_on (ask q ev)"
  by (simp add: state_io_rel_def run_ask runs_on_def clock_at_plain)

lemma runs_on_queries [intro!]:
  "steps runs_on (pidExists i)" "steps runs_on (poll_exit i)" "steps runs_on (processStartTime i)"
  "steps runs_on (processMatchesCommand i command config)" "steps runs_on (processStateCode i)"
  unfolding pidExists_def poll_exit_def processStartTime_def processMatchesCommand_def
    processStateCode_def by (rule runs_on_ask; simp)+

lemma runs_on_checks [intro!]:
  "steps runs_on (processStillRunning p)" "steps runs_on (processHealthy config p)"
  "steps runs_on (same_process p)" "steps runs_on (running_process config)"
  by (auto simp: processStillRunning_def processHealthy_def ownsProcess_def same_process_def
      running_process_def Let_def)

lemma wp_runs_on:
  "steps runs_on f \<Longrightarrow> clock_at t m \<Longrightarrow> (\<And>r m'. clock_at t m' \<Longrightarrow> Q r m') \<Longrightarrow> wp f Q m"
  by (erule wp_steps) (simp add: runs_on_def)

section \<open>The waits end\<close>

lemma wait_gone_in_rounds:
  "clock_at t m \<Longrightarrow> 0 < rounds \<Longrightarrow> deadline \<le> t + 25 * millisecond * (int rounds - 1)
    \<Longrightarrow> wp (wait_gone pid deadline rounds) (\<lambda>r _. r \<noteq> None) m"
proof (induction rounds arbitrary: t m)
  case (Suc n)
  have again: "wp (wait_gone pid deadline n) (\<lambda>r _. r \<noteq> None) m'"
    if "clock_at (now + 25 * millisecond) m'" "t \<le> now" "now < deadline" for now m'
  proof (rule Suc.IH [OF that(1)])
    show "0 < n" using Suc.prems(3) that(2,3) by (cases n) simp_all
    show "deadline \<le> now + 25 * millisecond + 25 * millisecond * (int n - 1)"
      using Suc.prems(3) that(2) by (simp add: algebra_simps)
  qed
  show ?case
    unfolding wait_gone.simps wp_simps
  proof (rule wp_time_Now [OF Suc.prems(1)])
    fix now and m' :: manager assume now: "t \<le> now" "clock_at now (m\<lparr>m_history := EvNow now # m_history m\<rparr>)"
    show "(if now < deadline then wp (pidExists pid)
        (\<lambda>a. if a then wp (time_Sleep (25 * millisecond)) (\<lambda>_. wp (wait_gone pid deadline n) (\<lambda>r _. r \<noteq> None))
             else (\<lambda>_. Some () \<noteq> None)) else (\<lambda>_. Some () \<noteq> None)) (m\<lparr>m_history := EvNow now # m_history m\<rparr>)"
      by (auto intro!: wp_runs_on [OF runs_on_queries(1) now(2)] wp_time_Sleep again [simplified, OF _ now(1)])
  qed
qed simp

lemma await_in_rounds:
  "clock_at t m \<Longrightarrow> 0 < rounds \<Longrightarrow> deadline < t + 5 * millisecond * (int rounds - 1)
    \<Longrightarrow> wp (await_activation config deadline first rounds) (\<lambda>r _. r \<noteq> None) m"
proof (induction rounds arbitrary: t m first)
  case (Suc n)
  have again: "wp (await_activation config deadline f n) (\<lambda>r _. r \<noteq> None) m'"
    if "clock_at (now + 5 * millisecond) m'" "t \<le> now" "now \<le> deadline" for now m' f
  proof (rule Suc.IH [OF that(1)])
    show "0 < n" using Suc.prems(3) that(2,3) by (cases n) simp_all
    show "deadline < now + 5 * millisecond + 5 * millisecond * (int n - 1)"
      using Suc.prems(3) that(2) by (simp add: algebra_simps)
  qed
  define D where "D p f = do {
        settled \<leftarrow> (case f of
            None \<Rightarrow> return False
          | Some t \<Rightarrow> do { now1 \<leftarrow> time_Now; return (now1 - t \<ge> 100 * millisecond) });
        if settled then do { same \<leftarrow> same_process p; return (Some same) }
        else do { time_Sleep (5 * millisecond); await_activation config deadline f n } }" for p f
  have decide: "wp (D p f) (\<lambda>r _. r \<noteq> None) m'"
    if "clock_at now m'" "t \<le> now" "now \<le> deadline" for now m' f p
    unfolding D_def
    using that by (auto simp: wp_simps intro!: wp_later [where t = now] wp_time_Sleep [where t = now]
      wp_runs_on [where t = now, OF runs_on_checks(3)] again [simplified, where now = now]
      split: option.splits)
  have judge: "wp (do {
        healthy \<leftarrow> processHealthy config p;
        f \<leftarrow> (if healthy \<and> first = None
              then do { t \<leftarrow> time_Now; return (Some t) } else return first);
        D p f }) (\<lambda>r _. r \<noteq> None) m'"
    if "clock_at now m'" "t \<le> now" "now \<le> deadline" for now m' p
    unfolding wp_simps
    by (rule wp_runs_on [OF runs_on_checks(2) that(1)])
      (auto intro!: wp_later [where t = now] decide [simplified, where now = now] that)
  show ?case
    using Suc.prems(1) judge [unfolded wp_simps]
    unfolding await_activation.simps D_def [symmetric] running_process_def wp_simps
    by (auto simp del: not_None_eq intro!: wp_runs_on [where t = t, OF runs_on_checks(1)]
      wp_time_Now [where t = t] split: option.splits)
qed simp

text \<open>C26: The wait for a process of an earlier manager ends: on every system whose clock runs
  on while the manager sleeps, the loop leaves within its 81 rounds, whatever the process does.\<close>

theorem wait_gone_ends:
  assumes "clock_advances (m_host m)"
  shows "fst (run_state (do { now \<leftarrow> time_Now; wait_gone pid (now + 2 * second) recovery_rounds }) m)
    \<noteq> None"
proof -
  have "wp (wait_gone pid (now + 2 * second) recovery_rounds) (\<lambda>r _. r \<noteq> None) m'"
    if "clock_at now m'" for now m'
    by (rule wait_gone_in_rounds [OF that]) (simp_all add: recovery_rounds_def)
  then have "wp (do { now \<leftarrow> time_Now; wait_gone pid (now + 2 * second) recovery_rounds })
      (\<lambda>r _. r \<noteq> None) m"
    unfolding wp_simps by (intro wp_time_Now [OF clock_at_start [OF assms]])
  then show ?thesis by (simp add: wp_def case_prod_beta)
qed

theorem wait_gone_ends_witness:
  "clock_advances (m_host sample_manager)
   \<and> fst (run_state (do { now \<leftarrow> time_Now; wait_gone 4711 (now + 2 * second) recovery_rounds })
       sample_manager) \<noteq> None"
  using wait_gone_ends [of sample_manager 4711] sample_clock
  by (simp add: sample_manager_def new_manager_def)

text \<open>C27: The wait for the activation of a configuration ends: on every system whose clock runs
  on while the manager sleeps, it is decided within 102 rounds whether the new process settled,
  for every timeout up to the 500 milliseconds the code uses.\<close>

theorem activation_wait_ends:
  assumes "clock_advances (m_host m)" and "timeout \<le> activation_timeout"
  shows "fst (run_state (activation_wait config timeout) m) \<noteq> None"
proof -
  have "wp (await_activation config (now + timeout) None activation_rounds) (\<lambda>r _. r \<noteq> None) m'"
    if "clock_at now m'" for now m'
    by (rule await_in_rounds [OF that])
      (use assms(2) in \<open>simp_all add: activation_rounds_def activation_timeout_def\<close>)
  then have "wp (activation_wait config timeout) (\<lambda>r _. r \<noteq> None) m"
    unfolding activation_wait_def wp_simps by (intro wp_time_Now [OF clock_at_start [OF assms(1)]])
  then show ?thesis by (simp add: wp_def case_prod_beta)
qed

theorem activation_wait_ends_witness:
  "clock_advances (m_host sample_manager) \<and> activation_timeout \<le> activation_timeout
   \<and> fst (run_state (activation_wait sample_config_path activation_timeout) sample_manager) \<noteq> None"
  using activation_wait_ends [of sample_manager activation_timeout sample_config_path] sample_clock
  by (simp add: sample_manager_def new_manager_def)

end
