(* ===== verification/KDM_Records.thy ===== *)
theory KDM_Records
  imports KDM_Service
begin

text \<open>
  The table of managed configurations (\<^verbatim>\<open>managedConfigs\<close> of \<^verbatim>\<open>manager/service.go\<close>) is well
  typed at every moment: \<open>keeps_store\<close> is a relation every operation of the manager keeps. Only
  four operations of \<^verbatim>\<open>manager/managed_store.go\<close> write the table; the others are covered by
  the frame rules, in the order in which they call each other.
\<close>

section \<open>The invariant of the store\<close>

definition record_ok :: "string \<times> managed_configuration \<Rightarrow> bool" where
  "record_ok e \<longleftrightarrow> fst e = mc_ID (snd e) \<and> validManagedConfiguration (snd e)
     \<and> normalizedManagedConfiguration (snd e) = snd e"

definition store_ok :: "manager \<Rightarrow> bool" where
  "store_ok m \<longleftrightarrow> map_ok (m_managedConfigs m) \<and> list_all record_ok (m_managedConfigs m)"

definition keeps_store :: "manager \<Rightarrow> manager \<Rightarrow> bool" where
  "keeps_store m m' \<longleftrightarrow> (store_ok m \<longrightarrow> store_ok m')"

named_theorems store_ops

interpretation storing: step_relation keeps_store
  by unfold_locales (auto simp: keeps_store_def)

lemma same_store: "m_managedConfigs m' = m_managedConfigs m \<Longrightarrow> keeps_store m m'"
  by (simp add: keeps_store_def store_ok_def)

lemma store_ask [store_ops]: "steps keeps_store (ask q ev)"
  by (simp add: state_io_rel_def run_ask same_store)

lemma store_modify: "(\<And>m. m_managedConfigs (f m) = m_managedConfigs m) \<Longrightarrow> steps keeps_store (modify f)"
  by (rule steps_modify) (rule same_store)

lemma store_plain: "steps (asks P) f \<Longrightarrow> steps keeps_store f"
proof (rule state_io_relI)
  fix r m m' assume "steps (asks P) f" and "run_state f m = (r, m')"
  then have "asks P m m'" by (auto dest: state_io_relD)
  then show "keeps_store m m'" by (auto simp: asks_def intro: same_store)
qed

lemmas store_queries [store_ops] = plain_ops [THEN store_plain]

lemma store_calls [store_ops]: "steps keeps_store (call c)" "steps keeps_store (calls cs)"
  by (induction cs) (auto simp: call_def intro!: store_ops split: option.splits)

lemma normalized_twice [simp]:
  "normalizedManagedConfiguration (normalizedManagedConfiguration c) = normalizedManagedConfiguration c"
  by (simp add: normalizedManagedConfiguration_def Let_def)

lemma record_put:
  "validManagedConfiguration c \<Longrightarrow> normalizedManagedConfiguration c = c
    \<Longrightarrow> keeps_store m (m\<lparr>m_managedConfigs := map_put (mc_ID c) c (m_managedConfigs m)\<rparr>)"
  by (auto simp: keeps_store_def store_ok_def list_all_iff record_ok_def dest!: subsetD [OF
      set_put])

lemma record_del: "keeps_store m (m\<lparr>m_managedConfigs := map_del i (m_managedConfigs m)\<rparr>)"
  by (auto simp: keeps_store_def store_ok_def list_all_iff dest!: subsetD [OF set_del])

lemma record_stored [intro!]:
  "validManagedConfiguration c \<Longrightarrow> normalizedManagedConfiguration c = c
    \<Longrightarrow> steps keeps_store (modify (\<lambda>m. m\<lparr>m_managedConfigs := map_put (mc_ID c) c (m_managedConfigs m)\<rparr>))"
  by (rule steps_modify) (rule record_put)

lemma store_tampered [store_ops]: "steps keeps_store (modify (\<lambda>m. m\<lparr>m_managedTampered := f m\<rparr>))"
  by (rule store_modify) simp

lemma store_writes [store_ops]:
  "steps keeps_store (storeManagedConfigurationMetadata a)"
  "steps keeps_store (storeManagedConfiguration b content)"
  "steps keeps_store (removeManagedConfigurationMetadata i)"
  "steps keeps_store (load_managed_entry entry)"
proof -
  show metadata: "steps keeps_store (storeManagedConfigurationMetadata c)" for c
    by (auto simp: storeManagedConfigurationMetadata_def Let_def intro!: store_ops split: option.splits)
  show "steps keeps_store (storeManagedConfiguration b content)"
    by (auto simp: storeManagedConfiguration_def Let_def intro!: metadata store_ops split: option.splits)
  show "steps keeps_store (removeManagedConfigurationMetadata i)"
    by (auto simp: removeManagedConfigurationMetadata_def intro!: store_ops steps_modify record_del)
  show "steps keeps_store (load_managed_entry entry)"
    by (auto simp: load_managed_entry_def Let_def intro!: store_ops
        split: sum.splits option.splits document.splits)
qed

lemma confirm_record:
  assumes "record_ok (i, c)"
  shows "validManagedConfiguration (c\<lparr>mc_ActiveRevision := n\<rparr>)"
    and "normalizedManagedConfiguration (c\<lparr>mc_ActiveRevision := n\<rparr>) = c\<lparr>mc_ActiveRevision := n\<rparr>"
    and "mc_ID (c\<lparr>mc_ActiveRevision := n\<rparr>) = i"
  using assms
  by (auto simp: record_ok_def validManagedConfiguration_def normalizedManagedConfiguration_def
      Let_def
      split: if_splits)

lemma store_confirm [store_ops]: "steps keeps_store (confirmManagedConfigurationActive p)"
proof -
  have "wp (confirmManagedConfigurationActive p) (\<lambda>_ m'. store_ok m') m" if m: "store_ok m" for m
  proof -
    let ?update = "\<lambda>i c. do {
        failed \<leftarrow> storeManagedConfigurationMetadata c;
        case failed of
          Some e \<Rightarrow> return (Some e)
        | None \<Rightarrow> do {
            modify (\<lambda>m. m\<lparr>m_managedConfigs := map_put i c (m_managedConfigs m)\<rparr>);
            return None }}"
    have updated: "wp (?update i (c\<lparr>mc_ActiveRevision := mc_ContentRevision c\<rparr>)) (\<lambda>_ m'. store_ok m') m"
      if "record_ok (i, c)" for i c
    proof (rule wp_steps)
      show "steps keeps_store (?update i (c\<lparr>mc_ActiveRevision := mc_ContentRevision c\<rparr>))"
        using record_stored [OF confirm_record(1,2) [OF that]] confirm_record(3) [OF that]
        by (auto intro!: store_ops split: option.splits)
    qed (use m in \<open>simp add: keeps_store_def\<close>)
    show ?thesis
    proof (cases "find (\<lambda>(i, c). managedConfigurationPath (m_settings m) c = p
        \<and> mc_ActiveRevision c \<noteq> mc_ContentRevision c) (m_managedConfigs m)")
      case None
      then show ?thesis using m by (simp add: confirmManagedConfigurationActive_def wp_def)
    next
      case (Some e)
      then have "e \<in> set (m_managedConfigs m)" by (metis find_Some_iff nth_mem)
      then have "record_ok (fst e, snd e)" using m by (auto simp: store_ok_def list_all_iff)
      moreover have "run_state (confirmManagedConfigurationActive p) m
          = run_state (?update (fst e) ((snd e)\<lparr>mc_ActiveRevision := mc_ContentRevision (snd e)\<rparr>)) m"
        using Some by (simp add: confirmManagedConfigurationActive_def Let_def case_prod_beta)
      ultimately show ?thesis using updated by (simp add: wp_def)
    qed
  qed
  then show ?thesis by (simp add: state_io_rel_def keeps_store_def wp_def case_prod_beta)
qed

lemma store_waits [store_ops]:
  "steps keeps_store (wait_gone pid deadline rounds)"
  by (induction rounds) (auto intro!: store_ops)

declare store_modify [store_ops]

lemma store_start [store_ops]: "steps keeps_store (StartKMonad command args)"
  by (auto simp: StartKMonad_def intro!: store_ops)

lemma reclassified_store [simp]: "m_managedConfigs (reclassifyRetainedManagerOutputs x m) = m_managedConfigs m"
  by (simp add: reclassifyRetainedManagerOutputs_def)

section \<open>The operations of the manager\<close>

lemma kept_store_0_0 [store_ops]:
  "steps keeps_store newConfigurationID" "steps keeps_store (record_discovered a1 a2 a3)"
  "steps keeps_store (newProcessState a4)" "steps keeps_store (ownsProcess a5 a6)"
  "steps keeps_store (processStillRunning a7)" "steps keeps_store (waitForProcess a8 a9)"
  "steps keeps_store (signalProcessGroup a10 a11)" "steps keeps_store (signal_by_pid a12 a13)"
  by (auto simp: newConfigurationID_def record_discovered_def newProcessState_def
      ownsProcess_def processStillRunning_def waitForProcess_def signalProcessGroup_def
      signal_by_pid_def Let_def
      intro!: store_ops split: sum.splits option.splits prod.splits document.splits
        journal_read.splits dry_run_end.splits list.splits)

lemma kept_store_0_1 [store_ops]:
  "steps keeps_store (closeProcessFD a1)" "steps keeps_store (dry_run_error a2 a3 a4)"
  "steps keeps_store (cleanupCgroup a5)" "steps keeps_store (scheduleRetry_op a6 a7 a8)"
  "steps keeps_store (refreshKMonadAvailability a9)" "steps keeps_store (publish_changes a10 a11)"
  "steps keeps_store (publish_operation a12)" "steps keeps_store statusWriteFailed"
  by (auto simp: closeProcessFD_def dry_run_error_def cleanupCgroup_def scheduleRetry_op_def
      refreshKMonadAvailability_def publish_changes_def publish_operation_def
      statusWriteFailed_def Let_def
      intro!: store_ops split: sum.splits option.splits prod.splits document.splits
        journal_read.splits dry_run_end.splits list.splits)

lemma kept_store_0_2 [store_ops]:
  "steps keeps_store (restoreBackoff a1)" "steps keeps_store (get_state a2)"
  "steps keeps_store (put_state a3 a4)" "steps keeps_store (attachProcessCgroup a5 a6)"
  "steps keeps_store count_failure" "steps keeps_store newOperationID"
  "steps keeps_store (put_operation a7)" "steps keeps_store prune_operations"
  by (auto simp: restoreBackoff_def get_state_def put_state_def attachProcessCgroup_def
      count_failure_def newOperationID_def put_operation_def prune_operations_def Let_def
      intro!: store_ops split: sum.splits option.splits prod.splits document.splits
        journal_read.splits dry_run_end.splits list.splits)

lemma kept_store_0_3 [store_ops]:
  "steps keeps_store (get_operation a1)" "steps keeps_store (identificationFailureReason a2)"
  "steps keeps_store (identificationOperation a3)" "steps keeps_store (probeFailureReason a4)"
  "steps keeps_store (RenderKMonadDefcfg a5 a6)" "steps keeps_store (running_process a7)"
  "steps keeps_store (readBoundedExternalContent a8 a9)" "steps keeps_store (content_lost a10)"
  by (auto simp: get_operation_def identificationFailureReason_def identificationOperation_def
      probeFailureReason_def RenderKMonadDefcfg_def running_process_def
      readBoundedExternalContent_def content_lost_def Let_def
      intro!: store_ops split: sum.splits option.splits prod.splits document.splits
        journal_read.splits dry_run_end.splits list.splits)

lemma kept_store_0_4 [store_ops]:
  "steps keeps_store (probeKMonadInfo a1)" "steps keeps_store markProgress"
  "steps keeps_store (keep_watch a2 a3 a4)" "steps keeps_store (add_watch a5 a6)"
  by (auto simp: probeKMonadInfo_def markProgress_def keep_watch_def add_watch_def Let_def
      intro!: store_ops split: sum.splits option.splits prod.splits document.splits
        journal_read.splits dry_run_end.splits list.splits)

lemma kept_store_1_0 [store_ops]:
  "steps keeps_store (managedConfigurationIntact a1)" "steps keeps_store (write_journal a2 a3)"
  "steps keeps_store writeExternalConfigurationRegistry"
  "steps keeps_store loadExternalConfigurationRegistry"
  "steps keeps_store (deviceIDForExternalConfiguration a4)" "steps keeps_store loadDeviceRegistry"
  "steps keeps_store (managerOutputForNodePath a5)" "steps keeps_store (processHealthy a6 a7)"
  by (auto simp: managedConfigurationIntact_def write_journal_def
      writeExternalConfigurationRegistry_def loadExternalConfigurationRegistry_def
      deviceIDForExternalConfiguration_def loadDeviceRegistry_def managerOutputForNodePath_def
      processHealthy_def Let_def
      intro!: store_ops split: sum.splits option.splits prod.splits document.splits
        journal_read.splits dry_run_end.splits list.splits)

lemma kept_store_1_1 [store_ops]:
  "steps keeps_store (signalProcess a1 a2)" "steps keeps_store (cleanupLaunchSnapshot a3)"
  "steps keeps_store (readStatusFile a4)" "steps keeps_store (takePrevalidated a5 a6)"
  "steps keeps_store (drop_snapshot a7 a8)" "steps keeps_store (validation_failed a9 a10 a11)"
  "steps keeps_store (start_failed a12 a13 a14 a15)"
  "steps keeps_store (finish_operation a16 a17 a18)"
  by (auto simp: signalProcess_def cleanupLaunchSnapshot_def readStatusFile_def
      takePrevalidated_def drop_snapshot_def validation_failed_def start_failed_def
      finish_operation_def Let_def
      intro!: store_ops split: sum.splits option.splits prod.splits document.splits
        journal_read.splits dry_run_end.splits list.splits)

lemma kept_store_1_2 [store_ops]:
  "steps keeps_store (render_on a1 a2)" "steps keeps_store (same_process a3)"
  "steps keeps_store (newApplyOperation a4)" "steps keeps_store (finishApplyValidation a5 a6)"
  "steps keeps_store (apply_target a7)" "steps keeps_store (drop_prevalidated a8)"
  "steps keeps_store (record_outcome a9)" "steps keeps_store (discard_candidate a10 a11)"
  by (auto simp: render_on_def same_process_def newApplyOperation_def finishApplyValidation_def
      apply_target_def drop_prevalidated_def record_outcome_def discard_candidate_def Let_def
      intro!: store_ops split: sum.splits option.splits prod.splits document.splits
        journal_read.splits dry_run_end.splits list.splits)

lemma kept_store_1_3 [store_ops]:
  "steps keeps_store (newLifecycleOperation a1 a2)" "steps keeps_store (content_of_entry a3 a4)"
  "steps keeps_store (exportManagedConfiguration a5 a6 a7)" "steps keeps_store probeKMonadVersion"
  by (auto simp: newLifecycleOperation_def content_of_entry_def exportManagedConfiguration_def
      probeKMonadVersion_def Let_def
      intro!: store_ops split: sum.splits option.splits prod.splits document.splits
        journal_read.splits dry_run_end.splits list.splits)

lemma kept_store_2_0 [store_ops]:
  "steps keeps_store (openJournal a1)" "steps keeps_store (scan_external_entry a2 a3)"
  "steps keeps_store (markExternalConfigurationAdopted a4 a5 a6)"
  "steps keeps_store (clearExternalConfigurationAdoption a7 a8)"
  "steps keeps_store (clearExternalConfigurationAdoptionsForManaged a9)"
  "steps keeps_store configurationPaths" "steps keeps_store writeDeviceRegistry"
  "steps keeps_store (claim_of_path a10 a11)"
  by (auto simp: openJournal_def scan_external_entry_def markExternalConfigurationAdopted_def
      clearExternalConfigurationAdoption_def clearExternalConfigurationAdoptionsForManaged_def
      configurationPaths_def writeDeviceRegistry_def claim_of_path_def Let_def
      intro!: store_ops split: sum.splits option.splits prod.splits document.splits
        journal_read.splits dry_run_end.splits list.splits)

lemma kept_store_2_1 [store_ops]:
  "steps keeps_store (signalOwnedProcessIDWithGroup a1 a2 a3 a4)"
  "steps keeps_store (release_process a5)" "steps keeps_store (runtimeForConfiguration a6 a7 a8)"
  "steps keeps_store (with_state a9 a10 a11)"
  "steps keeps_store (attach_child a12 a13 a14 a15 a16 a17)"
  "steps keeps_store (reap a18 a19 a20 a21)" "steps keeps_store (confirmed_process a22 a23)"
  "steps keeps_store (apply_operation a24 a25)"
  by (auto simp: signalOwnedProcessIDWithGroup_def release_process_def
      runtimeForConfiguration_def with_state_def attach_child_def reap_def confirmed_process_def
      apply_operation_def Let_def
      intro!: store_ops split: sum.splits option.splits prod.splits document.splits
        journal_read.splits dry_run_end.splits list.splits)

lemma kept_store_2_2 [store_ops]:
  "steps keeps_store (rejected_apply a1 a2)" "steps keeps_store (previously_live a3)"
  "steps keeps_store (not_committed a4 a5)" "steps keeps_store (lifecycle_done a6 a7 a8 a9)"
  by (auto simp: rejected_apply_def previously_live_def not_committed_def lifecycle_done_def Let_def
      intro!: store_ops split: sum.splits option.splits prod.splits document.splits
        journal_read.splits dry_run_end.splits list.splits)

lemma store_await [store_ops]: "steps keeps_store (await_activation config deadline first rounds)"
  by (induction rounds arbitrary: first) (auto intro!: store_ops split: option.splits)

lemma kept_store_3_0 [store_ops]:
  "steps keeps_store (openManagedConfigurationStore a1)"
  "steps keeps_store refreshExternalConfigurationRegistry" "steps keeps_store deviceClaims"
  "steps keeps_store (end_dry_run a2 a3 a4)" "steps keeps_store (stopProcess a5 a6 a7)"
  "steps keeps_store (recover_process a8 a9 a10)"
  "steps keeps_store (managedConfigurationResource a11)"
  "steps keeps_store (externalConfigurationResource a12)"
  by (auto simp: openManagedConfigurationStore_def refreshExternalConfigurationRegistry_def
      deviceClaims_def end_dry_run_def stopProcess_def recover_process_def
      managedConfigurationResource_def externalConfigurationResource_def kill_dry_run_def
      Let_def
      intro!: store_ops split: sum.splits option.splits prod.splits document.splits
        journal_read.splits dry_run_end.splits list.splits)

lemma kept_store_3_1 [store_ops]:
  "steps keeps_store (status_item a1)" "steps keeps_store (launch a2 a3 a4 a5 a6)"
  "steps keeps_store (poll_process a7 a8 a9)" "steps keeps_store (activation_wait a10 a11)"
  "steps keeps_store (prepare_snapshot a12 a13 a14)" "steps keeps_store (delete_stored a15 a16)"
  "steps keeps_store desired_watches"
  by (auto simp: status_item_def launch_def poll_process_def activation_wait_def
      prepare_snapshot_def delete_stored_def desired_watches_def Let_def
      intro!: store_ops split: sum.splits option.splits prod.splits document.splits
        journal_read.splits dry_run_end.splits list.splits)

lemma kept_store_4_0 [store_ops]:
  "steps keeps_store refreshDevices" "steps keeps_store (dryRunContextWithWriters a1 a2 a3)"
  "steps keeps_store (recoverOwnedProcesses a4 a5)" "steps keeps_store configurationList"
  "steps keeps_store publicDiagnostics" "steps keeps_store writeStatus"
  "steps keeps_store (stopAndDelete a6 a7)" "steps keeps_store (stopStates a8 a9)"
  by (auto simp: refreshDevices_def dryRunContextWithWriters_def recoverOwnedProcesses_def
      configurationList_def publicDiagnostics_def writeStatus_def stopAndDelete_def
      stopStates_def Let_def
      intro!: store_ops split: sum.splits option.splits prod.splits document.splits
        journal_read.splits dry_run_end.splits list.splits)

lemma kept_store_4_1 [store_ops]:
  "steps keeps_store (switch_config a1 a2 a3 a4 a5)"
  "steps keeps_store (check_process a6 a7 a8 a9)" "steps keeps_store (pause_config a10 a11)"
  "steps keeps_store (pauseDeviceConfigurations a12)"
  "steps keeps_store (waitForManagedActivation a13 a14)"
  "steps keeps_store (externalConfigurationContent a15 a16 a17)"
  "steps keeps_store (start_manager a18 a19)" "steps keeps_store refreshWatches"
  by (auto simp: switch_config_def check_process_def pause_config_def
      pauseDeviceConfigurations_def waitForManagedActivation_def
      externalConfigurationContent_def start_manager_def refreshWatches_def Let_def
      intro!: store_ops split: sum.splits option.splits prod.splits document.splits
        journal_read.splits dry_run_end.splits list.splits)

lemma kept_store_5_0 [store_ops]:
  "steps keeps_store (dryRun a1)" "steps keeps_store capturePublicState"
  "steps keeps_store (stopAll a2)" "steps keeps_store (duplicate_config a3 a4 a5)"
  "steps keeps_store cleanup" "steps keeps_store (inputDeviceTarget a6)"
  "steps keeps_store (renderManagedConfigurationWithSourceMap a7)"
  "steps keeps_store (checkCandidateInputForClaims a8 a9)"
  by (auto simp: dryRun_def capturePublicState_def stopAll_def duplicate_config_def cleanup_def
      inputDeviceTarget_def renderManagedConfigurationWithSourceMap_def
      checkCandidateInputForClaims_def Let_def
      intro!: store_ops split: sum.splits option.splits prod.splits document.splits
        journal_read.splits dry_run_end.splits list.splits)

lemma kept_store_5_1 [store_ops]:
  "steps keeps_store (runPreparedValidation a1 a2 a3)"
  "steps keeps_store (runManagedApplyValidation a4)" "steps keeps_store (stop_new_revision a5)"
  by (auto simp: runPreparedValidation_def runManagedApplyValidation_def stop_new_revision_def
      Let_def
      intro!: store_ops split: sum.splits option.splits prod.splits document.splits
        journal_read.splits dry_run_end.splits list.splits)

lemma kept_store_6_0 [store_ops]:
  "steps keeps_store take_snapshot" "steps keeps_store (validateConfigSnapshot a1 a2)"
  "steps keeps_store (publish_pass a3)" "steps keeps_store (inputScan a4 a5)"
  "steps keeps_store (renderManagedConfiguration a6)" "steps keeps_store (checkCandidateInput a7)"
  by (auto simp: take_snapshot_def validateConfigSnapshot_def publish_pass_def inputScan_def
      renderManagedConfiguration_def checkCandidateInput_def Let_def
      intro!: store_ops split: sum.splits option.splits prod.splits document.splits
        journal_read.splits dry_run_end.splits list.splits)

lemma kept_store_7_0 [store_ops]:
  "steps keeps_store (startConfig a1 a2 a3 a4 a5)"
  "steps keeps_store (check_update a6 a7 a8 a9 a10)"
  "steps keeps_store (startIdentification a11 a12 a13)"
  "steps keeps_store (startProbe a14 a15 a16 a17)"
  "steps keeps_store (prepare_content a18 a19 a20)"
  "steps keeps_store (prepare_revision a21 a22 a23 a24 a25 a26)"
  by (auto simp: startConfig_def check_update_def startIdentification_def startProbe_def
      prepare_content_def prepare_revision_def open_session_def begin_session_def Let_def
      intro!: store_ops split: sum.splits option.splits prod.splits document.splits
        journal_read.splits dry_run_end.splits list.splits)

lemma kept_store_8_0 [store_ops]:
  "steps keeps_store (advance_config a1 a2 a3 a4 a5 a6)"
  "steps keeps_store (prepareValidationPreview a7 a8 a9)"
  "steps keeps_store (prepare_target a10 a11 a12)"
  by (auto simp: advance_config_def prepareValidationPreview_def prepare_target_def Let_def
      intro!: store_ops split: sum.splits option.splits prod.splits document.splits
        journal_read.splits dry_run_end.splits list.splits)

lemma kept_store_9_0 [store_ops]:
  "steps keeps_store (supervise_config a1 a2 a3 a4 a5)"
  "steps keeps_store (prepareManagedApply a6 a7)"
  by (auto simp: supervise_config_def prepareManagedApply_def Let_def
      intro!: store_ops split: sum.splits option.splits prod.splits document.splits
        journal_read.splits dry_run_end.splits list.splits)

lemma kept_store_10_0 [store_ops]:
  "steps keeps_store (reconcile_config a1 a2 a3 a4)"
  "steps keeps_store (prepareExternalAdoption a5 a6 a7 a8)"
  by (auto simp: reconcile_config_def prepareExternalAdoption_def Let_def
      intro!: store_ops split: sum.splits option.splits prod.splits document.splits
        journal_read.splits dry_run_end.splits list.splits)

lemma kept_store_11_0 [store_ops]:
  "steps keeps_store (reconcile_all a1 a2 a3)"
  by (auto simp: reconcile_all_def Let_def
      intro!: store_ops split: sum.splits option.splits prod.splits document.splits
        journal_read.splits dry_run_end.splits list.splits)

lemma kept_store_12_0 [store_ops]:
  "steps keeps_store (reconcile a1)"
  by (auto simp: reconcile_def Let_def
      intro!: store_ops split: sum.splits option.splits prod.splits document.splits
        journal_read.splits dry_run_end.splits list.splits)

lemma kept_store_13_0 [store_ops]:
  "steps keeps_store (finishIdentification a1 a2)" "steps keeps_store (finishProbe a3 a4)"
  "steps keeps_store reconcile_now" "steps keeps_store (service_pass a5)"
  by (auto simp: finishIdentification_def finishProbe_def reconcile_now_def service_pass_def Let_def
      intro!: store_ops split: sum.splits option.splits prod.splits document.splits
        journal_read.splits dry_run_end.splits list.splits)

lemma kept_store_14_0 [store_ops]:
  "steps keeps_store (cancelIdentificationOperation a1)"
  "steps keeps_store (cancelProbeOperation a2)" "steps keeps_store (remove_new a3 a4)"
  "steps keeps_store (restore_previous a5 a6 a7)" "steps keeps_store (set_enabled a8 a9 a10)"
  "steps keeps_store (deleteManagedConfiguration a11 a12 a13 a14)"
  by (auto simp: cancelIdentificationOperation_def cancelProbeOperation_def remove_new_def
      restore_previous_def set_enabled_def deleteManagedConfiguration_def Let_def
      intro!: store_ops split: sum.splits option.splits prod.splits document.splits
        journal_read.splits dry_run_end.splits list.splits)

lemma kept_store_15_0 [store_ops]:
  "steps keeps_store (rollbackManagedApply a1 a2)"
  "steps keeps_store (setManagedConfigurationEnabled a3 a4 a5 a6 a7)"
  by (auto simp: rollbackManagedApply_def setManagedConfigurationEnabled_def Let_def
      intro!: store_ops split: sum.splits option.splits prod.splits document.splits
        journal_read.splits dry_run_end.splits list.splits)

lemma kept_store_16_0 [store_ops]:
  "steps keeps_store (activate_apply a1 a2 a3 a4 a5)"
  by (auto simp: activate_apply_def Let_def
      intro!: store_ops split: sum.splits option.splits prod.splits document.splits
        journal_read.splits dry_run_end.splits list.splits)

lemma kept_store_17_0 [store_ops]:
  "steps keeps_store (commit_apply a1 a2 a3 a4)"
  by (auto simp: commit_apply_def Let_def
      intro!: store_ops split: sum.splits option.splits prod.splits document.splits
        journal_read.splits dry_run_end.splits list.splits)

lemma kept_store_18_0 [store_ops]:
  "steps keeps_store (persist_apply a1 a2 a3 a4)"
  by (auto simp: persist_apply_def Let_def
      intro!: store_ops split: sum.splits option.splits prod.splits document.splits
        journal_read.splits dry_run_end.splits list.splits)

lemma kept_store_19_0 [store_ops]:
  "steps keeps_store (recheck_apply a1 a2 a3)"
  by (auto simp: recheck_apply_def Let_def
      intro!: store_ops split: sum.splits option.splits prod.splits document.splits
        journal_read.splits dry_run_end.splits list.splits)

lemma kept_store_20_0 [store_ops]:
  "steps keeps_store (finish_body a1 a2 a3)"
  by (auto simp: finish_body_def Let_def
      intro!: store_ops split: sum.splits option.splits prod.splits document.splits
        journal_read.splits dry_run_end.splits list.splits)

lemma kept_store_21_0 [store_ops]:
  "steps keeps_store (finishManagedApply a1 a2 a3)"
  by (auto simp: finishManagedApply_def Let_def
      intro!: store_ops split: sum.splits option.splits prod.splits document.splits
        journal_read.splits dry_run_end.splits list.splits)

section \<open>The life of the manager\<close>

lemma store_on:
  "store_ok m \<Longrightarrow> steps keeps_store f \<Longrightarrow> store_ok (snd (run_state f m))"
  by (auto simp: state_io_rel_def keeps_store_def)

lemma store_after:
  "run_state f m = (r, m') \<Longrightarrow> store_ok m \<Longrightarrow> steps keeps_store f \<Longrightarrow> store_ok m'"
  using store_on [of m f] by simp

lemma store_served:
  "store_ok (sv_manager s) \<Longrightarrow> store_ok (sv_manager (serve_request q s))"
proof -
  assume s: "store_ok (sv_manager s)"
  note on = store_on [OF s]
  show ?thesis
    using s
    by (cases q) (auto simp: on_manager_def prepare_on_def preview_on_def validate_nth_def commit_nth_def
        preview_nth_def intro!: on store_ops elim: store_after split: prod.splits option.splits)
qed

text \<open>C8: Over the whole life of the manager, whatever the system answers and whatever is asked, the
  table of managed configurations holds each configuration once, under its own identifier, and every
  one is valid and normalised: of the current version, owned by the manager, named, with positive
  revisions, a digest and a device, and with no form in its behaviour that the manager owns.\<close>

theorem stored_configurations_valid:
  "store_ok (sv_manager (serve requests (started_service host settings stateDir previousStatus)))"
proof -
  have "store_ok (sv_manager (started_service host settings stateDir previousStatus))"
    using store_on [of "new_manager host settings" "start_manager stateDir previousStatus"]
    by (simp add: started_service_def on_manager_def store_ops) (simp add: store_ok_def new_manager_def)
  moreover have "store_ok (sv_manager s) \<Longrightarrow> store_ok (sv_manager (serve requests s))" for s
    unfolding serve_def by (induction requests arbitrary: s) (simp_all add: store_served)
  ultimately show ?thesis by blast
qed

end
