(* ===== verification/KDM_Requests.thy ===== *)
theory KDM_Requests
  imports KDM_Decisions KDM_Records
begin

text \<open>
  What single requests promise: a session takes its device from every configuration, a refused
  request changes nothing, a timeout is within its bounds, the captured output is a prefix, what a
  restart makes of the retry delays it restores, and what a new watcher is told of.
\<close>

section \<open>A session takes its device\<close>

definition device_idle :: "string \<Rightarrow> manager \<Rightarrow> bool" where
  "device_idle platformID m \<longleftrightarrow> (\<forall>c s. map_get (m_states m) c = Some s \<longrightarrow>
     cs_deviceID s = platformID \<longrightarrow> cs_process s = None)"

lemma stopProcess_idle:
  "wp (stopProcess config d s) (\<lambda>s' m'. outward m m' \<and> cs_process s' = None) m"
proof -
  have none: "wp (stopProcess config d s) (\<lambda>s' _. cs_process s' = None) m"
    by (auto simp: stopProcess_def wp_simps Let_def intro!: wp_any split: option.splits)
  show ?thesis
    by (rule wp_conj [OF wp_steps [OF outgoing.steps_stopProcess] none])
qed

lemma pause_idles:
  "wp (pauseDeviceConfigurations pid)
     (\<lambda>_ m'. device_idle pid m' \<and> m_identification m' = m_identification m \<and> m_probe m' = m_probe m) m"
proof -
  let ?I = "\<lambda>ys _ m'. (\<forall>c s. map_get (m_states m') c = Some s \<longrightarrow> cs_deviceID s = pid \<longrightarrow>
      cs_process s \<noteq> None \<longrightarrow> (c, s) \<in> set ys)
    \<and> m_identification m' = m_identification m \<and> m_probe m' = m_probe m"
  have looped: "wp (for_each states (\<lambda>(config, s).
       if cs_deviceID s \<noteq> pid then return ()
       else do {
         s1 \<leftarrow> stopProcess config d s;
         put_state config (transitionPhase phaseStopped s1) })) (?I []) m1"
    if "states = m_states m1" "m_states m1 = m_states m" "m_identification m1 = m_identification m"
      "m_probe m1 = m_probe m" for states d m1
    unfolding for_each_loop
  proof (rule wp_loop)
    show "?I states () m1" using that by (auto dest: map_of_SomeD)
    fix x ys and acc :: unit and m2 :: manager assume I: "?I (x # ys) acc m2"
    show "wp (case x of (config, s) \<Rightarrow>
       if cs_deviceID s \<noteq> pid then return ()
       else do {
         s1 \<leftarrow> stopProcess config d s;
         put_state config (transitionPhase phaseStopped s1) }) (?I ys) m2"
    proof (cases "cs_deviceID (snd x) = pid")
      case True
      then show ?thesis
        using I by (cases x) (auto simp: wp_simps put_state_def case_prod_beta outward_def supervision_def update_conv'
          intro!: wp_mono [OF stopProcess_idle] split: if_splits, blast)
    qed (use I in \<open>cases x, auto simp: wp_simps\<close>)
  qed
  show ?thesis
    unfolding pauseDeviceConfigurations_def wp_simps time_Now_def wp_exact
    by (rule wp_mono [OF looped]) (simp_all add: device_idle_def)
qed

lemma paused_session:
  "wp (begin_session install o1 session_at) (\<lambda>r m'. r = Inr o1
     \<and> device_idle (ses_platformID (session_at (m_nextSession m))) m'
     \<and> (\<exists>m1. m_identification m' = m_identification (install (session_at (m_nextSession m)) m1)
         \<and> m_probe m' = m_probe (install (session_at (m_nextSession m)) m1))) m"
proof -
  have status: "wp writeStatus (\<lambda>_ m'. device_idle pid m' \<and> m_identification m' = i \<and> m_probe m' = j) m2"
    if "device_idle pid m2" "m_identification m2 = i" "m_probe m2 = j" for pid i j m2
    by (rule wp_steps [where R = quiet])
      (use that in \<open>auto intro!: quiet_ops simp: quiet_frame device_idle_def\<close>)
  show ?thesis
    unfolding begin_session_def put_operation_def wp_simps
    by (rule wp_any) (auto intro!: wp_mono [OF pause_idles] wp_mono [OF status])
qed

lemma opened_session:
  assumes "m_states m1 = m_states m" "m_identification m1 = m_identification m" "m_probe m1 = m_probe m"
    and "\<And>s m2. ses_platformID s = platformID \<Longrightarrow> P s m2 \<longleftrightarrow> device_idle platformID m2
      \<and> (\<exists>m3. m_identification m2 = m_identification (install s m3) \<and> m_probe m2 = m_probe (install s m3))"
  shows "wp (open_session kind failure reason key install k platformID)
    (\<lambda>r m'. case r of
       Inl _ \<Rightarrow> m_states m' = m_states m \<and> m_identification m' = m_identification m \<and> m_probe m' = m_probe m
     | Inr _ \<Rightarrow> (\<exists>s. ses_platformID s = platformID \<and> P s m')) m1"
proof -
  have begun: "wp (begin_session install o1 (\<lambda>address. \<lparr>ses_address = address, ses_operationID = oid,
      ses_deviceID = dev, ses_platformID = platformID, ses_nodePath = node, ses_key = key\<rparr>))
    (\<lambda>r m'. \<exists>s. r = Inr o1 \<and> ses_platformID s = platformID \<and> P s m') m2" for o1 oid dev node m2
    by (rule wp_mono [OF paused_session], rule exI [where x = "\<lparr>ses_address = m_nextSession m2,
        ses_operationID = oid, ses_deviceID = dev, ses_platformID = platformID, ses_nodePath = node,
        ses_key = key\<rparr>"]) (simp add: assms(4))
  show ?thesis
    unfolding open_session_def newOperationID_def random_id_def keypressObserver_def time_Now_def
      wp_simps wp_exact
    using assms(1-3) by (auto intro!: wp_mono [OF begun] split: option.splits)
qed

text \<open>C24: A session takes its device: when an identification or a probe starts, it is recorded, and no
  configuration of its device has a process any more; when it is refused, every configuration and
  both sessions are as they were.\<close>

theorem session_takes_device:
  "(case run_state (startIdentification expired device timeoutMS) m of
     (Inl _, m') \<Rightarrow> m_states m' = m_states m \<and> m_identification m' = m_identification m
       \<and> m_probe m' = m_probe m
   | (Inr _, m') \<Rightarrow> (case m_identification m' of None \<Rightarrow> False
       | Some s \<Rightarrow> device_idle (ses_platformID s) m'))
   \<and> (case run_state (startProbe expired device token timeoutMS) m of
     (Inl _, m') \<Rightarrow> m_states m' = m_states m \<and> m_identification m' = m_identification m
       \<and> m_probe m' = m_probe m
   | (Inr _, m') \<Rightarrow> (case m_probe m' of None \<Rightarrow> False
       | Some s \<Rightarrow> device_idle (ses_platformID s) m'))"
proof -
  let ?same = "\<lambda>m'. m_states m' = m_states m \<and> m_identification m' = m_identification m
      \<and> m_probe m' = m_probe m"
  have target: "wp (inputDeviceTarget device) (\<lambda>_. ?same) m"
    by (rule wp_steps [where R = quiet]) (auto intro!: quiet_ops simp: quiet_frame)
  define Q where "Q get = (\<lambda>(r :: operation command_result) m'. case r of Inl _ \<Rightarrow> ?same m'
        | Inr _ \<Rightarrow> \<exists>s. get m' = Some s \<and> device_idle (ses_platformID s) m')"
    for get :: "manager \<Rightarrow> session option"
  have Q: "Q get (Inl e) m' = ?same m'" for get e m' by (simp add: Q_def)
  have identifying: "wp (open_session kind f r key (\<lambda>s m. m\<lparr>m_identification := Some s\<rparr>) k i)
      (Q m_identification) m1" if "?same m1" for kind f r key k i m1
    by (rule wp_mono [OF opened_session [where m = m and
        P = "\<lambda>s m'. m_identification m' = Some s \<and> device_idle (ses_platformID s) m'"]])
      (use that in \<open>auto simp: Q_def split: sum.splits\<close>)
  have probing: "wp (open_session kind f r key (\<lambda>s m. m\<lparr>m_probe := Some s\<rparr>) k i)
      (Q m_probe) m1" if "?same m1" for kind f r key k i m1
    by (rule wp_mono [OF opened_session [where m = m and
        P = "\<lambda>s m'. m_probe m' = Some s \<and> device_idle (ses_platformID s) m'"]])
      (use that in \<open>auto simp: Q_def split: sum.splits\<close>)
  have "wp (startIdentification expired device timeoutMS) (Q m_identification) m"
    unfolding startIdentification_def wp_simps
    by (auto intro!: wp_mono [OF target] identifying simp: Q split: sum.splits)
  moreover have "wp (startProbe expired device token timeoutMS) (Q m_probe) m"
    unfolding startProbe_def wp_simps
    by (auto intro!: wp_mono [OF target] probing simp: Q wp_simps split: sum.splits option.splits)
  ultimately show ?thesis
    by (auto simp: wp_def Q_def split: prod.splits sum.splits)
qed

section \<open>A stale request changes nothing\<close>

text \<open>C25: A change that names a revision of a configuration other than the stored one is refused with
  nothing changed at all, not even a call made: enabling, disabling and deleting it, and preparing
  a new revision of it.\<close>

theorem stale_revision_refused:
  assumes "map_get (m_managedConfigs m) i = Some c" and "mc_Revision c \<noteq> n"
    and "ap_ConfigurationID params = i" and "ap_ExpectedRevision params = Some n" and "i \<noteq> ''''"
  shows "(\<exists>e. run_state (setManagedConfigurationEnabled expired o1 i n b) m = (Inl e, m))
    \<and> (\<exists>e. run_state (deleteManagedConfiguration expired o1 i n) m = (Inl e, m))
    \<and> (\<exists>e. run_state (prepareManagedApply late params) m = (Inl e, m))"
proof (intro conjI)
  have refused: "\<exists>e. currentManagedConfiguration i n m = Inl e"
    using assms(1,2) by (simp add: currentManagedConfiguration_def)
  then show "\<exists>e. run_state (setManagedConfigurationEnabled expired o1 i n b) m = (Inl e, m)"
    by (auto simp: setManagedConfigurationEnabled_def)
  show "\<exists>e. run_state (deleteManagedConfiguration expired o1 i n) m = (Inl e, m)"
    using refused by (auto simp: deleteManagedConfiguration_def)
  show "\<exists>e. run_state (prepareManagedApply late params) m = (Inl e, m)"
    using assms by (auto simp: prepareManagedApply_def apply_target_def)
qed

definition sample_model :: managed_configuration_model where
  "sample_model = \<lparr>model_DeviceID = ''kbd_1'', model_Behavior = ''(deflayer base a)''\<rparr>"

definition sample_record :: managed_configuration where
  "sample_record = \<lparr>mc_Version = 1, mc_Ownership = ConfigurationManaged,
     mc_ID = ''cfg_0123456789abcdef0123456789abcdef'', mc_Name = ''board'', mc_Model = sample_model,
     mc_Revision = 4, mc_ContentRevision = 4, mc_ActiveRevision = 4, mc_Digest = ''d'', mc_Enabled = True\<rparr>"

definition stale_update :: apply_params where
  "stale_update = \<lparr>ap_ConfigurationID = mc_ID sample_record, ap_Name = '''', ap_Model = sample_model,
     ap_ExpectedRevision = Some 3, ap_adoptExternalID = '''', ap_operationKind = None, ap_operationID = ''''\<rparr>"

definition stored_manager :: manager where
  "stored_manager = sample_manager\<lparr>m_managedConfigs := [(mc_ID sample_record, sample_record)]\<rparr>"

theorem stale_revision_refused_witness:
  "(\<exists>e. run_state (setManagedConfigurationEnabled False '''' (mc_ID sample_record) 3 False) stored_manager
      = (Inl e, stored_manager))
    \<and> (\<exists>e. run_state (deleteManagedConfiguration False '''' (mc_ID sample_record) 3) stored_manager
      = (Inl e, stored_manager))
    \<and> (\<exists>e. run_state (prepareManagedApply (\<lambda>_. False) stale_update) stored_manager
      = (Inl e, stored_manager))"
  by (rule stale_revision_refused [of _ _ sample_record])
    (simp_all add: stored_manager_def stale_update_def sample_record_def)

text \<open>
  The commit of a prepared revision does not look at the stored revision again: it replaces
  whatever revision was stored since the preparation.
\<close>

lemma store_replaces_any_revision:
  "case run_state (storeManagedConfigurationMetadata c) m of (failed, m') \<Rightarrow>
     failed = None \<longrightarrow> map_get (m_managedConfigs m') (mc_ID c) = Some (normalizedManagedConfiguration c)"
proof -
  have "wp (storeManagedConfigurationMetadata c) (\<lambda>failed m'. failed = None \<longrightarrow>
      map_get (m_managedConfigs m') (mc_ID c) = Some (normalizedManagedConfiguration c)) m"
    by (auto simp: storeManagedConfigurationMetadata_def Let_def wp_simps update_conv'
        normalizedManagedConfiguration_def intro!: wp_any split: option.splits)
  then show ?thesis by (simp add: wp_def)
qed

section \<open>Timeouts and output\<close>

text \<open>A session lasts between one and thirty seconds: for every number of milliseconds whose
  nanoseconds fit a 64-bit duration, the requested timeout is taken exactly when it is in that range,
  the default is taken for zero, and everything else is refused.\<close>

theorem session_timeout_in_range:
  assumes "\<bar>timeoutMS\<bar> \<le> 9223372036854"
  shows "session_timeout timeoutMS =
    (if timeoutMS = 0 then Some (15 * second)
     else if 1000 \<le> timeoutMS \<and> timeoutMS \<le> 30000 then Some (timeoutMS * millisecond) else None)"
proof -
  have "- (2 ^ 63) \<le> timeoutMS * millisecond \<and> timeoutMS * millisecond < 2 ^ 63"
    using assms by auto
  then have "wrap64 (timeoutMS * millisecond) = timeoutMS * millisecond"
    by (simp add: wrap64_def)
  then show ?thesis
    by (auto simp: session_timeout_def defaultSessionTimeout_def minSessionTimeout_def maxSessionTimeout_def Let_def)
qed

theorem session_timeout_in_range_witness:
  "\<bar>30000 :: int\<bar> \<le> 9223372036854 \<and> session_timeout 30000 = Some (30 * second)"
  using session_timeout_in_range [of 30000] by simp

text \<open>Beyond that the multiplication wraps around, and a timeout of nine million years is taken.\<close>

lemma session_timeout_wraps: "session_timeout (15000 + 2 ^ 58) = Some (15 * second)"
  by code_simp

text \<open>C37: What is kept of the validator's output is its first 64 KiB, however the output is cut into
  writes.\<close>

theorem captured_output_is_prefix: "captured_output writes = take 65536 (concat writes)"
proof -
  have "fold (\<lambda>d b. limitedOutputBuffer_write n b d) writes (take n b) = take n (b @ concat writes)"
    for n b
  proof (induction writes arbitrary: b)
    case (Cons d ds)
    have "limitedOutputBuffer_write n (take n b) d = take n (b @ d)"
      by (auto simp: limitedOutputBuffer_write_def)
    then show ?case using Cons [of "b @ d"] by simp
  qed simp
  from this [of 65536 "''''"] show ?thesis by (simp add: captured_output_def)
qed

section \<open>What a restart makes of the retry delays\<close>

text \<open>
  A restored state has neither signature nor device, so to the first pass after a restart it counts
  as changed: the failures and the retry delay it restored are set back before they are looked at.
\<close>

lemma restored_backoff_lost:
  "case run_state (switch_config config d identity signature (restored_state item)) m of
     (s, m') \<Rightarrow> cs_failures s = 0 \<and> cs_retryAfter s = 0"
  "signature \<noteq> '''' \<Longrightarrow> cs_signature (restored_state item) \<noteq> signature"
  by (simp_all add: switch_config_def stopProcess_def restored_state_def)

section \<open>Watches after the watcher was replaced\<close>

definition adds_no_watch :: "os_event \<Rightarrow> bool" where
  "adds_no_watch e = (case e of EvCall (WatchAdd _) _ \<Rightarrow> False | _ \<Rightarrow> True)"

text \<open>
  The paths that are watched outlive the watcher: when it failed and a new one takes its place, those
  that are wanted and still there count as watched, and the new watcher is not told of them.
\<close>

lemma watches_not_renewed:
  assumes "set desired \<subseteq> set watched" and "\<And>t p. h_call (m_host m) t (StatPath p) = None"
  shows "wp (do { kept \<leftarrow> loop watched [] (keep_watch desired); loop desired kept add_watch })
     (\<lambda>_ m'. extends adds_no_watch m m') m"
proof -
  have kept: "wp (loop watched [] (keep_watch desired))
      (\<lambda>kept m'. set desired \<inter> set watched \<subseteq> set kept \<and> extends adds_no_watch m m') m"
  proof (rule wp_mono [OF wp_loop [where
        I = "\<lambda>ys acc m'. set desired \<inter> set watched \<subseteq> set acc \<union> set ys \<and> extends adds_no_watch m m'"]])
    fix p ys acc m1
    assume "set desired \<inter> set watched \<subseteq> set acc \<union> set (p # ys) \<and> extends adds_no_watch m m1"
    then show "wp (keep_watch desired p acc)
        (\<lambda>acc m'. set desired \<inter> set watched \<subseteq> set acc \<union> set ys \<and> extends adds_no_watch m m') m1"
      using assms(2)
      by (auto simp: keep_watch_def call_def wp_def run_ask extends_def adds_no_watch_def split: prod.splits)
  qed (auto simp: extends_refl)
  have added: "wp (loop desired kept add_watch) (\<lambda>_ m'. extends adds_no_watch m m') m1"
    if "set desired \<subseteq> set kept" "extends adds_no_watch m m1" for kept m1
  proof (rule wp_mono [OF wp_loop [where I = "\<lambda>_ acc m'. set desired \<subseteq> set acc \<and> extends adds_no_watch m m'"]])
    fix p ys acc m2
    assume "p \<in> set desired" "set desired \<subseteq> set acc \<and> extends adds_no_watch m m2"
    then show "wp (add_watch p acc) (\<lambda>acc m'. set desired \<subseteq> set acc \<and> extends adds_no_watch m m') m2"
      by (auto simp: add_watch_def wp_simps)
  qed (use that in auto)
  show ?thesis
    unfolding wp_bind by (rule wp_mono [OF kept]) (use assms(1) in \<open>auto intro!: added\<close>)
qed

end
