(* ===== verification/KDM_Proc.thy ===== *)
theory KDM_Proc
  imports KDM_Manager
begin

text \<open>
  Processes on Linux (\<^verbatim>\<open>platform/linux.go\<close>): what \<^verbatim>\<open>/proc\<close> tells about one, whether a left-over
  process is the KMonad of a recorded launch, and signals. What the file system
  answers is an argument: the text of a file, a resolved link, the outcome of a signal.
\<close>

section \<open>The files of a process\<close>

definition parse_uint :: "string \<Rightarrow> nat option" where
  "parse_uint s =
     (if s = '''' then None
      else case parse_digits 0 s of
          None \<Rightarrow> None | Some v \<Rightarrow> if v < 2 ^ 64 then Some v else None)"

text \<open>What follows the last occurrence of a separator: \<^verbatim>\<open>strings.LastIndex\<close> and a slice.\<close>

fun after_last :: "string \<Rightarrow> string \<Rightarrow> string option" where
  "after_last sep [] = None"
| "after_last sep (c # s) =
     (case after_last sep s of
        Some rest \<Rightarrow> Some rest
      | None \<Rightarrow> if hasPrefix (c # s) sep then Some (drop (length sep) (c # s)) else None)"

text \<open>The fields after the command name, which is in parentheses and may hold anything.\<close>

definition stat_fields :: "string option \<Rightarrow> string list option" where
  "stat_fields stat = (case stat of
     None \<Rightarrow> None | Some data \<Rightarrow> map_option string_fields (after_last '') '' data))"

definition ProcessStartTime :: "string option \<Rightarrow> nat" where
  "ProcessStartTime stat =
     (case stat_fields stat of
        None \<Rightarrow> 0
      | Some fs \<Rightarrow>
          if length fs \<le> 19 then 0
          else (case parse_uint (fs ! 19) of None \<Rightarrow> 0 | Some v \<Rightarrow> v))"

definition ProcessState :: "string option \<Rightarrow> string" where
  "ProcessState stat =
     (case stat_fields stat of None \<Rightarrow> '''' | Some [] \<Rightarrow> '''' | Some (f # _) \<Rightarrow> f)"

text \<open>The file is read twice; the process may change in between.\<close>

definition PIDExists :: "int \<Rightarrow> string option \<Rightarrow> string option \<Rightarrow> bool" where
  "PIDExists pid first again \<longleftrightarrow> 0 < pid \<and> ProcessState first \<noteq> '''' \<and> ProcessState again \<noteq> ''Z''"

definition ManagerProcessExists :: "int \<Rightarrow> string option \<Rightarrow> bool" where
  "ManagerProcessExists pid cmdline \<longleftrightarrow>
     0 < pid \<and> (case cmdline of None \<Rightarrow> False | Some data \<Rightarrow> contains data ''kmonad-device-manager'')"

definition ProcessCommandLine :: "string option \<Rightarrow> string" where
  "ProcessCommandLine cmdline = (case cmdline of None \<Rightarrow> '''' | Some data \<Rightarrow> data)"

definition processArguments :: "string option \<Rightarrow> string list option" where
  "processArguments cmdline =
     (case cmdline of
        None \<Rightarrow> None
      | Some data \<Rightarrow>
          if data = '''' then None
          else
            let split = split_on (CHR 0x00) data;
                arguments = (if last split = '''' then butlast split else split)
            in if arguments = [] then None else Some arguments)"

section \<open>Is it the recorded launch?\<close>

text \<open>
  The files that are looked at: the file a command name is found at, the resolved absolute form of a
  path, and the first 256 bytes of a file.
\<close>

record path_view =
  lx_LookPath :: "string \<Rightarrow> path option"
  lx_resolve :: "path \<Rightarrow> path option"
  lx_head :: "path \<Rightarrow> string option"

definition samePath :: "path_view \<Rightarrow> path \<Rightarrow> path \<Rightarrow> bool" where
  "samePath v left right \<longleftrightarrow>
     left = right \<or> (lx_resolve v left \<noteq> None \<and> lx_resolve v left = lx_resolve v right)"

definition resolveExecutable :: "path_view \<Rightarrow> string \<Rightarrow> path option" where
  "resolveExecutable v command =
     (case lx_LookPath v command of None \<Rightarrow> None | Some p \<Rightarrow> lx_resolve v p)"

definition shebangArguments :: "path_view \<Rightarrow> path \<Rightarrow> string list option" where
  "shebangArguments v p =
     (case lx_head v p of
        None \<Rightarrow> None
      | Some data \<Rightarrow>
          let line = takeWhile (\<lambda>c. c \<noteq> newline) data
          in if \<not> hasPrefix line ''#!'' then None
             else (case string_fields (trimSpace (drop 2 line)) of
                 [] \<Rightarrow> None | ws \<Rightarrow> Some ws))"

definition argumentMatches :: "path_view \<Rightarrow> string \<Rightarrow> path \<Rightarrow> string \<Rightarrow> bool" where
  "argumentMatches v command resolvedCommand actual \<longleftrightarrow>
     actual = command \<or> actual = resolvedCommand \<or> samePath v actual resolvedCommand"

text \<open>
  The interpreter of a script: its words and the file it resolves to. \<^verbatim>\<open>env\<close> stands for its first
  argument that is not an option.
\<close>

definition script_interpreter :: "path_view \<Rightarrow> string list \<Rightarrow> (string list \<times> path) option" where
  "script_interpreter v interpreter =
     (let named = (if path_base (hd interpreter) = ''env''
                   then find (\<lambda>a. \<not> hasPrefix a ''-'') (tl interpreter) else None);
          plain = (\<lambda>words. map_option (\<lambda>p. (words, p)) (lx_resolve v (hd words)))
      in case named of
           None \<Rightarrow> plain interpreter
         | Some argument \<Rightarrow> (case resolveExecutable v argument of
               None \<Rightarrow> None
             | Some resolved \<Rightarrow>
                 if resolved = '''' then plain [argument] else Some ([argument], resolved)))"

text \<open>\<open>exe\<close> is what the link \<^verbatim>\<open>/proc/PID/exe\<close> points to.\<close>

definition ProcessMatchesCommand ::
  "path_view \<Rightarrow> string option \<Rightarrow> path option \<Rightarrow> string \<Rightarrow> path \<Rightarrow> bool" where
  "ProcessMatchesCommand v cmdline exe command config =
     (case processArguments cmdline of
        None \<Rightarrow> False
      | Some arguments \<Rightarrow> (case resolveExecutable v command of
            None \<Rightarrow> False
          | Some resolvedCommand \<Rightarrow> (case exe of
                None \<Rightarrow> False
              | Some link \<Rightarrow> (case lx_resolve v link of
                    None \<Rightarrow> False
                  | Some actualExecutable \<Rightarrow>
                      if length arguments = 2 \<and> arguments ! 1 = config
                         \<and> argumentMatches v command resolvedCommand (arguments ! 0)
                      then actualExecutable = resolvedCommand
                      else (case shebangArguments v resolvedCommand of
                          None \<Rightarrow> False
                        | Some words \<Rightarrow> (case script_interpreter v words of
                              None \<Rightarrow> False
                            | Some (interpreter, resolvedInterpreter) \<Rightarrow>
                                length arguments = length interpreter + 2 \<and> last arguments = config
                                \<and> argumentMatches v command resolvedCommand
                                    (arguments ! length interpreter)
                                \<and> samePath v (arguments ! 0) (interpreter ! 0)
                                \<and> tl (take (length interpreter) arguments) = tl interpreter
                                \<and> actualExecutable = resolvedInterpreter))))))"

section \<open>Signals\<close>

definition linuxSignal :: "signal \<Rightarrow> nat" where
  "linuxSignal s = (case s of SignalInterrupt \<Rightarrow> 2 | SignalKill \<Rightarrow> 9 | SignalTerminate \<Rightarrow> 15)"

text \<open>The outcome of \<^verbatim>\<open>kill\<close> for a target and a number; it is only asked for a positive target.\<close>

datatype kill_outcome = Delivered | NoSuchProcess | KillFailed go_error

definition kill_error :: "kill_outcome \<Rightarrow> go_error option" where
  "kill_error r = (case r of
     Delivered \<Rightarrow> None | NoSuchProcess \<Rightarrow> Some (error_of ProcessGone ''process no longer exists'')
   | KillFailed e \<Rightarrow> Some e)"

definition SignalProcessGroup :: "(int \<Rightarrow> nat \<Rightarrow> kill_outcome) \<Rightarrow> int \<Rightarrow> signal \<Rightarrow> go_error option" where
  "SignalProcessGroup kill groupID s =
     (if groupID \<le> 0 then kill_error NoSuchProcess else kill_error (kill (- groupID) (linuxSignal s)))"

definition SignalProcess :: "(int \<Rightarrow> nat \<Rightarrow> kill_outcome) \<Rightarrow> int \<Rightarrow> signal \<Rightarrow> go_error option" where
  "SignalProcess kill pid s =
     (if pid \<le> 0 then kill_error NoSuchProcess else kill_error (kill pid (linuxSignal s)))"

definition SignalProcessHandle ::
  "(nat \<Rightarrow> nat \<Rightarrow> kill_outcome) \<Rightarrow> nat option \<Rightarrow> signal \<Rightarrow> go_error option" where
  "SignalProcessHandle send handle s =
     (case handle of
        None \<Rightarrow> Some (errorf ''invalid process handle'')
      | Some fd \<Rightarrow> kill_error (send fd (linuxSignal s)))"

definition linux_StartedProcess :: "int \<Rightarrow> string option \<Rightarrow> nat option \<Rightarrow> process_info" where
  "linux_StartedProcess groupID stat pidfd =
     \<lparr>pi_Handle = pidfd, pi_StartTick = ProcessStartTime stat, pi_GroupID = groupID\<rparr>"

section \<open>What is read of a process\<close>

lemma after_last_prefix: "after_last sep s = Some r \<Longrightarrow> after_last sep (xs @ s) = Some r"
  by (induction xs) simp_all

lemma after_last_absent: "c \<notin> set s \<Longrightarrow> after_last [c, d] s = None"
  by (induction s) (auto simp: hasPrefix_def)

lemma after_last_here: "c \<noteq> d \<Longrightarrow> c \<notin> set s \<Longrightarrow> after_last [c, d] (c # d # s) = Some s"
  by (simp add: after_last_absent hasPrefix_def)

lemma fields_of_trailing:
  "unicode_space (fst u) \<Longrightarrow> fields_of current (us @ [u]) = fields_of current us"
  by (induction us arbitrary: current) auto

definition plain_field :: "string \<Rightarrow> bool" where
  "plain_field f \<longleftrightarrow> f \<noteq> '''' \<and>
     (\<forall>c \<in> set f. byte c < 0x80 \<and> \<not> unicode_space (byte c) \<and> c \<noteq> CHR '')'')"

lemma plain_field_digits: "plain_field (digits n)"
proof -
  have "\<forall>c \<in> set (digits n). 48 \<le> byte c \<and> byte c < 58"
  proof (induction n rule: digits.induct)
    case (1 n)
    then show ?case by (subst digits.simps) (auto simp: byte_chr)
  qed
  then show ?thesis by (fastforce simp: plain_field_def unicode_space_def)
qed

lemma fields_of_line:
  assumes "list_all plain_field fs"
  shows "string_fields (join_with '' '' fs @ [newline]) = fs"
proof -
  have ok: "\<forall>w \<in> set fs. w \<noteq> [] \<and> (\<forall>c \<in> set w. byte c < 0x80 \<and> \<not> unicode_space (byte c))"
    using assms by (auto simp: list_all_iff plain_field_def)
  have asc: "\<forall>c \<in> set (join_with '' '' fs). byte c < 0x80"
    using ok set_join [of "'' ''" fs] by fastforce
  then have "\<forall>c \<in> set (join_with '' '' fs @ [newline]). byte c < 0x80" by auto
  then have "string_fields (join_with '' '' fs @ [newline]) = string_fields (join_with '' '' fs)"
    using runes_ascii [OF asc]
    by (simp add: string_fields_def runes_ascii fields_of_trailing unicode_space_def)
  then show ?thesis using fields_join [OF ok] by simp
qed

lemma stat_fields_line:
  assumes "list_all plain_field fs"
  shows "stat_fields (Some (pid @ '' ('' @ comm @ '') '' @ join_with '' '' fs @ [newline])) = Some fs"
proof -
  have "CHR '')'' \<notin> set (join_with '' '' fs @ [newline])"
    using assms set_join [of "'' ''" fs] by (fastforce simp: list_all_iff plain_field_def)
  then have "after_last '') '' ('') '' @ join_with '' '' fs @ [newline]) =
      Some (join_with '' '' fs @ [newline])"
    using after_last_here [of "CHR '')''" "CHR '' ''"] by simp
  then have "after_last '') '' ((pid @ '' ('' @ comm) @ '') '' @ join_with '' '' fs @ [newline]) =
      Some (join_with '' '' fs @ [newline])"
    by (rule after_last_prefix)
  then show ?thesis using fields_of_line [OF assms] by (simp add: stat_fields_def)
qed

text \<open>C36: The start time and the state of a process are read from its \<^verbatim>\<open>stat\<close> line whatever its command
  is called, parentheses, spaces and newlines included: the state is the first field after the name
  and the start time the twentieth, so that a process cannot pass for an earlier one by its name.\<close>

theorem start_time_whatever_name:
  assumes "list_all plain_field fs" and "20 \<le> length fs" and "fs ! 19 = digits n" and "n < 2 ^ 64"
  shows "ProcessStartTime (Some (pid @ '' ('' @ comm @ '') '' @ join_with '' '' fs @ [newline])) = n
    \<and> ProcessState (Some (pid @ '' ('' @ comm @ '') '' @ join_with '' '' fs @ [newline])) = hd fs"
proof -
  define line where "line = pid @ '' ('' @ comm @ '') '' @ join_with '' '' fs @ [newline]"
  have "stat_fields (Some line) = Some fs"
    unfolding line_def by (rule stat_fields_line [OF assms(1)])
  moreover have "parse_uint (fs ! 19) = Some n"
    using assms(3,4) by (simp add: parse_uint_def parse_digits_digits)
  ultimately have "ProcessStartTime (Some line) = n \<and> ProcessState (Some line) = hd fs"
    using assms(2) by (cases fs) (simp_all add: ProcessStartTime_def ProcessState_def)
  then show ?thesis unfolding line_def .
qed

theorem start_time_whatever_name_witness:
  "ProcessStartTime (Some (''7'' @ '' ('' @ ''x) S 1 ('' @ '') '' @
       join_with '' '' (''R'' # replicate 18 ''0'' @ [digits 4711, ''5'']) @ [newline])) = 4711
    \<and> ProcessState (Some (''7'' @ '' ('' @ ''x) S 1 ('' @ '') '' @
       join_with '' '' (''R'' # replicate 18 ''0'' @ [digits 4711, ''5'']) @ [newline])) =
       hd (''R'' # replicate 18 ''0'' @ [digits 4711, ''5''])"
proof (rule start_time_whatever_name)
  show "list_all plain_field (''R'' # replicate 18 ''0'' @ [digits 4711, ''5''])"
    by (simp add: list_all_iff plain_field_digits) (simp add: plain_field_def unicode_space_def)
  show "(''R'' # replicate 18 ''0'' @ [digits 4711, ''5'']) ! 19 = digits 4711"
    by (simp add: nth_append)
qed simp_all

lemma script_interpreter_ne:
  assumes "script_interpreter v ws = Some (is, p)" and "ws \<noteq> []"
  shows "is \<noteq> []"
  using assms by (auto simp: script_interpreter_def Let_def split: option.splits if_splits)

text \<open>C23: A process is taken for a launch of KMonad on a recorded file only when it is one: its last
  argument is that file, the argument before it names the command, and what it executes is the file
  the command resolves to, or the interpreter that this file, a script, names in its first line.\<close>

theorem matched_process_is_the_launch:
  assumes "ProcessMatchesCommand v cmdline exe command config"
  shows "\<exists>arguments resolved link actual. processArguments cmdline = Some arguments
    \<and> resolveExecutable v command = Some resolved
    \<and> exe = Some link \<and> lx_resolve v link = Some actual
    \<and> 2 \<le> length arguments \<and> last arguments = config
    \<and> argumentMatches v command resolved (arguments ! (length arguments - 2))
    \<and> (actual = resolved \<or> (\<exists>words interpreter. shebangArguments v resolved = Some words
          \<and> script_interpreter v words = Some (interpreter, actual)
          \<and> samePath v (hd arguments) (hd interpreter)))"
proof -
  obtain arguments resolved link actual where
    found: "processArguments cmdline = Some arguments" "resolveExecutable v command = Some resolved"
      "exe = Some link" "lx_resolve v link = Some actual"
    using assms by (auto simp: ProcessMatchesCommand_def split: option.splits)
  show ?thesis
  proof (cases "length arguments = 2 \<and> arguments ! 1 = config
      \<and> argumentMatches v command resolved (arguments ! 0)")
    case True
    then have "last arguments = config"
      by (metis Suc_1 diff_Suc_1 last_conv_nth length_0_conv nat.simps(3))
    then show ?thesis using assms found True by (auto simp: ProcessMatchesCommand_def)
  next
    case False
    then obtain ws intp where script: "shebangArguments v resolved = Some ws"
      "script_interpreter v ws = Some (intp, actual)"
      "length arguments = length intp + 2" "last arguments = config"
      "argumentMatches v command resolved (arguments ! length intp)"
      "samePath v (arguments ! 0) (intp ! 0)"
      using assms found
      by (simp add: ProcessMatchesCommand_def) (auto split: option.splits prod.splits)
    have "ws \<noteq> []"
      using script(1) by (auto simp: shebangArguments_def Let_def split: option.splits if_splits list.splits)
    then have "intp \<noteq> []" using script_interpreter_ne script(2) by blast
    then have "samePath v (hd arguments) (hd intp)"
      using script(3,6) by (cases arguments; cases intp) auto
    then show ?thesis using found script by auto
  qed
qed

definition sample_view :: path_view where
  "sample_view = \<lparr>lx_LookPath = (\<lambda>c. if c = ''kmonad'' then Some ''/bin/kmonad'' else None),
     lx_resolve = Some, lx_head = (\<lambda>_. Some ''ELF'')\<rparr>"

theorem matched_process_is_the_launch_witness:
  "\<exists>arguments resolved link actual.
      processArguments (Some (''kmonad'' @ [CHR 0x00] @ ''/a.kbd'' @ [CHR 0x00])) = Some arguments
    \<and> resolveExecutable sample_view ''kmonad'' = Some resolved
    \<and> Some ''/bin/kmonad'' = Some link \<and> lx_resolve sample_view link = Some actual
    \<and> 2 \<le> length arguments \<and> last arguments = ''/a.kbd''
    \<and> argumentMatches sample_view ''kmonad'' resolved (arguments ! (length arguments - 2))
    \<and> (actual = resolved \<or> (\<exists>words interpreter. shebangArguments sample_view resolved = Some words
          \<and> script_interpreter sample_view words = Some (interpreter, actual)
          \<and> samePath sample_view (hd arguments) (hd interpreter)))"
  by (rule matched_process_is_the_launch) code_simp

end
