(* ===== verification/KDM_Wire.thy ===== *)
theory KDM_Wire
  imports KDM_Broker KDM_Paths KDM_Config KDM_Sessions
begin

text \<open>
  The wire protocol of the privileged broker (\<^verbatim>\<open>platform/broker_wire.go\<close>) and its private
  store of snapshots (\<^verbatim>\<open>platform/broker_snapshot.go\<close>), on top of its authorization state
  (\<open>KDM_Broker\<close>). Decoding and encoding JSON is the standard library's: \<open>decode\<close> gives the fields
  of the one value a frame holds, \<open>marshal\<close> the text of a response.

  The store is a function of the answers of the file system: an operation gives its result and the
  changes it makes, in order.
\<close>

section \<open>Frames\<close>

definition PrivilegedBrokerFrameLimit :: nat where "PrivilegedBrokerFrameLimit = 16384"

datatype wire_error =
    FrameTooLarge | FrameIncomplete | MarshalFailed | BrokerError broker_error

text \<open>
  One frame of what the controller sends, \<open>input\<close>, from a reader with room for the limit and a
  newline; a frame that ends with the connection is incomplete.
\<close>

definition trim_suffix :: "char \<Rightarrow> string \<Rightarrow> string" where
  "trim_suffix c s = (if s \<noteq> '''' \<and> last s = c then butlast s else s)"

definition ReadBrokerFrame :: "string \<Rightarrow> wire_error + string" where
  "ReadBrokerFrame input =
     (let line = takeWhile (\<lambda>c. c \<noteq> newline) input
      in if length line < length input \<and> length line \<le> PrivilegedBrokerFrameLimit
         then (let frame = trim_suffix (CHR 0x0D) line
               in if frame = '''' then Inl (BrokerError ErrBrokerMalformedRequest) else Inr frame)
         else if length input > PrivilegedBrokerFrameLimit then Inl FrameTooLarge
         else Inl FrameIncomplete)"

section \<open>Requests and responses\<close>

text \<open>A request as the controller sends it: it names no user.\<close>

record wire_request =
  wr_Version :: int
  wr_Operation :: broker_operation
  wr_RequestID :: string
  wr_ConfigurationID :: string
  wr_SnapshotID :: string

record wire_response =
  wp_RequestID :: string
  wp_Authorization :: "broker_authorization option"
  wp_Error :: "(string \<times> string) option"

text \<open>\<open>decode\<close> refuses unknown fields and anything after the value.\<close>

definition ParseBrokerWireRequest ::
  "(string \<Rightarrow> wire_request option) \<Rightarrow> string \<Rightarrow> string \<Rightarrow> broker_error + broker_request" where
  "ParseBrokerWireRequest decode frame authenticatedUserID =
     (if \<not> validBrokerID authenticatedUserID then Inl ErrBrokerUnauthorized
      else case decode frame of
        None \<Rightarrow> Inl ErrBrokerMalformedRequest
      | Some wire \<Rightarrow>
          let request = \<lparr>req_Version = wr_Version wire, req_Operation = wr_Operation wire,
                req_RequestID = wr_RequestID wire, req_UserID = authenticatedUserID,
                req_ConfigurationID = wr_ConfigurationID wire, req_SnapshotID = wr_SnapshotID wire\<rparr>
          in case validateRequest request of Some e \<Rightarrow> Inl e | None \<Rightarrow> Inr request)"

fun brokerWireError :: "broker_error \<Rightarrow> string \<times> string" where
  "brokerWireError ErrBrokerMalformedRequest = (''invalid_request'', ''broker request is invalid'')"
| "brokerWireError ErrBrokerUnsupported = (''unsupported_request'', ''broker request is unsupported'')"
| "brokerWireError ErrBrokerUnauthorized = (''unauthorized'', ''broker request is not authorized'')"
| "brokerWireError ErrBrokerExpired =
     (''snapshot_unavailable'', ''requested snapshot or configuration is unavailable'')"
| "brokerWireError ErrBrokerNotFound =
     (''snapshot_unavailable'', ''requested snapshot or configuration is unavailable'')"
| "brokerWireError ErrBrokerAlreadyActive =
     (''configuration_active'', ''configuration is already active'')"

definition MarshalBrokerWireResponse ::
  "(wire_response \<Rightarrow> string option) \<Rightarrow> wire_response \<Rightarrow> wire_error + string" where
  "MarshalBrokerWireResponse marshal response =
     (if \<not> validBrokerID (wp_RequestID response) then Inl (BrokerError ErrBrokerMalformedRequest)
      else if (wp_Authorization response = None) = (wp_Error response = None)
      then Inl (BrokerError ErrBrokerMalformedRequest)
      else case marshal response of
        None \<Rightarrow> Inl MarshalFailed
      | Some data \<Rightarrow>
          if length data + 1 > PrivilegedBrokerFrameLimit then Inl FrameTooLarge
          else Inr (data @ [newline]))"

definition HandleBrokerWireRequest ::
  "(string \<Rightarrow> wire_request option) \<Rightarrow> (wire_response \<Rightarrow> string option) \<Rightarrow> time \<Rightarrow> time \<Rightarrow> string \<Rightarrow> string
   \<Rightarrow> broker_authorizer \<Rightarrow> (wire_error + string) \<times> broker_authorizer" where
  "HandleBrokerWireRequest decode marshal now audit_now frame authenticatedUserID a =
     (case ParseBrokerWireRequest decode frame authenticatedUserID of
        Inl e \<Rightarrow> (Inl (BrokerError e), a)
      | Inr request \<Rightarrow>
          (case Authorize now audit_now request a of (result, a') \<Rightarrow>
             (MarshalBrokerWireResponse marshal
                \<lparr>wp_RequestID = req_RequestID request,
                 wp_Authorization = (case result of Inl _ \<Rightarrow> None | Inr auth \<Rightarrow> Some auth),
                 wp_Error = (case result of Inl e \<Rightarrow> Some (brokerWireError e) | Inr _ \<Rightarrow> None)\<rparr>, a')))"

section \<open>The store of snapshots\<close>

datatype snapshot_error =
    ErrBrokerSnapshotStore | ErrBrokerSnapshotTooLarge | ErrBrokerSnapshotExists
  | ErrBrokerSnapshotMissing | GrantError broker_error | AbortFailed snapshot_error broker_error

record snapshot_store =
  ss_root :: path
  ss_maxBytes :: int

record stored_snapshot =
  st_grant :: snapshot_grant
  st_digest :: string
  st_size :: int
  st_path :: path

text \<open>What \<^verbatim>\<open>Lstat\<close> tells: a link, a directory or a regular file, and the permission bits.\<close>

datatype file_kind = Symlink | Directory | RegularFile | SpecialFile

record lstat_info =
  li_kind :: file_kind
  li_perm :: nat
  li_size :: int

datatype open_failure = AlreadyExists | DoesNotExist | OpenFailed

datatype store_effect =
    MakeDirectory path nat | CreateExclusive path nat | CopyInto path string | ChmodFile path nat
  | SyncSnapshot path | CloseSnapshot path | RemoveSnapshot path

definition owner_only :: "nat \<Rightarrow> bool" where
  "owner_only perm \<longleftrightarrow> perm mod 64 = 0"

definition ensurePrivateBrokerDirectory :: "lstat_info option \<Rightarrow> snapshot_error option" where
  "ensurePrivateBrokerDirectory info =
     (case info of
        None \<Rightarrow> Some ErrBrokerSnapshotStore
      | Some i \<Rightarrow> if li_kind i \<noteq> Directory \<or> \<not> owner_only (li_perm i)
                  then Some ErrBrokerSnapshotStore else None)"

text \<open>\<^verbatim>\<open>filepath.Join\<close> of three elements of which none is empty.\<close>

definition path_join3 :: "path \<Rightarrow> string \<Rightarrow> string \<Rightarrow> path" where
  "path_join3 root a b = path_clean (root @ slash # a @ slash # b)"

definition snapshot_directory :: "path \<Rightarrow> string \<Rightarrow> string \<Rightarrow> path" where
  "snapshot_directory root userID configurationID = path_join3 root userID configurationID"

definition snapshot_path :: "path \<Rightarrow> string \<Rightarrow> string \<Rightarrow> string \<Rightarrow> path" where
  "snapshot_path root userID configurationID snapshotID =
     path_join (snapshot_directory root userID configurationID) (snapshotID @ ''.kbd'')"

text \<open>
  \<^verbatim>\<open>filepath.Rel\<close> of two clean rooted paths: what is left of both after the elements they
  share; the path is within the root when nothing is left of the root and something of the path.
\<close>

fun rel_elements :: "string list \<Rightarrow> string list \<Rightarrow> string list \<times> string list" where
  "rel_elements (b # bs) (t # ts) = (if b = t then rel_elements bs ts else (b # bs, t # ts))"
| "rel_elements bs ts = (bs, ts)"

definition path_elements :: "path \<Rightarrow> string list" where
  "path_elements p = filter (\<lambda>e. e \<noteq> '''') (split_on slash p)"

definition pathWithinBrokerRoot :: "path \<Rightarrow> path \<Rightarrow> bool" where
  "pathWithinBrokerRoot root p =
     (case rel_elements (path_elements root) (path_elements p) of
        (bs, ts) \<Rightarrow> bs = [] \<and> ts \<noteq> [])"

text \<open>
  \<open>absRoot\<close> is what \<^verbatim>\<open>filepath.Abs\<close> gives for the root, \<open>made\<close> whether the directory could be
  made, \<open>info\<close> what \<^verbatim>\<open>Lstat\<close> says of it afterwards.
\<close>

definition NewBrokerSnapshotStore ::
  "path \<Rightarrow> int \<Rightarrow> path option \<Rightarrow> bool \<Rightarrow> lstat_info option
   \<Rightarrow> (snapshot_error + snapshot_store) \<times> store_effect list" where
  "NewBrokerSnapshotStore root maxBytes absRoot made info =
     (if root = '''' \<or> maxBytes \<le> 0 then (Inl ErrBrokerSnapshotStore, [])
      else case absRoot of
        None \<Rightarrow> (Inl ErrBrokerSnapshotStore, [])
      | Some r \<Rightarrow>
          if \<not> made then (Inl ErrBrokerSnapshotStore, [MakeDirectory r 448])
          else (case ensurePrivateBrokerDirectory info of
              Some e \<Rightarrow> (Inl e, [MakeDirectory r 448])
            | None \<Rightarrow> (Inr \<lparr>ss_root = r, ss_maxBytes = maxBytes\<rparr>, [MakeDirectory r 448])))"

text \<open>
  A copy reads one byte more than the limit, so that it notices a content that is too long; the
  sum is a 64-bit one.
\<close>

definition copy_limit :: "snapshot_store \<Rightarrow> nat" where
  "copy_limit store = nat (wrap64 (ss_maxBytes store + 1))"

text \<open>
  The answers of the file system to one \<^verbatim>\<open>Stage\<close>; \<open>sa_source\<close> is what the verified reader gives
  until it ends or fails, \<open>sa_copied\<close> whether reading and writing went without an error.
\<close>

record stage_answers =
  sa_now :: time
  sa_source :: string
  sa_copied :: bool
  sa_made :: bool
  sa_directory :: "lstat_info option"
  sa_created :: "open_failure option"
  sa_chmod :: bool
  sa_sync :: bool
  sa_close :: bool

text \<open>The copy and what follows it; an unfinished snapshot is closed and removed.\<close>

definition stage_copy ::
  "(string \<Rightarrow> string) \<Rightarrow> snapshot_store \<Rightarrow> snapshot_grant \<Rightarrow> stage_answers \<Rightarrow> path
   \<Rightarrow> (snapshot_error + stored_snapshot) \<times> store_effect list" where
  "stage_copy sha256hex store grant ans p =
     (let data = take (copy_limit store) (sa_source ans);
          unfinished = [CloseSnapshot p, RemoveSnapshot p]
      in if \<not> sa_copied ans then (Inl ErrBrokerSnapshotStore, CopyInto p data # unfinished)
         else if int (length data) > ss_maxBytes store
         then (Inl ErrBrokerSnapshotTooLarge, CopyInto p data # unfinished)
         else if \<not> sa_chmod ans
         then (Inl ErrBrokerSnapshotStore, CopyInto p data # ChmodFile p 256 # unfinished)
         else if \<not> sa_sync ans
         then (Inl ErrBrokerSnapshotStore,
               CopyInto p data # ChmodFile p 256 # SyncSnapshot p # unfinished)
         else if \<not> sa_close ans
         then (Inl ErrBrokerSnapshotStore,
               CopyInto p data # ChmodFile p 256 # SyncSnapshot p # CloseSnapshot p # unfinished)
         else (Inr \<lparr>st_grant = grant, st_digest = sha256hex data, st_size = int (length data),
                    st_path = p\<rparr>,
               [CopyInto p data, ChmodFile p 256, SyncSnapshot p, CloseSnapshot p, CloseSnapshot p]))"

definition Stage ::
  "(string \<Rightarrow> string) \<Rightarrow> snapshot_store \<Rightarrow> snapshot_grant \<Rightarrow> stage_answers
   \<Rightarrow> (snapshot_error + stored_snapshot) \<times> store_effect list" where
  "Stage sha256hex store grant ans =
     (case validateGrant grant (sa_now ans) of
        Some e \<Rightarrow> (Inl (GrantError e), [])
      | None \<Rightarrow>
          let directory = snapshot_directory (ss_root store) (grant_UserID grant) (grant_ConfigurationID grant);
              p = snapshot_path (ss_root store) (grant_UserID grant) (grant_ConfigurationID grant)
                    (grant_SnapshotID grant);
              made = MakeDirectory directory 448
          in if \<not> sa_made ans then (Inl ErrBrokerSnapshotStore, [made])
             else (case ensurePrivateBrokerDirectory (sa_directory ans) of
                 Some e \<Rightarrow> (Inl e, [made])
               | None \<Rightarrow> (case sa_created ans of
                     Some AlreadyExists \<Rightarrow> (Inl ErrBrokerSnapshotExists, [made])
                   | Some _ \<Rightarrow> (Inl ErrBrokerSnapshotStore, [made])
                   | None \<Rightarrow> (case stage_copy sha256hex store grant ans p of
                         (r, effects) \<Rightarrow> (r, made # CreateExclusive p 384 # effects)))))"

definition snapshot_store_Open ::
  "snapshot_store \<Rightarrow> stored_snapshot \<Rightarrow> open_failure + string \<Rightarrow> snapshot_error + string" where
  "snapshot_store_Open store s opened =
     (if \<not> pathWithinBrokerRoot (ss_root store) (st_path s) then Inl ErrBrokerSnapshotMissing
      else case opened of
        Inl DoesNotExist \<Rightarrow> Inl ErrBrokerSnapshotMissing
      | Inl _ \<Rightarrow> Inl ErrBrokerSnapshotStore
      | Inr content \<Rightarrow> Inr content)"

text \<open>The answers to one reopening: \<^verbatim>\<open>Lstat\<close>, \<^verbatim>\<open>Open\<close>, the read and the rewind.\<close>

record reopen_answers =
  ra_lstat :: "open_failure + lstat_info"
  ra_open :: "open_failure option"
  ra_content :: "string option"
  ra_rewound :: bool

definition reopen_checked ::
  "(string \<Rightarrow> string) \<Rightarrow> snapshot_store \<Rightarrow> broker_authorization \<Rightarrow> reopen_answers \<Rightarrow> path
   \<Rightarrow> snapshot_error + stored_snapshot \<times> string" where
  "reopen_checked sha256hex store authorization ans p =
     (case ra_content ans of
        None \<Rightarrow> Inl ErrBrokerSnapshotStore
      | Some content \<Rightarrow>
          let data = take (copy_limit store) content
          in if int (length data) > ss_maxBytes store then Inl ErrBrokerSnapshotMissing
             else if \<not> ra_rewound ans then Inl ErrBrokerSnapshotStore
             else Inr (\<lparr>st_grant = \<lparr>grant_UserID = auth_UserID authorization,
                          grant_ConfigurationID = auth_ConfigurationID authorization,
                          grant_SnapshotID = auth_SnapshotID authorization, grant_ExpiresAt = 0\<rparr>,
                        st_digest = sha256hex data, st_size = int (length data), st_path = p\<rparr>, content))"

definition OpenAuthorization ::
  "(string \<Rightarrow> string) \<Rightarrow> snapshot_store \<Rightarrow> broker_authorization \<Rightarrow> (path \<Rightarrow> reopen_answers)
   \<Rightarrow> snapshot_error + stored_snapshot \<times> string" where
  "OpenAuthorization sha256hex store authorization ask_about =
     (if auth_Operation authorization \<noteq> BrokerStart \<or> \<not> validBrokerID (auth_UserID authorization)
        \<or> \<not> validBrokerID (auth_ConfigurationID authorization)
        \<or> \<not> validBrokerID (auth_SnapshotID authorization)
      then Inl ErrBrokerSnapshotMissing
      else
        let p = snapshot_path (ss_root store) (auth_UserID authorization)
                  (auth_ConfigurationID authorization) (auth_SnapshotID authorization);
            ans = ask_about p
        in if \<not> pathWithinBrokerRoot (ss_root store) p then Inl ErrBrokerSnapshotMissing
           else (case ra_lstat ans of
               Inl DoesNotExist \<Rightarrow> Inl ErrBrokerSnapshotMissing
             | Inl _ \<Rightarrow> Inl ErrBrokerSnapshotStore
             | Inr info \<Rightarrow>
                 if li_kind info \<noteq> RegularFile \<or> li_perm info \<noteq> 256 \<or> li_size info > ss_maxBytes store
                 then Inl ErrBrokerSnapshotMissing
                 else (case ra_open ans of
                     Some DoesNotExist \<Rightarrow> Inl ErrBrokerSnapshotMissing
                   | Some _ \<Rightarrow> Inl ErrBrokerSnapshotStore
                   | None \<Rightarrow> reopen_checked sha256hex store authorization ans p)))"

definition PrepareBrokerLaunch ::
  "(string \<Rightarrow> string) \<Rightarrow> snapshot_store \<Rightarrow> (path \<Rightarrow> reopen_answers) \<Rightarrow> time \<Rightarrow> string
   \<Rightarrow> broker_authorization \<Rightarrow> broker_authorizer
   \<Rightarrow> (snapshot_error + broker_authorization \<times> stored_snapshot \<times> string) \<times> broker_authorizer" where
  "PrepareBrokerLaunch sha256hex store ask_about abort_now requestID authorization a =
     (case OpenAuthorization sha256hex store authorization ask_about of
        Inr (s, reader) \<Rightarrow> (Inr (authorization, s, reader), a)
      | Inl e \<Rightarrow> (case AbortStart abort_now requestID authorization a of
            (Some abortErr, a') \<Rightarrow> (Inl (AbortFailed e abortErr), a')
          | (None, a') \<Rightarrow> (Inl e, a')))"

section \<open>Properties\<close>

text \<open>C18: Whatever a controller sends, it acts for its authenticated peer only: no frame changes the
  grants or the active configurations of another user, and every response is one line of at most
  16 KiB.\<close>

theorem wire_confined_to_peer:
  assumes "validBrokerID u" and "peer \<noteq> u"
  shows "case HandleBrokerWireRequest decode marshal now audit_now frame peer a of (r, a') \<Rightarrow>
    map_get (ba_grants a') (grantKey u s) = map_get (ba_grants a) (grantKey u s)
    \<and> map_get (ba_active a') (configurationKey u c) = map_get (ba_active a) (configurationKey u c)
    \<and> (case r of Inl _ \<Rightarrow> True
        | Inr line \<Rightarrow> last line = newline \<and> length line \<le> PrivilegedBrokerFrameLimit)"
proof (cases "ParseBrokerWireRequest decode frame peer")
  case (Inl e)
  then show ?thesis by (simp add: HandleBrokerWireRequest_def)
next
  case (Inr q)
  then have "req_UserID q \<noteq> u"
    using assms(2) by (auto simp: ParseBrokerWireRequest_def Let_def split: if_splits option.splits)
  note others = authorize_other_user [OF assms(1) this, of now audit_now a]
  have line: "case MarshalBrokerWireResponse marshal w of Inl _ \<Rightarrow> True
      | Inr line \<Rightarrow> last line = newline \<and> length line \<le> PrivilegedBrokerFrameLimit" for w
    by (auto simp: MarshalBrokerWireResponse_def split: option.splits)
  show ?thesis
    using Inr others line by (auto simp: HandleBrokerWireRequest_def split: prod.splits)
qed

theorem wire_confined_to_peer_witness:
  "case HandleBrokerWireRequest (\<lambda>_. Some \<lparr>wr_Version = 1, wr_Operation = BrokerStart,
       wr_RequestID = ''r1'', wr_ConfigurationID = ''cfg_1'', wr_SnapshotID = ''snap_1''\<rparr>)
       (\<lambda>_. Some ''{}'') 20 21 ''{}'' ''502'' sample_authorizer of (r, a') \<Rightarrow>
    map_get (ba_grants a') (grantKey ''501'' ''snap_1'') =
      map_get (ba_grants sample_authorizer) (grantKey ''501'' ''snap_1'')
    \<and> map_get (ba_active a') (configurationKey ''501'' ''cfg_1'') =
      map_get (ba_active sample_authorizer) (configurationKey ''501'' ''cfg_1'')
    \<and> (case r of Inl _ \<Rightarrow> True
        | Inr line \<Rightarrow> last line = newline \<and> length line \<le> PrivilegedBrokerFrameLimit)"
  by (rule wire_confined_to_peer) (code_simp, simp)

text \<open>C19: A launch that cannot be handed its snapshot leaves no reservation behind: after a start was
  authorized, a failed handoff returns the configurations that are active to what they were, so a
  later revision can start.\<close>

theorem failed_handoff_releases:
  assumes "fst (Authorize t t' q a) = Inr auth" and "auth_Operation auth = BrokerStart"
    and "validBrokerID requestID" and "0 < ss_maxBytes store" and "ss_maxBytes store < 2 ^ 63 - 1"
  shows "case PrepareBrokerLaunch sha store ask_about t2 requestID auth (snd (Authorize t t' q a)) of
      (Inl _, a') \<Rightarrow> map_get (ba_active a') = map_get (ba_active a)
    | (Inr (_, s, content), a') \<Rightarrow> a' = snd (Authorize t t' q a)
        \<and> int (length content) \<le> ss_maxBytes store \<and> st_digest s = sha content"
proof (cases "OpenAuthorization sha store auth ask_about")
  case (Inl e)
  obtain r a' where abort: "AbortStart t2 requestID auth (snd (Authorize t t' q a)) = (r, a')"
    by (cases "AbortStart t2 requestID auth (snd (Authorize t t' q a))")
  have "r = None" "map_get (ba_active a') = map_get (ba_active a)"
    using abort_after_start [OF assms(1-3), of t2] by (simp_all add: abort)
  then show ?thesis using Inl by (simp add: PrepareBrokerLaunch_def abort)
next
  case (Inr x)
  have limit: "int (copy_limit store) = ss_maxBytes store + 1"
    using assms(4,5) by (simp add: copy_limit_def wrap64_def)
  have "int (length (snd x)) \<le> ss_maxBytes store \<and> st_digest (fst x) = sha (snd x)"
    using Inr limit by (auto simp: OpenAuthorization_def reopen_checked_def Let_def min_def
        split: if_splits sum.splits option.splits open_failure.splits)
  then show ?thesis using Inr by (auto simp: PrepareBrokerLaunch_def split: prod.splits)
qed

theorem failed_handoff_releases_witness:
  "case PrepareBrokerLaunch (\<lambda>_. '''') \<lparr>ss_root = ''/var/broker'', ss_maxBytes = 10\<rparr>
        (\<lambda>_. \<lparr>ra_lstat = Inl DoesNotExist, ra_open = None, ra_content = None, ra_rewound = True\<rparr>)
        22 ''r2'' \<lparr>auth_Operation = BrokerStart, auth_UserID = ''501'',
          auth_ConfigurationID = ''cfg_1'', auth_SnapshotID = ''snap_1''\<rparr>
        (snd (Authorize 20 21 sample_start sample_authorizer)) of
      (Inl _, a') \<Rightarrow> map_get (ba_active a') = map_get (ba_active sample_authorizer)
    | (Inr (_, s, content), a') \<Rightarrow> a' = snd (Authorize 20 21 sample_start sample_authorizer)
        \<and> int (length content) \<le> ss_maxBytes \<lparr>ss_root = ''/var/broker'', ss_maxBytes = 10\<rparr>
        \<and> st_digest s = ''''"
proof (rule failed_handoff_releases)
  show "fst (Authorize 20 21 sample_start sample_authorizer) =
      Inr \<lparr>auth_Operation = BrokerStart, auth_UserID = ''501'',
          auth_ConfigurationID = ''cfg_1'', auth_SnapshotID = ''snap_1''\<rparr>" by code_simp
  show "validBrokerID ''r2''" by code_simp
qed simp_all


section \<open>Paths of snapshots\<close>

lemma split_on_concat: "split_on c (s @ c # t) = split_on c s @ split_on c t"
proof (induction s)
  case (Cons x s)
  then show ?case by (cases "split_on c s") auto
qed simp

lemma split_join:
  "es \<noteq> [] \<Longrightarrow> list_all (\<lambda>e. c \<notin> set e) es \<Longrightarrow> split_on c (join_with [c] es) = es"
  by (induction "[c]" es rule: join_with.induct) (auto simp: split_no_sep split_on_append)

lemma clean_plain:
  "list_all (\<lambda>e. e \<noteq> ''.'' \<and> e \<noteq> ''..'') es
    \<Longrightarrow> clean_elements rooted acc es = rev acc @ filter (\<lambda>e. e \<noteq> '''') es"
  by (induction es arbitrary: acc) auto

text \<open>An element that \<^verbatim>\<open>Clean\<close> keeps; a rooted clean path is the list of its elements.\<close>

definition plain_element :: "string \<Rightarrow> bool" where
  "plain_element e \<longleftrightarrow> e \<noteq> '''' \<and> e \<noteq> ''.'' \<and> e \<noteq> ''..'' \<and> slash \<notin> set e"

definition rooted_path :: "string list \<Rightarrow> path" where
  "rooted_path es = slash # join_with [slash] es"

lemma plain_elements:
  assumes "list_all plain_element es"
  shows "filter (\<lambda>e. e \<noteq> '''') es = es" and "list_all (\<lambda>e. e \<noteq> ''.'' \<and> e \<noteq> ''..'') es"
    and "list_all (\<lambda>e. slash \<notin> set e) es"
  using assms by (induction es) (auto simp: plain_element_def)

lemma split_rooted:
  assumes "list_all plain_element es"
  shows "filter (\<lambda>e. e \<noteq> '''') (split_on slash (rooted_path es)) = es"
    and "list_all (\<lambda>e. e \<noteq> ''.'' \<and> e \<noteq> ''..'') (split_on slash (rooted_path es))"
proof -
  have "split_on slash (rooted_path es) = [''''] @ (if es = [] then [''''] else es)"
    using split_join [OF _ plain_elements(3) [OF assms]] by (simp add: rooted_path_def)
  then show "filter (\<lambda>e. e \<noteq> '''') (split_on slash (rooted_path es)) = es"
    "list_all (\<lambda>e. e \<noteq> ''.'' \<and> e \<noteq> ''..'') (split_on slash (rooted_path es))"
    using plain_elements(1,2) [OF assms] by simp_all
qed

lemma clean_rooted:
  assumes "list_all plain_element es" "list_all plain_element fs" "fs \<noteq> []"
  shows "path_clean (rooted_path es @ slash # join_with [slash] fs) = rooted_path (es @ fs)"
proof -
  have fs: "split_on slash (join_with [slash] fs) = fs"
    using assms(3) plain_elements(3) [OF assms(2)] by (rule split_join)
  have "clean_elements True [] (split_on slash (rooted_path es @ slash # join_with [slash] fs))
      = es @ fs"
    using split_rooted [OF assms(1)] plain_elements(1,2) [OF assms(2)]
    by (simp add: split_on_concat fs clean_plain)
  then show ?thesis by (simp add: path_clean_def rooted_path_def)
qed

lemma valid_broker_id_plain:
  "validBrokerID i \<Longrightarrow> i \<noteq> ''.'' \<Longrightarrow> i \<noteq> ''..'' \<Longrightarrow> plain_element i"
  by (auto simp: validBrokerID_def plain_element_def broker_id_char_def list_all_iff)

lemma snapshot_file_plain: "validBrokerID i \<Longrightarrow> plain_element (i @ ''.kbd'')"
  by (auto simp: validBrokerID_def plain_element_def broker_id_char_def list_all_iff
      append_eq_Cons_conv)

lemma snapshot_path_elements:
  assumes "list_all plain_element es" "plain_element u" "plain_element c" "plain_element (s @ ''.kbd'')"
  shows "snapshot_path (rooted_path es) u c s = rooted_path (es @ [u, c, s @ ''.kbd''])"
proof -
  have "snapshot_directory (rooted_path es) u c = rooted_path (es @ [u, c])"
    using clean_rooted [of es "[u, c]"] assms by (simp add: snapshot_directory_def path_join3_def)
  then show ?thesis
    using clean_rooted [of "es @ [u, c]" "[s @ ''.kbd'']"] assms
    by (simp add: snapshot_path_def path_join_def rooted_path_def)
qed

lemma rooted_path_eq:
  assumes "list_all plain_element es" "list_all plain_element fs" "rooted_path es = rooted_path fs"
  shows "es = fs"
  by (metis split_rooted(1) assms)

lemma rel_elements_prefix: "rel_elements es (es @ fs) = ([], fs)"
  by (induction es) (cases fs; simp)+

text \<open>
  A broker identifier is not a path element: \<open>validBrokerID\<close> takes \<^verbatim>\<open>..\<close>, which \<open>Stage\<close> joins to
  the root without the check \<open>OpenAuthorization\<close> makes. Two users then share a snapshot, and one
  identifier leaves the store.
\<close>

lemma dotted_configuration_collides:
  "validBrokerID ''..'' \<and>
   snapshot_path ''/var/broker'' ''501'' ''..'' ''s1'' = snapshot_path ''/var/broker'' ''502'' ''..'' ''s1''
   \<and> snapshot_path ''/var/broker'' ''..'' ''..'' ''s1'' = ''/s1.kbd''"
  by code_simp

text \<open>C20: Snapshots stay apart: in a store at a clean absolute root, users and configurations whose
  identifiers are not \<^verbatim>\<open>.\<close> or \<^verbatim>\<open>..\<close> have snapshots within the root, and the file of a snapshot
  tells its user, its configuration and its identifier, so that none is staged over another.\<close>

theorem staged_snapshots_separate:
  assumes "list_all plain_element es"
    and "list_all validBrokerID [u, c, s, u', c', s']"
    and "list_all (\<lambda>i. i \<noteq> ''.'' \<and> i \<noteq> ''..'') [u, c, u', c']"
  shows "pathWithinBrokerRoot (rooted_path es) (snapshot_path (rooted_path es) u c s)
    \<and> (snapshot_path (rooted_path es) u c s = snapshot_path (rooted_path es) u' c' s'
        \<longleftrightarrow> u = u' \<and> c = c' \<and> s = s')"
proof -
  have plain: "plain_element u" "plain_element c" "plain_element u'" "plain_element c'"
    "plain_element (s @ ''.kbd'')" "plain_element (s' @ ''.kbd'')"
    using assms(2,3) by (auto intro: valid_broker_id_plain snapshot_file_plain)
  note paths = snapshot_path_elements [OF assms(1) plain(1,2,5)]
    snapshot_path_elements [OF assms(1) plain(3,4,6)]
  have all: "list_all plain_element (es @ [u, c, s @ ''.kbd''])"
    "list_all plain_element (es @ [u', c', s' @ ''.kbd''])"
    using assms(1) plain by simp_all
  have "pathWithinBrokerRoot (rooted_path es) (rooted_path (es @ [u, c, s @ ''.kbd'']))"
    using split_rooted(1) [OF assms(1)] split_rooted(1) [OF all(1)]
    by (simp add: pathWithinBrokerRoot_def path_elements_def rel_elements_prefix)
  then show ?thesis using rooted_path_eq [OF all] by (auto simp: paths)
qed

theorem staged_snapshots_separate_witness:
  "pathWithinBrokerRoot (rooted_path [''var'', ''broker''])
      (snapshot_path (rooted_path [''var'', ''broker'']) ''501'' ''cfg_1'' ''s1'')
    \<and> (snapshot_path (rooted_path [''var'', ''broker'']) ''501'' ''cfg_1'' ''s1'' =
        snapshot_path (rooted_path [''var'', ''broker'']) ''502'' ''cfg_1'' ''s1''
        \<longleftrightarrow> ''501'' = ''502'' \<and> ''cfg_1'' = ''cfg_1'' \<and> ''s1'' = ''s1'')"
  by (rule staged_snapshots_separate) (code_simp+)

end
