(* ===== verification/KDM_LinuxHost.thy ===== *)
theory KDM_LinuxHost
  imports KDM_Proc KDM_Wire
begin

text \<open>
  The rest of the Linux platform (\<^verbatim>\<open>platform/linux.go\<close>): the directories of the manager, its API
  socket, the keyboards of sysfs, key presses, and control groups. As in \<open>KDM_Proc\<close>, what the system
  answers is an argument and what an operation changes is listed in order.
\<close>

section \<open>Directories\<close>

text \<open>\<open>env\<close> gives the environment, an unset variable being empty; \<open>home\<close> is the home directory.\<close>

definition RuntimeDir :: "(string \<Rightarrow> string) \<Rightarrow> go_error + path \<Rightarrow> go_error + path" where
  "RuntimeDir env home =
     (if env ''XDG_RUNTIME_DIR'' \<noteq> '''' then Inr (env ''XDG_RUNTIME_DIR'')
      else case home of
          Inl e \<Rightarrow> Inl e
        | Inr h \<Rightarrow> Inr (path_join (path_join h ''.config'') ''kmonad-device-manager''))"

definition StateDir :: "(string \<Rightarrow> string) \<Rightarrow> go_error + path \<Rightarrow> go_error + path" where
  "StateDir env home =
     (if env ''STATE_DIRECTORY'' \<noteq> '''' then Inr (env ''STATE_DIRECTORY'')
      else if env ''XDG_STATE_HOME'' \<noteq> ''''
      then Inr (path_join (env ''XDG_STATE_HOME'') ''kmonad-device-manager'')
      else case home of
          Inl e \<Rightarrow> Inl e
        | Inr h \<Rightarrow> Inr (path_join (path_join (path_join h ''.local'') ''state'')
                        ''kmonad-device-manager''))"

datatype lock_answer = LockTaken | LockBusy | LockFailed go_error

text \<open>The error, or the path of the lock; \<open>made\<close>, \<open>opened\<close> and \<open>flock\<close> answer the three calls.\<close>

definition AcquireLock ::
  "go_error + path \<Rightarrow> go_error option \<Rightarrow> go_error option \<Rightarrow> lock_answer \<Rightarrow> (bool \<times> go_error) + path" where
  "AcquireLock runtimeDir made opened flock =
     (case runtimeDir of
        Inl e \<Rightarrow> Inl (False, e)
      | Inr base \<Rightarrow> (case made of
            Some e \<Rightarrow> Inl (False, e)
          | None \<Rightarrow> (case opened of
                Some e \<Rightarrow> Inl (False, e)
              | None \<Rightarrow> (case flock of
                    LockBusy \<Rightarrow> Inl (True, errorf ''another manager instance is already running'')
                  | LockFailed e \<Rightarrow> Inl (False, e)
                  | LockTaken \<Rightarrow> Inr (path_join base ''kmonad-device-manager.lock'')))))"

section \<open>The API socket\<close>

datatype node_kind = SocketNode | DirectoryNode | CharDevice | OtherNode

record node_stat =
  nd_kind :: node_kind
  nd_perm :: nat
  nd_uid :: nat

datatype socket_effect =
    MakePrivate path | ChmodNode path nat | RemoveNode path | BindSocket path | CloseListener path

definition private_to :: "nat \<Rightarrow> node_stat \<Rightarrow> bool" where
  "private_to euid st \<longleftrightarrow> nd_uid st = euid \<and> nd_perm st mod 64 = 0"

text \<open>
  The answers to the calls of \<^verbatim>\<open>APISocketPath\<close>: \<^verbatim>\<open>Stat\<close> of the runtime directory, \<^verbatim>\<open>Mkdir\<close>
  (an existing directory is no failure), \<^verbatim>\<open>Lstat\<close> of the directory of the socket, \<^verbatim>\<open>Chmod\<close>.
\<close>

definition APISocketPath ::
  "nat \<Rightarrow> (string \<Rightarrow> string) \<Rightarrow> go_error + path \<Rightarrow> go_error + node_stat \<Rightarrow> go_error option
   \<Rightarrow> go_error + node_stat \<Rightarrow> go_error option \<Rightarrow> (go_error + path) \<times> socket_effect list" where
  "APISocketPath euid env home base_stat mkdir dir_stat chmod =
     (case RuntimeDir env home of
        Inl e \<Rightarrow> (Inl e, [])
      | Inr base \<Rightarrow>
          if env ''XDG_RUNTIME_DIR'' = '''' then (Inr (path_join base ''api.sock''), [])
          else (case base_stat of
              Inl e \<Rightarrow> (Inl (error_of (ge_kind e) (''inspect runtime directory: '' @ ge_text e)), [])
            | Inr st \<Rightarrow>
                if \<not> private_to euid st
                then (Inl (errorf ''runtime directory is not private to the manager user''), [])
                else
                  let directory = path_join base ''kmonad-device-manager'';
                      made = [MakePrivate directory]
                  in (case mkdir of
                        Some e \<Rightarrow> (Inl (error_of (ge_kind e) (''create API directory: '' @ ge_text e)), made)
                      | None \<Rightarrow> (case dir_stat of
                          Inl e \<Rightarrow> (Inl (error_of (ge_kind e) (''inspect API directory: '' @ ge_text e)), made)
                        | Inr d \<Rightarrow>
                            if nd_kind d \<noteq> DirectoryNode \<or> nd_uid d \<noteq> euid
                            then (Inl (errorf ''API directory is not owned by the manager user''), made)
                            else (case chmod of
                                Some e \<Rightarrow> (Inl (error_of (ge_kind e) (''secure API directory: '' @ ge_text e)),
                                    made @ [ChmodNode directory 448])
                              | None \<Rightarrow> (Inr (path_join directory ''api.sock''),
                                    made @ [ChmodNode directory 448]))))))"

text \<open>A stale socket is removed before the new one is bound.\<close>

definition remove_stale ::
  "nat \<Rightarrow> path \<Rightarrow> go_error + node_stat \<Rightarrow> go_error option \<Rightarrow> go_error option \<times> socket_effect list" where
  "remove_stale euid p lstat removed =
     (case lstat of
        Inl e \<Rightarrow> (if ge_kind e = NotExist then None
            else Some (error_of (ge_kind e) (''inspect API socket path: '' @ ge_text e)), [])
      | Inr st \<Rightarrow>
          if nd_kind st \<noteq> SocketNode
          then (Some (errorf ''refusing to replace non-socket API path''), [])
          else if nd_uid st \<noteq> euid
          then (Some (errorf ''refusing to replace API socket not owned by the manager user''), [])
          else (map_option (\<lambda>e. error_of (ge_kind e) (''remove stale API socket: '' @ ge_text e)) removed,
                [RemoveNode p]))"

definition ListenAPISocket ::
  "nat \<Rightarrow> path \<Rightarrow> go_error + node_stat \<Rightarrow> go_error + node_stat \<Rightarrow> go_error option \<Rightarrow> go_error option
   \<Rightarrow> go_error option \<Rightarrow> go_error option \<times> socket_effect list" where
  "ListenAPISocket euid p dir_stat lstat removed listened chmod =
     (case dir_stat of
        Inl e \<Rightarrow> (Some (error_of (ge_kind e) (''inspect API directory: '' @ ge_text e)), [])
      | Inr d \<Rightarrow>
          if nd_uid d \<noteq> euid then (Some (errorf ''API directory is not owned by the manager user''), [])
          else if nd_perm d mod 64 \<noteq> 0
          then (Some (errorf ''API directory permissions must not grant group or other access''), [])
          else (case remove_stale euid p lstat removed of
              (Some e, effects) \<Rightarrow> (Some e, effects)
            | (None, effects) \<Rightarrow> (case listened of
                  Some e \<Rightarrow> (Some e, effects @ [BindSocket p])
                | None \<Rightarrow> (case chmod of
                      Some e \<Rightarrow> (Some (error_of (ge_kind e) (''set API socket permissions: '' @ ge_text e)),
                          effects @ [BindSocket p, ChmodNode p 384, CloseListener p, RemoveNode p])
                    | None \<Rightarrow> (None, effects @ [BindSocket p, ChmodNode p 384])))))"

text \<open>
  The connections that arrive, each with its number and the user of its peer, until accepting fails:
  one of another user, or of a user that cannot be told, is closed.
\<close>

fun Accept :: "nat \<Rightarrow> (go_error + nat \<times> (go_error + nat)) list \<Rightarrow> (go_error + nat) option \<times> nat list" where
  "Accept euid [] = (None, [])"
| "Accept euid (Inl e # _) = (Some (Inl e), [])"
| "Accept euid (Inr (connection, peer) # rest) =
     (if peer = Inr euid then (Some (Inr connection), [])
      else case Accept euid rest of (r, closed) \<Rightarrow> (r, connection # closed))"

section \<open>Devices\<close>

definition linux_deviceAvailability ::
  "go_error + node_stat \<Rightarrow> go_error option \<Rightarrow> go_error option \<Rightarrow> platform_availability" where
  "linux_deviceAvailability stat opened closed =
     (case stat of
        Inl e \<Rightarrow> if ge_kind e = NotExist then PlatformDisconnected else PlatformInaccessible
      | Inr st \<Rightarrow>
          if nd_kind st \<noteq> CharDevice then PlatformUnsupported
          else if opened \<noteq> None then PlatformInaccessible
          else if closed \<noteq> None then PlatformInaccessible else PlatformConnected)"

definition UinputReady :: "go_error + node_stat \<Rightarrow> go_error option \<Rightarrow> go_error option \<Rightarrow> bool" where
  "UinputReady stat opened closed \<longleftrightarrow>
     (case stat of Inl _ \<Rightarrow> False | Inr st \<Rightarrow> nd_kind st = CharDevice) \<and> opened = None \<and> closed = None"

definition WorldWritable :: "go_error + node_stat \<Rightarrow> go_error + bool" where
  "WorldWritable stat = (case stat of Inl e \<Rightarrow> Inl e | Inr st \<Rightarrow> Inr (odd (nd_perm st div 2)))"

definition linux_DeviceID :: "go_error + node_stat \<Rightarrow> nat \<Rightarrow> go_error + string" where
  "linux_DeviceID stat rdev =
     (case stat of
        Inl e \<Rightarrow> Inl e
      | Inr st \<Rightarrow> if nd_kind st \<noteq> CharDevice then Inl (errorf ''not a character device'')
                  else Inr (digits rdev))"

definition InGroup :: "string option \<Rightarrow> int list option \<Rightarrow> bool" where
  "InGroup gid groups \<longleftrightarrow>
     (case gid of
        None \<Rightarrow> False
      | Some text \<Rightarrow> (case atoi text of
            None \<Rightarrow> False
          | Some wanted \<Rightarrow> (case groups of None \<Rightarrow> False | Some gs \<Rightarrow> wanted \<in> set gs)))"

definition utsnameString :: "string \<Rightarrow> string" where
  "utsnameString data = takeWhile (\<lambda>c. c \<noteq> CHR 0x00) data"

text \<open>
  The vendor, product and serial number of an input device: of the nearest directory upwards that
  tells one of them. \<open>read\<close> gives the text of a file, empty when it cannot be read. The walk ends at
  the root; a parent is a shorter path, except for the last element of a relative path, whose parent
  \<^verbatim>\<open>.\<close> ends the walk as well.
\<close>

definition metadata_at :: "(path \<Rightarrow> string) \<Rightarrow> path \<Rightarrow> string \<times> string \<times> string" where
  "metadata_at read p =
     (trimSpace (read (path_join (path_join p ''id'') ''vendor'')),
      trimSpace (read (path_join (path_join p ''id'') ''product'')),
      trimSpace (read (path_join p ''serial'')))"

function inputMetadata :: "(path \<Rightarrow> string) \<Rightarrow> path \<Rightarrow> string \<times> string \<times> string" where
  "inputMetadata read p =
     (if p = [slash] \<or> p = ''.'' then ('''', '''', '''')
      else if metadata_at read p \<noteq> ('''', '''', '''') then metadata_at read p
      else if length (path_dir p) < length p then inputMetadata read (path_dir p)
      else ('''', '''', ''''))"
  by auto
termination by (relation "measure (\<lambda>(_, p). length p)") auto

declare inputMetadata.simps [simp del]

text \<open>
  One entry of sysfs: its name, the text of its key capabilities, the resolved path of its device, its
  name file, and the availability of its node.
\<close>

record sysfs_entry =
  sy_name :: string
  sy_keys :: "string option"
  sy_resolved :: "path option"
  sy_display :: string
  sy_availability :: platform_availability

definition keyboard_of_entry :: "(path \<Rightarrow> string) \<Rightarrow> sysfs_entry \<Rightarrow> keyboard_device option" where
  "keyboard_of_entry read entry =
     (if \<not> hasPrefix (sy_name entry) ''event'' then None
      else if (case sy_keys entry of None \<Rightarrow> True | Some keys \<Rightarrow> \<not> keyboardCapabilities keys) then None
      else case sy_resolved entry of
          None \<Rightarrow> None
        | Some resolved \<Rightarrow>
            let name = trimSpace (sy_display entry);
                fallback = ''topology:'' @ resolved
            in (case inputMetadata read resolved of (vendor, product, serial) \<Rightarrow>
                 Some \<lparr>kb_Identity = (if serial \<noteq> ''''
                         then ''serial:'' @ vendor @ '':'' @ product @ '':'' @ serial else fallback),
                   kb_FallbackIdentity = fallback,
                   kb_IdentityStability = (if serial \<noteq> '''' then ''serial'' else ''topology''),
                   kb_NodePath = path_join ''/dev/input'' (sy_name entry),
                   kb_Virtual = contains resolved ''/devices/virtual/'',
                   kb_Availability = sy_availability entry,
                   kb_DisplayName = (if name = '''' then sy_name entry else name),
                   kb_Vendor = vendor, kb_Product = product, kb_Serial = serial\<rparr>))"

definition ListKeyboards ::
  "(path \<Rightarrow> string) \<Rightarrow> go_error + sysfs_entry list \<Rightarrow> go_error + keyboard_device list" where
  "ListKeyboards read entries =
     (case entries of
        Inl e \<Rightarrow> Inl e
      | Inr es \<Rightarrow> Inr (sort_key kb_Identity (List.map_filter (keyboard_of_entry read) es)))"

section \<open>Key presses\<close>

text \<open>
  One round of the wait: the context, the poll, and the read. A round without news is followed by
  another; \<open>None\<close> is a wait that has not ended with the rounds given.
\<close>

datatype poll_round =
    RoundCanceled go_error | PollFailed bool go_error | PollHangup | PollIdle
  | ReadFailed bool go_error | ReadEvents string

fun observer_wait :: "(string \<Rightarrow> bool) \<Rightarrow> poll_round list \<Rightarrow> go_error option option" where
  "observer_wait matches [] = None"
| "observer_wait matches (r # rs) =
     (case r of
        RoundCanceled e \<Rightarrow> Some (Some e)
      | PollFailed interrupted e \<Rightarrow> if interrupted then observer_wait matches rs else Some (Some e)
      | PollHangup \<Rightarrow> Some (Some (error_of ProcessGone ''process no longer exists''))
      | PollIdle \<Rightarrow> observer_wait matches rs
      | ReadFailed again e \<Rightarrow> if again then observer_wait matches rs else Some (Some e)
      | ReadEvents data \<Rightarrow> if matches data then Some None else observer_wait matches rs)"

definition WaitForKeypress :: "nat \<Rightarrow> poll_round list \<Rightarrow> go_error option option" where
  "WaitForKeypress timevalSize = observer_wait (\<lambda>data. containsKeypress data timevalSize)"

definition WaitForKeyCode :: "nat \<Rightarrow> KeyCode \<Rightarrow> poll_round list \<Rightarrow> go_error option option" where
  "WaitForKeyCode timevalSize code = observer_wait (\<lambda>data. containsKeyCode data timevalSize code)"

section \<open>Control groups\<close>

datatype cgroup_effect = MakeGroup path | WriteGroup path string | CleanUpGroup path

datatype mkdir_answer = GroupMade | GroupExists | GroupFailed go_error

text \<open>Writing one control file after looking whether it is there.\<close>

definition write_control ::
  "(path \<Rightarrow> go_error option) \<Rightarrow> (path \<Rightarrow> go_error option) \<Rightarrow> path \<Rightarrow> string \<Rightarrow> string
   \<Rightarrow> go_error option \<times> cgroup_effect list" where
  "write_control stat put p name content =
     (let file = path_join p name
      in case stat file of
           Some e \<Rightarrow> (Some (error_of (ge_kind e) (name @ '' is unavailable: '' @ ge_text e)), [])
         | None \<Rightarrow> (put file, [WriteGroup file content]))"

fun write_limits ::
  "(path \<Rightarrow> go_error option) \<Rightarrow> (path \<Rightarrow> go_error option) \<Rightarrow> path \<Rightarrow> (string \<times> string) list
   \<Rightarrow> go_error option \<times> cgroup_effect list" where
  "write_limits stat put p [] = (None, [])"
| "write_limits stat put p ((name, limit) # ls) =
     (if limit = '''' then write_limits stat put p ls
      else case write_control stat put p name (limit @ [newline]) of
          (Some e, effects) \<Rightarrow> (Some e, effects)
        | (None, effects) \<Rightarrow> (case write_limits stat put p ls of (r, later) \<Rightarrow> (r, effects @ later)))"

definition cgroup_controls :: "string \<Rightarrow> string \<Rightarrow> (string \<times> string) list" where
  "cgroup_controls memoryMax cpuMax = [(''memory.max'', memoryMax), (''cpu.max'', cpuMax)]"

definition fill_cgroup ::
  "(path \<Rightarrow> go_error option) \<Rightarrow> (path \<Rightarrow> go_error option) \<Rightarrow> path \<Rightarrow> int \<Rightarrow> string \<Rightarrow> string
   \<Rightarrow> go_error option \<times> cgroup_effect list" where
  "fill_cgroup stat put p pid memoryMax cpuMax =
     (case write_limits stat put p (cgroup_controls memoryMax cpuMax) of
        (Some e, effects) \<Rightarrow> (Some e, effects)
      | (None, effects) \<Rightarrow>
          (case write_control stat put p ''cgroup.procs'' (digits (nat pid) @ [newline]) of
             (r, joined) \<Rightarrow> (r, effects @ joined)))"

text \<open>A group that was made and could not be filled is cleaned up.\<close>

definition linux_ConfigureCgroup ::
  "mkdir_answer \<Rightarrow> (path \<Rightarrow> go_error option) \<Rightarrow> (path \<Rightarrow> go_error option) \<Rightarrow> path \<Rightarrow> string \<Rightarrow> int
   \<Rightarrow> string \<Rightarrow> string \<Rightarrow> (go_error + path) \<times> cgroup_effect list" where
  "linux_ConfigureCgroup mkdir stat put root name pid memoryMax cpuMax =
     (if root = '''' then (Inr '''', [])
      else
        let p = path_join root name
        in case mkdir of
             GroupFailed e \<Rightarrow> (Inl e, [MakeGroup p])
           | _ \<Rightarrow> (case fill_cgroup stat put p pid memoryMax cpuMax of
                 (Some e, effects) \<Rightarrow>
                   (Inl e, MakeGroup p # effects @ (if mkdir = GroupMade then [CleanUpGroup p] else []))
               | (None, effects) \<Rightarrow> (Inr p, MakeGroup p # effects)))"

datatype drain = DrainNothing | DrainRemove | DrainFailed go_error

text \<open>The rounds of the wait for a group to be empty: its processes, and the time after reading.\<close>

fun drain_cgroup :: "time \<Rightarrow> ((go_error + string) \<times> time) list \<Rightarrow> drain option" where
  "drain_cgroup deadline [] = None"
| "drain_cgroup deadline ((procs, now) # rounds) =
     (case procs of
        Inl e \<Rightarrow> Some (if ge_kind e = NotExist then DrainRemove else DrainFailed e)
      | Inr data \<Rightarrow>
          if trimSpace data = '''' then Some DrainRemove
          else if now > deadline then Some (DrainFailed (errorf ''cgroup still contains processes''))
          else drain_cgroup deadline rounds)"

definition linux_CleanupCgroup ::
  "go_error option \<Rightarrow> go_error option \<Rightarrow> time \<Rightarrow> ((go_error + string) \<times> time) list \<Rightarrow> path \<Rightarrow> drain option" where
  "linux_CleanupCgroup kill_stat kill_write now rounds p =
     (if p = '''' then Some DrainNothing
      else case kill_stat of
          None \<Rightarrow> (case kill_write of
              Some e \<Rightarrow> Some (DrainFailed e)
            | None \<Rightarrow> drain_cgroup (now + 100 * millisecond) rounds)
        | Some e \<Rightarrow> if ge_kind e = NotExist then drain_cgroup (now + 100 * millisecond) rounds
                    else Some (DrainFailed e))"

section \<open>The service manager\<close>

definition WatchdogInterval :: "(string \<Rightarrow> string) \<Rightarrow> duration" where
  "WatchdogInterval env =
     (case atoi (env ''WATCHDOG_USEC'') of
        None \<Rightarrow> 0
      | Some usec \<Rightarrow> if usec \<le> 0 \<or> env ''NOTIFY_SOCKET'' = '''' then 0 else wrap64 (usec * 1000))"

text \<open>The keep-alive is sent at every tick at which the last progress is recent enough.\<close>

definition systemdWatchdog :: "duration \<Rightarrow> (time \<times> time) list \<Rightarrow> (time \<times> time) list" where
  "systemdWatchdog period ticks =
     (if period \<le> 0 \<or> period div 2 \<le> 0 then []
      else filter (\<lambda>(now, progress). now - progress \<le> period) ticks)"


section \<open>Who reaches the manager, and what a process runs in\<close>

text \<open>C38: The API socket belongs to one user: it is bound only in a directory that this user owns and
  nobody else can enter, it is open to the owner alone once listening succeeds, nothing but a stale
  socket of the same user is removed for it, and of the connections that arrive the first one whose
  peer is this user is accepted and those before it are closed.\<close>

theorem api_socket_same_user:
  "(case ListenAPISocket euid p dir_stat lstat removed listened chmod of (r, effects) \<Rightarrow>
      (r \<noteq> None \<or> (last effects = ChmodNode p 384 \<and>
         (case dir_stat of Inl _ \<Rightarrow> False | Inr d \<Rightarrow> private_to euid d)))
      \<and> (BindSocket p \<notin> set effects \<or>
         (case dir_stat of Inl _ \<Rightarrow> False | Inr d \<Rightarrow> private_to euid d))
      \<and> set (takeWhile (\<lambda>f. f \<noteq> BindSocket p) effects) \<subseteq>
         (case lstat of Inl _ \<Rightarrow> {}
          | Inr st \<Rightarrow> if nd_kind st = SocketNode \<and> nd_uid st = euid then {RemoveNode p} else {}))
   \<and> (let other_user = (\<lambda>arrival. case arrival of Inl _ \<Rightarrow> False | Inr (_, peer) \<Rightarrow> peer \<noteq> Inr euid)
      in Accept euid arrivals =
        ((case dropWhile other_user arrivals of
            [] \<Rightarrow> None | Inl e # _ \<Rightarrow> Some (Inl e) | Inr (connection, _) # _ \<Rightarrow> Some (Inr connection)),
         List.map_filter (\<lambda>a. case a of Inl _ \<Rightarrow> None | Inr (connection, _) \<Rightarrow> Some connection)
           (takeWhile other_user arrivals)))"
proof (rule conjI)
  show "case ListenAPISocket euid p dir_stat lstat removed listened chmod of (r, effects) \<Rightarrow>
      (r \<noteq> None \<or> (last effects = ChmodNode p 384 \<and>
         (case dir_stat of Inl _ \<Rightarrow> False | Inr d \<Rightarrow> private_to euid d)))
      \<and> (BindSocket p \<notin> set effects \<or>
         (case dir_stat of Inl _ \<Rightarrow> False | Inr d \<Rightarrow> private_to euid d))
      \<and> set (takeWhile (\<lambda>f. f \<noteq> BindSocket p) effects) \<subseteq>
         (case lstat of Inl _ \<Rightarrow> {}
          | Inr st \<Rightarrow> if nd_kind st = SocketNode \<and> nd_uid st = euid then {RemoveNode p} else {})"
    by (auto simp: ListenAPISocket_def remove_stale_def private_to_def
        split: sum.splits option.splits if_splits)
  show "let other_user = (\<lambda>arrival. case arrival of Inl _ \<Rightarrow> False | Inr (_, peer) \<Rightarrow> peer \<noteq> Inr euid)
      in Accept euid arrivals =
        ((case dropWhile other_user arrivals of
            [] \<Rightarrow> None | Inl e # _ \<Rightarrow> Some (Inl e) | Inr (connection, _) # _ \<Rightarrow> Some (Inr connection)),
         List.map_filter (\<lambda>a. case a of Inl _ \<Rightarrow> None | Inr (connection, _) \<Rightarrow> Some connection)
           (takeWhile other_user arrivals))"
    unfolding Let_def
    by (induction euid arrivals rule: Accept.induct) (auto simp: List.map_filter_def)
qed

theorem api_socket_same_user_witness:
  "ListenAPISocket 1000 ''/run/user/1000/kdm/api.sock''
      (Inr \<lparr>nd_kind = DirectoryNode, nd_perm = 448, nd_uid = 1000\<rparr>)
      (Inr \<lparr>nd_kind = SocketNode, nd_perm = 384, nd_uid = 1000\<rparr>) None None None =
     (None, [RemoveNode ''/run/user/1000/kdm/api.sock'', BindSocket ''/run/user/1000/kdm/api.sock'',
             ChmodNode ''/run/user/1000/kdm/api.sock'' 384])
   \<and> private_to 1000 \<lparr>nd_kind = DirectoryNode, nd_perm = 448, nd_uid = 1000\<rparr>
   \<and> Accept 1000 [Inr (1, Inr 0), Inr (2, Inr 1000)] = (Some (Inr 2), [1])"
  using api_socket_same_user [where euid = 1000 and p = "''/run/user/1000/kdm/api.sock''"
      and dir_stat = "Inr \<lparr>nd_kind = DirectoryNode, nd_perm = 448, nd_uid = 1000\<rparr>"
      and lstat = "Inr \<lparr>nd_kind = SocketNode, nd_perm = 384, nd_uid = 1000\<rparr>"
      and removed = None and listened = None and chmod = None
      and arrivals = "[Inr (1, Inr 0), Inr (2, Inr 1000)]"]
  by (simp add: ListenAPISocket_def remove_stale_def private_to_def map_filter_simps)


lemma write_limits_done:
  "write_limits stat put p ls = (None, effects) \<Longrightarrow>
   effects = map (\<lambda>(n, v). WriteGroup (path_join p n) (v @ [newline])) (filter (\<lambda>(n, v). v \<noteq> '''') ls)"
  by (induction stat put p ls arbitrary: effects rule: write_limits.induct)
    (auto simp: write_control_def Let_def split: if_splits option.splits prod.splits)

lemma write_limits_no_cleanup: "CleanUpGroup q \<notin> set (snd (write_limits stat put p ls))"
  by (induction stat put p ls rule: write_limits.induct)
    (auto simp: write_control_def Let_def split: if_splits option.splits prod.splits)

lemma fill_no_cleanup: "CleanUpGroup q \<notin> set (snd (fill_cgroup stat put p pid memoryMax cpuMax))"
  using write_limits_no_cleanup [of q stat put p "cgroup_controls memoryMax cpuMax"]
  by (auto simp: fill_cgroup_def write_control_def Let_def split: option.splits prod.splits)

text \<open>C39: A process runs in its control group only under its limits: a group that is handed out was
  given every limit that is set before the process joined it, the joining being the last change; a
  group that was made and could not be filled is cleaned up, and one that was there before never is.\<close>

theorem cgroup_limits_before_process:
  "case linux_ConfigureCgroup mkdir stat put root name pid memoryMax cpuMax of
     (Inr p, effects) \<Rightarrow>
       (if root = '''' then p = '''' \<and> effects = []
        else p = path_join root name
          \<and> effects = MakeGroup p
              # map (\<lambda>(n, v). WriteGroup (path_join p n) (v @ [newline]))
                  (filter (\<lambda>(n, v). v \<noteq> '''') [(''memory.max'', memoryMax), (''cpu.max'', cpuMax)])
              @ [WriteGroup (path_join p ''cgroup.procs'') (digits (nat pid) @ [newline])])
   | (Inl e, effects) \<Rightarrow>
       (last effects = CleanUpGroup (path_join root name) \<longleftrightarrow> mkdir = GroupMade)
       \<and> (CleanUpGroup (path_join root name) \<in> set effects \<longleftrightarrow> mkdir = GroupMade)"
proof (cases "root = ''''")
  case False
  define p where "p = path_join root name"
  obtain r effects where fill: "fill_cgroup stat put p pid memoryMax cpuMax = (r, effects)"
    by (cases "fill_cgroup stat put p pid memoryMax cpuMax")
  have clean: "CleanUpGroup p \<notin> set effects"
    using fill_no_cleanup [of p stat put p pid memoryMax cpuMax] fill by simp
  then have final: "last (MakeGroup p # effects) \<noteq> CleanUpGroup p"
    by (metis last_ConsL last_ConsR last_in_set cgroup_effect.distinct(3))
  have wrote: "effects = map (\<lambda>(n, v). WriteGroup (path_join p n) (v @ [newline]))
      (filter (\<lambda>(n, v). v \<noteq> '''') (cgroup_controls memoryMax cpuMax))
      @ [WriteGroup (path_join p ''cgroup.procs'') (digits (nat pid) @ [newline])]" if "r = None"
    using fill that
    by (auto simp: fill_cgroup_def write_control_def Let_def
        split: option.splits prod.splits dest!: write_limits_done)
  show ?thesis
    using False fill clean final wrote
    by (cases mkdir; cases r)
      (simp_all add: linux_ConfigureCgroup_def Let_def cgroup_controls_def flip: p_def)
qed (simp add: linux_ConfigureCgroup_def)

lemma drained_by_deadline:
  "\<exists>(procs, now) \<in> set rounds. now > deadline \<Longrightarrow> drain_cgroup deadline rounds \<noteq> None"
  by (induction deadline rounds rule: drain_cgroup.induct) (auto split: sum.splits)

end
