(* ===== verification/KDM_Settings.thy ===== *)
theory KDM_Settings
  imports KDM_Sessions
begin

text \<open>
  The settings of the manager (\<^verbatim>\<open>manager/settings.go\<close>): environment variables with defaults, the
  \<^verbatim>\<open>env\<close> file that may name the configuration directory, their checks, and the address of the metrics
  server. \<open>env\<close> gives the environment, an unset variable being empty; \<open>read_env\<close> the content of a file
  and whether it could be read to the end.
\<close>

section \<open>Numbers\<close>

definition seconds :: "string \<Rightarrow> duration" where
  "seconds value =
     (case atoi value of
        None \<Rightarrow> 0
      | Some n \<Rightarrow> if n \<le> 0 \<or> n > (2 ^ 63 - 1) div second then 0 else n * second)"

text \<open>\<^verbatim>\<open>Atoi\<close> and \<^verbatim>\<open>ParseInt(value, 10, 64)\<close> agree on a 64-bit platform.\<close>

definition positiveInteger :: "string \<Rightarrow> int" where
  "positiveInteger value = (case atoi value of None \<Rightarrow> 0 | Some n \<Rightarrow> if n \<le> 0 then 0 else n)"

definition positiveInt64 :: "string \<Rightarrow> int" where
  "positiveInt64 value = (case atoi value of None \<Rightarrow> 0 | Some n \<Rightarrow> if n \<le> 0 then 0 else n)"

section \<open>Where they come from\<close>

definition valueOr :: "(string \<Rightarrow> string) \<Rightarrow> string \<Rightarrow> string \<Rightarrow> string" where
  "valueOr env name fallback = (if env name \<noteq> '''' then env name else fallback)"

definition configHome :: "(string \<Rightarrow> string) \<Rightarrow> path option \<Rightarrow> path" where
  "configHome env home =
     (if env ''XDG_CONFIG_HOME'' \<noteq> '''' then env ''XDG_CONFIG_HOME''
      else case home of None \<Rightarrow> ''.config'' | Some h \<Rightarrow> path_join h ''.config'')"

definition unquoted :: "string \<Rightarrow> string" where
  "unquoted value =
     (if length value \<ge> 2 \<and> hd value = last value \<and> (hd value = CHR 0x22 \<or> hd value = CHR 0x27)
      then butlast (tl value) else value)"

text \<open>
  The lines of the file. The scanner gives up on a line that does not fit its buffer of 64 KiB with
  its newline; the last \<open>bool\<close> tells whether the file was read without an error.
\<close>

fun find_environment_value :: "string \<Rightarrow> string list \<Rightarrow> bool \<Rightarrow> string option" where
  "find_environment_value wanted [] complete = (if complete then Some '''' else None)"
| "find_environment_value wanted (raw # ls) complete =
     (let line = trimSpace raw;
          name = takeWhile (\<lambda>c. c \<noteq> CHR ''='') line
      in if length raw \<ge> 65536 then None
         else if line = '''' \<or> hasPrefix line ''#'' then find_environment_value wanted ls complete
         else if length name = length line \<or> trimSpace name \<noteq> wanted
         then find_environment_value wanted ls complete
         else Some (unquoted (trimSpace (drop (length name + 1) line))))"

definition environmentValue :: "(string \<times> bool) option \<Rightarrow> string \<Rightarrow> string option" where
  "environmentValue file wanted =
     (case file of
        None \<Rightarrow> None
      | Some (content, complete) \<Rightarrow>
          find_environment_value wanted (split_on newline content) complete)"

record settings =
  se_configDir :: path
  se_kmonadCommand :: string
  se_pollIntervalRaw :: string
  se_stopTimeoutRaw :: string
  se_dryRunTimeoutRaw :: string
  se_watchdogTimeoutRaw :: string
  se_maxConfigsRaw :: string
  se_maxConfigBytesRaw :: string
  se_pollInterval :: duration
  se_stopTimeout :: duration
  se_dryRunTimeout :: duration
  se_watchdogTimeout :: duration
  se_maxConfigs :: int
  se_maxConfigBytes :: int
  se_metricsAddr :: string
  se_metricsAllowRemote :: bool
  se_cgroupRoot :: path
  se_processMemoryMax :: string
  se_processCPUQuota :: string

definition config_directory ::
  "(string \<Rightarrow> string) \<Rightarrow> path option \<Rightarrow> (path \<Rightarrow> (string \<times> bool) option) \<Rightarrow> path" where
  "config_directory env home read_env =
     (let base = configHome env home;
          from_file = environmentValue
            (read_env (path_join (path_join base ''kmonad-device-manager'') ''env'')) ''KMONAD_CONFIG_DIR'';
          named = (if env ''KMONAD_CONFIG_DIR'' \<noteq> '''' then env ''KMONAD_CONFIG_DIR''
                   else case from_file of None \<Rightarrow> '''' | Some v \<Rightarrow> v)
      in if named = '''' then path_join base ''kmonad'' else named)"

definition loadSettings ::
  "(string \<Rightarrow> string) \<Rightarrow> path option \<Rightarrow> (path \<Rightarrow> (string \<times> bool) option) \<Rightarrow> settings" where
  "loadSettings env home read_env =
     (let poll = valueOr env ''KMONAD_POLL_INTERVAL'' ''2'';
          stop = valueOr env ''KMONAD_STOP_TIMEOUT'' ''5'';
          dry = valueOr env ''KMONAD_DRY_RUN_TIMEOUT'' ''30'';
          configs = valueOr env ''KMONAD_MAX_CONFIGS'' ''128'';
          bytes = valueOr env ''KMONAD_MAX_CONFIG_BYTES'' ''1048576'';
          watchdog = valueOr env ''KMONAD_WATCHDOG_TIMEOUT'' ''60''
      in \<lparr>se_configDir = config_directory env home read_env,
          se_kmonadCommand = valueOr env ''KMONAD_COMMAND'' ''kmonad'',
          se_pollIntervalRaw = poll, se_stopTimeoutRaw = stop, se_dryRunTimeoutRaw = dry,
          se_watchdogTimeoutRaw = watchdog, se_maxConfigsRaw = configs, se_maxConfigBytesRaw = bytes,
          se_pollInterval = seconds poll, se_stopTimeout = seconds stop,
          se_dryRunTimeout = seconds dry, se_watchdogTimeout = seconds watchdog,
          se_maxConfigs = positiveInteger configs, se_maxConfigBytes = positiveInt64 bytes,
          se_metricsAddr = env ''KMONAD_METRICS_ADDR'',
          se_metricsAllowRemote = (env ''KMONAD_METRICS_ALLOW_REMOTE'' = ''1''),
          se_cgroupRoot = env ''KMONAD_CGROUP_ROOT'',
          se_processMemoryMax = env ''KMONAD_PROCESS_MEMORY_MAX'',
          se_processCPUQuota = env ''KMONAD_PROCESS_CPU_MAX''\<rparr>)"

section \<open>The address of the metrics server\<close>

text \<open>The host of an address, as \<^verbatim>\<open>net.SplitHostPort\<close> finds it.\<close>

definition last_colon :: "string \<Rightarrow> nat option" where
  "last_colon s =
     (let after = takeWhile (\<lambda>c. c \<noteq> CHR '':'') (rev s)
      in if length after = length s then None else Some (length s - length after - 1))"

definition split_host :: "string \<Rightarrow> string option" where
  "split_host hostport =
     (case last_colon hostport of
        None \<Rightarrow> None
      | Some i \<Rightarrow>
          if hd hostport = CHR ''['' then
            (let close = length (takeWhile (\<lambda>c. c \<noteq> CHR '']'') hostport)
             in if close + 1 \<noteq> i then None
                else if CHR ''['' \<in> set (drop 1 hostport) \<or> CHR '']'' \<in> set (drop (close + 1) hostport)
                then None else Some (drop 1 (take close hostport)))
          else if CHR '':'' \<in> set (take i hostport) then None
          else if CHR ''['' \<in> set hostport \<or> CHR '']'' \<in> set hostport then None
          else Some (take i hostport))"

text \<open>
  \<open>parse_ip\<close> is \<^verbatim>\<open>net.ParseIP\<close>: the sixteen bytes of an address. It is a loopback address when it is
  an IPv4 address of the network 127 or the address 1 of IPv6.
\<close>

definition is_loopback :: "nat list \<Rightarrow> bool" where
  "is_loopback ip \<longleftrightarrow>
     (if take 12 ip = replicate 10 0 @ [255, 255] then ip ! 12 = 127 else ip = replicate 15 0 @ [1])"

definition metricsAddressIsLoopback :: "(string \<Rightarrow> nat list option) \<Rightarrow> string \<Rightarrow> bool" where
  "metricsAddressIsLoopback parse_ip address =
     (case split_host address of
        None \<Rightarrow> False
      | Some host \<Rightarrow> host = ''localhost''
          \<or> (case parse_ip host of None \<Rightarrow> False | Some ip \<Rightarrow> is_loopback ip))"

section \<open>The checks\<close>

definition validateSettings :: "(string \<Rightarrow> nat list option) \<Rightarrow> settings \<Rightarrow> string option" where
  "validateSettings parse_ip s =
     (if se_pollInterval s = 0 then Some ''KMONAD_POLL_INTERVAL must be a positive integer''
      else if se_stopTimeout s = 0 then Some ''KMONAD_STOP_TIMEOUT must be a positive integer''
      else if se_dryRunTimeout s = 0 then Some ''KMONAD_DRY_RUN_TIMEOUT must be a positive integer''
      else if se_watchdogTimeout s = 0 then Some ''KMONAD_WATCHDOG_TIMEOUT must be a positive integer''
      else if se_maxConfigs s = 0 then Some ''KMONAD_MAX_CONFIGS must be a positive integer''
      else if se_maxConfigBytes s = 0 then Some ''KMONAD_MAX_CONFIG_BYTES must be a positive integer''
      else if se_metricsAddr s \<noteq> '''' \<and> \<not> se_metricsAllowRemote s
           \<and> \<not> metricsAddressIsLoopback parse_ip (se_metricsAddr s)
      then Some ''KMONAD_METRICS_ADDR must bind to a loopback address unless KMONAD_METRICS_ALLOW_REMOTE=1''
      else None)"

section \<open>Accepted settings\<close>

definition in_int64 :: "int \<Rightarrow> bool" where
  "in_int64 n \<longleftrightarrow> 0 < n \<and> n < 2 ^ 63"

lemma atoi_range: "atoi s = Some n \<Longrightarrow> - (2 ^ 63) \<le> n \<and> n < 2 ^ 63"
  by (auto simp: atoi_def Let_def split: if_splits option.splits)

lemma seconds_range: "seconds v = 0 \<or> in_int64 (seconds v) \<and> second dvd seconds v"
proof (cases "atoi v")
  case (Some n)
  show ?thesis
  proof (cases "n \<le> 0 \<or> n > (2 ^ 63 - 1) div second")
    case False
    then have "n * second \<le> ((2 ^ 63 - 1) div second) * second"
      by (intro mult_right_mono) auto
    also have "\<dots> < 2 ^ 63" by simp
    finally show ?thesis using Some False
      by (simp add: seconds_def in_int64_def)
  qed (simp add: seconds_def Some)
qed (simp add: seconds_def)

lemma positive_range:
  "positiveInteger v = 0 \<or> in_int64 (positiveInteger v)"
  "positiveInt64 v = 0 \<or> in_int64 (positiveInt64 v)"
  by (auto simp: positiveInteger_def positiveInt64_def in_int64_def dest!: atoi_range split: option.splits)

text \<open>C40: Settings the service starts with never overflow and never expose the metrics by accident:
  whatever the environment holds, when the checks pass every interval is a positive whole number of
  seconds that fits a 64-bit duration, both limits are positive 64-bit numbers, and the metrics server
  is off, local, or explicitly allowed to be remote.\<close>

theorem accepted_settings_in_range:
  assumes "validateSettings parse_ip (loadSettings env home read_env) = None"
  shows "list_all (\<lambda>d. in_int64 d \<and> second dvd d)
      [se_pollInterval (loadSettings env home read_env), se_stopTimeout (loadSettings env home read_env),
       se_dryRunTimeout (loadSettings env home read_env), se_watchdogTimeout (loadSettings env home read_env)]
    \<and> in_int64 (se_maxConfigs (loadSettings env home read_env))
    \<and> in_int64 (se_maxConfigBytes (loadSettings env home read_env))
    \<and> (env ''KMONAD_METRICS_ADDR'' = '''' \<or> env ''KMONAD_METRICS_ALLOW_REMOTE'' = ''1''
        \<or> (\<exists>host. split_host (env ''KMONAD_METRICS_ADDR'') = Some host
            \<and> (host = ''localhost'' \<or> (\<exists>ip. parse_ip host = Some ip \<and> is_loopback ip))))"
proof -
  define s where "s = loadSettings env home read_env"
  have parsed: "\<exists>a b c d e f. se_pollInterval s = seconds a \<and> se_stopTimeout s = seconds b
      \<and> se_dryRunTimeout s = seconds c \<and> se_watchdogTimeout s = seconds d
      \<and> se_maxConfigs s = positiveInteger e \<and> se_maxConfigBytes s = positiveInt64 f"
    and metrics: "se_metricsAddr s = env ''KMONAD_METRICS_ADDR''"
      "se_metricsAllowRemote s = (env ''KMONAD_METRICS_ALLOW_REMOTE'' = ''1'')"
    by (auto simp: s_def loadSettings_def Let_def)
  have ok: "se_pollInterval s \<noteq> 0" "se_stopTimeout s \<noteq> 0" "se_dryRunTimeout s \<noteq> 0"
    "se_watchdogTimeout s \<noteq> 0" "se_maxConfigs s \<noteq> 0" "se_maxConfigBytes s \<noteq> 0"
    and addr: "se_metricsAddr s = '''' \<or> se_metricsAllowRemote s
      \<or> metricsAddressIsLoopback parse_ip (se_metricsAddr s)"
    using assms unfolding s_def [symmetric] by (auto simp: validateSettings_def split: if_splits)
  have "in_int64 (se_maxConfigs s)" "in_int64 (se_maxConfigBytes s)"
    "list_all (\<lambda>d. in_int64 d \<and> second dvd d)
       [se_pollInterval s, se_stopTimeout s, se_dryRunTimeout s, se_watchdogTimeout s]"
    using parsed ok seconds_range positive_range by (metis, metis, simp, metis)
  moreover have "env ''KMONAD_METRICS_ADDR'' = '''' \<or> env ''KMONAD_METRICS_ALLOW_REMOTE'' = ''1''
      \<or> (\<exists>host. split_host (env ''KMONAD_METRICS_ADDR'') = Some host
          \<and> (host = ''localhost'' \<or> (\<exists>ip. parse_ip host = Some ip \<and> is_loopback ip)))"
    using addr metrics by (auto simp: metricsAddressIsLoopback_def split: option.splits)
  ultimately show ?thesis unfolding s_def by blast
qed

theorem accepted_settings_in_range_witness:
  "list_all (\<lambda>d. in_int64 d \<and> second dvd d)
      [se_pollInterval (loadSettings (\<lambda>_. '''') None (\<lambda>_. None)),
       se_stopTimeout (loadSettings (\<lambda>_. '''') None (\<lambda>_. None)),
       se_dryRunTimeout (loadSettings (\<lambda>_. '''') None (\<lambda>_. None)),
       se_watchdogTimeout (loadSettings (\<lambda>_. '''') None (\<lambda>_. None))]
    \<and> in_int64 (se_maxConfigs (loadSettings (\<lambda>_. '''') None (\<lambda>_. None)))
    \<and> in_int64 (se_maxConfigBytes (loadSettings (\<lambda>_. '''') None (\<lambda>_. None)))
    \<and> ((\<lambda>_. '''') ''KMONAD_METRICS_ADDR'' = '''' \<or> (\<lambda>_. '''') ''KMONAD_METRICS_ALLOW_REMOTE'' = ''1''
        \<or> (\<exists>host. split_host ((\<lambda>_. '''') ''KMONAD_METRICS_ADDR'') = Some host
            \<and> (host = ''localhost'' \<or> (\<exists>ip. None = Some ip \<and> is_loopback ip))))"
proof -
  have "validateSettings (\<lambda>_. None) (loadSettings (\<lambda>_. '''') None (\<lambda>_. None)) = None" 
    by (simp add: loadSettings_def valueOr_def validateSettings_def seconds_def positiveInteger_def
        positiveInt64_def atoi_def digit_value_def Let_def)
  from accepted_settings_in_range [OF this] show ?thesis by simp
qed

end
