(* ===== verification/KDM_Doctor.thy ===== *)
theory KDM_Doctor
  imports KDM_Settings KDM_Public
begin

text \<open>
  The doctor (\<^verbatim>\<open>manager/doctor.go\<close>): one diagnostic per check, in order, and the exit status. What the
  system answers to the checks is the record \<open>findings\<close>; \<open>digest8\<close> gives the hexadecimal text of the
  first eight bytes of a SHA-256 sum.
\<close>

section \<open>The report\<close>

record doctor_output =
  do_failures :: nat
  do_waiting :: nat
  do_json :: bool
  do_checks :: "diagnostic list"
  do_printed :: "string list"

definition newDoctorOutput :: "bool \<Rightarrow> doctor_output" where
  "newDoctorOutput jsonOutput =
     \<lparr>do_failures = 0, do_waiting = 0, do_json = jsonOutput, do_checks = [], do_printed = []\<rparr>"

text \<open>Whether the labels are coloured.\<close>

definition doctor_colored :: "(string \<Rightarrow> string) \<Rightarrow> bool \<Rightarrow> bool \<Rightarrow> bool" where
  "doctor_colored env terminal jsonOutput \<longleftrightarrow>
     \<not> jsonOutput \<and> (env ''KMONAD_DOCTOR_COLOR'' = ''always''
       \<or> (env ''KMONAD_DOCTOR_COLOR'' \<noteq> ''never'' \<and> terminal))"

definition doctor_label :: "diagnostic_severity \<Rightarrow> string" where
  "doctor_label severity = (case severity of
     DiagnosticOK \<Rightarrow> ''[ok]'' | DiagnosticTemporary \<Rightarrow> ''[wait]'' | DiagnosticWarning \<Rightarrow> ''[warn]''
   | _ \<Rightarrow> ''[bad]'')"

definition doctorDiagnosticID :: "(string \<Rightarrow> string) \<Rightarrow> string \<Rightarrow> string" where
  "doctorDiagnosticID digest8 summary = ''doctor.'' @ digest8 summary"

definition doctor_diagnostic ::
  "string \<Rightarrow> diagnostic_severity \<Rightarrow> reason_code \<Rightarrow> string \<Rightarrow> string \<Rightarrow> diagnostic" where
  "doctor_diagnostic i severity code summary remediation =
     \<lparr>diag_ID = i, diag_Severity = severity, diag_ReasonCode = code, diag_Summary = summary,
      diag_Remediation = remediation, diag_Resource = None, diag_Location = None\<rparr>"

definition doctor_ok :: "(string \<Rightarrow> string) \<Rightarrow> string \<Rightarrow> diagnostic" where
  "doctor_ok digest8 message = doctor_diagnostic (doctorDiagnosticID digest8 message) DiagnosticOK
     ReasonCapabilityAvailable message ''No action is required.''"

definition doctor_wait :: "(string \<Rightarrow> string) \<Rightarrow> string \<Rightarrow> diagnostic" where
  "doctor_wait digest8 message = doctor_diagnostic (doctorDiagnosticID digest8 message) DiagnosticTemporary
     ReasonRuntimeWaitingForDevice message
     ''Wait for the temporary condition to recover, then run doctor again.''"

definition doctor_bad :: "(string \<Rightarrow> string) \<Rightarrow> string \<Rightarrow> diagnostic" where
  "doctor_bad digest8 message = doctor_diagnostic (doctorDiagnosticID digest8 message) DiagnosticError
     ReasonDependencyUnavailable message ''Correct the reported prerequisite, then run doctor again.''"

definition doctor_add :: "diagnostic \<Rightarrow> doctor_output \<Rightarrow> doctor_output" where
  "doctor_add diagnostic d =
     d\<lparr>do_failures := do_failures d + (if diag_Severity diagnostic = DiagnosticError then 1 else 0),
       do_waiting := do_waiting d + (if diag_Severity diagnostic = DiagnosticTemporary then 1 else 0),
       do_checks := do_checks d @ [diagnostic],
       do_printed := (if do_json d then do_printed d
          else do_printed d @ [doctor_label (diag_Severity diagnostic) @ '' '' @ diag_Summary diagnostic])\<rparr>"

record doctor_report =
  dr_ConfigDir :: path
  dr_Healthy :: bool
  dr_Failures :: nat
  dr_Waiting :: nat
  dr_Checks :: "diagnostic list"

text \<open>\<open>printed\<close>: whether the JSON document could be printed.\<close>

definition doctor_finish :: "bool \<Rightarrow> path \<Rightarrow> doctor_output \<Rightarrow> doctor_report option \<times> nat" where
  "doctor_finish printed configDir d =
     (let report = (if do_json d then Some \<lparr>dr_ConfigDir = configDir, dr_Healthy = (do_failures d = 0),
            dr_Failures = do_failures d, dr_Waiting = do_waiting d, dr_Checks = do_checks d\<rparr> else None)
      in if do_json d \<and> \<not> printed then (report, 1)
         else (report, min 255 (do_failures d)))"

section \<open>The checks\<close>

text \<open>One configuration file: its path, its permissions, its device and the dry run.\<close>

record doctor_config =
  dc_path :: path
  dc_unsafe :: "go_error + bool"
  dc_device :: "go_error + string"
  dc_availability :: "device_availability \<times> string"
  dc_kmonad :: bool
  dc_parses :: bool

record findings =
  df_supported :: bool
  df_platform :: string
  df_backend :: string
  df_kmonad :: bool
  df_kmonad_info :: kmonad_info
  df_input_group :: bool
  df_uinput_group :: bool
  df_uinput_module :: bool
  df_uinput_device :: string
  df_uinput_ready :: bool
  df_directory :: "(go_error + bool) option"
  df_configs :: "doctor_config list"
  df_service :: "bool \<times> bool \<times> bool"

definition unsupported_check :: "findings \<Rightarrow> diagnostic" where
  "unsupported_check a = doctor_diagnostic ''doctor.platform'' DiagnosticError ReasonPlatformUnsupported
     (''Platform: '' @ df_platform a @ ''/'' @ df_backend a @ '' is unsupported; Linux evdev is required'')
     ''Run KMonad Device Manager on Linux with the evdev backend.''"

definition setting_check ::
  "(string \<Rightarrow> string) \<Rightarrow> string \<Rightarrow> string \<Rightarrow> string \<Rightarrow> int \<Rightarrow> diagnostic" where
  "setting_check digest8 label unit raw value =
     (if value = 0 then doctor_bad digest8 (label @ '': '' @ [CHR 0x27] @ raw @ [CHR 0x27] @ '' is invalid'')
      else doctor_ok digest8 (label @ '': '' @ raw @ unit))"

definition setting_checks :: "(string \<Rightarrow> string) \<Rightarrow> settings \<Rightarrow> diagnostic list" where
  "setting_checks digest8 s =
     [setting_check digest8 ''Poll interval'' ''s'' (se_pollIntervalRaw s) (se_pollInterval s),
      setting_check digest8 ''Stop timeout'' ''s'' (se_stopTimeoutRaw s) (se_stopTimeout s),
      setting_check digest8 ''Dry-run timeout'' ''s'' (se_dryRunTimeoutRaw s) (se_dryRunTimeout s),
      setting_check digest8 ''Configuration limit'' '''' (se_maxConfigsRaw s) (se_maxConfigs s),
      setting_check digest8 ''Configuration size limit'' '' bytes'' (se_maxConfigBytesRaw s)
        (se_maxConfigBytes s),
      setting_check digest8 ''Watchdog timeout'' ''s'' (se_watchdogTimeoutRaw s) (se_watchdogTimeout s)]"

definition ok_or_bad :: "(string \<Rightarrow> string) \<Rightarrow> bool \<Rightarrow> string \<Rightarrow> string \<Rightarrow> diagnostic" where
  "ok_or_bad digest8 holds good bad = (if holds then doctor_ok digest8 good else doctor_bad digest8 bad)"

definition kmonad_checks :: "(string \<Rightarrow> string) \<Rightarrow> findings \<Rightarrow> diagnostic list" where
  "kmonad_checks digest8 a =
     (if df_kmonad a
      then [doctor_ok digest8 ''KMonad: available'',
            (kmonadDiagnostic (df_kmonad_info a))\<lparr>diag_ID := ''doctor.kmonad.version''\<rparr>]
      else [doctor_bad digest8 ''KMonad: not found on PATH''])"

definition system_checks :: "(string \<Rightarrow> string) \<Rightarrow> findings \<Rightarrow> diagnostic list" where
  "system_checks digest8 a =
     [ok_or_bad digest8 (df_input_group a) ''Group membership: input'' ''Group membership: input is missing'',
      ok_or_bad digest8 (df_uinput_group a) ''Group membership: uinput'' ''Group membership: uinput is missing'',
      ok_or_bad digest8 (df_uinput_module a) ''Kernel module: uinput is loaded''
        ''Kernel module: uinput is not loaded'',
      ok_or_bad digest8 (df_uinput_ready a)
        (''Device access: '' @ df_uinput_device a @ '' is readable and writable'')
        (''Device access: '' @ df_uinput_device a @ '' is unavailable or inaccessible'')]"

definition input_check :: "(string \<Rightarrow> string) \<Rightarrow> string \<Rightarrow> string \<Rightarrow> device_availability \<times> string \<Rightarrow> diagnostic" where
  "input_check digest8 name device availability =
     (if device = '''' then doctor_bad digest8 (''Configuration '' @ name @ '': no device-file input'')
      else case availability of (state, reason) \<Rightarrow>
        if state = DeviceDisconnected then doctor_wait digest8 (''Input '' @ name @ '': '' @ reason)
        else if state \<noteq> DeviceConnected then doctor_bad digest8 (''Input '' @ name @ '': '' @ reason)
        else doctor_ok digest8 (''Input '' @ name @ '': '' @ device))"

definition config_checks :: "(string \<Rightarrow> string) \<Rightarrow> doctor_config \<Rightarrow> diagnostic list" where
  "config_checks digest8 c =
     (let name = path_base (dc_path c);
          about = ''Configuration '' @ name @ '': ''
      in (if dc_unsafe c = Inr True then [doctor_bad digest8 (about @ ''writable by other users'')] else [])
         @ (case dc_device c of
              Inl _ \<Rightarrow> [doctor_bad digest8 (about @ ''cannot read configuration'')]
            | Inr device \<Rightarrow>
                input_check digest8 name device (dc_availability c)
                # (if dc_kmonad c
                   then [ok_or_bad digest8 (dc_parses c) (about @ ''parses successfully'')
                           (about @ ''KMonad validation failed'')]
                   else [])))"

text \<open>The files of the directory that are configurations, in the order of their paths.\<close>

definition doctor_configs :: "doctor_config list \<Rightarrow> doctor_config list" where
  "doctor_configs entries =
     sort_key dc_path (filter (\<lambda>c. hasSuffix (dc_path c) ''.kbd'') entries)"

definition directory_checks :: "(string \<Rightarrow> string) \<Rightarrow> findings \<Rightarrow> diagnostic list" where
  "directory_checks digest8 a =
     (case df_directory a of
        None \<Rightarrow> [doctor_bad digest8 ''Configuration directory does not exist'']
      | Some unsafe \<Rightarrow>
          let configs = doctor_configs (df_configs a)
          in [ok_or_bad digest8 (unsafe \<noteq> Inr True) ''Configuration directory exists''
                ''Configuration directory is writable by other users'']
             @ (if configs = [] then [doctor_bad digest8 ''Configuration files: no .kbd files found''] else [])
             @ concat (map (config_checks digest8) configs))"

definition service_checks :: "(string \<Rightarrow> string) \<Rightarrow> bool \<times> bool \<times> bool \<Rightarrow> diagnostic list" where
  "service_checks digest8 answer =
     (case answer of (available, enabled, active) \<Rightarrow>
        if \<not> available then [doctor_bad digest8 ''Service check: systemctl is missing'']
        else [ok_or_bad digest8 enabled ''Service: enabled'' ''Service: not enabled'',
              ok_or_bad digest8 active ''Service: active'' ''Service: inactive''])"

definition doctor_checks :: "(string \<Rightarrow> string) \<Rightarrow> settings \<Rightarrow> findings \<Rightarrow> diagnostic list" where
  "doctor_checks digest8 s a =
     (if \<not> df_supported a then [unsupported_check a]
      else kmonad_checks digest8 a @ setting_checks digest8 s @ system_checks digest8 a
        @ directory_checks digest8 a @ service_checks digest8 (df_service a))"

definition doctor ::
  "(string \<Rightarrow> string) \<Rightarrow> bool \<Rightarrow> settings \<Rightarrow> bool \<Rightarrow> findings \<Rightarrow> doctor_report option \<times> nat" where
  "doctor digest8 printed s jsonOutput a =
     doctor_finish printed (se_configDir s)
       (fold doctor_add (doctor_checks digest8 s a) (newDoctorOutput jsonOutput))"

section \<open>What a clean bill of health means\<close>

lemma fold_doctor_add:
  "do_failures (fold doctor_add ds d) =
     do_failures d + length (filter (\<lambda>x. diag_Severity x = DiagnosticError) ds)"
  "do_waiting (fold doctor_add ds d) =
     do_waiting d + length (filter (\<lambda>x. diag_Severity x = DiagnosticTemporary) ds)"
  "do_json (fold doctor_add ds d) = do_json d"
  "do_checks (fold doctor_add ds d) = do_checks d @ ds"
  by (induction ds arbitrary: d) (simp_all add: doctor_add_def)

definition no_error :: "diagnostic \<Rightarrow> bool" where
  "no_error d \<longleftrightarrow> diag_Severity d \<noteq> DiagnosticError"

lemma no_error_simps [simp]:
  "no_error (doctor_ok g m)" "\<not> no_error (doctor_bad g m)" "no_error (doctor_wait g m)"
  "\<not> no_error (unsupported_check a)" "no_error (ok_or_bad g b m n) \<longleftrightarrow> b"
  "no_error (setting_check g l u r v) \<longleftrightarrow> v \<noteq> 0"
  by (simp_all add: no_error_def doctor_ok_def doctor_bad_def doctor_wait_def doctor_diagnostic_def
      unsupported_check_def ok_or_bad_def setting_check_def)

lemma no_error_kmonad:
  "no_error ((kmonadDiagnostic info)\<lparr>diag_ID := i\<rparr>) \<longleftrightarrow>
     ki_Compatibility info = KMonadCompatibilityCompatible
     \<or> ki_Compatibility info = KMonadCompatibilityUnknown"
  by (cases "ki_Compatibility info")
    (simp_all add: no_error_def kmonadDiagnostic_def diagnostic_of_def)

lemma no_error_config:
  "list_all no_error (config_checks g c) \<longleftrightarrow>
     dc_unsafe c \<noteq> Inr True
     \<and> (case dc_device c of Inl _ \<Rightarrow> False
        | Inr device \<Rightarrow> device \<noteq> ''''
            \<and> (fst (dc_availability c) = DeviceConnected \<or> fst (dc_availability c) = DeviceDisconnected))
     \<and> (\<not> dc_kmonad c \<or> dc_parses c)"
  by (cases "dc_availability c") (auto simp: config_checks_def input_check_def Let_def split: sum.splits)

definition ready :: "settings \<Rightarrow> findings \<Rightarrow> bool" where
  "ready s a \<longleftrightarrow> df_supported a
     \<and> df_kmonad a \<and> (ki_Compatibility (df_kmonad_info a) = KMonadCompatibilityCompatible
         \<or> ki_Compatibility (df_kmonad_info a) = KMonadCompatibilityUnknown)
     \<and> list_all (\<lambda>v. v \<noteq> 0) [se_pollInterval s, se_stopTimeout s, se_dryRunTimeout s, se_maxConfigs s,
          se_maxConfigBytes s, se_watchdogTimeout s]
     \<and> df_input_group a \<and> df_uinput_group a \<and> df_uinput_module a \<and> df_uinput_ready a
     \<and> df_directory a \<noteq> None \<and> df_directory a \<noteq> Some (Inr True)
     \<and> doctor_configs (df_configs a) \<noteq> []
     \<and> list_all (\<lambda>c. dc_unsafe c \<noteq> Inr True
          \<and> (case dc_device c of Inl _ \<Rightarrow> False
             | Inr device \<Rightarrow> device \<noteq> '''' \<and> (fst (dc_availability c) = DeviceConnected
                 \<or> fst (dc_availability c) = DeviceDisconnected))
          \<and> (\<not> dc_kmonad c \<or> dc_parses c)) (doctor_configs (df_configs a))
     \<and> df_service a = (True, True, True)"

lemma no_error_checks: "list_all no_error (doctor_checks g s a) \<longleftrightarrow> ready s a"
proof -
  have "list_all no_error (concat (map (config_checks g) cs)) \<longleftrightarrow>
      list_all (\<lambda>c. list_all no_error (config_checks g c)) cs" for cs
    by (induction cs) simp_all
  then show ?thesis
    by (cases "df_service a")
      (auto simp: doctor_checks_def ready_def kmonad_checks_def setting_checks_def system_checks_def
        directory_checks_def service_checks_def no_error_kmonad no_error_config Let_def
        split: option.splits)
qed

lemma doctor_status:
  "snd (doctor digest8 True s jsonOutput a) =
     min 255 (length (filter (\<lambda>d. diag_Severity d = DiagnosticError) (doctor_checks digest8 s a)))"
  by (simp add: doctor_def doctor_finish_def Let_def fold_doctor_add newDoctorOutput_def)

lemma no_failures:
  "filter (\<lambda>d. diag_Severity d = DiagnosticError) (doctor_checks g s a) = [] \<longleftrightarrow> ready s a"
  unfolding no_error_checks [of g, symmetric]
  by (auto simp: filter_empty_conv list_all_iff no_error_def)

lemma doctor_exit_zero: "snd (doctor digest8 True s jsonOutput a) = 0 \<longleftrightarrow> ready s a"
  unfolding doctor_status no_failures [of digest8, symmetric] by (auto simp: min_def)

text \<open>The doctor exits with 0 exactly when nothing required is missing: the platform is supported,
  KMonad is found and not too old, all six numeric settings are valid, both groups, the kernel module
  and the device are there, the directory and every configuration are safe, readable, name a device
  that is connected or absent, and pass the dry run, and the service is enabled and active. Otherwise
  the status is the number of failed checks, at most 255, and the JSON report says the same.\<close>

theorem doctor_exit_status:
  "(snd (doctor digest8 True s jsonOutput a) = 0 \<longleftrightarrow> ready s a)
   \<and> snd (doctor digest8 True s jsonOutput a) =
       min 255 (length (filter (\<lambda>d. diag_Severity d = DiagnosticError) (doctor_checks digest8 s a)))
   \<and> (case fst (doctor digest8 True s jsonOutput a) of
        None \<Rightarrow> \<not> jsonOutput
      | Some report \<Rightarrow> jsonOutput \<and> dr_Healthy report = ready s a
          \<and> dr_Checks report = doctor_checks digest8 s a)"
  using doctor_exit_zero [of digest8 s jsonOutput a] doctor_status [of digest8 s jsonOutput a]
  by (auto simp: doctor_def doctor_finish_def Let_def fold_doctor_add newDoctorOutput_def no_failures)

text \<open>
  The checks of the settings leave out the address of the metrics server: with the one below the
  doctor is content and the service refuses to start.
\<close>

definition exposed_metrics :: "string \<Rightarrow> string" where
  "exposed_metrics name = (if name = ''KMONAD_METRICS_ADDR'' then ''0.0.0.0:9100'' else '''')"

definition healthy_system :: findings where
  "healthy_system = \<lparr>df_supported = True, df_platform = ''linux'', df_backend = ''linux-evdev'',
     df_kmonad = True,
     df_kmonad_info = \<lparr>ki_Available = True, ki_Version = ''0.4.2'',
       ki_Compatibility = KMonadCompatibilityCompatible, ki_ReasonCode = ReasonKMonadCompatible,
       ki_Reason = ''compatible''\<rparr>,
     df_input_group = True, df_uinput_group = True, df_uinput_module = True,
     df_uinput_device = ''/dev/uinput'', df_uinput_ready = True, df_directory = Some (Inr False),
     df_configs = [\<lparr>dc_path = ''/c/a.kbd'', dc_unsafe = Inr False, dc_device = Inr ''/dev/input/event3'',
       dc_availability = (DeviceConnected, ''connected''), dc_kmonad = True, dc_parses = True\<rparr>],
     df_service = (True, True, True)\<rparr>"

lemma exposed_settings:
  "se_pollInterval (loadSettings exposed_metrics None (\<lambda>_. None)) = 2 * second"
  "se_stopTimeout (loadSettings exposed_metrics None (\<lambda>_. None)) = 5 * second"
  "se_dryRunTimeout (loadSettings exposed_metrics None (\<lambda>_. None)) = 30 * second"
  "se_watchdogTimeout (loadSettings exposed_metrics None (\<lambda>_. None)) = 60 * second"
  "se_maxConfigs (loadSettings exposed_metrics None (\<lambda>_. None)) = 128"
  "se_maxConfigBytes (loadSettings exposed_metrics None (\<lambda>_. None)) = 1048576"
  "se_metricsAddr (loadSettings exposed_metrics None (\<lambda>_. None)) = ''0.0.0.0:9100''"
  "\<not> se_metricsAllowRemote (loadSettings exposed_metrics None (\<lambda>_. None))"
  by (simp_all add: loadSettings_def valueOr_def exposed_metrics_def seconds_def positiveInteger_def
      positiveInt64_def atoi_def digit_value_def Let_def)

lemma doctor_overlooks_metrics_address:
  "snd (doctor g True (loadSettings exposed_metrics None (\<lambda>_. None)) False healthy_system) = 0"
  "validateSettings (\<lambda>_. Some (replicate 10 0 @ [255, 255, 0, 0, 0, 0]))
     (loadSettings exposed_metrics None (\<lambda>_. None)) \<noteq> None"
proof -
  have "ready (loadSettings exposed_metrics None (\<lambda>_. None)) healthy_system"
    by (simp add: ready_def exposed_settings healthy_system_def doctor_configs_def hasSuffix_def)
  then show "snd (doctor g True (loadSettings exposed_metrics None (\<lambda>_. None)) False healthy_system) = 0"
    by (simp add: doctor_exit_zero)
  have "\<not> metricsAddressIsLoopback (\<lambda>_. Some (replicate 10 0 @ [255, 255, 0, 0, 0, 0])) ''0.0.0.0:9100''"
    by code_simp
  then show "validateSettings (\<lambda>_. Some (replicate 10 0 @ [255, 255, 0, 0, 0, 0]))
     (loadSettings exposed_metrics None (\<lambda>_. None)) \<noteq> None"
    by (simp add: validateSettings_def exposed_settings)
qed

end
