(* ===== verification/KDM_Transport.thy ===== *)
theory KDM_Transport
  imports KDM_Sessions
begin

text \<open>
  The API socket (\<^verbatim>\<open>manager/api_transport.go\<close>) and the mailbox between its clients and the
  reconciliation owner (\<^verbatim>\<open>manager/commands.go\<close>): the frames of a connection, the checks of a
  request, the clients of the server, the requests in flight on one connection, and the queue of
  commands. The goroutines of a connection interleave in any order: \<open>connection_step\<close> is the step
  relation of its read loop and of the requests it started.

  Decoding JSON is the standard library's: \<open>decode\<close> gives the fields of a frame that is an object of
  the right types, and nothing otherwise.
\<close>

section \<open>Frames\<close>

definition apiMaxInFlight :: nat where "apiMaxInFlight = 32"
definition apiMaxClients :: nat where "apiMaxClients = 64"
definition apiDefaultDeadline :: duration where "apiDefaultDeadline = 30 * second"
definition frame_bytes :: nat where "frame_bytes = 1048576"

definition errAPIFrameTooLarge :: go_error where
  "errAPIFrameTooLarge = errorf ''API frame exceeds the maximum size''"

text \<open>
  \<^verbatim>\<open>ReadSlice\<close> of a buffered reader of \<open>capacity\<close> bytes on a connection whose peer sends
  \<open>input\<close> and closes: up to the first newline, unless the buffer is full before it.
\<close>

datatype slice = Slice string | BufferFull | SliceEnd

definition read_slice :: "nat \<Rightarrow> string \<Rightarrow> slice \<times> string" where
  "read_slice capacity input =
     (let line = takeWhile (\<lambda>c. c \<noteq> newline) input
      in if length line < capacity \<and> length line < length input
         then (Slice (line @ [newline]), drop (length line + 1) input)
         else if capacity \<le> length input then (BufferFull, drop capacity input)
         else (SliceEnd, ''''))"

definition carriage :: char where "carriage = CHR 0x0D"

definition strip_carriage :: "string \<Rightarrow> string" where
  "strip_carriage s = (if s \<noteq> '''' \<and> last s = carriage then butlast s else s)"

definition readAPIFrame :: "string \<Rightarrow> (go_error + string) \<times> string" where
  "readAPIFrame input =
     (case read_slice (frame_bytes + 1) input of
        (BufferFull, rest) \<Rightarrow> (Inl errAPIFrameTooLarge, rest)
      | (SliceEnd, rest) \<Rightarrow> (Inl (errorf ''EOF''), rest)
      | (Slice line, rest) \<Rightarrow>
          if length line > frame_bytes + 1 then (Inl errAPIFrameTooLarge, rest)
          else
            let frame = strip_carriage (butlast line)
            in if frame = '''' then (Inl (errorf ''empty API frame''), rest)
               else if length frame > frame_bytes then (Inl errAPIFrameTooLarge, rest)
               else (Inr frame, rest))"

definition written_value :: "string \<Rightarrow> string" where
  "written_value data = data @ [newline]"

text \<open>The frames of a connection, until it ends or a frame is refused.\<close>

lemma readAPIFrame_shorter: "readAPIFrame input = (Inr frame, rest) \<Longrightarrow> length rest < length input"
  by (auto simp: readAPIFrame_def read_slice_def Let_def split: slice.splits prod.splits if_splits)

function frames :: "string \<Rightarrow> (go_error + string) list" where
  "frames input = (case readAPIFrame input of
       (Inl e, rest) \<Rightarrow> [Inl e]
     | (Inr frame, rest) \<Rightarrow> Inr frame # frames rest)"
  by pat_completeness auto

termination
  by (relation "measure length") (auto dest!: sym [of _ "readAPIFrame i" for i] readAPIFrame_shorter)

declare frames.simps [simp del]

section \<open>Requests\<close>

record api_request =
  rq_Type :: string
  rq_ID :: string
  rq_Method :: string
  rq_Params :: string
  rq_DeadlineMS :: "int option"
  rq_IdempotencyKey :: string

definition zero_request :: api_request where
  "zero_request = \<lparr>rq_Type = '''', rq_ID = '''', rq_Method = '''', rq_Params = '''',
     rq_DeadlineMS = None, rq_IdempotencyKey = ''''\<rparr>"

abbreviation invalid_request :: "string \<Rightarrow> api_error" where
  "invalid_request \<equiv> api_err ''invalid_request''"

definition bytesTrimSpace :: "string \<Rightarrow> string" where
  "bytesTrimSpace data =
     rev (dropWhile (\<lambda>c. c \<in> set blanks) (rev (dropWhile (\<lambda>c. c \<in> set blanks) data)))"

definition isJSONObject :: "string \<Rightarrow> bool" where
  "isJSONObject data =
     (let d = bytesTrimSpace data in length d \<ge> 2 \<and> hd d = CHR ''{'' \<and> last d = CHR ''}'')"

definition parseAPIRequest ::
  "(string \<Rightarrow> api_request option) \<Rightarrow> string \<Rightarrow> api_request \<times> api_error option" where
  "parseAPIRequest decode frame =
     (case decode frame of
        None \<Rightarrow> (zero_request, Some (invalid_request ''request must be a JSON object''))
      | Some q \<Rightarrow> (q,
          if rq_Type q \<noteq> ''request'' \<or> rq_ID q = '''' \<or> rq_Method q = '''' \<or> rq_Params q = ''''
             \<or> \<not> isJSONObject (rq_Params q)
          then Some (invalid_request ''request requires type, id, method, and object params'')
          else if length (rq_ID q) > 128 \<or> length (rq_Method q) > 128
          then Some (invalid_request ''request id and method must be at most 128 bytes'')
          else if (case rq_DeadlineMS q of None \<Rightarrow> False
                   | Some d \<Rightarrow> d \<le> 0 \<or> d > apiDefaultDeadline div millisecond)
          then Some (invalid_request ''deadline_ms must be positive and no more than 30000'')
          else None))"

definition apiRequestContext :: "api_request \<Rightarrow> duration" where
  "apiRequestContext q = (case rq_DeadlineMS q of
     None \<Rightarrow> apiDefaultDeadline | Some d \<Rightarrow> wrap64 (d * millisecond))"

definition knownAPIMethod :: "string \<Rightarrow> bool" where
  "knownAPIMethod method \<longleftrightarrow> method \<in> set
     [''manager.get'', ''snapshot.get'', ''device.list'', ''configuration.list'',
      ''device.identify.start'', ''device.identify.cancel'', ''device.inputscan.get'',
      ''device.inputscan.probe'', ''device.inputscan.cancel'', ''validation.preview'',
      ''configuration.apply'', ''configuration.create'', ''configuration.update'',
      ''configuration.set_enabled'', ''configuration.delete'', ''configuration.adopt'',
      ''configuration.content.get'', ''configuration.export'', ''operation.get'', ''events.subscribe'']"

definition parseConfigurationApplyParams ::
  "string \<Rightarrow> (string option \<times> nat option) option \<Rightarrow> api_error option" where
  "parseConfigurationApplyParams method decoded =
     (case decoded of
        None \<Rightarrow> Some (invalid_request (''invalid '' @ method @ '' parameters''))
      | Some (configurationID, expectedRevision) \<Rightarrow>
          let named = (case configurationID of None \<Rightarrow> False | Some i \<Rightarrow> i \<noteq> '''')
          in if method = ''configuration.create'' \<and> (named \<or> expectedRevision \<noteq> None)
             then Some (invalid_request ''configuration.create accepts name and model only'')
             else if method = ''configuration.update'' \<and> (\<not> named \<or> expectedRevision = None)
             then Some (invalid_request
                    ''configuration.update requires configuration_id and expected_revision'')
             else None)"

text \<open>The versions the client offers, if its parameters can be read.\<close>

definition handleSessionHello :: "int list option \<Rightarrow> api_error option" where
  "handleSessionHello offered =
     (case offered of
        None \<Rightarrow> Some (invalid_request ''invalid session.hello parameters'')
      | Some versions \<Rightarrow>
          if 1 \<in> set versions then None
          else Some (api_err ''unsupported_version'' ''no supported API version was offered''))"

section \<open>The clients of the server\<close>

record api_server =
  as_closed :: bool
  as_nextID :: nat
  as_clients :: "(nat, nat) gomap"

definition new_server :: api_server where
  "new_server = \<lparr>as_closed = False, as_nextID = 0, as_clients = []\<rparr>"

definition addClient :: "nat \<Rightarrow> api_server \<Rightarrow> nat option \<times> api_server" where
  "addClient connection s =
     (if as_closed s \<or> length (as_clients s) \<ge> apiMaxClients then (None, s)
      else
        let i = (as_nextID s + 1) mod 2 ^ 64
        in (Some i, s\<lparr>as_nextID := i, as_clients := map_put i connection (as_clients s)\<rparr>))"

definition removeClient :: "nat \<Rightarrow> api_server \<Rightarrow> api_server" where
  "removeClient i s = s\<lparr>as_clients := map_del i (as_clients s)\<rparr>"

text \<open>The connections to close; \<^verbatim>\<open>sync.Once\<close> makes every later call do nothing.\<close>

definition server_Close :: "api_server \<Rightarrow> nat list \<times> api_server" where
  "server_Close s =
     (if as_closed s then ([], s)
      else (map snd (as_clients s), s\<lparr>as_closed := True, as_clients := []\<rparr>))"

datatype server_event = ClientConnects nat | ClientLeaves nat | ServerCloses

fun server_step :: "server_event \<Rightarrow> api_server \<Rightarrow> api_server" where
  "server_step (ClientConnects c) s = snd (addClient c s)"
| "server_step (ClientLeaves i) s = removeClient i s"
| "server_step ServerCloses s = snd (server_Close s)"

section \<open>One connection\<close>

text \<open>
  The state the goroutines of a connection share: whether the session is open and greeted, the
  identifiers of the requests in flight, and the slots of the semaphore that are taken. A request
  leaves the table before it gives its slot back.
\<close>

record connection =
  cn_open :: bool
  cn_greeted :: bool
  cn_inFlight :: "string list"
  cn_slots :: nat

definition new_connection :: connection where
  "new_connection = \<lparr>cn_open = True, cn_greeted = False, cn_inFlight = [], cn_slots = 0\<rparr>"

datatype reaction =
    Replied string api_error | Dropped "(string \<times> api_error) option" | Greeted | Started api_request | Silent

text \<open>One round of the read loop.\<close>

definition greet ::
  "(string \<Rightarrow> int list option) \<Rightarrow> api_request \<Rightarrow> api_error option \<Rightarrow> connection \<Rightarrow> reaction \<times> connection" where
  "greet versions q bad c =
     (let drop_it = (\<lambda>e. (Dropped (Some (rq_ID q, e)), c\<lparr>cn_open := False\<rparr>))
      in case bad of
           Some e \<Rightarrow> drop_it e
         | None \<Rightarrow>
             if rq_Method q \<noteq> ''session.hello''
             then drop_it (invalid_request ''session.hello must be the first request'')
             else (case handleSessionHello (versions (rq_Params q)) of
                 Some e \<Rightarrow> drop_it e
               | None \<Rightarrow> (Greeted, c\<lparr>cn_greeted := True\<rparr>)))"

definition start_request :: "api_request \<Rightarrow> connection \<Rightarrow> reaction \<times> connection" where
  "start_request q c =
     (if cn_slots c \<ge> apiMaxInFlight
      then (Replied (rq_ID q) (api_err ''resource_exhausted'' ''too many in-flight requests''), c)
      else if rq_ID q \<in> set (cn_inFlight c)
      then (Replied (rq_ID q) (invalid_request ''request ID is already in flight''), c)
      else (Started q, c\<lparr>cn_inFlight := rq_ID q # cn_inFlight c, cn_slots := cn_slots c + 1\<rparr>))"

definition receive_frame ::
  "(string \<Rightarrow> api_request option) \<Rightarrow> (string \<Rightarrow> int list option) \<Rightarrow> go_error + string \<Rightarrow> connection
   \<Rightarrow> reaction \<times> connection" where
  "receive_frame decode versions read c =
     (case read of
        Inl _ \<Rightarrow> (Dropped None, c\<lparr>cn_open := False\<rparr>)
      | Inr frame \<Rightarrow> (case parseAPIRequest decode frame of
            (q, bad) \<Rightarrow>
              if \<not> cn_greeted c then greet versions q bad c
              else (case bad of
                  Some e \<Rightarrow> (Replied (rq_ID q) e, c)
                | None \<Rightarrow> start_request q c)))"

text \<open>What the goroutine of a started request answers before it reaches the manager.\<close>

definition refused_request :: "bool \<Rightarrow> api_request \<Rightarrow> api_error option" where
  "refused_request owned q =
     (if rq_Method q = ''session.hello''
      then Some (invalid_request ''session.hello may only be sent once'')
      else if \<not> knownAPIMethod (rq_Method q) then Some (invalid_request ''unknown API method'')
      else if \<not> owned then Some (api_err ''internal'' ''manager command owner is unavailable'')
      else None)"

inductive connection_step ::
  "(string \<Rightarrow> api_request option) \<Rightarrow> (string \<Rightarrow> int list option) \<Rightarrow> connection \<Rightarrow> reaction \<Rightarrow> connection \<Rightarrow> bool"
  for decode versions where
  receive: "cn_open c \<Longrightarrow> receive_frame decode versions read c = (r, c')
     \<Longrightarrow> connection_step decode versions c r c'"
| forget: "i \<in> set (cn_inFlight c)
     \<Longrightarrow> connection_step decode versions c Silent (c\<lparr>cn_inFlight := remove1 i (cn_inFlight c)\<rparr>)"
| release: "length (cn_inFlight c) < cn_slots c
     \<Longrightarrow> connection_step decode versions c Silent (c\<lparr>cn_slots := cn_slots c - 1\<rparr>)"

inductive connection_run ::
  "(string \<Rightarrow> api_request option) \<Rightarrow> (string \<Rightarrow> int list option) \<Rightarrow> reaction list \<Rightarrow> connection \<Rightarrow> bool"
  for decode versions where
  fresh: "connection_run decode versions [] new_connection"
| more: "connection_run decode versions rs c \<Longrightarrow> connection_step decode versions c r c'
     \<Longrightarrow> connection_run decode versions (rs @ [r]) c'"

inductive_cases connection_stepE: "connection_step decode versions c r c'"

section \<open>The mailbox\<close>

definition managerCommandQueueSize :: nat where "managerCommandQueueSize = 64"

definition commandQueueFullResult :: api_error where
  "commandQueueFullResult = api_err ''resource_exhausted'' ''manager command queue is full''"

text \<open>Submitting: the error for the caller, or the command is queued. \<open>expired\<close> is its context.\<close>

definition submitCommand :: "bool \<Rightarrow> 'c \<Rightarrow> 'c list \<Rightarrow> api_error option \<times> 'c list" where
  "submitCommand expired command queue =
     (if expired then (Some commandDeadlineResult, queue)
      else if length queue \<ge> managerCommandQueueSize then (Some commandQueueFullResult, queue)
      else (None, queue @ [command]))"

text \<open>The owner takes the oldest command and runs it unless its context has expired by then.\<close>

definition executeCommand :: "bool \<Rightarrow> 'a command_result op \<Rightarrow> 'a command_result op" where
  "executeCommand expired execute = (if expired then return (Inl commandDeadlineResult) else execute)"

section \<open>What is written is read back\<close>

definition frame_ok :: "string \<Rightarrow> bool" where
  "frame_ok s \<longleftrightarrow> s \<noteq> '''' \<and> length s \<le> frame_bytes \<and> newline \<notin> set s \<and> last s \<noteq> carriage"

lemma read_written:
  assumes "frame_ok s"
  shows "readAPIFrame (written_value s @ rest) = (Inr s, rest)"
proof -
  have line: "takeWhile (\<lambda>c. c \<noteq> newline) (s @ newline # rest) = s"
    using assms by (auto simp: frame_ok_def takeWhile_tail)
  show ?thesis
    using assms
    by (simp add: readAPIFrame_def read_slice_def written_value_def line Let_def frame_ok_def
        strip_carriage_def)
qed



section \<open>The bounds of the server\<close>

lemma server_within_bounds:
  "length (as_clients (fold server_step es new_server)) \<le> apiMaxClients
   \<and> (as_closed (fold server_step es new_server) \<longrightarrow> as_clients (fold server_step es new_server) = [])"
proof -
  let ?ok = "\<lambda>s. length (as_clients s) \<le> apiMaxClients \<and> (as_closed s \<longrightarrow> as_clients s = [])"
  have "?ok s \<Longrightarrow> ?ok (server_step e s)" for e s
    using length_del_le [of _ "as_clients s"]
    by (cases e) (auto simp: addClient_def removeClient_def server_Close_def length_put Let_def
        intro: order_trans)
  then have "?ok s \<Longrightarrow> ?ok (fold server_step es s)" for s
    by (induction es arbitrary: s) simp_all
  from this [of new_server] show ?thesis by (simp add: new_server_def)
qed

definition connection_ok :: "connection \<Rightarrow> bool" where
  "connection_ok c \<longleftrightarrow> distinct (cn_inFlight c) \<and> length (cn_inFlight c) \<le> cn_slots c
     \<and> cn_slots c \<le> apiMaxInFlight"

lemma receive_ok: "connection_ok c \<Longrightarrow> connection_ok (snd (receive_frame decode versions read c))"
  by (auto simp: receive_frame_def greet_def start_request_def connection_ok_def Let_def
      split: sum.splits prod.splits option.splits)

lemma receive_greeted:
  "cn_greeted (snd (receive_frame decode versions read c))
     = (cn_greeted c \<or> fst (receive_frame decode versions read c) = Greeted)"
  "fst (receive_frame decode versions read c) = Started q \<Longrightarrow> cn_greeted c \<and> rq_ID q \<notin> set (cn_inFlight c)"
  by (auto simp: receive_frame_def greet_def start_request_def Let_def
      split: sum.splits prod.splits option.splits if_splits)

text \<open>The requests that were started, and the ones that were started after a greeting only.\<close>

fun started_after_greeting :: "bool \<Rightarrow> reaction list \<Rightarrow> bool" where
  "started_after_greeting greeted [] = True"
| "started_after_greeting greeted (Started q # rs) = (greeted \<and> started_after_greeting greeted rs)"
| "started_after_greeting greeted (Greeted # rs) = started_after_greeting True rs"
| "started_after_greeting greeted (_ # rs) = started_after_greeting greeted rs"

lemma started_append:
  "started_after_greeting g (rs @ [r]) = (started_after_greeting g rs
     \<and> (case r of Started _ \<Rightarrow> g \<or> Greeted \<in> set rs | _ \<Rightarrow> True))"
  by (induction g rs rule: started_after_greeting.induct) (auto split: reaction.splits)

text \<open>C21: However the requests of a connection interleave, at most 32 are in flight, no two of them
  have the same identifier, every one of them holds a slot, and no request was started before the
  session was greeted.\<close>

theorem connection_bounded:
  assumes "connection_run decode versions rs c"
  shows "connection_ok c \<and> started_after_greeting False rs"
proof -
  have "connection_ok c \<and> started_after_greeting False rs \<and> (cn_greeted c \<longleftrightarrow> Greeted \<in> set rs)"
    using assms
  proof (induction rule: connection_run.induct)
    case fresh
    then show ?case by (simp add: new_connection_def connection_ok_def)
  next
    case (more rs c r c')
    from more.hyps(2) show ?case
    proof cases
      case (receive read)
      have got: "r = fst (receive_frame decode versions read c)"
        "c' = snd (receive_frame decode versions read c)"
        using receive by simp_all
      have "cn_greeted c \<or> (\<forall>q. r \<noteq> Started q)" 
        using receive_greeted(2) [of decode versions read c] got(1) by auto
      then show ?thesis
        using more.IH receive_ok [of c decode versions read] receive_greeted(1) [of decode versions read c]
        unfolding got [symmetric] by (auto simp: started_append split: reaction.splits)
    next
      case (forget i)
      then show ?thesis using more.IH
        by (auto simp: started_append connection_ok_def length_remove1)
    next
      case release
      then show ?thesis using more.IH by (auto simp: started_append connection_ok_def)
    qed
  qed
  then show ?thesis by blast
qed

definition sample_request :: "string \<Rightarrow> api_request" where
  "sample_request method = \<lparr>rq_Type = ''request'', rq_ID = ''7'', rq_Method = method, rq_Params = ''{}'',
     rq_DeadlineMS = None, rq_IdempotencyKey = ''''\<rparr>"

definition sample_decode :: "string \<Rightarrow> api_request option" where
  "sample_decode frame = Some (sample_request frame)"

theorem connection_bounded_witness:
  "connection_ok (new_connection\<lparr>cn_greeted := True, cn_inFlight := [''7''], cn_slots := 1\<rparr>)
   \<and> started_after_greeting False ([Greeted] @ [Started (sample_request ''snapshot.get'')])"
proof (rule connection_bounded)
  have "connection_step sample_decode (\<lambda>_. Some [1]) new_connection Greeted (new_connection\<lparr>cn_greeted := True\<rparr>)"
    by (rule receive [where read = "Inr ''session.hello''"])
      (simp_all add: new_connection_def receive_frame_def parseAPIRequest_def sample_decode_def
        sample_request_def greet_def handleSessionHello_def, simp add: isJSONObject_def bytesTrimSpace_def blanks_def)
  from more [OF fresh this]
  have greeted: "connection_run sample_decode (\<lambda>_. Some [1]) [Greeted] (new_connection\<lparr>cn_greeted := True\<rparr>)"
    by simp
  have "connection_step sample_decode (\<lambda>_. Some [1]) (new_connection\<lparr>cn_greeted := True\<rparr>)
      (Started (sample_request ''snapshot.get''))
      (new_connection\<lparr>cn_greeted := True, cn_inFlight := [''7''], cn_slots := 1\<rparr>)"
    by (rule receive [where read = "Inr ''snapshot.get''"])
      (simp_all add: new_connection_def receive_frame_def parseAPIRequest_def sample_decode_def
        sample_request_def start_request_def apiMaxInFlight_def, simp add: isJSONObject_def bytesTrimSpace_def blanks_def)
  from more [OF greeted this]
  show "connection_run sample_decode (\<lambda>_. Some [1])
      ([Greeted] @ [Started (sample_request ''snapshot.get'')])
      (new_connection\<lparr>cn_greeted := True, cn_inFlight := [''7''], cn_slots := 1\<rparr>)" .
qed

end
