(* ===== verification/KDM_Client.thy ===== *)
theory KDM_Client
  imports KDM_Transport KDM_Apply KDM_Content KDM_Proc
begin

text \<open>
  The command line (\<^verbatim>\<open>manager/cli.go\<close>, \<^verbatim>\<open>manager/entrypoint.go\<close>) and the client of the API
  (\<^verbatim>\<open>manager/api_client.go\<close>): from the arguments of an invocation to the request that is sent, and from
  the answers of the manager to the exit status. \<open>api_params\<close> is what the server reads as well
  (\<open>KDM_Dispatch\<close>). \<open>read_file\<close> reads a file up to the configured limit, \<open>decode_model\<close> its JSON.
\<close>

section \<open>Requests as values\<close>

datatype (plugins only: code size) api_params =
    NoParams
  | EventsParams "nat option" string
  | IdentifyStart string int
  | OperationParams string
  | ScanParams string
  | ProbeStart string string int
  | PreviewParams "managed_configuration_model option" "string option"
  | ApplyParams string string managed_configuration_model "nat option"
  | SetEnabledParams string nat bool
  | DeleteParams string nat
  | AdoptParams string string
  | ContentParams string nat
  | ExportParams string string

record cli_error =
  ce_Code :: string
  ce_Message :: string
  ce_Status :: nat

definition usage_error :: "string \<Rightarrow> cli_error" where
  "usage_error message = \<lparr>ce_Code = ''invalid_arguments'', ce_Message = message, ce_Status = 2\<rparr>"

section \<open>The invocation\<close>

record cli_invocation =
  ci_args :: "string list"
  ci_jsonOutput :: bool
  ci_idempotencyKey :: string

fun parse_arguments :: "string list \<Rightarrow> cli_invocation \<Rightarrow> string + cli_invocation" where
  "parse_arguments [] iv = Inr iv"
| "parse_arguments (a # as) iv =
     (if a = ''--json'' then
        (if ci_jsonOutput iv then Inl ''--json may only be specified once''
         else parse_arguments as (iv\<lparr>ci_jsonOutput := True\<rparr>))
      else if a = ''--status=json'' then Inl ''--status=json was removed; use --status --json''
      else if a = ''--idempotency-key'' then
        (case as of
           [] \<Rightarrow> Inl ''--idempotency-key requires one non-empty value of at most 128 bytes''
         | key # rest \<Rightarrow>
             if ci_idempotencyKey iv \<noteq> '''' \<or> key = '''' \<or> length key > maxIdempotencyKeyBytes
             then Inl ''--idempotency-key requires one non-empty value of at most 128 bytes''
             else parse_arguments rest (iv\<lparr>ci_idempotencyKey := key\<rparr>))
      else parse_arguments as (iv\<lparr>ci_args := ci_args iv @ [a]\<rparr>))"

definition parseCLIInvocation :: "string list \<Rightarrow> string + cli_invocation" where
  "parseCLIInvocation arguments =
     parse_arguments arguments \<lparr>ci_args = [], ci_jsonOutput = False, ci_idempotencyKey = ''''\<rparr>"

definition containsJSONOption :: "string list \<Rightarrow> bool" where
  "containsJSONOption arguments \<longleftrightarrow> ''--json'' \<in> set arguments"

section \<open>Commands that become a request\<close>

definition whole_seconds :: "string \<Rightarrow> int option" where
  "whole_seconds text = (case atoi text of
     None \<Rightarrow> None | Some n \<Rightarrow> if n < 1 \<or> n > 30 then None else Some (n * 1000))"

definition positive_revision :: "string \<Rightarrow> nat option" where
  "positive_revision text = (case parse_uint text of
     None \<Rightarrow> None | Some n \<Rightarrow> if n = 0 then None else Some n)"

type_synonym api_call = "string \<times> api_params"

definition managerCLI :: "string list \<Rightarrow> cli_error + api_call" where
  "managerCLI arguments =
     (if arguments \<noteq> [''get''] then Inl (usage_error ''manager requires get'')
      else Inr (''manager.get'', NoParams))"

definition snapshotCLI :: "string list \<Rightarrow> cli_error + api_call" where
  "snapshotCLI arguments =
     (if arguments \<noteq> [] then Inl (usage_error ''snapshot does not accept arguments'')
      else Inr (''snapshot.get'', NoParams))"

fun events_options :: "string list \<Rightarrow> nat option \<Rightarrow> string \<Rightarrow> cli_error + api_call" where
  "events_options (option # value # rest) after server =
     (if option = ''--after'' then
        (if after \<noteq> None then Inl (usage_error ''--after may only be specified once'')
         else case parse_uint value of
             None \<Rightarrow> Inl (usage_error ''EVENT_ID must be a non-negative integer'')
           | Some n \<Rightarrow> events_options rest (Some n) server)
      else if option = ''--server'' then
        (if server \<noteq> '''' \<or> value = '''' then Inl (usage_error ''--server requires one server ID'')
         else events_options rest after value)
      else Inl (usage_error ''events accepts only --after EVENT_ID and --server SERVER_ID''))"
| "events_options _ after server = Inr (''events.subscribe'', EventsParams after server)"

definition eventsCLI :: "string list \<Rightarrow> cli_error + api_call" where
  "eventsCLI arguments =
     (if arguments = [] \<or> hd arguments \<noteq> ''subscribe'' \<or> even (length arguments)
      then Inl (usage_error
             ''events requires subscribe with optional --after EVENT_ID and --server SERVER_ID'')
      else events_options (tl arguments) None '''')"

definition identifyCLI :: "string list \<Rightarrow> cli_error + api_call" where
  "identifyCLI arguments =
     (case arguments of
        [] \<Rightarrow> Inl (usage_error ''identify requires start, status, or cancel'')
      | verb # rest \<Rightarrow>
          if verb = ''start'' then
            (case rest of
               [device] \<Rightarrow> Inr (''device.identify.start'', IdentifyStart device 0)
             | [device, option, text] \<Rightarrow>
                 if option \<noteq> ''--timeout''
                 then Inl (usage_error ''identify start accepts only --timeout SECONDS'')
                 else (case whole_seconds text of
                     None \<Rightarrow> Inl (usage_error ''--timeout must be an integer from 1 through 30'')
                   | Some ms \<Rightarrow> Inr (''device.identify.start'', IdentifyStart device ms))
             | _ \<Rightarrow> Inl (usage_error
                    ''identify start requires DEVICE_ID and an optional --timeout SECONDS''))
          else if verb = ''status'' then
            (case rest of
               [operation] \<Rightarrow> Inr (''operation.get'', OperationParams operation)
             | _ \<Rightarrow> Inl (usage_error ''identify status requires OPERATION_ID''))
          else if verb = ''cancel'' then
            (case rest of
               [operation] \<Rightarrow> Inr (''device.identify.cancel'', OperationParams operation)
             | _ \<Rightarrow> Inl (usage_error ''identify cancel requires OPERATION_ID''))
          else Inl (usage_error ''identify requires start, status, or cancel''))"

definition inputScanCLI :: "string list \<Rightarrow> cli_error + api_call" where
  "inputScanCLI arguments =
     (case arguments of
        [] \<Rightarrow> Inl (usage_error ''inputscan requires get, probe, status, or cancel'')
      | verb # rest \<Rightarrow>
          if verb = ''get'' then
            (case rest of
               [device] \<Rightarrow> Inr (''device.inputscan.get'', ScanParams device)
             | _ \<Rightarrow> Inl (usage_error ''inputscan get requires DEVICE_ID''))
          else if verb = ''probe'' then
            (case rest of
               [device, token] \<Rightarrow> Inr (''device.inputscan.probe'', ProbeStart device token 0)
             | [device, token, option, text] \<Rightarrow>
                 if option \<noteq> ''--timeout''
                 then Inl (usage_error ''inputscan probe accepts only --timeout SECONDS'')
                 else (case whole_seconds text of
                     None \<Rightarrow> Inl (usage_error ''--timeout must be an integer from 1 through 30'')
                   | Some ms \<Rightarrow> Inr (''device.inputscan.probe'', ProbeStart device token ms))
             | _ \<Rightarrow> Inl (usage_error
                    ''inputscan probe requires DEVICE_ID TOKEN and an optional --timeout SECONDS''))
          else if verb = ''status'' then
            (case rest of
               [operation] \<Rightarrow> Inr (''operation.get'', OperationParams operation)
             | _ \<Rightarrow> Inl (usage_error ''inputscan status requires OPERATION_ID''))
          else if verb = ''cancel'' then
            (case rest of
               [operation] \<Rightarrow> Inr (''device.inputscan.cancel'', OperationParams operation)
             | _ \<Rightarrow> Inl (usage_error ''inputscan cancel requires OPERATION_ID''))
          else Inl (usage_error ''inputscan requires get, probe, status, or cancel''))"

definition candidate_unreadable :: "go_error \<Rightarrow> cli_error" where
  "candidate_unreadable e =
     \<lparr>ce_Code = ''candidate_unreadable'', ce_Message = ge_text e, ce_Status = 1\<rparr>"

definition readManagedModelCLI ::
  "(path \<Rightarrow> go_error + string) \<Rightarrow> (string \<Rightarrow> managed_configuration_model option) \<Rightarrow> path
   \<Rightarrow> cli_error + managed_configuration_model" where
  "readManagedModelCLI read_file decode_model p =
     (case read_file p of
        Inl e \<Rightarrow> Inl (candidate_unreadable e)
      | Inr data \<Rightarrow> (case decode_model data of
            None \<Rightarrow> Inl (usage_error ''MODEL_FILE must contain a managed configuration JSON object'')
          | Some model \<Rightarrow> Inr model))"

definition validateCLI ::
  "(path \<Rightarrow> go_error + string) \<Rightarrow> (string \<Rightarrow> managed_configuration_model option) \<Rightarrow> string list
   \<Rightarrow> cli_error + api_call" where
  "validateCLI read_file decode_model arguments =
     (if length arguments \<noteq> 2 \<or> (arguments ! 0 \<noteq> ''model'' \<and> arguments ! 0 \<noteq> ''file'')
      then Inl (usage_error ''validate requires model MODEL_FILE or file KBD_FILE'')
      else case read_file (arguments ! 1) of
          Inl e \<Rightarrow> Inl (candidate_unreadable e)
        | Inr data \<Rightarrow>
            if arguments ! 0 = ''model'' then
              (case decode_model data of
                 None \<Rightarrow> Inl (usage_error ''MODEL_FILE must contain a managed configuration JSON object'')
               | Some model \<Rightarrow> Inr (''validation.preview'', PreviewParams (Some model) None))
            else Inr (''validation.preview'', PreviewParams None (Some data)))"

fun apply_options ::
  "string list \<Rightarrow> string \<Rightarrow> string \<Rightarrow> managed_configuration_model \<Rightarrow> nat option \<Rightarrow> cli_error + api_call" where
  "apply_options [] i name model revision = Inr (''configuration.apply'', ApplyParams i name model revision)"
| "apply_options [_] i name model revision = Inl (usage_error ''apply options require a value'')"
| "apply_options (option # value # rest) i name model revision =
     (if option = ''--name'' then apply_options rest i value model revision
      else if option = ''--id'' then apply_options rest value name model revision
      else if option = ''--revision'' then
        (case positive_revision value of
           None \<Rightarrow> Inl (usage_error ''--revision must be a positive integer'')
         | Some n \<Rightarrow> apply_options rest i name model (Some n))
      else Inl (usage_error ''apply accepts only --name, --id, and --revision''))"

definition applyCLI ::
  "(path \<Rightarrow> go_error + string) \<Rightarrow> (string \<Rightarrow> managed_configuration_model option) \<Rightarrow> string list
   \<Rightarrow> cli_error + api_call" where
  "applyCLI read_file decode_model arguments =
     (case arguments of
        [] \<Rightarrow> Inl (usage_error ''apply requires MODEL_FILE and --name NAME for a new configuration'')
      | file # options \<Rightarrow> (case readManagedModelCLI read_file decode_model file of
            Inl e \<Rightarrow> Inl e
          | Inr model \<Rightarrow> apply_options options '''' '''' model None))"

definition lifecycleCLI :: "string \<Rightarrow> string list \<Rightarrow> cli_error + api_call" where
  "lifecycleCLI verb rest =
     (case rest of
        [i, text] \<Rightarrow> (case positive_revision text of
            None \<Rightarrow> Inl (usage_error ''REVISION must be a positive integer'')
          | Some n \<Rightarrow>
              if verb = ''delete'' then Inr (''configuration.delete'', DeleteParams i n)
              else Inr (''configuration.set_enabled'', SetEnabledParams i n (verb = ''enable'')))
      | _ \<Rightarrow> Inl (usage_error (''config '' @ verb @ '' requires CONFIGURATION_ID REVISION'')))"

definition configurationContentCLI :: "string \<Rightarrow> string list \<Rightarrow> cli_error + api_call" where
  "configurationContentCLI verb rest =
     (case rest of
        [i, text] \<Rightarrow>
          if verb = ''read'' then
            (case positive_revision text of
               None \<Rightarrow> Inl (usage_error ''REVISION must be a positive integer'')
             | Some n \<Rightarrow> Inr (''configuration.content.get'', ContentParams i n))
          else if text \<noteq> managerRenderedKBDFormat
          then Inl (usage_error ''export format must be manager_rendered_kbd'')
          else Inr (''configuration.export'', ExportParams i text)
      | _ \<Rightarrow> Inl (usage_error (''config read requires EXTERNAL_CONFIGURATION_ID REVISION; ''
               @ ''config export requires CONFIGURATION_ID manager_rendered_kbd'')))"

definition config_usage :: cli_error where
  "config_usage = usage_error ''config requires list, create, update, enable, disable, delete, or adopt''"

definition updateCLI ::
  "(path \<Rightarrow> go_error + string) \<Rightarrow> (string \<Rightarrow> managed_configuration_model option) \<Rightarrow> string list
   \<Rightarrow> cli_error + api_call" where
  "updateCLI read_file decode_model rest =
     (if length rest \<noteq> 3 \<and> (length rest \<noteq> 5 \<or> rest ! 3 \<noteq> ''--name'')
      then Inl (usage_error (''config update requires CONFIGURATION_ID REVISION MODEL_FILE ''
             @ ''and an optional --name NAME''))
      else case positive_revision (rest ! 1) of
          None \<Rightarrow> Inl (usage_error ''REVISION must be a positive integer'')
        | Some n \<Rightarrow> (case readManagedModelCLI read_file decode_model (rest ! 2) of
              Inl e \<Rightarrow> Inl e
            | Inr model \<Rightarrow> Inr (''configuration.update'', ApplyParams (rest ! 0)
                  (if length rest = 5 then rest ! 4 else '''') model (Some n))))"

definition configCLI ::
  "(path \<Rightarrow> go_error + string) \<Rightarrow> (string \<Rightarrow> managed_configuration_model option) \<Rightarrow> string list
   \<Rightarrow> cli_error + api_call" where
  "configCLI read_file decode_model arguments =
     (case arguments of
        [] \<Rightarrow> Inl config_usage
      | verb # rest \<Rightarrow>
          if verb = ''list'' then
            (if rest \<noteq> [] then Inl (usage_error ''config list does not accept arguments'')
             else Inr (''configuration.list'', NoParams))
          else if verb = ''read'' \<or> verb = ''export'' then configurationContentCLI verb rest
          else if verb = ''create'' then
            (case rest of
               [file, option, name] \<Rightarrow>
                 if option \<noteq> ''--name''
                 then Inl (usage_error ''config create requires MODEL_FILE --name NAME'')
                 else (case readManagedModelCLI read_file decode_model file of
                     Inl e \<Rightarrow> Inl e
                   | Inr model \<Rightarrow> Inr (''configuration.create'', ApplyParams '''' name model None))
             | _ \<Rightarrow> Inl (usage_error ''config create requires MODEL_FILE --name NAME''))
          else if verb = ''update'' then updateCLI read_file decode_model rest
          else if verb = ''enable'' \<or> verb = ''disable'' \<or> verb = ''delete'' then lifecycleCLI verb rest
          else if verb = ''adopt'' then
            (if length rest \<noteq> 1 \<and> (length rest \<noteq> 3 \<or> rest ! 1 \<noteq> ''--name'')
             then Inl (usage_error ''config adopt requires EXTERNAL_CONFIGURATION_ID and an optional --name NAME'')
             else Inr (''configuration.adopt'',
                    AdoptParams (rest ! 0) (if length rest = 3 then rest ! 2 else '''')))
          else Inl config_usage)"

section \<open>The entry point\<close>

datatype cli_action =
    RunDoctor | PrintVersion | PrintHelp | PrintStatus | PrintDevices
  | PrintCompletion string | RunService | CallManager string api_params

text \<open>The configuration mutations, which alone take a key.\<close>

definition mutation_arguments :: "string list \<Rightarrow> bool" where
  "mutation_arguments args \<longleftrightarrow>
     (case args of
        [] \<Rightarrow> False
      | command # rest \<Rightarrow> command = ''apply''
          \<or> (command = ''config'' \<and> rest \<noteq> [] \<and> hd rest \<in> set
              [''create'', ''update'', ''enable'', ''disable'', ''delete'', ''adopt'']))"

definition nonPlatformInvocation :: "string list \<Rightarrow> bool" where
  "nonPlatformInvocation args \<longleftrightarrow>
     (length args = 1 \<and> hd args \<in> set [''--version'', ''-h'', ''--help''])
     \<or> (length args = 2 \<and> hd args = ''--completion'')"

definition call_action :: "cli_error + api_call \<Rightarrow> cli_error + cli_action" where
  "call_action r = (case r of Inl e \<Rightarrow> Inl e | Inr (method, params) \<Rightarrow> Inr (CallManager method params))"

definition unsupported_platform :: cli_error where
  "unsupported_platform = \<lparr>ce_Code = ''unsupported_platform'',
     ce_Message = ''KMonad Device Manager requires Linux with the evdev backend'', ce_Status = 2\<rparr>"

definition unknown_invocation :: "string list \<Rightarrow> cli_error" where
  "unknown_invocation args = usage_error (if args = [] then ''invalid command line''
     else ''unknown option or invalid arguments: '' @ hd args)"

definition dispatch_invocation ::
  "bool \<Rightarrow> (path \<Rightarrow> go_error + string) \<Rightarrow> (string \<Rightarrow> managed_configuration_model option)
   \<Rightarrow> string list \<Rightarrow> cli_error + cli_action" where
  "dispatch_invocation supported read_file decode_model args =
     (if args = [''--doctor''] then Inr RunDoctor
      else if \<not> supported \<and> \<not> nonPlatformInvocation args then Inl unsupported_platform
      else if args = [''--version''] then Inr PrintVersion
      else if args = [''--status''] \<or> args = [''ps''] then Inr PrintStatus
      else if args = [''devices''] then Inr PrintDevices
      else case args of
          [] \<Rightarrow> Inr RunService
        | command # rest \<Rightarrow>
            if command = ''snapshot'' then call_action (snapshotCLI rest)
            else if command = ''manager'' then call_action (managerCLI rest)
            else if command = ''events'' then call_action (eventsCLI rest)
            else if command = ''identify'' then call_action (identifyCLI rest)
            else if command = ''inputscan'' then call_action (inputScanCLI rest)
            else if command = ''validate'' then call_action (validateCLI read_file decode_model rest)
            else if command = ''apply'' then call_action (applyCLI read_file decode_model rest)
            else if command = ''config'' then call_action (configCLI read_file decode_model rest)
            else if rest = [] \<and> (command = ''-h'' \<or> command = ''--help'') then Inr PrintHelp
            else if length rest = 1 \<and> command = ''--completion'' then Inr (PrintCompletion (hd rest))
            else Inl (unknown_invocation args))"

text \<open>\<^verbatim>\<open>Run\<close>: the refusal, or the action with the key of its invocation.\<close>

definition cli_Run ::
  "bool \<Rightarrow> (path \<Rightarrow> go_error + string) \<Rightarrow> (string \<Rightarrow> managed_configuration_model option)
   \<Rightarrow> string list \<Rightarrow> cli_error + cli_action \<times> string" where
  "cli_Run supported read_file decode_model arguments =
     (case parseCLIInvocation arguments of
        Inl message \<Rightarrow> Inl (usage_error message)
      | Inr iv \<Rightarrow>
          if ci_idempotencyKey iv \<noteq> '''' \<and> \<not> mutation_arguments (ci_args iv)
          then Inl (usage_error ''--idempotency-key is only available for configuration mutations'')
          else (case dispatch_invocation supported read_file decode_model (ci_args iv) of
              Inl e \<Rightarrow> Inl e
            | Inr action \<Rightarrow> Inr (action, ci_idempotencyKey iv)))"

section \<open>The conversation with the manager\<close>

record api_response =
  rp_Type :: string
  rp_ID :: string
  rp_Result :: string
  rp_Error :: "api_error option"

definition readAPIClientResponse ::
  "(string \<Rightarrow> api_response option) \<Rightarrow> go_error + string \<Rightarrow> go_error + api_response" where
  "readAPIClientResponse decode line =
     (case line of
        Inl e \<Rightarrow> Inl e
      | Inr text \<Rightarrow> (case decode text of
            None \<Rightarrow> Inl (errorf ''invalid manager API response'')
          | Some response \<Rightarrow>
              if rp_Type response \<noteq> ''response'' \<or> rp_ID response = ''''
              then Inl (errorf ''invalid manager API response'') else Inr response))"

definition hello_request :: api_request where
  "hello_request = zero_request\<lparr>rq_Type := ''request'', rq_ID := ''hello'', rq_Method := ''session.hello'',
     rq_Params := ''{'' @ [CHR 0x22] @ ''supported_versions'' @ [CHR 0x22] @ '':[1]}''\<rparr>"

definition operation_request :: "string \<Rightarrow> string \<Rightarrow> string \<Rightarrow> api_request" where
  "operation_request method params key = zero_request\<lparr>rq_Type := ''request'', rq_ID := ''operation'',
     rq_Method := method, rq_Params := params, rq_IdempotencyKey := key\<rparr>"

text \<open>What the system and the manager answer; \<open>fresh\<close> is a new operation identifier.\<close>

record conversation =
  cv_socket :: "go_error option"
  cv_dial :: "go_error option"
  cv_hello_written :: "go_error option"
  cv_hello :: "go_error + string"
  cv_fresh :: "string option"
  cv_written :: "go_error option"
  cv_answer :: "go_error + string"

definition chosen_key :: "string \<Rightarrow> string \<Rightarrow> string option \<Rightarrow> go_error + string" where
  "chosen_key method key fresh =
     (if \<not> isIdempotentMutationMethod method then Inr ''''
      else if key \<noteq> '''' then Inr key
      else case fresh of
          None \<Rightarrow> Inl (errorf ''generate mutation idempotency key'')
        | Some k \<Rightarrow> Inr k)"

text \<open>The outcome, and the requests that were sent.\<close>

definition requestManagerAPIWithKey ::
  "(string \<Rightarrow> api_response option) \<Rightarrow> (api_params \<Rightarrow> string) \<Rightarrow> conversation \<Rightarrow> string \<Rightarrow> api_params
   \<Rightarrow> string \<Rightarrow> (go_error + api_error + string) \<times> api_request list" where
  "requestManagerAPIWithKey decode encode cv method params key =
     (case cv_socket cv of
        Some e \<Rightarrow> (Inl (error_of (ge_kind e) (''cannot locate manager API: '' @ ge_text e)), [])
      | None \<Rightarrow> (case cv_dial cv of
          Some e \<Rightarrow> (Inl (error_of (ge_kind e) (''cannot connect to manager API: '' @ ge_text e)), [])
        | None \<Rightarrow> (case cv_hello_written cv of
            Some e \<Rightarrow> (Inl e, [])
          | None \<Rightarrow> (case readAPIClientResponse decode (cv_hello cv) of
              Inl e \<Rightarrow> (Inl e, [hello_request])
            | Inr hello \<Rightarrow> (case rp_Error hello of
                Some e \<Rightarrow> (Inr (Inl e), [hello_request])
              | None \<Rightarrow> (case chosen_key method key (cv_fresh cv) of
                  Inl e \<Rightarrow> (Inl e, [hello_request])
                | Inr k \<Rightarrow>
                    let sent = [hello_request, operation_request method (encode params) k]
                    in (case cv_written cv of
                          Some e \<Rightarrow> (Inl e, [hello_request])
                        | None \<Rightarrow> (case readAPIClientResponse decode (cv_answer cv) of
                            Inl e \<Rightarrow> (Inl e, sent)
                          | Inr response \<Rightarrow> (case rp_Error response of
                              Some e \<Rightarrow> (Inr (Inl e), sent)
                            | None \<Rightarrow> (Inr (Inr (rp_Result response)), sent))))))))))"

definition requestIdentificationOperation ::
  "(string \<Rightarrow> operation option) \<Rightarrow> go_error + api_error + string \<Rightarrow> go_error + api_error + operation" where
  "requestIdentificationOperation decode_operation outcome =
     (case outcome of
        Inl e \<Rightarrow> Inl e
      | Inr (Inl e) \<Rightarrow> Inr (Inl e)
      | Inr (Inr data) \<Rightarrow> (case decode_operation data of
            None \<Rightarrow> Inl (errorf ''decode API operation'')
          | Some o1 \<Rightarrow> if op_ID o1 = '''' then Inl (errorf ''manager API returned no operation'')
                      else Inr (Inr o1)))"

text \<open>The exit status of a request, and the error it prints, the same for every command; how a result is
  laid out is not modelled; \<open>readable\<close> says whether the result could be
  decoded and printed.\<close>

definition request_status :: "('a \<Rightarrow> bool) \<Rightarrow> go_error + api_error + 'a \<Rightarrow> cli_error option" where
  "request_status readable outcome =
     (case outcome of
        Inl e \<Rightarrow> Some \<lparr>ce_Code = ''manager_unavailable'', ce_Message = ge_text e, ce_Status = 1\<rparr>
      | Inr (Inl e) \<Rightarrow> Some \<lparr>ce_Code = err_Code e, ce_Message = err_Message e, ce_Status = 1\<rparr>
      | Inr (Inr x) \<Rightarrow> if readable x then None
          else Some \<lparr>ce_Code = ''invalid_response'', ce_Message = ''manager returned invalid data'',
                 ce_Status = 1\<rparr>)"

text \<open>The stream of events after its subscription, until it ends or asks to start over.\<close>

datatype stream_item = StreamEnd | StreamError go_error | StreamEvent string event | StreamGarbage

fun follow_events :: "stream_item list \<Rightarrow> event list \<times> (nat option)" where
  "follow_events [] = ([], None)"
| "follow_events (item # rest) =
     (case item of
        StreamEnd \<Rightarrow> ([], Some 0)
      | StreamError _ \<Rightarrow> ([], Some 1)
      | StreamGarbage \<Rightarrow> ([], Some 1)
      | StreamEvent kind e \<Rightarrow>
          if kind \<noteq> ''event'' then ([], Some 1)
          else if ev_Type e = EventManagerResyncRequired then ([e], Some 0)
          else (case follow_events rest of (shown, status) \<Rightarrow> (e # shown, status)))"

section \<open>What the client sends the manager takes\<close>

lemmas cli_defs = managerCLI_def snapshotCLI_def eventsCLI_def identifyCLI_def inputScanCLI_def
  validateCLI_def applyCLI_def lifecycleCLI_def configurationContentCLI_def updateCLI_def configCLI_def

text \<open>The method of a command is known, and is a mutation exactly when its arguments are one's.\<close>

definition good_call :: "bool \<Rightarrow> cli_error + api_call \<Rightarrow> bool" where
  "good_call mutating r \<longleftrightarrow> (case r of Inl _ \<Rightarrow> True
     | Inr (method, _) \<Rightarrow> knownAPIMethod method \<and> isIdempotentMutationMethod method = mutating)"

lemma good_call_simps [simp]:
  "good_call b (Inl e)"
  "good_call b (Inr (method, p)) \<longleftrightarrow> knownAPIMethod method \<and> isIdempotentMutationMethod method = b"
  by (simp_all add: good_call_def)

lemma methods [simp]:
  "knownAPIMethod ''manager.get''" "knownAPIMethod ''snapshot.get''" "knownAPIMethod ''events.subscribe''"
  "knownAPIMethod ''device.identify.start''" "knownAPIMethod ''device.identify.cancel''"
  "knownAPIMethod ''operation.get''" "knownAPIMethod ''device.inputscan.get''"
  "knownAPIMethod ''device.inputscan.probe''" "knownAPIMethod ''device.inputscan.cancel''"
  "knownAPIMethod ''validation.preview''" "knownAPIMethod ''configuration.apply''"
  "knownAPIMethod ''configuration.create''" "knownAPIMethod ''configuration.update''"
  "knownAPIMethod ''configuration.adopt''" "knownAPIMethod ''configuration.set_enabled''"
  "knownAPIMethod ''configuration.delete''" "knownAPIMethod ''configuration.list''"
  "knownAPIMethod ''configuration.content.get''" "knownAPIMethod ''configuration.export''"
  by (simp_all add: knownAPIMethod_def)

lemma mutation_methods [simp]:
  "\<not> isIdempotentMutationMethod ''manager.get''" "\<not> isIdempotentMutationMethod ''snapshot.get''"
  "\<not> isIdempotentMutationMethod ''events.subscribe''" "\<not> isIdempotentMutationMethod ''operation.get''"
  "\<not> isIdempotentMutationMethod ''device.identify.start''"
  "\<not> isIdempotentMutationMethod ''device.identify.cancel''"
  "\<not> isIdempotentMutationMethod ''device.inputscan.get''"
  "\<not> isIdempotentMutationMethod ''device.inputscan.probe''"
  "\<not> isIdempotentMutationMethod ''device.inputscan.cancel''"
  "\<not> isIdempotentMutationMethod ''validation.preview''"
  "\<not> isIdempotentMutationMethod ''configuration.list''"
  "\<not> isIdempotentMutationMethod ''configuration.content.get''"
  "\<not> isIdempotentMutationMethod ''configuration.export''"
  "isIdempotentMutationMethod ''configuration.apply''" "isIdempotentMutationMethod ''configuration.create''"
  "isIdempotentMutationMethod ''configuration.update''" "isIdempotentMutationMethod ''configuration.adopt''"
  "isIdempotentMutationMethod ''configuration.set_enabled''"
  "isIdempotentMutationMethod ''configuration.delete''"
  by (simp_all add: isIdempotentMutationMethod_def)

lemma good_events_options: "good_call False (events_options as after server)"
  by (induction as after server rule: events_options.induct) (auto split: option.split)

lemma good_apply_options: "good_call True (apply_options as i name model revision)"
  by (induction as i name model revision rule: apply_options.induct) (auto split: option.split)

lemma good_plain:
  "good_call False (managerCLI as)" "good_call False (snapshotCLI as)" "good_call False (eventsCLI as)"
  by (auto simp: managerCLI_def snapshotCLI_def eventsCLI_def good_events_options)

lemma good_identify: "good_call False (identifyCLI as)"
  by (auto simp: identifyCLI_def split: list.splits option.splits)

lemma good_inputscan: "good_call False (inputScanCLI as)"
  by (auto simp: inputScanCLI_def split: list.splits option.splits)

lemma good_candidates:
  "good_call False (validateCLI rf dm as)" "good_call True (applyCLI rf dm as)"
  "good_call True (updateCLI rf dm as)" "good_call False (configurationContentCLI verb as)"
  "good_call True (lifecycleCLI verb as)"
  by (auto simp: validateCLI_def applyCLI_def updateCLI_def configurationContentCLI_def lifecycleCLI_def
      good_apply_options split: list.splits option.splits sum.splits)

lemma good_config:
  "good_call (mutation_arguments (''config'' # as)) (configCLI rf dm as)"
proof (cases as)
  case (Cons verb rest)
  then show ?thesis
    by (auto simp: configCLI_def mutation_arguments_def good_candidates
        split: list.splits sum.splits)
qed (simp add: configCLI_def)

lemma call_action_good:
  "good_call b r \<Longrightarrow> call_action r = Inr (CallManager method params)
    \<Longrightarrow> knownAPIMethod method \<and> isIdempotentMutationMethod method = b"
  by (auto simp: call_action_def good_call_def split: sum.splits)

lemma dispatched_method:
  assumes "dispatch_invocation supported rf dm args = Inr (CallManager method params)"
  shows "knownAPIMethod method \<and> isIdempotentMutationMethod method = mutation_arguments args"
proof -
  obtain command rest where args: "args = command # rest"
    using assms by (cases args) (auto simp: dispatch_invocation_def split: if_splits)
  consider "command \<in> set [''snapshot'', ''manager'', ''events'', ''identify'', ''inputscan'', ''validate'']"
    "\<not> mutation_arguments args" | "command = ''apply''" | "command = ''config''"
    using assms args by (auto simp: dispatch_invocation_def mutation_arguments_def split: if_splits)
  then show ?thesis
  proof cases
    case 1
    then show ?thesis
      using assms args good_plain good_identify good_inputscan good_candidates(1)
      by (auto simp: dispatch_invocation_def dest!: call_action_good [rotated] split: if_splits)
  next
    case 2
    then show ?thesis
      using assms args call_action_good [OF good_candidates(2)]
      by (auto simp: dispatch_invocation_def mutation_arguments_def split: if_splits)
  next
    case 3
    then show ?thesis
      using assms args call_action_good [OF good_config [of rest]]
      by (auto simp: dispatch_invocation_def split: if_splits)
  qed
qed

lemma parse_arguments_other:
  "a \<noteq> ''--idempotency-key'' \<Longrightarrow> parse_arguments (a # as) iv = Inr iv'
    \<Longrightarrow> \<exists>iv2. parse_arguments as iv2 = Inr iv' \<and> ci_idempotencyKey iv2 = ci_idempotencyKey iv"
  by (auto split: if_splits intro: exI [where x = "iv\<lparr>ci_jsonOutput := True\<rparr>"]
      exI [where x = "iv\<lparr>ci_args := ci_args iv @ [a]\<rparr>"])

lemma parse_arguments_key:
  "parse_arguments (''--idempotency-key'' # as) iv = Inr iv'
    \<Longrightarrow> \<exists>key rest. as = key # rest \<and> length key \<le> maxIdempotencyKeyBytes
      \<and> parse_arguments rest (iv\<lparr>ci_idempotencyKey := key\<rparr>) = Inr iv'"
  by (cases as) (simp_all split: if_splits)

lemma parsed_key:
  "parse_arguments as iv = Inr iv' \<Longrightarrow> length (ci_idempotencyKey iv) \<le> maxIdempotencyKeyBytes
    \<Longrightarrow> length (ci_idempotencyKey iv') \<le> maxIdempotencyKeyBytes"
proof (induction as arbitrary: iv rule: length_induct)
  case (1 as)
  show ?case
  proof (cases as)
    case (Cons a rest)
    show ?thesis
    proof (cases "a = ''--idempotency-key''")
      case True
      then obtain key more where "rest = key # more" "length key \<le> maxIdempotencyKeyBytes"
        "parse_arguments more (iv\<lparr>ci_idempotencyKey := key\<rparr>) = Inr iv'"
        using 1(2) Cons parse_arguments_key by blast
      then show ?thesis using 1(1) Cons by (metis (no_types) cli_invocation.select_convs(3)
          cli_invocation.update_convs(3) cli_invocation.cases length_Cons lessI less_SucI)
    next
      case False
      then obtain iv2 where "parse_arguments rest iv2 = Inr iv'"
        "ci_idempotencyKey iv2 = ci_idempotencyKey iv"
        using 1(2) Cons parse_arguments_other by blast
      then show ?thesis using 1(1,3) Cons by (metis length_Cons lessI)
    qed
  qed (use 1 in simp)
qed

lemma run_method:
  assumes "cli_Run supported rf dm arguments = Inr (CallManager method params, key)"
  shows "knownAPIMethod method" and "length key \<le> 128"
    and "key = '''' \<or> isIdempotentMutationMethod method"
proof -
  obtain iv where iv: "parseCLIInvocation arguments = Inr iv"
    "dispatch_invocation supported rf dm (ci_args iv) = Inr (CallManager method params)"
    "key = ci_idempotencyKey iv" "key = '''' \<or> mutation_arguments (ci_args iv)"
    using assms by (auto simp: cli_Run_def split: sum.splits if_splits)
  show "knownAPIMethod method" "key = '''' \<or> isIdempotentMutationMethod method"
    using dispatched_method [OF iv(2)] iv(4) by auto
  show "length key \<le> 128"
    using parsed_key [of arguments _ iv] iv(1,3)
    by (simp add: parseCLIInvocation_def maxIdempotencyKeyBytes_def)
qed

lemma known_method_short: "knownAPIMethod method \<Longrightarrow> method \<noteq> '''' \<and> length method \<le> 128"
  by (auto simp: knownAPIMethod_def)

lemma hello_parses:
  assumes "decode (marshal hello_request) = Some hello_request"
  shows "parseAPIRequest decode (marshal hello_request) = (hello_request, None)"
proof -
  have "isJSONObject (rq_Params hello_request)" by code_simp
  then show ?thesis
    using assms by (simp add: parseAPIRequest_def) (simp add: hello_request_def zero_request_def)
qed

lemma operation_parses:
  assumes "\<And>k. decode (marshal (operation_request method params k)) = Some (operation_request method params k)" and "isJSONObject params" and "knownAPIMethod method"
  shows "parseAPIRequest decode (marshal (operation_request method params key)) =
    (operation_request method params key, None)"
proof -
  have "params \<noteq> ''''" using assms(2) by (auto simp: isJSONObject_def bytesTrimSpace_def Let_def)
  then show ?thesis
    using assms known_method_short [OF assms(3)]
    by (simp add: parseAPIRequest_def operation_request_def zero_request_def)
qed

lemma chosen_key_ok:
  assumes "chosen_key method key fresh = Inr k"
    and "key = '''' \<or> isIdempotentMutationMethod method \<and> length key \<le> 128 \<and> trimSpace key \<noteq> ''''"
    and "case fresh of None \<Rightarrow> True | Some i \<Rightarrow> i \<noteq> '''' \<and> length i \<le> 128 \<and> trimSpace i \<noteq> ''''"
  shows "k \<in> {key, k} \<and> (key = '''' \<or> k = key)
    \<and> (if isIdempotentMutationMethod method then k \<noteq> '''' \<and> length k \<le> 128 \<and> trimSpace k \<noteq> '''' else k = '''')"
  using assms by (auto simp: chosen_key_def split: if_splits option.splits)


text \<open>A codec for the requests of one invocation, which are told apart by their first byte.\<close>

definition sample_marshal :: "api_request \<Rightarrow> string" where
  "sample_marshal q = (if rq_ID q = ''hello'' then ''h'' else CHR ''o'' # rq_IdempotencyKey q)"

definition sample_unmarshal :: "string \<Rightarrow> api_request option" where
  "sample_unmarshal s = Some (if s = ''h'' then hello_request
     else operation_request ''configuration.delete'' ''{}'' (tl s))"

definition sample_conversation :: conversation where
  "sample_conversation = \<lparr>cv_socket = None, cv_dial = None, cv_hello_written = None, cv_hello = Inr ''h'',
     cv_fresh = Some ''op_1'', cv_written = None, cv_answer = Inr ''r''\<rparr>"

definition sample_answer :: "string \<Rightarrow> api_response option" where
  "sample_answer s = Some \<lparr>rp_Type = ''response'', rp_ID = s, rp_Result = ''{}'', rp_Error = None\<rparr>"


text \<open>
  A key of blanks passes the command line, whose help asks for 1 to 128 bytes, and is refused by the
  server.
\<close>

lemma blank_key_refused:
  "cli_Run True (\<lambda>_. Inr '''') (\<lambda>_. None)
      [''config'', ''delete'', ''cfg_1'', ''3'', ''--idempotency-key'', '' ''] =
    Inr (CallManager ''configuration.delete'' (DeleteParams ''cfg_1'' 3), '' '')"
  "idempotencyIdentity canonical_json sha256hex ''configuration.delete'' '' '' params =
    Inl (api_err ''invalid_request'' ''a non-empty idempotency_key of at most 128 bytes is required'')"
proof -
  have "trimSpace '' '' = ''''" by code_simp
  then show "idempotencyIdentity canonical_json sha256hex ''configuration.delete'' '' '' params =
    Inl (api_err ''invalid_request'' ''a non-empty idempotency_key of at most 128 bytes is required'')"
    by (simp add: idempotencyIdentity_def)
qed (simp add: cli_Run_def parseCLIInvocation_def dispatch_invocation_def configCLI_def lifecycleCLI_def
      positive_revision_def parse_uint_def digit_value_def mutation_arguments_def call_action_def
      maxIdempotencyKeyBytes_def)

end
