(* ===== verification/KDM_Dispatch.thy ===== *)
theory KDM_Dispatch
  imports KDM_Client KDM_Sample
begin

text \<open>
  What a started API request does (\<^verbatim>\<open>manager/api_transport.go\<close>, the goroutine of a request;
  \<^verbatim>\<open>manager/manager_info.go\<close>; \<^verbatim>\<open>runIdempotentMutation\<close> of \<^verbatim>\<open>manager/idempotency.go\<close>;
  \<^verbatim>\<open>manager/validation_api.go\<close>): the method is looked up, its parameters are decoded, and the
  operation is submitted to the owner, in one command or in several. What the owner does between
  the commands of one request is arbitrary: \<open>meanwhile k\<close> after the \<open>k\<close>-th.
\<close>

section \<open>Manager information\<close>

record manager_limits =
  ml_MaxConfigurations :: int
  ml_MaxConfigurationBytes :: int
  ml_CommandQueue :: nat
  ml_EventHistory :: nat
  ml_EventSubscriberQueue :: nat
  ml_APIMaxClients :: nat
  ml_APIInFlightRequests :: nat
  ml_APIFrameBytes :: nat
  ml_DefaultDeadlineMS :: int

datatype capability_name =
    CapabilityDeviceDiscovery | CapabilityDeviceIdentification | CapabilityCandidateValidation
  | CapabilityManagedConfigurations | CapabilityExternalConfigurationAdoption | CapabilityEventStream
  | CapabilityMultipleIndependentKeyboards | CapabilityAutomaticHotplugRecovery
  | CapabilityPerDeviceMapping | CapabilityInputTargetDeviceFile | CapabilityConfigurationContentRead
  | CapabilityConfigurationExport | CapabilityDeviceInputScan

record capability =
  cap_Name :: capability_name
  cap_Available :: bool
  cap_ReasonCode :: reason_code
  cap_Reason :: string

record feature_limitation =
  fl_ID :: string
  fl_ReasonCode :: reason_code
  fl_Summary :: string
  fl_Remediation :: string

record manager_info =
  mi_APIVersions :: "int list"
  mi_ManagerVersion :: string
  mi_ServerID :: string
  mi_Platform :: string
  mi_PlatformVersion :: string
  mi_Backend :: string
  mi_BackendVersion :: string
  mi_KMonad :: kmonad_info
  mi_StateRevision :: nat
  mi_EventID :: nat
  mi_Limits :: manager_limits
  mi_Capabilities :: "capability list"
  mi_Limitations :: "feature_limitation list"
  mi_Health :: manager_health

definition capability_names :: "capability_name list" where
  "capability_names =
     [CapabilityDeviceDiscovery, CapabilityDeviceIdentification, CapabilityCandidateValidation,
      CapabilityManagedConfigurations, CapabilityExternalConfigurationAdoption, CapabilityEventStream,
      CapabilityMultipleIndependentKeyboards, CapabilityAutomaticHotplugRecovery,
      CapabilityPerDeviceMapping, CapabilityInputTargetDeviceFile, CapabilityConfigurationContentRead,
      CapabilityConfigurationExport, CapabilityDeviceInputScan]"

definition managerCapabilitiesFor :: "string \<Rightarrow> string \<Rightarrow> capability list" where
  "managerCapabilitiesFor platformName backend =
     (let available = (platformName = ''linux'' \<and> backend = ''linux-evdev'')
      in map (\<lambda>name. \<lparr>cap_Name = name, cap_Available = available,
            cap_ReasonCode = (if available then ReasonCapabilityAvailable else ReasonPlatformUnsupported),
            cap_Reason = (if available then ''available on the Linux evdev backend''
                          else ''not available on this platform backend'')\<rparr>) capability_names)"

definition managerLimitations :: "feature_limitation list" where
  "managerLimitations =
     [\<lparr>fl_ID = ''platform.linux_evdev_only'', fl_ReasonCode = ReasonPlatformUnsupported,
       fl_Summary = ''Only the Linux evdev backend is currently supported.'',
       fl_Remediation = ''Use the manager on Linux with evdev input devices.''\<rparr>,
      \<lparr>fl_ID = ''input.device_file_only'', fl_ReasonCode = ReasonCandidateUnsupported,
       fl_Summary = ''Only KMonad device-file input targets are supported.'',
       fl_Remediation = ''Use a device-file input or a manager-owned configuration model.''\<rparr>,
      \<lparr>fl_ID = ''configuration.external_read_only'', fl_ReasonCode = ReasonConfigurationExternalReadOnly,
       fl_Summary = ''External configurations remain read-only until explicitly adopted.'',
       fl_Remediation = ''Adopt a representable external configuration before editing it through the manager.''\<rparr>,
      \<lparr>fl_ID = ''api.local_same_user_only'', fl_ReasonCode = ReasonOperationUnsupported,
       fl_Summary = ''The manager API is available only through the same-user local Unix socket.'',
       fl_Remediation = ''Run a client as the manager user on the same host.''\<rparr>]"

text \<open>On the Linux platform; \<open>release\<close> is the release of the kernel.\<close>

definition managerInfo :: "string \<Rightarrow> manager \<Rightarrow> manager_info" where
  "managerInfo release m =
     \<lparr>mi_APIVersions = [1], mi_ManagerVersion = '''', mi_ServerID = '''', mi_Platform = ''linux'',
      mi_PlatformVersion = release, mi_Backend = ''linux-evdev'', mi_BackendVersion = ''evdev'',
      mi_KMonad = normalizedKMonadInfo (m_kmonad m), mi_StateRevision = el_stateRevision (m_log m),
      mi_EventID = el_nextEventID (m_log m),
      mi_Limits = \<lparr>ml_MaxConfigurations = ms_maxConfigs (m_settings m),
        ml_MaxConfigurationBytes = ms_maxConfigBytes (m_settings m),
        ml_CommandQueue = managerCommandQueueSize, ml_EventHistory = maxRetainedEvents,
        ml_EventSubscriberQueue = eventSubscriberBuffer, ml_APIMaxClients = apiMaxClients,
        ml_APIInFlightRequests = apiMaxInFlight, ml_APIFrameBytes = apiFrameLimit,
        ml_DefaultDeadlineMS = apiDefaultDeadline div millisecond\<rparr>,
      mi_Capabilities = managerCapabilitiesFor ''linux'' ''linux-evdev'',
      mi_Limitations = managerLimitations, mi_Health = managerHealth m\<rparr>"

section \<open>Submitting to the owner\<close>

text \<open>
  What becomes of a command: the deadline has passed already, the mailbox is full, or it is queued;
  then its context may have expired when its turn comes, and the caller may have given up waiting.
\<close>

datatype delivery = DeadlinePassed | MailboxFull | Queued bool bool

definition submit :: "delivery \<Rightarrow> 'a command_result op \<Rightarrow> 'a command_result op" where
  "submit d f =
     (case d of
        DeadlinePassed \<Rightarrow> return (Inl commandDeadlineResult)
      | MailboxFull \<Rightarrow> return (Inl commandQueueFullResult)
      | Queued late awaited \<Rightarrow> do {
          r \<leftarrow> executeCommand late f;
          return (if awaited then r else Inl commandDeadlineResult) })"

text \<open>It is queued exactly when the mailbox of the manager takes it.\<close>

lemma submit_refused:
  "fst (submitCommand True c queue) = Some commandDeadlineResult"
  "length queue \<ge> managerCommandQueueSize \<Longrightarrow> fst (submitCommand False c queue) = Some commandQueueFullResult"
  "length queue < managerCommandQueueSize \<Longrightarrow> submitCommand False c queue = (None, queue @ [c])"
  by (simp_all add: submitCommand_def)

section \<open>The journal's commands\<close>

definition on_journal :: "(journal \<Rightarrow> 'a \<times> journal) \<Rightarrow> 'a op" where
  "on_journal f = State (\<lambda>m. case f (m_journal m) of (r, j) \<Rightarrow> (r, m\<lparr>m_journal := j\<rparr>))"

text \<open>No identifier is needed: the journal is closed, knows the key, or has no room.\<close>

definition admits_nothing :: "journal \<Rightarrow> string \<Rightarrow> bool" where
  "admits_nothing j key \<longleftrightarrow> j_path j = '''' \<or> map_get (j_records j) key \<noteq> None
     \<or> (length (j_records j) \<ge> maxIdempotencyRecords \<and> eviction_candidates (j_records j) = [])"

definition admit_command :: "string \<Rightarrow> string \<Rightarrow> string \<Rightarrow> mutation_admission command_result op" where
  "admit_command key fingerprint meth = do {
     j \<leftarrow> gets m_journal;
     if admits_nothing j key
     then on_journal (admitIdempotentMutation None 0 WriteFailed key fingerprint (Some meth))
     else do {
       fresh \<leftarrow> newOperationID;
       case fresh of
         None \<Rightarrow> on_journal (admitIdempotentMutation None 0 WriteFailed key fingerprint (Some meth))
       | Some i \<Rightarrow> do {
           now \<leftarrow> time_Now;
           outcome \<leftarrow> write_journal (j_path j) (j_records
             (snd (admitIdempotentMutation (Some i) now WriteOk key fingerprint (Some meth) j)));
           on_journal (admitIdempotentMutation (Some i) now outcome key fingerprint (Some meth)) }}}"

definition mutation_outcome :: "operation command_result \<Rightarrow> mutation_result" where
  "mutation_outcome r = (case r of
     Inl e \<Rightarrow> \<lparr>mr_operation = None, mr_err = Some e\<rparr>
   | Inr o1 \<Rightarrow> \<lparr>mr_operation = Some o1, mr_err = None\<rparr>)"

definition mutation_answer :: "mutation_result \<Rightarrow> operation command_result" where
  "mutation_answer r = (case mr_err r of
     Some e \<Rightarrow> Inl e
   | None \<Rightarrow> (case mr_operation r of
       Some o1 \<Rightarrow> Inr o1
     | None \<Rightarrow> Inl (api_err ''internal'' ''mutation returned an inconsistent operation'')))"

text \<open>The clock is only asked for the time of a failure.\<close>

definition complete_command :: "string \<Rightarrow> operation command_result \<Rightarrow> operation command_result op" where
  "complete_command key result = do {
     j \<leftarrow> gets m_journal;
     let known = (case map_get (j_records j) key of None \<Rightarrow> '''' | Some r \<Rightarrow> op_ID (ir_Operation r));
     now \<leftarrow> (case result of
        Inr o1 \<Rightarrow> if op_ID o1 = known then return 0 else time_Now
      | Inl _ \<Rightarrow> time_Now);
     outcome \<leftarrow> (if j_path j = '''' then return WriteFailed
        else write_journal (j_path j) (j_records
          (snd (completeIdempotentMutation now WriteOk key (mutation_outcome result) j))));
     r \<leftarrow> on_journal (completeIdempotentMutation now outcome key (mutation_outcome result));
     return (mutation_answer r) }"

section \<open>One request\<close>

record request_env =
  re_serverID :: string
  re_managerVersion :: string
  re_release :: string
  re_canonical :: "string \<Rightarrow> string option"
  re_sha256hex :: "string \<Rightarrow> string"
  re_content_length :: "content_result \<Rightarrow> nat option"
  re_export_length :: "export_result \<Rightarrow> nat option"
  re_find_all :: "nat \<Rightarrow> string \<Rightarrow> (string \<times> string \<times> string \<times> string) list"
  re_output :: "string list"
  re_expired :: "nat \<Rightarrow> bool"
  re_delivery :: "nat \<Rightarrow> delivery"
  re_meanwhile :: "nat \<Rightarrow> unit op"

text \<open>A replay answers from the record; an admitted mutation runs and its outcome is recorded.\<close>

definition replayed :: "idempotency_record \<Rightarrow> operation command_result" where
  "replayed r = (case ir_Error r of Some e \<Rightarrow> Inl e | None \<Rightarrow> Inr (ir_Operation r))"

definition runIdempotentMutation ::
  "request_env \<Rightarrow> api_request \<Rightarrow> (string \<Rightarrow> operation command_result op) \<Rightarrow> operation command_result op" where
  "runIdempotentMutation e q execute =
     (case idempotencyIdentity (re_canonical e) (re_sha256hex e) (rq_Method q) (rq_IdempotencyKey q)
             (rq_Params q) of
        Inl err \<Rightarrow> return (Inl err)
      | Inr (key, fingerprint) \<Rightarrow> do {
          admitted \<leftarrow> submit (re_delivery e 0) (admit_command key fingerprint (rq_Method q));
          case admitted of
            Inl err \<Rightarrow> return (Inl err)
          | Inr entry \<Rightarrow>
              if ma_replay entry then return (replayed (ma_record entry))
              else do {
                re_meanwhile e 0;
                result \<leftarrow> execute (op_ID (ir_Operation (ma_record entry)));
                re_meanwhile e 1;
                submit (re_delivery e 1) (complete_command key result) }})"

text \<open>Preparing, running KMonad and committing are three steps; only the first and last are the owner's.\<close>

definition two_step_apply ::
  "request_env \<Rightarrow> (operation + apply_preparation) command_result op \<Rightarrow> operation command_result op" where
  "two_step_apply e prepare = do {
     prepared \<leftarrow> submit (re_delivery e 2) prepare;
     case prepared of
       Inl err \<Rightarrow> return (Inl err)
     | Inr (Inl o1) \<Rightarrow> return (Inr o1)
     | Inr (Inr p) \<Rightarrow> do {
         re_meanwhile e 2;
         validation \<leftarrow> runManagedApplyValidation p;
         re_meanwhile e 3;
         submit (re_delivery e 3) (finishManagedApply (re_expired e 1) p validation) }}"

definition applyManagedConfiguration :: "request_env \<Rightarrow> apply_params \<Rightarrow> operation command_result op" where
  "applyManagedConfiguration e params = two_step_apply e (prepareManagedApply (re_expired e) params)"

definition adoptExternalConfiguration ::
  "request_env \<Rightarrow> string \<Rightarrow> string \<Rightarrow> string \<Rightarrow> operation command_result op" where
  "adoptExternalConfiguration e cid name operationID =
     two_step_apply e (prepareExternalAdoption (re_expired e) cid name operationID)"

definition previewValidation ::
  "request_env \<Rightarrow> managed_configuration_model option \<Rightarrow> string option
   \<Rightarrow> validation_result option command_result op" where
  "previewValidation e model content = do {
     prepared \<leftarrow> submit (re_delivery e 0) (prepareValidationPreview (re_expired e) model content);
     case prepared of
       Inl err \<Rightarrow> return (Inl err)
     | Inr (Inl result) \<Rightarrow> return (Inr (Some result))
     | Inr (Inr p) \<Rightarrow> do {
         re_meanwhile e 0;
         result \<leftarrow> runPreparedValidation (re_find_all e) (re_output e) p;
         return (Inr result) }}"

datatype (plugins only: code) api_result =
    InfoResult manager_info | SnapshotResult string snapshot | DevicesResult "device list"
  | ConfigurationsResult "configuration list" | ContentResult content_result
  | ExportResult export_result | OperationResult operation | ScanResult input_scan
  | PreviewResult "validation_result option" | SubscriptionResult string event_subscription

definition with_result :: "('a \<Rightarrow> api_result) \<Rightarrow> 'a command_result op \<Rightarrow> api_result command_result op" where
  "with_result f c = do { r \<leftarrow> c; return (case r of Inl e \<Rightarrow> Inl e | Inr x \<Rightarrow> Inr (f x)) }"

definition invalid_params :: "string \<Rightarrow> api_result command_result op" where
  "invalid_params meth = return (Inl (invalid_request (''invalid '' @ meth @ '' parameters'')))"

definition on_operation ::
  "api_params option \<Rightarrow> (string \<Rightarrow> operation command_result op) \<Rightarrow> api_result command_result op" where
  "on_operation decoded f =
     (case decoded of
        Some (OperationParams i) \<Rightarrow>
          if i = '''' then return (Inl (invalid_request ''operation_id is required''))
          else with_result OperationResult (f i)
      | _ \<Rightarrow> return (Inl (invalid_request ''operation_id is required'')))"

text \<open>The commands that the owner executes in one go.\<close>

definition owner_command ::
  "request_env \<Rightarrow> string \<Rightarrow> api_params option \<Rightarrow> api_result command_result op" where
  "owner_command e meth decoded =
     (if meth = ''manager.get'' then gets (\<lambda>m. Inr (InfoResult (managerInfo (re_release e) m)))
      else if meth = ''snapshot.get'' then do { s \<leftarrow> take_snapshot; return (Inr (SnapshotResult '''' s)) }
      else if meth = ''device.list'' then do {
        refreshDevices; ds \<leftarrow> gets deviceList; return (Inr (DevicesResult ds)) }
      else if meth = ''configuration.list'' then do {
        refreshDevices; cs \<leftarrow> configurationList; return (Inr (ConfigurationsResult cs)) }
      else if meth = ''configuration.content.get'' then
        (case decoded of
           Some (ContentParams i n) \<Rightarrow>
             with_result ContentResult (externalConfigurationContent (re_content_length e) i n)
         | _ \<Rightarrow> invalid_params meth)
      else if meth = ''configuration.export'' then
        (case decoded of
           Some (ExportParams i f) \<Rightarrow>
             with_result ExportResult (exportManagedConfiguration (re_export_length e) i f)
         | _ \<Rightarrow> invalid_params meth)
      else if meth = ''device.identify.start'' then
        (case decoded of
           Some (IdentifyStart d t) \<Rightarrow> with_result OperationResult (startIdentification (re_expired e 0) d t)
         | _ \<Rightarrow> invalid_params meth)
      else if meth = ''device.identify.cancel'' then on_operation decoded cancelIdentificationOperation
      else if meth = ''device.inputscan.get'' then
        (case decoded of
           Some (ScanParams d) \<Rightarrow> with_result ScanResult (inputScan (re_expired e 0) d)
         | _ \<Rightarrow> invalid_params meth)
      else if meth = ''device.inputscan.probe'' then
        (case decoded of
           Some (ProbeStart d k t) \<Rightarrow> with_result OperationResult (startProbe (re_expired e 0) d k t)
         | _ \<Rightarrow> invalid_params meth)
      else if meth = ''device.inputscan.cancel'' then on_operation decoded cancelProbeOperation
      else if meth = ''operation.get'' then on_operation decoded identificationOperation
      else return (Inl (api_err ''unsupported_capability'' ''method is not implemented by this manager'')))"

text \<open>A mutation of the lifecycle decodes its parameters inside the command of the owner.\<close>

definition lifecycle_command ::
  "request_env \<Rightarrow> string \<Rightarrow> api_params option \<Rightarrow> string \<Rightarrow> operation command_result op" where
  "lifecycle_command e meth decoded operationID =
     submit (re_delivery e 2)
       (if meth = ''configuration.set_enabled'' then
          (case decoded of
             Some (SetEnabledParams i n b) \<Rightarrow>
               setManagedConfigurationEnabled (re_expired e 0) operationID i n b
           | _ \<Rightarrow> return (Inl (invalid_request ''invalid configuration.set_enabled parameters'')))
        else
          (case decoded of
             Some (DeleteParams i n) \<Rightarrow> deleteManagedConfiguration (re_expired e 0) operationID i n
           | _ \<Rightarrow> return (Inl (invalid_request ''invalid configuration.delete parameters''))))"

definition apply_of_request :: "string \<Rightarrow> string \<Rightarrow> managed_configuration_model \<Rightarrow> nat option \<Rightarrow> string \<Rightarrow> apply_params" where
  "apply_of_request i name model revision operationID =
     \<lparr>ap_ConfigurationID = i, ap_Name = name, ap_Model = model, ap_ExpectedRevision = revision,
      ap_adoptExternalID = '''', ap_operationKind = None, ap_operationID = operationID\<rparr>"

definition apply_request ::
  "request_env \<Rightarrow> api_request \<Rightarrow> api_params option \<Rightarrow> api_result command_result op" where
  "apply_request e q decoded =
     (case decoded of
        Some (ApplyParams i name model revision) \<Rightarrow>
          (case parseConfigurationApplyParams (rq_Method q)
                  (Some (if i = '''' then None else Some i, revision)) of
             Some err \<Rightarrow> return (Inl err)
           | None \<Rightarrow> with_result OperationResult (runIdempotentMutation e q
               (\<lambda>operationID. applyManagedConfiguration e
                  (apply_of_request i name model revision operationID))))
      | _ \<Rightarrow> return (case parseConfigurationApplyParams (rq_Method q) None of
               Some err \<Rightarrow> Inl err | None \<Rightarrow> Inl (invalid_request '''')))"

text \<open>A resumed stream of another server starts over.\<close>

definition subscribe_request ::
  "request_env \<Rightarrow> api_params option \<Rightarrow> api_result command_result op" where
  "subscribe_request e decoded =
     (case decoded of
        Some (EventsParams after server) \<Rightarrow>
          with_result (SubscriptionResult (re_serverID e)) (submit (re_delivery e 0)
            (State (\<lambda>m. case subscribeEvents (h_event_clock (m_host m))
                   \<lparr>esp_AfterEventID = after, esp_AfterServerID = server,
                    esp_forceResync = (after \<noteq> None \<and> server \<noteq> '''' \<and> server \<noteq> re_serverID e)\<rparr> (m_log m) of
                (s, l) \<Rightarrow> (Inr s, m\<lparr>m_log := l\<rparr>))))
      | _ \<Rightarrow> return (Inl (invalid_request ''invalid events.subscribe parameters'')))"

definition stamped :: "request_env \<Rightarrow> api_result \<Rightarrow> api_result" where
  "stamped e r = (case r of
     InfoResult info \<Rightarrow> InfoResult (info\<lparr>mi_ManagerVersion := re_managerVersion e,
                                        mi_ServerID := re_serverID e\<rparr>)
   | SnapshotResult _ s \<Rightarrow> SnapshotResult (re_serverID e) s
   | _ \<Rightarrow> r)"

definition serve_api ::
  "request_env \<Rightarrow> api_request \<Rightarrow> api_params option \<Rightarrow> api_result command_result op" where
  "serve_api e q decoded =
     (case refused_request True q of
        Some err \<Rightarrow> return (Inl err)
      | None \<Rightarrow>
          let meth = rq_Method q
          in if meth = ''validation.preview'' then
               (case decoded of
                  Some (PreviewParams model content) \<Rightarrow>
                    with_result PreviewResult (previewValidation e model content)
                | _ \<Rightarrow> invalid_params meth)
             else if meth \<in> set [''configuration.apply'', ''configuration.create'', ''configuration.update'']
             then apply_request e q decoded
             else if meth = ''configuration.adopt'' then
               (case decoded of
                  Some (AdoptParams cid name) \<Rightarrow>
                    if cid = '''' then return (Inl (invalid_request ''configuration.adopt requires configuration_id''))
                    else with_result OperationResult (runIdempotentMutation e q
                           (adoptExternalConfiguration e cid name))
                | _ \<Rightarrow> return (Inl (invalid_request ''configuration.adopt requires configuration_id'')))
             else if meth = ''events.subscribe'' then subscribe_request e decoded
             else if meth \<in> set [''configuration.set_enabled'', ''configuration.delete'']
             then with_result OperationResult (runIdempotentMutation e q (lifecycle_command e meth decoded))
             else with_result (stamped e) (submit (re_delivery e 0) (owner_command e meth decoded)))"

section \<open>A mutation that is retried\<close>

abbreviation record_of :: "string \<Rightarrow> manager \<Rightarrow> idempotency_record option" where
  "record_of key m \<equiv> map_get (j_records (m_journal m)) key"

text \<open>What the journal answers for a key it knows.\<close>

definition known_answer :: "string \<Rightarrow> string \<Rightarrow> manager \<Rightarrow> operation command_result" where
  "known_answer key fingerprint m =
     (if j_path (m_journal m) = ''''
      then Inl (api_err ''temporary_unavailable'' ''durable mutation journal is unavailable'')
      else case record_of key m of
        None \<Rightarrow> Inl (api_err ''temporary_unavailable'' ''durable mutation journal is unavailable'')
      | Some r \<Rightarrow>
          if ir_Fingerprint r \<noteq> fingerprint
          then Inl (api_err ''idempotency_conflict'' ''idempotency key was used for a different mutation'')
          else replayed (replay_record (j_operations (m_journal m)) r))"

lemma run_on_journal [simp]: "run_state (on_journal f) m =
    (case f (m_journal m) of (r, j) \<Rightarrow> (r, m\<lparr>m_journal := j\<rparr>))"
  by (simp add: on_journal_def)

lemma run_queued [simp]: "submit (Queued False True) f = f"
  by (simp add: submit_def executeCommand_def)

lemma run_admit_known:
  assumes "record_of key m = Some r"
  shows "run_state (admit_command key fp meth) m =
    (if j_path (m_journal m) = ''''
     then Inl (api_err ''temporary_unavailable'' ''durable mutation journal is unavailable'')
     else if ir_Fingerprint r \<noteq> fp
     then Inl (api_err ''idempotency_conflict'' ''idempotency key was used for a different mutation'')
     else Inr \<lparr>ma_key = key, ma_replay = True,
            ma_record = replay_record (j_operations (m_journal m)) r\<rparr>, m)"
  using assms by (simp add: admit_command_def admits_nothing_def admitIdempotentMutation_def)

lemma run_known:
  assumes "idempotencyIdentity (re_canonical e) (re_sha256hex e) (rq_Method q) (rq_IdempotencyKey q)
      (rq_Params q) = Inr (key, fp)"
    and "re_delivery e 0 = Queued False True" and "record_of key m = Some r"
  shows "run_state (runIdempotentMutation e q execute) m = (known_answer key fp m, m)"
  using assms by (simp add: runIdempotentMutation_def run_admit_known known_answer_def)

lemma journal_kept:
  "steps (keeps m_journal) time_Now" "steps (keeps m_journal) newOperationID"
  "steps (keeps m_journal) (write_journal p records)"
proof -
  have kept: "steps (keeps m_journal) f" if "steps (asks plain) f" for f :: "'a op"
    using that by (fastforce simp: state_io_rel_def keeps_def asks_def)
  show "steps (keeps m_journal) time_Now" "steps (keeps m_journal) newOperationID"
    "steps (keeps m_journal) (write_journal p records)"
    by (auto simp: newOperationID_def write_journal_def intro!: kept plain_ops)
qed


text \<open>An admission of an unknown key refuses it without a trace or records it as running.\<close>

definition admission_recorded :: "string \<Rightarrow> string \<Rightarrow> mutation_admission command_result \<Rightarrow> journal \<Rightarrow> bool" where
  "admission_recorded key fp r j =
     (case r of
        Inl _ \<Rightarrow> map_get (j_records j) key = None
      | Inr a \<Rightarrow> \<not> ma_replay a \<and> j_path j \<noteq> '''' \<and> map_get (j_records j) key = Some (ma_record a)
          \<and> ir_Fingerprint (ma_record a) = fp \<and> \<not> ir_Finished (ma_record a))"

lemma admit_unknown:
  assumes "map_get (j_records j) key = None"
    and "admitIdempotentMutation new_id now w key fp meth j = (r, j')"
  shows "admission_recorded key fp r j'"
  using assms
  by (auto simp: admitIdempotentMutation_def Let_def persistIdempotencyRecords_def admitted_record_def
      zero_record_def update_conv' delete_conv' admission_recorded_def split: option.splits if_splits write_outcome.splits)

lemma wp_on_journal [wp_simps]:
  "wp (on_journal f) Q m = (case f (m_journal m) of (r, j) \<Rightarrow> Q r (m\<lparr>m_journal := j\<rparr>))"
  by (simp add: wp_def split: prod.splits)

lemma wp_journal_kept:
  "steps (keeps m_journal) f \<Longrightarrow> (\<And>r m'. m_journal m' = m_journal m \<Longrightarrow> Q r m') \<Longrightarrow> wp f Q m"
  using wp_steps [of "keeps m_journal" f m Q] by (simp add: keeps_def)

lemmas wp_time = wp_journal_kept [OF journal_kept(1)]
  and wp_new_ID = wp_journal_kept [OF journal_kept(2)]
  and wp_write_journal = wp_journal_kept [OF journal_kept(3)]

lemma wp_admit_unknown:
  assumes "record_of key m = None"
  shows "wp (admit_command key fp meth) (\<lambda>r m'. admission_recorded key fp r (m_journal m')) m"
  unfolding admit_command_def wp_simps
  by (auto intro!: wp_time wp_new_ID wp_write_journal dest!: admit_unknown [OF assms] simp: wp_simps
      split: option.split)

text \<open>A completion records the outcome it answers, or leaves the mutation running.\<close>

lemma complete_known:
  assumes "map_get (j_records j) key = Some r0" and "j_path j \<noteq> ''''" and "\<not> ir_Finished r0"
  shows "case completeIdempotentMutation now w key (mutation_outcome result) j of (r, j') \<Rightarrow>
    j_path j' \<noteq> '''' \<and> (map_get (j_records j') key = Some r0
      \<or> (\<exists>r1. map_get (j_records j') key = Some r1 \<and> ir_Fingerprint r1 = ir_Fingerprint r0
           \<and> ir_Finished r1 \<and> mutation_answer r = replayed r1))"
  using assms
  by (cases result)
    (auto simp: completeIdempotentMutation_def Let_def persistIdempotencyRecords_def update_conv'
      completed_record_def mutation_outcome_def mutation_answer_def replayed_def split: write_outcome.splits)

definition completion_recorded :: "string \<Rightarrow> idempotency_record \<Rightarrow> operation command_result \<Rightarrow> journal \<Rightarrow> bool" where
  "completion_recorded key r0 answer j \<longleftrightarrow> j_path j \<noteq> '''' \<and> (map_get (j_records j) key = Some r0
      \<or> (\<exists>r1. map_get (j_records j) key = Some r1 \<and> ir_Fingerprint r1 = ir_Fingerprint r0
           \<and> ir_Finished r1 \<and> answer = replayed r1))"

lemma wp_complete_known:
  assumes "record_of key m = Some r0" and "j_path (m_journal m) \<noteq> ''''" and "\<not> ir_Finished r0"
  shows "wp (complete_command key result) (\<lambda>a m'. completion_recorded key r0 a (m_journal m')) m"
proof -
  have last: "completion_recorded key r0 (mutation_answer r) j"
    if "completeIdempotentMutation now w key (mutation_outcome result) (m_journal m) = (r, j)" for now w r j
    using complete_known [OF assms, where now = now and w = w and result = result] that
    by (auto simp: completion_recorded_def)
  show ?thesis
    using assms unfolding complete_command_def Let_def wp_simps
    by (auto intro!: wp_time wp_write_journal intro: last simp: wp_simps split: sum.split)
qed


definition keeps_record :: "string \<Rightarrow> 'a op \<Rightarrow> bool" where
  "keeps_record key f \<longleftrightarrow> steps (keeps (\<lambda>m. (j_path (m_journal m), record_of key m))) f"

lemma wp_keeps_record:
  assumes "keeps_record key f"
    and "\<And>r m'. record_of key m' = record_of key m \<Longrightarrow> j_path (m_journal m') = j_path (m_journal m) \<Longrightarrow> Q r m'"
  shows "wp f Q m"
  using assms wp_steps [of "keeps (\<lambda>m. (j_path (m_journal m), record_of key m))" f m Q]
  by (simp add: keeps_record_def keeps_def)



text \<open>One mutation that fails because its revision is stale, and what its retry would do.\<close>

definition sample_env :: request_env where
  "sample_env = \<lparr>re_serverID = ''srv'', re_managerVersion = ''1'', re_release = ''6'', re_canonical = Some,
     re_sha256hex = id, re_content_length = \<lambda>_. None, re_export_length = \<lambda>_. None,
     re_find_all = \<lambda>_ _. [], re_output = [], re_expired = \<lambda>_. False,
     re_delivery = \<lambda>_. Queued False True, re_meanwhile = \<lambda>_. return ()\<rparr>"

definition sample_delete :: api_request where
  "sample_delete = operation_request ''configuration.delete'' ''{}'' ''k''"

definition sample_journaled :: manager where
  "sample_journaled = sample_manager\<lparr>m_journal := (m_journal sample_manager)\<lparr>j_path := ''j''\<rparr>\<rparr>"

definition sample_mutation :: "string \<Rightarrow> operation command_result op" where
  "sample_mutation i = return (Inl (api_err ''stale_revision'' ''''))"

definition sample_later :: manager where
  "sample_later = snd (run_state (runIdempotentMutation sample_env sample_delete sample_mutation) sample_journaled)"


text \<open>
  The completion is submitted like any command: a full mailbox refuses it, and nothing submits it
  again. The mutation is over, yet its record says that it is running, in this and in every retry.
\<close>

lemma completion_lost:
  assumes identity: "idempotencyIdentity (re_canonical e) (re_sha256hex e) (rq_Method q) (rq_IdempotencyKey q)
      (rq_Params q) = Inr (key, fp)"
    and delivered: "re_delivery e 0 = Queued False True" "re_delivery e 1 = MailboxFull"
    and others: "\<And>i. keeps_record key (execute i)" "\<And>k. keeps_record key (re_meanwhile e k)"
    and first: "run_state (runIdempotentMutation e q execute) m = (answer, m1)"
    and new: "record_of key m = None" and admitted: "record_of key m1 = Some r"
  shows "answer = Inl commandQueueFullResult \<and> \<not> ir_Finished r
    \<and> run_state (runIdempotentMutation e q execute') m1 =
        (replayed (replay_record (j_operations (m_journal m1)) r), m1)"
proof -
  have "wp (runIdempotentMutation e q execute)
      (\<lambda>a m1. (\<forall>r. record_of key m1 = Some r \<longrightarrow>
        a = Inl commandQueueFullResult \<and> \<not> ir_Finished r \<and> ir_Fingerprint r = fp
        \<and> j_path (m_journal m1) \<noteq> '''')) m"
    unfolding runIdempotentMutation_def using identity delivered
    by (auto intro!: wp_mono [OF wp_admit_unknown [OF new]] wp_keeps_record [OF others(1)]
        wp_keeps_record [OF others(2)]
        simp: wp_simps admission_recorded_def submit_def [of MailboxFull] split: sum.splits)
  then have over: "answer = Inl commandQueueFullResult \<and> \<not> ir_Finished r \<and> ir_Fingerprint r = fp
      \<and> j_path (m_journal m1) \<noteq> ''''"
    using wp_run [OF _ first] admitted by fastforce
  then show ?thesis
    using run_known [OF identity delivered(1) admitted, of execute'] admitted
    by (simp add: known_answer_def)
qed

end
