(* ===== verification/KDM_Run.thy ===== *)
theory KDM_Run
  imports KDM_Waits KDM_LinuxHost KDM_Doctor KDM_Dispatch
begin

text \<open>
  The program from its start: the checks before the service runs and the clean-up after an earlier
  manager (\<^verbatim>\<open>runService\<close> of \<^verbatim>\<open>manager/service_runtime.go\<close>), the status command
  (\<^verbatim>\<open>manager/status.go\<close>), the forwarding of events to a client (\<^verbatim>\<open>manager/api_transport.go\<close>) and the
  page of the metrics server (\<^verbatim>\<open>manager/runtime.go\<close>).
\<close>

section \<open>The start of the service\<close>

definition service_settings :: "settings \<Rightarrow> path \<Rightarrow> go_error + path \<Rightarrow> manager_settings" where
  "service_settings s statusPath runtime =
     \<lparr>ms_configDir = se_configDir s, ms_managedConfigDir = '''', ms_kmonadCommand = se_kmonadCommand s,
      ms_stopTimeout = se_stopTimeout s, ms_dryRunTimeout = se_dryRunTimeout s,
      ms_watchdogTimeout = se_watchdogTimeout s, ms_cgroupRoot = se_cgroupRoot s,
      ms_processMemoryMax = se_processMemoryMax s, ms_processCPUQuota = se_processCPUQuota s,
      ms_statusPath = statusPath, ms_maxConfigs = se_maxConfigs s, ms_maxConfigBytes = se_maxConfigBytes s,
      ms_deviceRegistryPath = path_join (path_dir statusPath) ''devices.json'',
      ms_externalRegistryPath = '''', ms_runtimeDir = runtime\<rparr>"

definition boot :: "path \<Rightarrow> string \<Rightarrow> go_error + path \<Rightarrow> unit op" where
  "boot statusPath kmonadCommand stateDir = do {
     previous \<leftarrow> readStatusFile statusPath;
     recoverOwnedProcesses statusPath kmonadCommand;
     start_manager stateDir previous }"

definition start_refused :: "string \<Rightarrow> string \<Rightarrow> nat \<Rightarrow> cli_error" where
  "start_refused code message status = \<lparr>ce_Code = code, ce_Message = message, ce_Status = status\<rparr>"

text \<open>
  \<open>lock\<close> is the answer of \<^verbatim>\<open>AcquireLock\<close>: an error with whether another instance holds the lock, or its
  path. The result is a refusal, or the manager that enters the loop.
\<close>

definition runService ::
  "host \<Rightarrow> (string \<Rightarrow> nat list option) \<Rightarrow> bool \<Rightarrow> settings \<Rightarrow> (bool \<times> go_error) + path
   \<Rightarrow> go_error + path \<Rightarrow> go_error + path \<Rightarrow> cli_error + manager" where
  "runService host parse_ip supported s lock runtime stateDir =
     (if \<not> supported then Inl unsupported_platform
      else case validateSettings parse_ip s of
          Some message \<Rightarrow> Inl (start_refused ''invalid_settings'' message 2)
        | None \<Rightarrow>
            if \<not> h_KMonadAvailable host [] (se_kmonadCommand s)
            then Inl (start_refused ''kmonad_not_found''
                   (''KMonad is not installed or is not on PATH; install KMonad from ''
                    @ ''https://github.com/kmonad/kmonad, then restart this service'') 127)
            else (case lock of
                Inl (held, e) \<Rightarrow> Inl
                  (if held then start_refused ''lock_held'' ''another instance is already running'' 1
                   else start_refused ''lock_failed''
                          (''cannot acquire single-instance lock: '' @ ge_text e) 1)
              | Inr lockPath \<Rightarrow>
                  let statusPath = path_join (path_dir lockPath) ''status.json'';
                      m = (new_manager host (service_settings s statusPath runtime))
                        \<lparr>m_history := [EvKMonadAvailable (se_kmonadCommand s) True]\<rparr>
                  in Inr (snd (run_state (boot statusPath (se_kmonadCommand s) stateDir) m))))"

section \<open>The status command\<close>

record status_row =
  sr_name :: string
  sr_state :: string
  sr_availability :: "device_availability option"
  sr_healthy :: string
  sr_pid :: string
  sr_reasonCode :: reason_code
  sr_reason :: string

definition int_text :: "int \<Rightarrow> string" where
  "int_text n = (if n < 0 then CHR ''-'' # digits (nat (- n)) else digits (nat n))"

definition yesNo :: "bool \<Rightarrow> string" where
  "yesNo value = (if value then ''true'' else ''false'')"

definition status_table_row :: "status_config \<Rightarrow> status_row" where
  "status_table_row c =
     \<lparr>sr_name = sc_Name c, sr_state = sc_State c, sr_availability = sc_Availability c,
      sr_healthy = yesNo (sc_Healthy c),
      sr_pid = (if sc_ProcessID c \<noteq> 0 then int_text (sc_ProcessID c) else ''-''),
      sr_reasonCode = sc_ReasonCode c,
      sr_reason = (if sc_Reason c = '''' then ''-'' else sc_Reason c)\<rparr>"

text \<open>
  \<open>read\<close> is the status file; \<open>exists\<close> and \<open>start_time\<close> are what the system knows of the process it names.
\<close>

definition showStatus ::
  "go_error + path \<Rightarrow> go_error + string \<Rightarrow> (string \<Rightarrow> status_file option) \<Rightarrow> (int \<Rightarrow> bool) \<Rightarrow> (int \<Rightarrow> nat)
   \<Rightarrow> cli_error + status_file" where
  "showStatus runtime read decode exists start_time =
     (case runtime of
        Inl e \<Rightarrow> Inl (start_refused ''runtime_directory_unavailable''
                   (''cannot locate runtime directory: '' @ ge_text e) 1)
      | Inr _ \<Rightarrow> (case read of
            Inl e \<Rightarrow> Inl (if ge_kind e = NotExist
                then start_refused ''manager_not_running'' ''manager is not running'' 3
                else start_refused ''status_unreadable'' (''cannot read status: '' @ ge_text e) 1)
          | Inr data \<Rightarrow> (case decode data of
                None \<Rightarrow> Inl (start_refused ''status_invalid'' ''invalid status file'' 1)
              | Some status \<Rightarrow>
                  if \<not> exists (sf_PID status) \<or> sf_ProcessStart status = 0
                     \<or> start_time (sf_PID status) \<noteq> sf_ProcessStart status
                  then Inl (start_refused ''manager_not_running'' ''manager is not running'' 3)
                  else Inr status)))"

section \<open>Forwarding events to a client\<close>

text \<open>
  What the forwarder finds when it looks: its context is over, a request to start over, an event, or
  that the channel was closed. \<open>sendable\<close> says whether a frame could be written; the frames it tried are
  returned, and whether it ended.
\<close>

datatype (plugins only: code size) forward_step = ForwardDone | TakeResync event | TakeEvent event | EventsClosed

fun write_frames :: "(event \<Rightarrow> bool) \<Rightarrow> event list \<Rightarrow> event list \<times> bool" where
  "write_frames sendable [] = ([], True)"
| "write_frames sendable (e # es) =
     (if sendable e then case write_frames sendable es of (sent, ok) \<Rightarrow> (e # sent, ok) else ([e], False))"

fun forward_loop :: "(event \<Rightarrow> bool) \<Rightarrow> forward_step list \<Rightarrow> event list \<times> bool" where
  "forward_loop sendable [] = ([], False)"
| "forward_loop sendable (step # rounds) =
     (case step of
        ForwardDone \<Rightarrow> ([], True)
      | TakeResync e \<Rightarrow> ([e], True)
      | EventsClosed \<Rightarrow> ([], True)
      | TakeEvent e \<Rightarrow>
          if sendable e then case forward_loop sendable rounds of (sent, ended) \<Rightarrow> (e # sent, ended)
          else ([e], True))"

definition forwardEventSubscription ::
  "(event \<Rightarrow> bool) \<Rightarrow> event_subscription \<Rightarrow> forward_step list \<Rightarrow> event list \<times> bool" where
  "forwardEventSubscription sendable sub rounds =
     (case es_ResyncEvent sub of
        Some e \<Rightarrow> ([e], True)
      | None \<Rightarrow> (case write_frames sendable (es_Replay sub) of
            (sent, False) \<Rightarrow> (sent, True)
          | (sent, True) \<Rightarrow> (case forward_loop sendable rounds of (later, ended) \<Rightarrow> (sent @ later, ended))))"

section \<open>The page of the metrics server\<close>

definition metric_lines :: "string \<Rightarrow> string \<Rightarrow> string \<Rightarrow> nat \<Rightarrow> string list" where
  "metric_lines kind name help value =
     [''# HELP '' @ name @ '' '' @ help, ''# TYPE '' @ name @ '' '' @ kind, name @ '' '' @ digits value]"

definition writePrometheusCounter :: "string \<Rightarrow> string \<Rightarrow> nat \<Rightarrow> string list" where
  "writePrometheusCounter = metric_lines ''counter''"

definition writePrometheusGauge :: "string \<Rightarrow> string \<Rightarrow> nat \<Rightarrow> string list" where
  "writePrometheusGauge = metric_lines ''gauge''"

text \<open>\<open>event_name\<close> quotes the name of an event type; \<open>failures\<close> counts failures of the server itself.\<close>

definition metricsHandler :: "(event_type \<Rightarrow> string) \<Rightarrow> nat \<Rightarrow> manager \<Rightarrow> string list" where
  "metricsHandler event_name failures m =
     (let c = m_counters m
      in writePrometheusCounter ''kmonad_manager_reconciles_total'' ''Total manager reconciliation cycles.'' (ct_reconciles c)
       @ writePrometheusCounter ''kmonad_manager_process_starts_total'' ''Total KMonad process starts.'' (ct_starts c)
       @ writePrometheusCounter ''kmonad_manager_failures_total'' ''Total manager-supervision failures.'' (ct_failures c)
       @ writePrometheusCounter ''kmonad_manager_process_stops_total'' ''Total KMonad process stops.'' (ct_stops c)
       @ writePrometheusGauge ''kmonad_manager_metrics_server_up''
           ''Whether the manager metrics server is accepting requests.'' (if ct_metricsServerUp c then 1 else 0)
       @ writePrometheusCounter ''kmonad_manager_metrics_server_failures_total'' ''Total metrics-server failures.'' failures
       @ writePrometheusCounter ''kmonad_manager_status_write_failures_total''
           ''Total manager status-write failures.'' (ct_statusFailures c)
       @ writePrometheusGauge ''kmonad_manager_public_state_revision''
           ''Latest public manager state revision.'' (el_publicStateRevision (m_log m))
       @ [''# HELP kmonad_manager_public_events_total Total public manager transition events by stable event type.'',
          ''# TYPE kmonad_manager_public_events_total counter'']
       @ map (\<lambda>(kind, n). ''kmonad_manager_public_events_total{event_type='' @ event_name kind @ ''} '' @ digits n)
           (zip publicEventMetricTypes (el_publicEvents (m_log m))))"

section \<open>Left-over processes\<close>

text \<open>
  What the history of a start must show. A signal goes only to a process that a status document
  recorded with its start time, after the system confirmed that start time and that the process runs
  the command; its group is the recorded one, or the one the system gave for it.
\<close>

definition recorded :: "host \<Rightarrow> status_config \<Rightarrow> bool" where
  "recorded host item \<longleftrightarrow> (\<exists>data status. h_parse_json host data = Some (StatusDocument status)
     \<and> item \<in> set (sf_Configurations status))"

definition verified :: "string \<Rightarrow> status_config \<Rightarrow> history \<Rightarrow> bool" where
  "verified command item h \<longleftrightarrow> sc_ProcessStart item \<noteq> 0
     \<and> EvStartTime (sc_ProcessID item) (sc_ProcessStart item) \<in> set h
     \<and> (\<exists>p. EvMatches (sc_ProcessID item) command p True \<in> set h)"

definition left_over :: "host \<Rightarrow> string \<Rightarrow> status_config \<Rightarrow> history \<Rightarrow> bool" where
  "left_over host command item h \<longleftrightarrow> recorded host item \<and> verified command item h"

fun recovery_ok :: "host \<Rightarrow> string \<Rightarrow> os_event \<Rightarrow> history \<Rightarrow> bool" where
  "recovery_ok host command (EvStart c args r) h \<longleftrightarrow> False"
| "recovery_ok host command (EvCall (SignalPid pid s) r) h \<longleftrightarrow>
     (\<exists>item. left_over host command item h \<and> pid = sc_ProcessID item)"
| "recovery_ok host command (EvCall (SignalHandle k s) r) h \<longleftrightarrow>
     (\<exists>item info. left_over host command item h \<and> EvStartedProcess (sc_ProcessID item) info \<in> set h
        \<and> pi_Handle info = Some k)"
| "recovery_ok host command (EvCall (SignalGroup g s) r) h \<longleftrightarrow>
     (\<exists>item info. left_over host command item h \<and> EvStartedProcess (sc_ProcessID item) info \<in> set h
        \<and> g = (if sc_ProcessGroupID item \<noteq> 0 then sc_ProcessGroupID item
               else if pi_GroupID info \<noteq> 0 then pi_GroupID info else sc_ProcessID item))"
| "recovery_ok host command e h \<longleftrightarrow> True"

fun guarded :: "(os_event \<Rightarrow> history \<Rightarrow> bool) \<Rightarrow> history \<Rightarrow> bool" where
  "guarded P [] \<longleftrightarrow> True"
| "guarded P (e # h) \<longleftrightarrow> P e h \<and> guarded P h"

definition recovers :: "host \<Rightarrow> string \<Rightarrow> manager \<Rightarrow> manager \<Rightarrow> bool" where
  "recovers host command m m' \<longleftrightarrow> m_host m' = m_host m \<and> (\<exists>es. m_history m' = es @ m_history m)
     \<and> (guarded (recovery_ok host command) (m_history m) \<longrightarrow> guarded (recovery_ok host command) (m_history m'))"

interpretation recovering: step_relation "recovers host command" for host command
  by unfold_locales (auto simp: recovers_def)

lemma recovery_ok_plain: "plain e \<Longrightarrow> recovery_ok host command e h"
  by (cases "(host, command, e, h)" rule: recovery_ok.cases) (simp_all add: plain_def)

lemma guarded_plain: "list_all plain es \<Longrightarrow> guarded (recovery_ok host command) h \<Longrightarrow> guarded (recovery_ok host command) (es @ h)"
  by (induction es) (simp_all add: recovery_ok_plain)

lemma quiet_recovers: "quiet m m' \<Longrightarrow> recovers host command m m'"
  by (auto simp: quiet_def extends_def recovers_def guarded_plain)

definition held :: "host \<Rightarrow> string \<Rightarrow> status_config \<Rightarrow> processState \<Rightarrow> manager \<Rightarrow> bool" where
  "held host command item p m \<longleftrightarrow> left_over host command item (m_history m) \<and> proc_pid p = sc_ProcessID item
     \<and> (\<exists>info. EvStartedProcess (sc_ProcessID item) info \<in> set (m_history m) \<and> proc_pidfd p = pi_Handle info
        \<and> proc_processGroupID p =
           (if sc_ProcessGroupID item \<noteq> 0 then sc_ProcessGroupID item else pi_GroupID info))"

lemma left_over_mono: "recovers host command m m' \<Longrightarrow> left_over host command item (m_history m) \<Longrightarrow>
    left_over host command item (m_history m')"
  by (auto simp: recovers_def left_over_def verified_def)

lemma held_mono: "recovers host command m m' \<Longrightarrow> held host command item p m \<Longrightarrow> held host command item p m'"
  by (auto simp: held_def recovers_def left_over_def verified_def)

lemma wp_recovers:
  assumes "steps quiet f" "recovers host command base m" "\<And>r m'. recovers host command base m' \<Longrightarrow> Q r m'"
  shows "wp f Q m"
  using assms(1) by (rule wp_steps) (blast intro: assms(2,3) quiet_recovers recovering.trans)

lemma wp_recovers_call:
  assumes "recovers host command base m" "\<And>r. recovery_ok host command (EvCall c r) (m_history m)"
    "\<And>r m'. recovers host command base m' \<Longrightarrow> Q r m'"
  shows "wp (call c) Q m"
  unfolding call_def
proof (rule wp_ask)
  fix a
  have "recovers host command m (m\<lparr>m_history := EvCall c a # m_history m\<rparr>)"
    using assms(2) by (auto simp: recovers_def)
  then show "Q a (m\<lparr>m_history := EvCall c a # m_history m\<rparr>)"
    by (rule assms(3) [OF recovering.trans [OF assms(1)]])
qed

lemma held_signals:
  assumes "held host command item p m"
  shows "recovery_ok host command (EvCall (SignalPid (proc_pid p) s) r) (m_history m)"
    and "recovery_ok host command (EvCall (SignalGroup
      (if proc_processGroupID p = 0 then proc_pid p else proc_processGroupID p) s) r) (m_history m)"
    and "proc_pidfd p = Some k \<Longrightarrow> recovery_ok host command (EvCall (SignalHandle k s) r) (m_history m)"
  using assms by (auto simp: held_def split: if_splits) (metis | blast)+

lemma recover_signal_group:
  assumes "held host command item p base" "recovers host command base m"
    "\<And>r m'. recovers host command base m' \<Longrightarrow> Q r m'"
  shows "wp (signalProcessGroup p s) Q m"
  using assms(2,3) held_signals(2) [OF held_mono [OF _ assms(1)]]
  by (auto simp: signalProcessGroup_def wp_simps Let_def simp del: recovery_ok.simps
      intro!: wp_recovers_call [where host = host and command = command and base = base])

lemma recover_signal_pid:
  assumes "held host command item p base" "recovers host command base m"
    "\<And>r m'. recovers host command base m' \<Longrightarrow> Q r m'"
  shows "wp (signal_by_pid p s) Q m"
  using assms(2,3) held_signals(1) [OF held_mono [OF _ assms(1)]]
  by (auto simp: signal_by_pid_def wp_simps simp del: recovery_ok.simps
      intro!: wp_recovers_call [where host = host and command = command and base = base] quiet_now [THEN wp_recovers, where host = host and command = command and base = base])

lemma recover_signal:
  assumes "held host command item p base" "recovers host command base m"
    "\<And>r m'. recovers host command base m' \<Longrightarrow> Q r m'"
  shows "wp (signalProcess p s) Q m"
  using assms(2,3) held_signals(3) [OF held_mono [OF _ assms(1)]] assms(1)
  by (auto simp: signalProcess_def wp_simps simp del: recovery_ok.simps
      intro!: recover_signal_group [where host = host and command = command and item = item and base = base] recover_signal_pid [where host = host and command = command and item = item and base = base]
        wp_recovers_call [where host = host and command = command and base = base] split: option.splits)

lemma recovers_ask:
  "recovery_ok host command (ev a) (m_history m) \<Longrightarrow> recovers host command base m \<Longrightarrow>
    recovers host command base (m\<lparr>m_history := ev a # m_history m\<rparr>)"
  by (auto simp: recovers_def)

lemma recover_new_process:
  assumes "left_over host command item (m_history base)" "recovers host command base m"
    "\<And>p m'. recovers host command base m' \<Longrightarrow> (\<And>t. held host command item
        (if sc_ProcessGroupID item \<noteq> 0
         then p\<lparr>proc_startTick := t, proc_processGroupID := sc_ProcessGroupID item\<rparr>
         else p\<lparr>proc_startTick := t\<rparr>) m') \<Longrightarrow> Q p m'"
  shows "wp (newProcessState (sc_ProcessID item)) Q m"
  unfolding newProcessState_def wp_simps StartedProcess_def
proof (rule wp_ask)
  fix info
  let ?m = "m\<lparr>m_history := EvStartedProcess (sc_ProcessID item) info # m_history m\<rparr>"
  have r: "recovers host command base ?m"
    using recovers_ask [OF _ assms(2), where ev = "EvStartedProcess (sc_ProcessID item)"] by simp
  show "Q \<lparr>proc_pid = sc_ProcessID item, proc_pidfd = pi_Handle info, proc_startedAt = 0,
      proc_startTick = pi_StartTick info,
      proc_processGroupID = pi_GroupID info, proc_launchPath = '''', proc_unhealthySince = 0,
      proc_cgroupPath = ''''\<rparr> ?m"
    using left_over_mono [OF r assms(1)] by (intro assms(3) [OF r]) (auto simp: held_def)
qed

text \<open>What is done with a process whose start time was found to be the recorded one.\<close>

lemma recover_signal_close:
  assumes "held host command item q base" "recovers host command base m"
    "\<And>r m'. recovers host command base m' \<Longrightarrow> Q r m'"
  shows "wp (if gone then do { _ \<leftarrow> closeProcessFD q; return () }
    else do { signalProcess q s; _ \<leftarrow> closeProcessFD q; return () }) Q m"
  using assms
  by (auto simp: wp_simps intro!: recover_signal [where host = host and command = command and item = item and base = base]
      wp_recovers [where f = "closeProcessFD q" and host = host and command = command and base = base] quiet_ops)

lemma quiet_tick: "steps quiet (if c then return False else do { tick \<leftarrow> processStartTime pid; return (tick \<noteq> t) })"
  by (auto intro!: quiet_ops)

lemma recover_signal_owned:
  assumes "left_over host command item (m_history base)" "recovers host command base m"
    "\<And>r m'. recovers host command base m' \<Longrightarrow> Q r m'"
  shows "wp (signalOwnedProcessIDWithGroup (sc_ProcessID item) (sc_ProcessStart item)
    (sc_ProcessGroupID item) s) Q m"
proof -
  have second: "wp (if sc_ProcessStart item = 0 then return False
       else do { tick \<leftarrow> processStartTime (sc_ProcessID item); return (tick \<noteq> sc_ProcessStart item) })
     (\<lambda>gone. wp (if gone then do { _ \<leftarrow> closeProcessFD q; return () }
        else do { signalProcess q s; _ \<leftarrow> closeProcessFD q; return () }) Q) m1"
    if "recovers host command base m1" "held host command item q m1" for q m1
    by (rule wp_recovers [OF quiet_tick recovering.refl], rule recover_signal_close [OF that(2)])
      (use that(1) in \<open>auto intro: assms(3) recovering.trans\<close>)
  have first: "wp (newProcessState (sc_ProcessID item)) (\<lambda>p0. wp (let p1 = p0\<lparr>proc_startTick := sc_ProcessStart item\<rparr>;
        p = (if sc_ProcessGroupID item \<noteq> 0 then p1\<lparr>proc_processGroupID := sc_ProcessGroupID item\<rparr> else p1)
      in do {
        gone \<leftarrow> (if sc_ProcessStart item = 0 then return False
          else do { tick \<leftarrow> processStartTime (sc_ProcessID item); return (tick \<noteq> sc_ProcessStart item) });
        if gone then do { _ \<leftarrow> closeProcessFD p; return () }
        else do { signalProcess p s; _ \<leftarrow> closeProcessFD p; return () } }) Q) m1"
    if "recovers host command base m1" for m1
  proof (rule recover_new_process [OF assms(1) that])
    fix p0 m2
    assume m2: "recovers host command base m2" and p: "held host command item
        (if sc_ProcessGroupID item \<noteq> 0
         then p0\<lparr>proc_startTick := t, proc_processGroupID := sc_ProcessGroupID item\<rparr>
         else p0\<lparr>proc_startTick := t\<rparr>) m2" for t
    show "wp (let p1 = p0\<lparr>proc_startTick := sc_ProcessStart item\<rparr>;
        p = (if sc_ProcessGroupID item \<noteq> 0 then p1\<lparr>proc_processGroupID := sc_ProcessGroupID item\<rparr> else p1)
      in do {
        gone \<leftarrow> (if sc_ProcessStart item = 0 then return False
          else do { tick \<leftarrow> processStartTime (sc_ProcessID item); return (tick \<noteq> sc_ProcessStart item) });
        if gone then do { _ \<leftarrow> closeProcessFD p; return () }
        else do { signalProcess p s; _ \<leftarrow> closeProcessFD p; return () } }) Q m2"
      unfolding Let_def wp_bind [of "if sc_ProcessStart item = 0 then _ else _"]
      by (rule second [OF m2]) (use p [of "sc_ProcessStart item"] in simp)
  qed
  show ?thesis
  proof (cases "sc_ProcessID item \<le> 0")
    case True
    then show ?thesis
      using assms(2,3) by (simp add: signalOwnedProcessIDWithGroup_def wp_simps)
  next
    case False
    show ?thesis
      unfolding signalOwnedProcessIDWithGroup_def if_not_P [OF False] wp_bind [of "if sc_ProcessStart item = 0 then _ else _"]
      by (rule wp_recovers [OF quiet_tick assms(2)], unfold wp_if wp_return wp_bind [of "newProcessState _"])
        (use assms(3) first in auto)
  qed
qed

lemma quiet_wait_gone: "steps quiet (wait_gone pid deadline n)"
  by (induction n) (auto intro!: quiet_ops)

lemma wp_recovers_verified:
  assumes "recovers host command base m" "sc_ProcessStart item \<noteq> 0" "recorded host item"
    "\<And>m'. recovers host command base m' \<Longrightarrow> Q False m'"
    "\<And>m'. recovers host command base m' \<Longrightarrow> left_over host command item (m_history m') \<Longrightarrow> Q True m'"
    "EvStartTime (sc_ProcessID item) (sc_ProcessStart item) \<in> set (m_history m)"
  shows "wp (processMatchesCommand (sc_ProcessID item) command p) Q m"
  unfolding processMatchesCommand_def
proof (rule wp_ask)
  fix a
  let ?m = "m\<lparr>m_history := EvMatches (sc_ProcessID item) command p a # m_history m\<rparr>"
  have "recovers host command base ?m"
    using recovers_ask [OF _ assms(1), where ev = "EvMatches (sc_ProcessID item) command p"] by simp
  then show "Q a ?m"
    using assms(2,3,6) by (cases a) (auto intro!: assms(4,5) simp: left_over_def verified_def)
qed

text \<open>One recorded process: after the checks, two signals with a wait between them.\<close>

lemma recover_verified:
  assumes known: "left_over host command item (m_history m)" and "recovers host command base m"
  shows "wp (do {
      signalOwnedProcessIDWithGroup (sc_ProcessID item) (sc_ProcessStart item) (sc_ProcessGroupID item)
        SignalTerminate;
      now \<leftarrow> time_Now;
      _ \<leftarrow> wait_gone (sc_ProcessID item) (now + 2 * second) recovery_rounds;
      alive \<leftarrow> pidExists (sc_ProcessID item);
      (if alive
       then signalOwnedProcessIDWithGroup (sc_ProcessID item) (sc_ProcessStart item) (sc_ProcessGroupID item)
              SignalKill
       else return ());
      remains \<leftarrow> pidExists (sc_ProcessID item);
      if remains then return ()
      else do { _ \<leftarrow> removeConfigSnapshot (sc_LaunchPath item); return () } })
    (\<lambda>_ m'. recovers host command base m') m"
proof (rule wp_mono)
  show "wp (do {
      signalOwnedProcessIDWithGroup (sc_ProcessID item) (sc_ProcessStart item) (sc_ProcessGroupID item)
        SignalTerminate;
      now \<leftarrow> time_Now;
      _ \<leftarrow> wait_gone (sc_ProcessID item) (now + 2 * second) recovery_rounds;
      alive \<leftarrow> pidExists (sc_ProcessID item);
      (if alive
       then signalOwnedProcessIDWithGroup (sc_ProcessID item) (sc_ProcessStart item) (sc_ProcessGroupID item)
              SignalKill
       else return ());
      remains \<leftarrow> pidExists (sc_ProcessID item);
      if remains then return ()
      else do { _ \<leftarrow> removeConfigSnapshot (sc_LaunchPath item); return () } })
    (\<lambda>_ m'. recovers host command m m') m"
  unfolding wp_bind wp_if wp_return
  using recovering.refl [of host command m]
  by (auto simp: wp_return intro!: recover_signal_owned [OF known] quiet_wait_gone
      wp_recovers [where f = time_Now and host = host and command = command and base = m]
      wp_recovers [where f = "wait_gone i d n" and host = host and command = command and base = m for i d n]
      wp_recovers [where f = "pidExists i" and host = host and command = command and base = m for i]
      wp_recovers [where f = "removeConfigSnapshot q" and host = host and command = command and base = m for q]
      quiet_ops)
qed (rule recovering.trans [OF assms(2)])

lemma recover_one:
  assumes "recorded host item" "recovers host command base m"
  shows "wp (recover_process command dir item) (\<lambda>_ m'. recovers host command base m') m"
proof (cases "sc_ProcessID item = 0 \<or> sc_ProcessStart item = 0")
  case True
  then show ?thesis using assms(2) by (auto simp: recover_process_def Let_def wp_return)
next
  case False
  have drop: "wp (removeConfigSnapshot q) (\<lambda>_ m'. recovers host command base m') m1"
    if "recovers host command base m1" for q m1
    by (rule wp_recovers [OF _ that]) (auto intro!: quiet_ops)
  have tick: "wp (processStartTime (sc_ProcessID item)) Q m"
    if "\<And>t m'. recovers host command base m' \<Longrightarrow> EvStartTime (sc_ProcessID item) t \<in> set (m_history m') \<Longrightarrow> Q t m'" for Q
    unfolding processStartTime_def
    by (rule wp_ask, rule that)
      (use recovers_ask [OF _ assms(2), where ev = "EvStartTime (sc_ProcessID item)"] in auto)
  have rest: "wp (processMatchesCommand (sc_ProcessID item) command p)
      (\<lambda>matches. wp (if \<not> matches then do { _ \<leftarrow> removeConfigSnapshot (sc_LaunchPath item); return () }
         else f) (\<lambda>_ m'. recovers host command base m')) m1"
    if "recovers host command base m1"
      "EvStartTime (sc_ProcessID item) (sc_ProcessStart item) \<in> set (m_history m1)"
      "\<And>m2. recovers host command base m2 \<Longrightarrow> left_over host command item (m_history m2) \<Longrightarrow>
         wp f (\<lambda>_ m'. recovers host command base m') m2" for p f m1
    by (rule wp_recovers_verified [OF that(1) _ assms(1) _ _ that(2)])
      (use False that(3) drop in \<open>auto simp: wp_bind wp_return\<close>)
  show ?thesis
    unfolding recover_process_def Let_def if_not_P [OF False] wp_bind [of "processStartTime _"]
    by (rule tick)
      (auto simp: wp_return wp_bind [of "processMatchesCommand _ _ _"]
        intro!: rest recover_verified)
qed

lemma recover_all:
  assumes "recovers host command base m" "\<And>item. item \<in> set items \<Longrightarrow> recorded host item"
  shows "wp (for_each items (recover_process command dir)) (\<lambda>_ m'. recovers host command base m') m"
  by (rule wp_for_each) (use assms in \<open>auto intro: recover_one\<close>)

lemma recover_owned:
  assumes "recovers host command base m" "m_host base = host"
  shows "wp (recoverOwnedProcesses statusPath command) (\<lambda>_ m'. recovers host command base m') m"
proof -
  have all: "wp (for_each (sf_Configurations status) (recover_process command (sf_ConfigDir status)))
      (\<lambda>_ m'. recovers host command base m') m1"
    if "recovers host command base m1" "h_parse_json host data = Some (StatusDocument status)" for m1 data status
    by (rule recover_all [OF that(1)]) (use that(2) in \<open>auto simp: recorded_def\<close>)
  have rest: "wp (call (RemoveFile statusPath)) (\<lambda>_ m'. recovers host command base m') m1"
    if "recovers host command base m1" for m1
    by (rule wp_recovers [OF _ that]) (auto intro!: quiet_ops)
  have same: "m_host m' = host" if "recovers host command base m'" for m'
    using that assms(2) by (simp add: recovers_def)
  show ?thesis
    unfolding recoverOwnedProcesses_def wp_bind wp_gets
    by (rule wp_recovers [OF _ assms(1)])
      (auto simp: wp_return wp_bind wp_gets same intro!: quiet_ops rest wp_mono [OF all]
        split: sum.split option.split document.split)
qed

text \<open>Loading what the manager keeps neither starts nor signals anything.\<close>

lemma recovers_modify: "(\<And>m. m_history (f m) = m_history m \<and> m_host (f m) = m_host m) \<Longrightarrow>
    steps (recovers host command) (modify f)"
  by (simp add: state_io_rel_def recovers_def)

lemma recovers_quiet_op: "steps quiet f \<Longrightarrow> steps (recovers host command) f"
  by (auto simp: state_io_rel_def intro: quiet_recovers)

lemma recovers_start: "steps (recovers host command) (start_manager stateDir previous)"
proof -
  have store: "steps (recovers host command) (openManagedConfigurationStore base)" for base
    unfolding openManagedConfigurationStore_def Let_def
    by (auto simp del: calls.simps intro!: recovers_quiet_op [of "calls cs" for cs] recovers_quiet_op [of "openJournal p" for p]
        recovers_quiet_op [of "os_ReadDir p" for p] recovers_quiet_op [of "for_each es load_managed_entry" for es]
        recovers_modify quiet_ops split: option.splits sum.splits)
  have backoff: "steps (recovers host command) (restoreBackoff previous)"
    by (auto simp: restoreBackoff_def Let_def intro!: recovers_modify split: option.splits)
  show ?thesis
    unfolding start_manager_def
    by (auto intro!: store backoff recovers_quiet_op [of loadDeviceRegistry] recovers_quiet_op [of probeKMonadVersion]
        recovers_quiet_op [of loadExternalConfigurationRegistry] recovers_quiet_op [of markProgress] quiet_ops
        split: sum.splits option.splits)
qed

lemma recovers_boot:
  assumes "m_host m = host"
  shows "wp (boot statusPath command stateDir) (\<lambda>_ m'. recovers host command m m') m"
proof -
  have read: "steps quiet (readStatusFile statusPath)"
    by (auto simp: readStatusFile_def intro!: quiet_ops split: sum.splits)
  have start: "wp (start_manager stateDir previous) (\<lambda>_ m'. recovers host command m m') m1"
    if "recovers host command m m1" for m1 previous
    by (rule wp_steps [OF recovers_start]) (rule recovering.trans [OF that])
  show ?thesis
    unfolding boot_def wp_bind
    by (rule wp_recovers [OF read recovering.refl]) (auto intro!: wp_mono [OF recover_owned] start assms)
qed

text \<open>C2: The service begins only on a supported platform, with valid settings, with KMonad there and with
  the lock of the instance in its hands; until its loop begins it starts no process at all, and it signals
  only left-over processes: those that a status document recorded with their start time, after the
  system confirmed that start time and that the process runs the command, by their identifier, by
  the handle the system gave for it, or in the group that was recorded or given for it.\<close>

theorem start_signals_only_left_over:
  "case runService host parse_ip supported s lock runtime stateDir of
     Inl e \<Rightarrow> ce_Status e = (if supported \<and> validateSettings parse_ip s = None
        then (if h_KMonadAvailable host [] (se_kmonadCommand s) then 1 else 127) else 2)
   | Inr m \<Rightarrow> supported \<and> validateSettings parse_ip s = None
       \<and> h_KMonadAvailable host [] (se_kmonadCommand s) \<and> (\<exists>lockPath. lock = Inr lockPath)
       \<and> guarded (recovery_ok host (se_kmonadCommand s)) (m_history m)"
proof -
  have booted: "guarded (recovery_ok host command) (m_history (snd (run_state (boot statusPath command stateDir) m)))"
    if "m_host m = host" "guarded (recovery_ok host command) (m_history m)" for m command statusPath
    using wp_run [OF recovers_boot [OF that(1)]] that(2)
    by (metis prod.collapse recovers_def)
  show ?thesis
    by (auto simp: runService_def start_refused_def unsupported_platform_def Let_def new_manager_def
        intro!: booted split: option.split sum.split)
qed

end
