(* ===== verification/Spec2Isabelle.thy ===== *)
theory Spec2Isabelle
  imports KDM_Broker KDM_Decisions KDM_Waits KDM_Requests KDM_Run
begin

text \<open>
  A verification development of the KMonad device manager (Go, \<^verbatim>\<open>src/internal\<close>): a user service
  that finds keyboards, keeps one KMonad process per configured keyboard running, stores
  configurations of its own, and is asked about all that through a local socket. The kernel checks
  everything below; no axioms are added.

  \<^bold>\<open>The program and its parts.\<close> One goroutine owns the manager (\<^verbatim>\<open>manager/service.go\<close>). Its loop
  (\<^verbatim>\<open>manager/runtime.go\<close>) makes a pass over the configuration directory (\<^verbatim>\<open>supervisor.go\<close>), writes the
  status file, and between passes executes commands, which connections of the API socket
  (\<^verbatim>\<open>api_transport.go\<close>) put into its mailbox (\<^verbatim>\<open>commands.go\<close>). What changes a configuration is carried
  out once per idempotency key, by the journal (\<^verbatim>\<open>idempotency.go\<close>); every public change is an event
  (\<^verbatim>\<open>events.go\<close>). All contact with the system goes through the interface \<^verbatim>\<open>System\<close>
  (\<^verbatim>\<open>platform/platform.go\<close>), which \<^verbatim>\<open>platform/linux.go\<close> implements. The privileged broker
  (\<^verbatim>\<open>platform/broker*.go\<close>) is a second program's core: it authorises starts for several users. The
  command line (\<^verbatim>\<open>cli.go\<close>, \<^verbatim>\<open>entrypoint.go\<close>, \<^verbatim>\<open>api_client.go\<close>, \<^verbatim>\<open>doctor.go\<close>) is the client.

  \<^bold>\<open>Theories and sources.\<close>
  \<^item> \<open>KDM_Prelude\<close>, \<open>KDM_GoStrings\<close>, \<open>KDM_Quote\<close>, \<open>KDM_Paths\<close>: Go's values, maps, strings, quoting and
    paths as the program uses them. \<open>KDM_Domain\<close>: \<^verbatim>\<open>domain.go\<close>.
  \<^item> \<open>KDM_Manager\<close>, \<open>KDM_Ops\<close>: the record \<open>manager\<close>, the system as a record of functions of the history of
    calls, operations as state transformers with a weakest precondition and with relations that steps
    keep (locale \<open>step_relation\<close>).
  \<^item> \<open>KDM_Files\<close>, \<open>KDM_Store\<close>, \<open>KDM_Discovery\<close>, \<open>KDM_Devices\<close>, \<open>KDM_Public\<close>, \<open>KDM_Status\<close>, \<open>KDM_Version\<close>:
    \<^verbatim>\<open>state.go\<close>, \<^verbatim>\<open>managed_store.go\<close>, \<^verbatim>\<open>configurations.go\<close>, \<^verbatim>\<open>devices.go\<close>, \<^verbatim>\<open>diagnostics.go\<close>,
    \<^verbatim>\<open>snapshot.go\<close>, \<^verbatim>\<open>kmonad.go\<close>.
  \<^item> \<open>KDM_Phases\<close>, \<open>KDM_Process\<close>, \<open>KDM_Supervisor\<close>, \<open>KDM_Safety\<close>, \<open>KDM_Pass\<close>, \<open>KDM_Decisions\<close>, \<open>KDM_Waits\<close>:
    the phase machine, processes and the pass of \<^verbatim>\<open>service.go\<close>, \<^verbatim>\<open>process.go\<close>, \<^verbatim>\<open>supervisor.go\<close>, and
    what they guarantee.
  \<^item> \<open>KDM_Sessions\<close>, \<open>KDM_Validation\<close>, \<open>KDM_Apply\<close>, \<open>KDM_Content\<close>, \<open>KDM_Service\<close>, \<open>KDM_Records\<close>,
    \<open>KDM_Requests\<close>, \<open>KDM_Sample\<close>: \<^verbatim>\<open>identify.go\<close>, \<^verbatim>\<open>inputscan.go\<close>, \<^verbatim>\<open>validation.go\<close>, \<^verbatim>\<open>apply.go\<close>,
    \<^verbatim>\<open>lifecycle.go\<close>, \<^verbatim>\<open>adopt.go\<close>, \<^verbatim>\<open>content.go\<close>, \<^verbatim>\<open>service_runtime.go\<close>, \<^verbatim>\<open>runtime.go\<close>; runs of the
    service as sequences of requests in any order; a concrete system for the witnesses.
  \<^item> \<open>KDM_Config\<close>, \<open>KDM_Locations\<close>, \<open>KDM_Keys\<close>: the tokenizer, rendering and adoption of a configuration,
    \<^verbatim>\<open>validation_location.go\<close>, \<^verbatim>\<open>keycodes.go\<close> and the evdev parts of \<^verbatim>\<open>linux.go\<close>.
  \<^item> \<open>KDM_Journal\<close>, \<open>KDM_Events\<close> with \<open>KDM_BoundedLog\<close>, \<open>KDM_Transport\<close>, \<open>KDM_Dispatch\<close>: the journal, the
    events and their subscribers, frames and connections, and what a started request does.
  \<^item> \<open>KDM_Run\<close>: the start of the service, its clean-up after an earlier manager, the status command, the
    forwarding of events and the metrics page.
  \<^item> \<open>KDM_Client\<close>, \<open>KDM_Settings\<close>, \<open>KDM_Doctor\<close>: the command line with its conversation, the settings, the
    doctor. \<open>KDM_Proc\<close>, \<open>KDM_LinuxHost\<close>: the calls of \<^verbatim>\<open>platform/linux.go\<close> themselves.
  \<^item> \<open>KDM_Broker\<close>, \<open>KDM_Wire\<close>: \<^verbatim>\<open>broker.go\<close>, \<^verbatim>\<open>broker_wire.go\<close>, \<^verbatim>\<open>broker_snapshot.go\<close>.

  \<^bold>\<open>What is proved.\<close> Of the service, whatever the system answers and in whatever order it is asked: it
  signals only processes it started and starts KMonad only on files it wrote and that passed a dry
  run; a running process outlives every edit that does not validate; a pass starts at most one
  process per device, stays within the limit, stops everything while the directory is not to be
  trusted, honours retry delays, and starts a valid configuration; the table of managed
  configurations is always valid; before its loop begins it signals only verified left-over processes. Of requests: a mutation is carried out at most once and its outcome
  is replayed, also by the complete request handler when the request is repeated; a stale revision
  changes nothing; the event stream has no gaps or says so; connections are bounded; what the command
  line sends the server takes. Of the broker: grants are used once, users are separate, also on the
  wire and in the snapshot store, and the audit trail is the abstract bounded log. Of the formats:
  rendering and reading back, adoption, source locations, frames, \<^verbatim>\<open>/proc\<close> lines. Of the platform: who
  reaches the socket, what a control group gets before its process, which process is taken for a
  recorded launch. Waits end: their loops recurse on a number of rounds that is shown to be enough on
  every system whose clock runs on while the manager sleeps (81 rounds of 25 milliseconds for two
  seconds in \<open>wait_gone\<close>, 102 rounds of five milliseconds for half a second in \<open>activation_wait\<close>);
  running out of rounds is the value \<open>None\<close>. The other loops recurse on their data.

  Some lemmas record behaviour that one may not expect: \<open>semicolon_hides_forms\<close>,
  \<open>keyboard_capability_word_size\<close>, \<open>session_timeout_wraps\<close>, \<open>restored_backoff_lost\<close>,
  \<open>store_replaces_any_revision\<close>, \<open>watches_not_renewed\<close>, \<open>completion_lost\<close>, \<open>dotted_configuration_collides\<close>,
  \<open>doctor_overlooks_metrics_address\<close>, \<open>blank_key_refused\<close>.

  \<^bold>\<open>Interfaces.\<close> \<open>bounded_log\<close> (interpreted by the audit trail and by the event ring), \<open>step_relation\<close>
  (interpreted by the relations \<open>asks\<close>, \<open>extends\<close>, \<open>keeps\<close>, \<open>quiet\<close> and others) and \<open>calling\<close> (relations
  that operations of the supervisor keep) state once what several components rely on.

  \<^bold>\<open>Parameters.\<close> What is not in the repository is an argument: the answers of the system (the record
  \<open>host\<close>, or the arguments of the operations of \<open>KDM_LinuxHost\<close>), SHA-256, the JSON encoder and decoder, the
  regular expressions of the diagnostics, \<^verbatim>\<open>net.ParseIP\<close>, Unicode's table of printable characters,
  random numbers. A theorem that needs something of them says so and has a witness.

  \<^bold>\<open>Simplifications.\<close> A time is a number of nanoseconds since Go's zero time; an \<^verbatim>\<open>int\<close> is unbounded
  except where the code can overflow (\<open>wrap64\<close>, key codes, bit fields, \<open>atoi\<close>, \<open>parse_uint\<close>). Unstable
  sorts keep the order of equal keys. A goroutine is a request that comes later; what happens between
  the commands of one request is arbitrary.

  \<^bold>\<open>Not modelled.\<close> Logging and the text of standard output beyond what is decided (\<^verbatim>\<open>logging.go\<close>, the
  layout of tables, help and completions in \<^verbatim>\<open>cli.go\<close> and \<^verbatim>\<open>internal/completions\<close>), the HTTP
  server of the metrics, goroutines and their signals in \<^verbatim>\<open>service_runtime.go\<close>, the datagram to systemd and the peer credentials call of \<^verbatim>\<open>linux.go\<close>, and the
  platforms that only refuse (\<^verbatim>\<open>darwin.go\<close>, \<^verbatim>\<open>windows.go\<close>, \<^verbatim>\<open>other.go\<close>, \<^verbatim>\<open>unsupported_common.go\<close>). These
  are output, libraries, or calls without a decision of the program's own.
\<close>

end
